(* ===== verification/Prelude.thy ===== *)
theory Prelude
  imports Main "HOL-Library.Sublist" "HOL-Library.Word"
begin

text \<open>
  Shared vocabulary of the development: identifiers, two's-complement reading of integers at a
  fixed width, the string helpers the Rust code takes from its standard library, and generic
  lemmas on lists, sums and prefixes that the component theories share.
\<close>

section \<open>Hint collections\<close>

text \<open>
  \<open>tx_simps\<close> unfolds transactions, \<open>frame_simps\<close> says what an operation leaves alone,
  \<open>tx_pres\<close> holds the preservation rules.
\<close>

named_theorems tx_simps
named_theorems frame_simps
named_theorems tx_pres

section \<open>Identifiers and instants\<close>

type_synonym uuid = nat
type_synonym instant = int
type_synonym bytes = "8 word list"

section \<open>Machine integers\<close>

text \<open>
  \<open>wrap64 x\<close> is the \<open>i64\<close> that a release build computes for the mathematical result \<open>x\<close>;
  \<open>in_i64\<close> says that \<open>x\<close> is representable. \<open>trunc_div\<close> is Rust's \<open>/\<close> on signed integers.
\<close>

definition i64_max :: int where
  "i64_max = 9223372036854775807"

definition in_i64 :: "int \<Rightarrow> bool" where
  "in_i64 x \<longleftrightarrow> - 9223372036854775808 \<le> x \<and> x \<le> 9223372036854775807"

definition wrap64 :: "int \<Rightarrow> int" where
  "wrap64 x = (x + 9223372036854775808) mod 18446744073709551616 - 9223372036854775808"

definition trunc_div :: "int \<Rightarrow> int \<Rightarrow> int" where
  "trunc_div x y = (let q = \<bar>x\<bar> div \<bar>y\<bar> in if (0 \<le> x) = (0 \<le> y) then q else - q)"

lemma wrap64_id [simp]: "in_i64 x \<Longrightarrow> wrap64 x = x"
  by (simp add: in_i64_def wrap64_def)

lemma in_i64_wrap64 [simp]: "in_i64 (wrap64 x)"
proof -
  have "0 \<le> (x + 9223372036854775808) mod 18446744073709551616"
    and "(x + 9223372036854775808) mod 18446744073709551616 < (18446744073709551616::int)"
    by simp_all
  then show ?thesis by (simp add: in_i64_def wrap64_def)
qed

lemma in_i64_0 [simp]: "in_i64 0"
  by (simp add: in_i64_def)

text \<open>The wrap-around is the one of a 64-bit register read as two's complement.\<close>

lemma wrap64_eq_word: "wrap64 x = sint (word_of_int x :: 64 word)"
  by (simp add: wrap64_def sint_sbintrunc' signed_take_bit_eq_take_bit_shift take_bit_eq_mod)

lemma wrap64_wrap64_add [simp]: "wrap64 (wrap64 x + y) = wrap64 (x + y)"
  unfolding wrap64_def by (simp add: algebra_simps mod_simps)

lemma trunc_div_nonneg: "0 \<le> a \<Longrightarrow> 0 < b \<Longrightarrow> trunc_div a b = a div b"
  by (simp add: trunc_div_def)

lemma floor_bounds: "0 < d \<Longrightarrow> n div d * d \<le> n \<and> n < (n div d + 1) * (d::int)"
  using pos_mod_bound [of d n] pos_mod_sign [of d n]
  by (simp add: distrib_right minus_mod_eq_div_mult [symmetric])

section \<open>Lists\<close>

lemma sum_list_filter_append_single:
  "sum_list (map f (filter P (xs @ [x]))) =
   sum_list (map f (filter P xs)) + (if P x then f x else (0::int))"
  by simp

lemma prefix_snoc_self [simp]: "prefix xs (xs @ [x])"
  by (simp add: prefix_def)

text \<open>\<open>update_first\<close>/\<open>update_where\<close> mirror SQL's \<open>update ... where\<close> on a table kept as a list of rows.\<close>

definition update_where :: "('r \<Rightarrow> bool) \<Rightarrow> ('r \<Rightarrow> 'r) \<Rightarrow> 'r list \<Rightarrow> 'r list" where
  "update_where P f rs = map (\<lambda>r. if P r then f r else r) rs"

lemma length_update_where [simp]: "length (update_where P f rs) = length rs"
  by (simp add: update_where_def)

lemma update_where_Nil [simp]: "update_where P f [] = []"
  by (simp add: update_where_def)

lemma update_where_Cons [simp]:
  "update_where P f (r # rs) = (if P r then f r else r) # update_where P f rs"
  by (simp add: update_where_def)

lemma map_update_where_frame:
  "(\<And>r. P r \<Longrightarrow> g (f r) = g r) \<Longrightarrow> map g (update_where P f rs) = map g rs"
  by (simp add: update_where_def)

lemma set_update_where: "set (update_where P f rs) = (\<lambda>r. if P r then f r else r) ` set rs"
  by (simp add: update_where_def)

lemma find_Some_set: "find P xs = Some x \<Longrightarrow> x \<in> set xs \<and> P x"
  by (induction xs) (auto split: if_splits)

lemma find_append:
  "find P (xs @ ys) = (case find P xs of None \<Rightarrow> find P ys | Some x \<Rightarrow> Some x)"
  by (induction xs) auto

text \<open>A key column that an update keeps commutes with the lookup by that key.\<close>

lemma find_update_where_key:
  assumes "\<And>r. k (f r) = k r"
  shows "find (\<lambda>r. k r = b) (update_where (\<lambda>r. k r = a) f rs) =
    map_option (\<lambda>r. if b = a then f r else r) (find (\<lambda>r. k r = b) rs)"
  using assms by (induction rs) auto

lemma find_distinct_key:
  assumes "distinct (map k rs)" and "r \<in> set rs"
  shows "find (\<lambda>x. k x = k r) rs = Some r"
  using assms by (induction rs) force+

lemma update_where_none: "\<not> list_ex P rs \<Longrightarrow> update_where P f rs = rs"
  by (induction rs) auto

lemma update_where_exhausts: "(\<And>r. P r \<Longrightarrow> \<not> P (f r)) \<Longrightarrow> \<not> list_ex P (update_where P f rs)"
  by (induction rs) auto

section \<open>String codecs\<close>

text \<open>
  The contract's enums are stored and sent as strings: a printer and a parser that must agree.
  \<open>exact_codec\<close> adds that the parser accepts nothing but what the printer writes.
\<close>

locale codec =
  fixes enc :: "'a \<Rightarrow> string"
    and dec :: "string \<Rightarrow> 'e + 'a"
  assumes dec_enc [simp]: "dec (enc x) = Inr x"
begin

lemma enc_inject: "enc x = enc y \<longleftrightarrow> x = y"
proof
  assume "enc x = enc y"
  then have "dec (enc x) = dec (enc y)" by simp
  then show "x = y" by simp
qed simp

lemma inj_enc: "inj enc"
  by (rule injI) (simp add: enc_inject)

end

locale exact_codec = codec +
  assumes enc_dec: "dec s = Inr x \<Longrightarrow> enc x = s"
begin

lemma dec_Inr_iff: "dec s = Inr x \<longleftrightarrow> s = enc x"
  using enc_dec by auto

lemma dec_error_iff: "(\<exists>e. dec s = Inl e) \<longleftrightarrow> s \<notin> range enc"
proof
  assume "\<exists>e. dec s = Inl e"
  then show "s \<notin> range enc" by auto
next
  assume s: "s \<notin> range enc"
  show "\<exists>e. dec s = Inl e"
  proof (cases "dec s")
    case (Inr x)
    with enc_dec have "enc x = s" by blast
    with s show ?thesis by blast
  qed simp
qed

end

end
