(* ===== verification/Errors.thy ===== *)
theory Errors
  imports Text
begin

text \<open>
  \<open>src/error.rs\<close>: the error codes of the API, their HTTP status and default retry flag, the
  \<open>ApiError\<close> value and its constructors, and the response it renders to. \<open>api_result\<close> is
  \<open>ApiResult\<close> with one more failure: \<open>Panic\<close>, which \<open>handle_panic\<close> (\<open>src/lib.rs\<close>) turns into
  the same response as \<open>server_error\<close>.
\<close>

datatype error_code =
    Network | Timeout | Validation | NotFound | Conflict | Unauthorized | Forbidden
  | ComplianceHold | PartnerFailure | RateExpired | ServerError

fun status_of_code :: "error_code \<Rightarrow> nat" where
  "status_of_code Network = 503"
| "status_of_code Timeout = 504"
| "status_of_code Validation = 400"
| "status_of_code NotFound = 404"
| "status_of_code Conflict = 409"
| "status_of_code Unauthorized = 401"
| "status_of_code Forbidden = 403"
| "status_of_code ComplianceHold = 409"
| "status_of_code PartnerFailure = 502"
| "status_of_code RateExpired = 409"
| "status_of_code ServerError = 500"

definition default_retryable :: "error_code \<Rightarrow> bool" where
  "default_retryable c \<longleftrightarrow> c \<in> {Network, Timeout, PartnerFailure, RateExpired, ServerError}"

record api_error =
  err_code :: error_code
  err_message :: string
  err_retryable :: bool
  err_status :: "nat option"

definition api_error_new :: "error_code \<Rightarrow> string \<Rightarrow> api_error" where
  "api_error_new c msg =
     \<lparr>err_code = c, err_message = msg, err_retryable = default_retryable c, err_status = None\<rparr>"

definition with_status :: "nat \<Rightarrow> api_error \<Rightarrow> api_error" where
  "with_status st e = e\<lparr>err_status := Some st\<rparr>"

definition with_retryable :: "bool \<Rightarrow> api_error \<Rightarrow> api_error" where
  "with_retryable r e = e\<lparr>err_retryable := r\<rparr>"

definition validation :: "string \<Rightarrow> api_error" where
  "validation msg = api_error_new Validation msg"

definition not_found :: "string \<Rightarrow> api_error" where
  "not_found msg = api_error_new NotFound msg"

definition conflict :: "string \<Rightarrow> api_error" where
  "conflict msg = api_error_new Conflict msg"

definition unauthorized :: "string \<Rightarrow> api_error" where
  "unauthorized msg = api_error_new Unauthorized msg"

definition forbidden :: "string \<Rightarrow> api_error" where
  "forbidden msg = api_error_new Forbidden msg"

definition rate_expired :: "string \<Rightarrow> api_error" where
  "rate_expired msg = api_error_new RateExpired msg"

definition compliance_hold :: "string \<Rightarrow> api_error" where
  "compliance_hold msg = api_error_new ComplianceHold msg"

definition partner_unavailable :: "string \<Rightarrow> nat \<Rightarrow> api_error" where
  "partner_unavailable corridor retry_after_secs =
     api_error_new PartnerFailure
       (''Rate feed for '' @ corridor @ '' is temporarily unavailable. Try again in about '' @
        nat_to_string (max retry_after_secs 1) @ ''s.'')"

definition server_error :: api_error where
  "server_error = api_error_new ServerError
     ''Something went wrong on our end. Try again in a moment.''"

text \<open>\<open>into_response\<close>: the HTTP status and the \<open>{ code, message, retryable }\<close> body.\<close>

definition into_response :: "api_error \<Rightarrow> nat \<times> error_code \<times> string \<times> bool" where
  "into_response e =
     (case err_status e of Some st \<Rightarrow> st | None \<Rightarrow> status_of_code (err_code e),
      err_code e, err_message e, err_retryable e)"

text \<open>Database errors are logged and replaced by \<open>server_error\<close>; malformed JSON by a fixed message.\<close>

definition from_sqlx_error :: api_error where
  "from_sqlx_error = server_error"

definition from_serde_error :: api_error where
  "from_serde_error = validation ''Malformed JSON payload or invalid field format.''"

section \<open>Results\<close>

datatype failure = Err api_error | Panic

type_synonym 'a api_result = "failure + 'a"

text \<open>\<open>handle_panic\<close>: a panic reaches the client as \<open>server_error\<close>.\<close>

definition handle_failure :: "failure \<Rightarrow> api_error" where
  "handle_failure f = (case f of Err e \<Rightarrow> e | Panic \<Rightarrow> server_error)"

definition fails_with :: "error_code \<Rightarrow> 'a api_result \<Rightarrow> bool" where
  "fails_with c r \<longleftrightarrow> (case r of Inl (Err e) \<Rightarrow> err_code e = c | _ \<Rightarrow> False)"

lemma err_code_new [simp]: "err_code (api_error_new c m) = c"
  by (simp add: api_error_new_def)

lemma err_code_constructors [simp]:
  "err_code (validation m) = Validation"
  "err_code (not_found m) = NotFound"
  "err_code (conflict m) = Conflict"
  "err_code (unauthorized m) = Unauthorized"
  "err_code (forbidden m) = Forbidden"
  "err_code (rate_expired m) = RateExpired"
  "err_code (compliance_hold m) = ComplianceHold"
  "err_code (partner_unavailable p n) = PartnerFailure"
  "err_code server_error = ServerError"
  "err_code from_sqlx_error = ServerError"
  "err_code from_serde_error = Validation"
  by (simp_all add: validation_def not_found_def conflict_def unauthorized_def forbidden_def
      rate_expired_def compliance_hold_def partner_unavailable_def server_error_def
      from_sqlx_error_def from_serde_error_def)

lemma err_code_with [simp]:
  "err_code (with_status st e) = err_code e"
  "err_code (with_retryable r e) = err_code e"
  by (simp_all add: with_status_def with_retryable_def)

lemma fails_with_simps [simp]:
  "fails_with c (Inl (Err e)) \<longleftrightarrow> err_code e = c"
  "\<not> fails_with c (Inl Panic)"
  "\<not> fails_with c (Inr x)"
  by (simp_all add: fails_with_def)

text \<open>
  Every constructor renders a client or server error status, and no error keeps a success status
  unless a handler overrides it with one.
\<close>

lemma status_of_code_range: "400 \<le> status_of_code c \<and> status_of_code c < 600"
  by (cases c) auto

lemma into_response_new:
  "into_response (api_error_new c m) = (status_of_code c, c, m, default_retryable c)"
  by (simp add: into_response_def api_error_new_def)

text \<open>Only a network, gateway or upstream condition, an expired rate and our own faults are retryable by default.\<close>

lemma default_retryable_iff:
  "default_retryable c \<longleftrightarrow> status_of_code c \<ge> 500 \<or> c = RateExpired"
  by (cases c) (auto simp: default_retryable_def)

end
