(* ===== verification/Float64.thy ===== *)
theory Float64
  imports Prelude "HOL-Library.Log_Nat"
begin

text \<open>
  The \<open>f64\<close> operations of the rate code. A finite double is the rational it denotes; every
  arithmetic result is the exact rational result rounded to the nearest double, ties to even
  (\<open>round_f64\<close>: 53 significant bits, least exponent \<open>-1074\<close>, overflow to infinity). The sign of
  zero is not represented: no comparison the code makes depends on it. \<open>f64_round\<close> is Rust's
  \<open>round()\<close> (half away from zero) and \<open>f64_to_int\<close> the saturating cast \<open>as i128\<close>.
\<close>

datatype f64 = Fin rat | Infinite bool | NaN

definition pow2 :: "int \<Rightarrow> rat" where
  "pow2 k = (if 0 \<le> k then 2 ^ nat k else 1 / 2 ^ nat (- k))"

definition ilog2 :: "rat \<Rightarrow> int" where
  "ilog2 x =
     (let (p, q) = quotient_of x; k = bitlen p - bitlen q
      in if pow2 k \<le> x then k else k - 1)"

definition round_half_even :: "rat \<Rightarrow> int" where
  "round_half_even x =
     (let n = \<lfloor>x\<rfloor>; d = x - of_int n
      in if d < 1 / 2 then n else if 1 / 2 < d then n + 1 else if even n then n else n + 1)"

definition round_f64 :: "rat \<Rightarrow> f64" where
  "round_f64 x =
     (if x = 0 then Fin 0
      else let e = max (ilog2 \<bar>x\<bar> - 52) (- 1074);
               r = of_int (round_half_even (x / pow2 e)) * pow2 e
           in if 2 ^ 1024 \<le> \<bar>r\<bar> then Infinite (0 < x) else Fin r)"

fun f64_sign :: "f64 \<Rightarrow> bool" where
  "f64_sign (Fin x) = (0 < x)"
| "f64_sign (Infinite b) = b"
| "f64_sign NaN = False"

fun f64_mul :: "f64 \<Rightarrow> f64 \<Rightarrow> f64" where
  "f64_mul (Fin x) (Fin y) = round_f64 (x * y)"
| "f64_mul NaN y = NaN"
| "f64_mul x NaN = NaN"
| "f64_mul (Infinite b) y = (if y = Fin 0 then NaN else Infinite (b = f64_sign y))"
| "f64_mul x (Infinite b) = (if x = Fin 0 then NaN else Infinite (b = f64_sign x))"

fun f64_div :: "f64 \<Rightarrow> f64 \<Rightarrow> f64" where
  "f64_div (Fin x) (Fin y) =
     (if y = 0 then (if x = 0 then NaN else Infinite (0 < x)) else round_f64 (x / y))"
| "f64_div NaN y = NaN"
| "f64_div x NaN = NaN"
| "f64_div (Infinite b) (Fin y) = Infinite (b = (0 \<le> y))"
| "f64_div (Infinite b) (Infinite c) = NaN"
| "f64_div (Fin x) (Infinite b) = Fin 0"

fun f64_add :: "f64 \<Rightarrow> f64 \<Rightarrow> f64" where
  "f64_add (Fin x) (Fin y) = round_f64 (x + y)"
| "f64_add NaN y = NaN"
| "f64_add x NaN = NaN"
| "f64_add (Infinite b) (Infinite c) = (if b = c then Infinite b else NaN)"
| "f64_add (Infinite b) (Fin y) = Infinite b"
| "f64_add (Fin x) (Infinite b) = Infinite b"

fun f64_neg :: "f64 \<Rightarrow> f64" where
  "f64_neg (Fin x) = Fin (- x)"
| "f64_neg (Infinite b) = Infinite (\<not> b)"
| "f64_neg NaN = NaN"

definition f64_sub :: "f64 \<Rightarrow> f64 \<Rightarrow> f64" where
  "f64_sub x y = f64_add x (f64_neg y)"

fun f64_abs :: "f64 \<Rightarrow> f64" where
  "f64_abs (Fin x) = Fin \<bar>x\<bar>"
| "f64_abs (Infinite b) = Infinite True"
| "f64_abs NaN = NaN"

fun f64_less :: "f64 \<Rightarrow> f64 \<Rightarrow> bool" where
  "f64_less (Fin x) (Fin y) = (x < y)"
| "f64_less NaN y = False"
| "f64_less x NaN = False"
| "f64_less (Infinite b) (Infinite c) = (\<not> b \<and> c)"
| "f64_less (Infinite b) (Fin y) = (\<not> b)"
| "f64_less (Fin x) (Infinite b) = b"

definition round_half_away :: "rat \<Rightarrow> int" where
  "round_half_away x = (if 0 \<le> x then \<lfloor>x + 1 / 2\<rfloor> else - \<lfloor>1 / 2 - x\<rfloor>)"

fun f64_round :: "f64 \<Rightarrow> f64" where
  "f64_round (Fin x) = Fin (of_int (round_half_away x))"
| "f64_round y = y"

definition i128_max :: int where
  "i128_max = 170141183460469231731687303715884105727"

fun f64_to_int :: "f64 \<Rightarrow> int" where
  "f64_to_int (Fin x) =
     (let n = (if 0 \<le> x then \<lfloor>x\<rfloor> else - \<lfloor>- x\<rfloor>) in max (- i128_max - 1) (min i128_max n))"
| "f64_to_int (Infinite b) = (if b then i128_max else - i128_max - 1)"
| "f64_to_int NaN = 0"

definition int_to_f64 :: "int \<Rightarrow> f64" where
  "int_to_f64 n = round_f64 (of_int n)"

text \<open>A decimal literal of the source, read as the nearest double.\<close>

definition f64_lit :: "int \<Rightarrow> nat \<Rightarrow> f64" where
  "f64_lit n d = round_f64 (of_int n / 10 ^ d)"

lemma round_half_even_of_int [simp]: "round_half_even (of_int n) = n"
  by (simp add: round_half_even_def)

lemma round_half_even_near: "\<bar>x - of_int (round_half_even x)\<bar> \<le> 1 / 2"
proof -
  have "of_int \<lfloor>x\<rfloor> \<le> x" and "x < of_int \<lfloor>x\<rfloor> + 1" by linarith+
  then show ?thesis by (auto simp: round_half_even_def Let_def)
qed

lemma round_half_away_of_int [simp]: "round_half_away (of_int n) = n"
proof -
  have "\<lfloor>rat_of_int n + 1 / 2\<rfloor> = n" and "\<lfloor>1 / 2 - rat_of_int n\<rfloor> = - n" by linarith+
  then show ?thesis by (simp add: round_half_away_def)
qed

lemma pow2_pos [simp]: "0 < pow2 k"
  by (simp add: pow2_def)

lemma f64_to_int_of_int:
  assumes "- i128_max - 1 \<le> n" and "n \<le> i128_max"
  shows "f64_to_int (Fin (of_int n)) = n"
  using assms by (cases "0 \<le> n") (auto simp: Let_def simp flip: of_int_minus)

text \<open>Integers of at most 53 bits are doubles.\<close>

lemma round_f64_int:
  assumes "\<bar>n\<bar> < 2 ^ 53"
  shows "round_f64 (of_int n) = Fin (of_int n)"
proof (cases "n = 0")
  case False
  have b1: "bitlen 1 = 1" using bitlen_pow2 [of 1 0] by (simp add: bitlen_def floorlog_def)
  have "ilog2 \<bar>of_int n\<bar> \<le> bitlen \<bar>n\<bar> - 1"
    by (simp add: ilog2_def Let_def b1 flip: of_int_abs)
  moreover have "bitlen \<bar>n\<bar> \<le> 53"
    using assms by (simp add: bitlen_le_iff_power)
  ultimately have e: "max (ilog2 \<bar>of_int n\<bar> - 52) (- 1074) \<le> 0" by simp
  define e where "e = max (ilog2 \<bar>of_int n\<bar> - 52) (- 1074)"
  have p: "pow2 e = 1 / 2 ^ nat (- e)" using e by (auto simp: pow2_def e_def)
  have "of_int n / pow2 e = rat_of_int (n * 2 ^ nat (- e))" by (simp add: p)
  then have "of_int (round_half_even (of_int n / pow2 e)) * pow2 e = rat_of_int n"
    by (simp only: round_half_even_of_int) (simp add: p)
  moreover have "\<not> 2 ^ 1024 \<le> \<bar>rat_of_int n\<bar>"
  proof -
    have "(2::int) ^ 53 \<le> 2 ^ 1024" by (rule power_increasing) simp_all
    with assms have "\<bar>n\<bar> < 2 ^ 1024" by linarith
    then have "rat_of_int \<bar>n\<bar> < rat_of_int (2 ^ 1024)" by (rule iffD2 [OF of_int_less_iff])
    then show ?thesis by simp
  qed
  ultimately show ?thesis using False by (simp add: round_f64_def Let_def e_def)
qed (simp add: round_f64_def)

text \<open>Rounding errs by at most half a unit in the last place of its own result's scale.\<close>

lemma round_f64_error:
  assumes "round_f64 x = Fin r"
  shows "\<bar>x - r\<bar> \<le> pow2 (max (ilog2 \<bar>x\<bar> - 52) (- 1074)) / 2"
proof (cases "x = 0")
  case True
  with assms show ?thesis by (simp add: round_f64_def less_imp_le)
next
  case False
  define e where "e = max (ilog2 \<bar>x\<bar> - 52) (- 1074)"
  define m where "m = round_half_even (x / pow2 e)"
  from False assms have r: "r = of_int m * pow2 e"
    by (simp add: round_f64_def Let_def e_def m_def split: if_splits)
  have "\<bar>x / pow2 e - of_int m\<bar> * pow2 e \<le> 1 / 2 * pow2 e"
    unfolding m_def by (intro mult_right_mono round_half_even_near) (simp add: less_imp_le)
  moreover have "\<bar>x / pow2 e - of_int m\<bar> * pow2 e = \<bar>x - r\<bar>"
  proof -
    have "\<bar>x / pow2 e - of_int m\<bar> * pow2 e = \<bar>(x / pow2 e - of_int m) * pow2 e\<bar>"
      by (simp add: abs_mult less_imp_le)
    also have "(x / pow2 e - of_int m) * pow2 e = x - r"
      by (simp add: r left_diff_distrib less_imp_neq [OF pow2_pos, symmetric])
    finally show ?thesis .
  qed
  ultimately have "\<bar>x - r\<bar> \<le> 1 / 2 * pow2 e" by (simp only:)
  then show ?thesis by (simp add: e_def)
qed

end
