(* ===== verification/Contract.thy ===== *)
theory Contract
  imports Errors Float64
begin

text \<open>
  \<open>src/contract\<close>: the wire types shared by the components, with the printers and parsers of their
  string forms: currencies and money (\<open>common.rs\<close>), quotes (\<open>quote.rs\<close>) and transfer statuses
  (\<open>transfer.rs\<close>). JSON payloads are values of \<open>json\<close>, objects as association lists.
\<close>

section \<open>Currencies and money\<close>

datatype currency_code = Ngn | Kes | Ghs | Zar | Xof | Xaf | Egp | Usd | Eur | Gbp

fun currency_str :: "currency_code \<Rightarrow> string" where
  "currency_str Ngn = ''NGN''"
| "currency_str Kes = ''KES''"
| "currency_str Ghs = ''GHS''"
| "currency_str Zar = ''ZAR''"
| "currency_str Xof = ''XOF''"
| "currency_str Xaf = ''XAF''"
| "currency_str Egp = ''EGP''"
| "currency_str Usd = ''USD''"
| "currency_str Eur = ''EUR''"
| "currency_str Gbp = ''GBP''"

definition parse_currency :: "string \<Rightarrow> currency_code api_result" where
  "parse_currency value =
     (if value = ''NGN'' then Inr Ngn
      else if value = ''KES'' then Inr Kes
      else if value = ''GHS'' then Inr Ghs
      else if value = ''ZAR'' then Inr Zar
      else if value = ''XOF'' then Inr Xof
      else if value = ''XAF'' then Inr Xaf
      else if value = ''EGP'' then Inr Egp
      else if value = ''USD'' then Inr Usd
      else if value = ''EUR'' then Inr Eur
      else if value = ''GBP'' then Inr Gbp
      else Inl (Err (validation (''Unknown currency '' @ value @ ''.''))))"

record money =
  amount_minor :: int
  currency :: currency_code

definition money_new :: "int \<Rightarrow> currency_code \<Rightarrow> money" where
  "money_new a c = \<lparr>amount_minor = a, currency = c\<rparr>"

interpretation currency: exact_codec currency_str parse_currency
proof
  show "parse_currency (currency_str x) = Inr x" for x
    by (cases x) (simp_all add: parse_currency_def)
  show "currency_str x = s" if "parse_currency s = Inr x" for s x
    using that by (auto simp: parse_currency_def split: if_splits)
qed

lemma currency_str_neq_usdc [simp]: "currency_str c \<noteq> ''USDC''" "''USDC'' \<noteq> currency_str c"
  by (cases c; simp)+

section \<open>Quotes\<close>

datatype rate_source = Live | CachedProvisional

datatype quote_amount_field = Send | Receive

section \<open>Transfer status\<close>

datatype transfer_status =
    Created | Quoted | Screened | AwaitingFunds | Funded | Settling | Settled | PayingOut
  | Completed | Rejected | Expired | Reversing | Reversed

fun status_str :: "transfer_status \<Rightarrow> string" where
  "status_str Created = ''CREATED''"
| "status_str Quoted = ''QUOTED''"
| "status_str Screened = ''SCREENED''"
| "status_str AwaitingFunds = ''AWAITING_FUNDS''"
| "status_str Funded = ''FUNDED''"
| "status_str Settling = ''SETTLING''"
| "status_str Settled = ''SETTLED''"
| "status_str PayingOut = ''PAYING_OUT''"
| "status_str Completed = ''COMPLETED''"
| "status_str Rejected = ''REJECTED''"
| "status_str Expired = ''EXPIRED''"
| "status_str Reversing = ''REVERSING''"
| "status_str Reversed = ''REVERSED''"

definition parse_status :: "string \<Rightarrow> transfer_status api_result" where
  "parse_status value =
     (if value = ''CREATED'' then Inr Created
      else if value = ''QUOTED'' then Inr Quoted
      else if value = ''SCREENED'' then Inr Screened
      else if value = ''AWAITING_FUNDS'' then Inr AwaitingFunds
      else if value = ''FUNDED'' then Inr Funded
      else if value = ''SETTLING'' then Inr Settling
      else if value = ''SETTLED'' then Inr Settled
      else if value = ''PAYING_OUT'' then Inr PayingOut
      else if value = ''COMPLETED'' then Inr Completed
      else if value = ''REJECTED'' then Inr Rejected
      else if value = ''EXPIRED'' then Inr Expired
      else if value = ''REVERSING'' then Inr Reversing
      else if value = ''REVERSED'' then Inr Reversed
      else Inl (Err (validation (''Unknown transfer status '' @ value @ ''.''))))"

definition is_terminal :: "transfer_status \<Rightarrow> bool" where
  "is_terminal s \<longleftrightarrow> s \<in> {Completed, Rejected, Expired, Reversed}"

interpretation status: exact_codec status_str parse_status
proof
  show "parse_status (status_str x) = Inr x" for x
    by (cases x) (simp_all add: parse_status_def)
  show "status_str x = s" if "parse_status s = Inr x" for s x
    using that by (auto simp: parse_status_def split: if_splits)
qed

datatype failure_category = FcNetwork | FcValidation | FcComplianceHold | FcPartnerFailure

text \<open>The serde representation (\<open>snake_case\<close>) of \<open>TransferFailureCategory\<close>.\<close>

definition parse_failure_category :: "string \<Rightarrow> failure_category option" where
  "parse_failure_category s =
     (if s = ''network'' then Some FcNetwork
      else if s = ''validation'' then Some FcValidation
      else if s = ''compliance_hold'' then Some FcComplianceHold
      else if s = ''partner_failure'' then Some FcPartnerFailure
      else None)"

section \<open>JSON values\<close>

datatype json =
    JNull
  | JBool bool
  | JInt int
  | JFloat f64
  | JStr string
  | JArr "json list"
  | JObj "(string \<times> json) list"

text \<open>\<open>Value::get\<close>, \<open>as_bool\<close>, \<open>as_str\<close> and inserting a field into an object.\<close>

fun json_get :: "json \<Rightarrow> string \<Rightarrow> json option" where
  "json_get (JObj fs) k = map_of fs k"
| "json_get _ k = None"

fun as_bool :: "json \<Rightarrow> bool option" where
  "as_bool (JBool b) = Some b"
| "as_bool _ = None"

fun as_str :: "json \<Rightarrow> string option" where
  "as_str (JStr s) = Some s"
| "as_str _ = None"

fun obj_insert :: "string \<Rightarrow> json \<Rightarrow> (string \<times> json) list \<Rightarrow> (string \<times> json) list" where
  "obj_insert k v [] = [(k, v)]"
| "obj_insert k v ((k', v') # fs) = (if k = k' then (k, v) # fs else (k', v') # obj_insert k v fs)"

fun json_insert :: "string \<Rightarrow> json \<Rightarrow> json \<Rightarrow> json" where
  "json_insert k v (JObj fs) = JObj (obj_insert k v fs)"
| "json_insert k v j = j"

lemma map_of_obj_insert [simp]: "map_of (obj_insert k v fs) = (map_of fs)(k \<mapsto> v)"
  by (induction k v fs rule: obj_insert.induct) (auto simp: fun_eq_iff)

lemma json_get_insert: "json_get (json_insert k v (JObj fs)) k' =
    (if k' = k then Some v else json_get (JObj fs) k')"
  by simp

definition str_field :: "json \<Rightarrow> string \<Rightarrow> string option" where
  "str_field p key = Option.bind (json_get p key) as_str"

definition json_opt_str :: "string option \<Rightarrow> json" where
  "json_opt_str o' = (case o' of None \<Rightarrow> JNull | Some s \<Rightarrow> JStr s)"

definition json_opt_int :: "int option \<Rightarrow> json" where
  "json_opt_int o' = (case o' of None \<Rightarrow> JNull | Some n \<Rightarrow> JInt n)"

end
