(* ===== verification/Util.thy ===== *)
theory Util
  imports Contract Float64
begin

text \<open>
  \<open>src/util.rs\<close>: identifier checks, references, the MAC and its comparison, and the fixed-point
  rate arithmetic every money conversion goes through. The SHA-256 function is the parameter
  \<open>sha\<close>; random draws are arguments.
\<close>

unbundle bit_operations_syntax

section \<open>Identifiers and references\<close>

definition is_uuid :: "string \<Rightarrow> bool" where
  "is_uuid s \<longleftrightarrow> length s = 36 \<and>
     list_all (\<lambda>(i, c). if i \<in> {8, 13, 18, 23} then c = CHR ''-'' else is_ascii_hexdigit c)
       (enumerate 0 s)"

definition ref_alphabet :: string where
  "ref_alphabet = ''ABCDEFGHJKMNPQRSTVWXYZ0123456789''"

text \<open>\<open>tagged_reference prefix\<close>, for the six indices \<open>draws\<close> the generator returned.\<close>

definition tagged_reference :: "string \<Rightarrow> nat list \<Rightarrow> string" where
  "tagged_reference prefix' draws =
     prefix' @ ''-'' @ map (\<lambda>i. ref_alphabet ! (i mod length ref_alphabet)) (take 6 draws)"

fun split_ws :: "string \<Rightarrow> string \<Rightarrow> string list" where
  "split_ws w [] = (if w = [] then [] else [rev w])"
| "split_ws w (c # s) =
     (if is_whitespace c then (if w = [] then split_ws [] s else rev w # split_ws [] s)
      else split_ws (c # w) s)"

definition split_whitespace :: "string \<Rightarrow> string list" where
  "split_whitespace s = split_ws [] s"

text \<open>The bytes of the first code point of a word.\<close>

fun first_char :: "string \<Rightarrow> string" where
  "first_char [] = []"
| "first_char (c # s) = c # takeWhile (\<lambda>b. 128 \<le> code b \<and> code b \<le> 191) s"

definition generate_account_id :: "string \<Rightarrow> nat \<Rightarrow> string" where
  "generate_account_id legal_name serial =
     (let initials = to_ascii_uppercase (concat (map first_char (take 3 (split_whitespace legal_name))));
          initials = (if initials = [] then ''KMA'' else initials)
      in initials @ ''-'' @ nat_to_string serial)"

section \<open>Message authentication\<close>

definition hmac_block :: nat where
  "hmac_block = 64"

definition hmac_block_key :: "(bytes \<Rightarrow> bytes) \<Rightarrow> bytes \<Rightarrow> bytes" where
  "hmac_block_key sha key =
     (let k = (if hmac_block < length key then sha key else key)
      in k @ replicate (hmac_block - length k) 0)"

definition hmac_sha256 :: "(bytes \<Rightarrow> bytes) \<Rightarrow> bytes \<Rightarrow> bytes \<Rightarrow> bytes" where
  "hmac_sha256 sha key message =
     (let pad = (\<lambda>b. map (\<lambda>k. k XOR b) (hmac_block_key sha key))
      in sha (pad 0x5c @ sha (pad 0x36 @ message)))"

text \<open>No early exit: the accumulator ors every byte difference.\<close>

definition constant_time_eq :: "bytes \<Rightarrow> bytes \<Rightarrow> bool" where
  "constant_time_eq a b \<longleftrightarrow>
     length a = length b \<and> fold (\<lambda>(x, y) acc. acc OR (x XOR y)) (zip a b) 0 = 0"

lemma word_or_eq_0: "(a OR b :: 'a::len word) = 0 \<longleftrightarrow> a = 0 \<and> b = 0"
  by (metis or.right_idem or.right_neutral or.left_neutral or.commute word_bw_same(2))

lemma word_xor_eq_0: "(a XOR b :: 'a::len word) = 0 \<longleftrightarrow> a = b"
  by (metis xor.left_neutral xor_self_eq xor.assoc xor.right_neutral)

lemma fold_or_xor_0:
  "length a = length b \<Longrightarrow>
   fold (\<lambda>(x, y) acc. acc OR (x XOR y)) (zip a b) (w :: 8 word) = 0 \<longleftrightarrow> w = 0 \<and> a = b"
  by (induction a b arbitrary: w rule: list_induct2)
    (auto simp: word_or_eq_0 word_xor_eq_0)

lemma constant_time_eq_iff: "constant_time_eq a b \<longleftrightarrow> a = b"
  unfolding constant_time_eq_def using fold_or_xor_0 [of a b 0] by auto

lemma length_hmac_block_key:
  "(\<And>x. length (sha x) = 32) \<Longrightarrow> length (hmac_block_key sha key) = 64"
  by (auto simp: hmac_block_key_def hmac_block_def Let_def)

section \<open>Fixed-point rates\<close>

definition rate_scale :: int where
  "rate_scale = 100000000"

definition wrap128 :: "int \<Rightarrow> int" where
  "wrap128 x = (x + i128_max + 1) mod (2 * (i128_max + 1)) - i128_max - 1"

definition scale_rate :: "f64 \<Rightarrow> int" where
  "scale_rate rate = f64_to_int (f64_round (f64_mul rate (int_to_f64 rate_scale)))"

definition apply_rate :: "int \<Rightarrow> f64 \<Rightarrow> int" where
  "apply_rate amount rate =
     wrap64 (trunc_div (wrap128 (amount * scale_rate rate)) rate_scale)"

text \<open>A zero scaled rate divides by zero, which panics.\<close>

definition invert_rate :: "int \<Rightarrow> f64 \<Rightarrow> int api_result" where
  "invert_rate amount rate =
     (let scaled = scale_rate rate
      in if scaled = 0 then Inl Panic
         else Inr (wrap64 (trunc_div (wrap128 (amount * rate_scale)) scaled)))"

lemma wrap128_id: "- i128_max - 1 \<le> x \<Longrightarrow> x \<le> i128_max \<Longrightarrow> wrap128 x = x"
  by (simp add: wrap128_def i128_max_def)

lemma in_i64_mult_scale:
  "in_i64 a \<Longrightarrow> - i128_max - 1 \<le> a * rate_scale \<and> a * rate_scale \<le> i128_max"
  by (simp add: in_i64_def rate_scale_def i128_max_def)

text \<open>
  Both conversions floor when the amount and the rate are not negative and the result fits; the
  bound on the product is what keeps the 128-bit intermediate exact.
\<close>

lemma apply_rate_floor:
  assumes "0 \<le> amount" and "0 \<le> scale_rate rate"
    and "amount * scale_rate rate div rate_scale \<le> i64_max"
  shows "apply_rate amount rate = amount * scale_rate rate div rate_scale"
proof -
  let ?p = "amount * scale_rate rate"
  from assms have p: "0 \<le> ?p" by simp
  moreover from assms(3) have "?p < (i64_max + 1) * rate_scale"
    by (simp add: rate_scale_def)
  then have "?p \<le> i128_max"
    by (simp add: rate_scale_def i64_max_def i128_max_def)
  ultimately have "wrap128 ?p = ?p" by (intro wrap128_id) (simp_all add: i128_max_def)
  moreover have "in_i64 (?p div rate_scale)"
    using p assms(3) by (simp add: in_i64_def i64_max_def rate_scale_def)
  ultimately show ?thesis
    using p by (simp add: apply_rate_def trunc_div_nonneg rate_scale_def)
qed

lemma invert_rate_floor:
  assumes "0 \<le> amount" and "in_i64 amount" and "0 < scale_rate rate"
    and "amount * rate_scale div scale_rate rate \<le> i64_max"
  shows "invert_rate amount rate = Inr (amount * rate_scale div scale_rate rate)"
proof -
  from assms(1,3) have "0 \<le> amount * rate_scale div scale_rate rate"
    by (simp add: rate_scale_def pos_imp_zdiv_nonneg_iff)
  with assms(4) have "in_i64 (amount * rate_scale div scale_rate rate)"
    by (simp add: in_i64_def i64_max_def)
  moreover have "wrap128 (amount * rate_scale) = amount * rate_scale"
    using in_i64_mult_scale [OF assms(2)] by (intro wrap128_id) simp_all
  ultimately show ?thesis
    using assms by (simp add: invert_rate_def Let_def trunc_div_nonneg rate_scale_def)
qed

lemma floor_div_back: "0 < c \<Longrightarrow> 0 < d \<Longrightarrow> 0 \<le> x \<Longrightarrow> (x * c div d) * d div c \<le> (x::int)"
proof -
  assume c: "0 < c" and d: "0 < d" and "0 \<le> x"
  have "(x * c div d) * d \<le> x * c"
    using d by (simp add: minus_mod_eq_div_mult [symmetric])
  then have "(x * c div d) * d div c \<le> x * c div c"
    using c by (rule zdiv_mono1)
  with c show ?thesis by simp
qed

end
