(* ===== verification/Units.thy ===== *)
theory Units
  imports Util
begin

text \<open>
  \<open>src/settlement/units.rs\<close>: the integer helpers shared with the vault. \<open>U256\<close>, \<open>u64\<close> and
  \<open>u128\<close> values are natural numbers below \<open>u256_size\<close>, \<open>u64_size\<close> and \<open>u128_size\<close>, with
  every checked operation testing its bound. The hash function is the parameter \<open>keccak\<close>.
\<close>

definition u64_size :: nat where
  "u64_size = 18446744073709551616"

definition u128_size :: nat where
  "u128_size = 340282366920938463463374607431768211456"

definition u256_size :: nat where
  "u256_size = u128_size * u128_size"

definition usdc_per_cent :: nat where
  "usdc_per_cent = 10000"

definition rate_decimals :: nat where
  "rate_decimals = 8"

definition max_rate_e8 :: nat where
  "max_rate_e8 = 100000000000000000000"

definition max_currency_decimals :: nat where
  "max_currency_decimals = 18"

definition receive_divisor :: nat where
  "receive_divisor = 100000000000000"

datatype units_error =
    NotWholeCents nat
  | CentsOverflow nat
  | UnsupportedCurrencyDecimals nat
  | RateOutOfRange
  | InvalidRate string
  | UnitsOverflow

definition transfer_ref :: "(string \<Rightarrow> bytes) \<Rightarrow> string \<Rightarrow> bytes" where
  "transfer_ref keccak transfer_id = keccak (''kimana:transfer:'' @ transfer_id)"

definition quote_id :: "(string \<Rightarrow> bytes) \<Rightarrow> string \<Rightarrow> bytes" where
  "quote_id keccak quote_uuid = keccak quote_uuid"

definition cents_to_usdc :: "nat \<Rightarrow> nat" where
  "cents_to_usdc cents = (cents * usdc_per_cent) mod u256_size"

definition usdc_to_cents :: "nat \<Rightarrow> units_error + nat" where
  "usdc_to_cents usdc =
     (let cents = usdc div usdc_per_cent; remainder = usdc mod usdc_per_cent
      in if remainder \<noteq> 0 then Inl (NotWholeCents usdc)
         else if cents < u64_size then Inr cents else Inl (CentsOverflow cents))"

section \<open>Rates with eight decimals\<close>

datatype rate_e8 = RateE8 (rate_get: nat)

instantiation rate_e8 :: linorder
begin

definition less_eq_rate_e8 :: "rate_e8 \<Rightarrow> rate_e8 \<Rightarrow> bool" where
  "less_eq_rate_e8 r s \<longleftrightarrow> rate_get r \<le> rate_get s"

definition less_rate_e8 :: "rate_e8 \<Rightarrow> rate_e8 \<Rightarrow> bool" where
  "less_rate_e8 r s \<longleftrightarrow> rate_get r < rate_get s"

instance
  by standard (auto simp: less_eq_rate_e8_def less_rate_e8_def rate_e8.expand)

end

definition rate_new :: "nat \<Rightarrow> units_error + rate_e8" where
  "rate_new scaled =
     (if scaled = 0 \<or> max_rate_e8 < scaled then Inl RateOutOfRange else Inr (RateE8 scaled))"

definition rate_from_str :: "string \<Rightarrow> units_error + rate_e8" where
  "rate_from_str s =
     (let (whole, fdigits) = (case split_once CHR ''.'' s of None \<Rightarrow> (s, []) | Some p \<Rightarrow> p)
      in if whole = [] \<or> \<not> all_digits whole \<or> \<not> all_digits fdigits
            \<or> (CHR ''.'' \<in> set s \<and> fdigits = []) \<or> rate_decimals < length fdigits
         then Inl (InvalidRate s)
         else case parse_unsigned u128_size (whole @ pad_right 8 fdigits) of
                None \<Rightarrow> Inl RateOutOfRange
              | Some scaled \<Rightarrow> rate_new scaled)"

definition rate_to_string :: "rate_e8 \<Rightarrow> string" where
  "rate_to_string r =
     nat_to_string (rate_get r div 10 ^ rate_decimals) @ ''.'' @
     pad_left 8 (nat_to_string (rate_get r mod 10 ^ rate_decimals))"

definition receive_amount_minor :: "nat \<Rightarrow> rate_e8 \<Rightarrow> nat \<Rightarrow> units_error + nat" where
  "receive_amount_minor usdc rate decimals =
     (if max_currency_decimals < decimals then Inl (UnsupportedCurrencyDecimals decimals)
      else if u256_size \<le> usdc * rate_get rate then Inl UnitsOverflow
      else if u256_size \<le> usdc * rate_get rate * 10 ^ decimals then Inl UnitsOverflow
      else Inr (usdc * rate_get rate * 10 ^ decimals div receive_divisor))"

section \<open>Helper lemmas\<close>

lemma rate_new_Inr: "rate_new n = Inr r \<longleftrightarrow> r = RateE8 n \<and> 0 < n \<and> n \<le> max_rate_e8"
  by (auto simp: rate_new_def)

lemma rate_get_new: "rate_new n = Inr r \<Longrightarrow> rate_get r = n"
  by (auto simp: rate_new_Inr)

lemma dot_not_digit: "all_digits s \<Longrightarrow> CHR ''.'' \<notin> set s"
  by (auto simp: all_digits_def list_all_iff is_ascii_digit_def code_def)

lemma split_once_digits: "all_digits a \<Longrightarrow> split_once CHR ''.'' (a @ CHR ''.'' # b) = Some (a, b)"
  using dot_not_digit by (simp add: split_once_Some)

lemma length_pad_left_mod:
  "length (pad_left 8 (nat_to_string (n mod 10 ^ rate_decimals))) = 8"
  using length_nat_to_string [of "n mod 10 ^ rate_decimals" 7]
  by (simp add: rate_decimals_def)

text \<open>
  Printing a rate and parsing it back: the point splits the digits, the fraction is already
  eight digits wide, and the digits read back as the scaled integer.
\<close>

lemma rate_from_str_digits:
  assumes "all_digits whole" and "whole \<noteq> []" and "all_digits fdigits" and "fdigits \<noteq> []"
    and "length fdigits \<le> 8"
  shows "rate_from_str (whole @ CHR ''.'' # fdigits) =
    (let n = digits_value whole * 10 ^ 8 + digits_value fdigits * 10 ^ (8 - length fdigits)
     in if n < u128_size then rate_new n else Inl RateOutOfRange)"
  using assms
  by (simp add: rate_from_str_def split_once_digits parse_unsigned_def rate_decimals_def
      digits_value_append digits_value_pad_right Let_def)

lemma rate_from_str_whole:
  assumes "all_digits whole" and "whole \<noteq> []"
  shows "rate_from_str whole =
    (let n = digits_value whole * 10 ^ 8 in if n < u128_size then rate_new n else Inl RateOutOfRange)"
proof -
  from assms(1) have "split_once CHR ''.'' whole = None"
    by (simp add: split_once_None dot_not_digit)
  with assms dot_not_digit [OF assms(1)] show ?thesis
    by (simp add: rate_from_str_def parse_unsigned_def rate_decimals_def digits_value_append
        digits_value_pad_right Let_def)
qed

lemma receive_amount_cases:
  "receive_amount_minor usdc rate decimals = Inr v \<longleftrightarrow>
     decimals \<le> max_currency_decimals \<and> usdc * rate_get rate < u256_size \<and>
     usdc * rate_get rate * 10 ^ decimals < u256_size \<and>
     v = usdc * rate_get rate * 10 ^ decimals div receive_divisor"
  by (auto simp: receive_amount_minor_def)

section \<open>Properties\<close>

text \<open>
  C8: printing a rate that \<open>RateE8::new\<close> accepts and parsing the text gives the same rate back.
\<close>

theorem rate_roundtrip:
  assumes "rate_new n = Inr r"
  shows "rate_from_str (rate_to_string r) = Inr r"
proof -
  let ?w = "n div 10 ^ 8" and ?f = "n mod 10 ^ 8"
  from assms have r: "r = RateE8 n" "n \<le> max_rate_e8" by (auto simp: rate_new_Inr)
  have len: "length (pad_left 8 (nat_to_string ?f)) = 8"
    using length_pad_left_mod [of n] by (simp add: rate_decimals_def)
  then have "pad_left 8 (nat_to_string ?f) \<noteq> []" by (metis list.size(3) zero_neq_numeral)
  then have "rate_from_str (rate_to_string r) =
      (let m = ?w * 10 ^ 8 + ?f * 10 ^ (8 - length (pad_left 8 (nat_to_string ?f)))
       in if m < u128_size then rate_new m else Inl RateOutOfRange)"
    using len by (simp add: r rate_to_string_def rate_decimals_def rate_from_str_digits)
  also have "\<dots> = rate_new n"
    using r(2) by (simp add: len Let_def u128_size_def max_rate_e8_def)
  finally show ?thesis using assms by simp
qed

theorem rate_roundtrip_witness:
  "rate_from_str (rate_to_string (RateE8 164525000000)) = Inr (RateE8 164525000000)"
  by (rule rate_roundtrip [of 164525000000]) (simp add: rate_new_def max_rate_e8_def)

text \<open>
  the parser accepts exactly a non-empty run of digits, optionally followed by a point and
  one to eight digits, whose value scaled by \<open>10^8\<close> lies within the vault's bounds, and returns
  exactly that scaled value: nothing is rounded.
\<close>

theorem rate_from_str_iff:
  "rate_from_str s = Inr r \<longleftrightarrow>
     (\<exists>whole fr. (s = whole \<and> fr = [] \<or> s = whole @ CHR ''.'' # fr \<and> fr \<noteq> [])
        \<and> whole \<noteq> [] \<and> all_digits whole \<and> all_digits fr \<and> length fr \<le> 8
        \<and> rate_get r = digits_value whole * 10 ^ 8 + digits_value fr * 10 ^ (8 - length fr)
        \<and> 0 < rate_get r \<and> rate_get r \<le> max_rate_e8)" (is "?L \<longleftrightarrow> ?R")
proof
  assume L: ?L
  show ?R
  proof (cases "split_once CHR ''.'' s")
    case None
    with L have d: "s \<noteq> []" "all_digits s" by (auto simp: rate_from_str_def split: if_splits)
    with L show ?thesis
      by (intro exI [of _ s] exI [of _ "[]"])
        (auto simp: rate_from_str_whole rate_new_Inr Let_def split: if_splits)
  next
    case (Some p)
    then obtain whole fr where p: "split_once CHR ''.'' s = Some (whole, fr)" by (cases p) auto
    then have s: "s = whole @ CHR ''.'' # fr" by (simp add: split_once_Some)
    with L p have d: "whole \<noteq> []" "all_digits whole" "all_digits fr" "fr \<noteq> []" "length fr \<le> 8"
      by (auto simp: rate_from_str_def rate_decimals_def split: if_splits)
    with L s show ?thesis
      by (intro exI [of _ whole] exI [of _ fr])
        (auto simp: rate_from_str_digits rate_new_Inr Let_def split: if_splits)
  qed
next
  assume ?R
  then show ?L
    by (cases r) (auto simp: rate_from_str_digits rate_from_str_whole rate_new_def Let_def
        u128_size_def max_rate_e8_def)
qed

text \<open>
  \<open>usdc_to_cents\<close> is the exact inverse of \<open>cents_to_usdc\<close> on the ledger's range: it succeeds
  on the base-unit value of a cent amount that fits in 64 bits, with that amount, and on nothing
  else, so a sub-cent remainder is never dropped.
\<close>

theorem usdc_to_cents_iff:
  "usdc_to_cents usdc = Inr cents \<longleftrightarrow> cents < u64_size \<and> usdc = cents_to_usdc cents"
proof -
  have "cents_to_usdc cents = cents * usdc_per_cent" if "cents < u64_size"
    using that by (simp add: cents_to_usdc_def usdc_per_cent_def u64_size_def u256_size_def
        u128_size_def)
  then show ?thesis
    by (auto simp: usdc_to_cents_def usdc_per_cent_def Let_def)
qed

text \<open>
  within the bounds the vault allows (a valid rate, at most 18 decimals and any USDC amount
  below \<open>2^128\<close>) the receive amount never overflows, and it is the product divided by \<open>10^14\<close>
  rounded down.
\<close>

theorem receive_amount_total:
  assumes "rate_new n = Inr rate" and "decimals \<le> 18" and "usdc < u128_size"
  shows "\<exists>v. receive_amount_minor usdc rate decimals = Inr v \<and>
    v * 10 ^ 14 \<le> usdc * n * 10 ^ decimals \<and> usdc * n * 10 ^ decimals < (v + 1) * 10 ^ 14"
proof -
  from assms(1) have n: "rate_get rate = n" "n \<le> max_rate_e8" by (auto simp: rate_new_Inr)
  have "usdc * n \<le> u128_size * max_rate_e8"
    using assms(3) n(2) by (intro mult_le_mono) simp_all
  moreover have "(10::nat) ^ decimals \<le> 10 ^ 18" using assms(2) by (intro power_increasing) simp_all
  ultimately have "usdc * n * 10 ^ decimals \<le> u128_size * max_rate_e8 * 10 ^ 18"
    by (rule mult_le_mono)
  also have "\<dots> < u256_size" by (simp add: u256_size_def u128_size_def max_rate_e8_def)
  finally have b: "usdc * n * 10 ^ decimals < u256_size" .
  moreover have "usdc * n \<le> usdc * n * 10 ^ decimals" by simp
  ultimately have "usdc * n < u256_size" by linarith
  with b have "receive_amount_minor usdc rate decimals =
      Inr (usdc * n * 10 ^ decimals div receive_divisor)"
    using assms(2) n(1) by (simp add: receive_amount_minor_def max_currency_decimals_def)
  moreover have "m div receive_divisor * 10 ^ 14 \<le> m \<and> m < (m div receive_divisor + 1) * 10 ^ 14" for m
    using div_mult_mod_eq [of m receive_divisor] mod_less_divisor [of receive_divisor m]
    by (simp add: receive_divisor_def)
  ultimately show ?thesis by blast
qed

theorem receive_amount_total_witness:
  "\<exists>v. receive_amount_minor 1000000 (RateE8 164525000000) 2 = Inr v \<and>
    v * 10 ^ 14 \<le> 1000000 * 164525000000 * 10 ^ (2::nat) \<and>
    1000000 * 164525000000 * 10 ^ (2::nat) < (v + 1) * 10 ^ 14"
  by (rule receive_amount_total) (simp_all add: rate_new_def max_rate_e8_def u128_size_def)

end
