(* ===== verification/Onboarding_Contract.thy ===== *)
theory Onboarding_Contract
  imports Contract
begin

text \<open>
  \<open>src/contract/onboarding.rs\<close>: the wire types of onboarding, with the printers and parsers of
  their string forms and the JSON the derived \<open>Serialize\<close> implementations write.
\<close>

section \<open>Enumerations\<close>

datatype onboarding_status = ObDraft | ObSubmitted | ObInReview | ObApproved | ObRejected

definition onboarding_status_str :: "onboarding_status \<Rightarrow> string" where
  "onboarding_status_str s =
     (case s of ObDraft \<Rightarrow> ''draft'' | ObSubmitted \<Rightarrow> ''submitted'' | ObInReview \<Rightarrow> ''in_review''
      | ObApproved \<Rightarrow> ''approved'' | ObRejected \<Rightarrow> ''rejected'')"

datatype business_type =
  SoleProprietorship | LimitedLiabilityCompany | Partnership | PublicLimitedCompany

definition business_type_str :: "business_type \<Rightarrow> string" where
  "business_type_str b =
     (case b of SoleProprietorship \<Rightarrow> ''sole_proprietorship''
      | LimitedLiabilityCompany \<Rightarrow> ''limited_liability_company'' | Partnership \<Rightarrow> ''partnership''
      | PublicLimitedCompany \<Rightarrow> ''public_limited_company'')"

datatype industry_sector =
    AgricultureAgroExport
  | TextilesApparel
  | SolidMinerals
  | Manufacturing
  | OilGasServices
  | Technology
  | TradingCommodities
  | OtherIndustry

definition industry_str :: "industry_sector \<Rightarrow> string" where
  "industry_str i =
     (case i of AgricultureAgroExport \<Rightarrow> ''agriculture_agro_export''
      | TextilesApparel \<Rightarrow> ''textiles_apparel'' | SolidMinerals \<Rightarrow> ''solid_minerals''
      | Manufacturing \<Rightarrow> ''manufacturing'' | OilGasServices \<Rightarrow> ''oil_gas_services''
      | Technology \<Rightarrow> ''technology'' | TradingCommodities \<Rightarrow> ''trading_commodities''
      | OtherIndustry \<Rightarrow> ''other'')"

definition segment_label :: "industry_sector \<Rightarrow> string" where
  "segment_label i =
     (case i of AgricultureAgroExport \<Rightarrow> ''Agro Exporter''
      | TextilesApparel \<Rightarrow> ''Textiles Exporter''
      | SolidMinerals \<Rightarrow> ''Solid Minerals Exporter''
      | Manufacturing \<Rightarrow> ''Manufacturing Exporter''
      | OilGasServices \<Rightarrow> ''Oil & Gas Services''
      | Technology \<Rightarrow> ''Technology Exporter''
      | TradingCommodities \<Rightarrow> ''Commodities Trader''
      | OtherIndustry \<Rightarrow> ''Trading Business'')"

datatype principal_role = Director | BeneficialOwner | BothRoles

definition principal_role_str :: "principal_role \<Rightarrow> string" where
  "principal_role_str r =
     (case r of Director \<Rightarrow> ''director'' | BeneficialOwner \<Rightarrow> ''beneficial_owner'' | BothRoles \<Rightarrow> ''both'')"

definition parse_principal_role :: "string \<Rightarrow> principal_role option" where
  "parse_principal_role value =
     (if value = ''director'' then Some Director
      else if value = ''beneficial_owner'' then Some BeneficialOwner
      else if value = ''both'' then Some BothRoles
      else None)"

datatype document_type = CacCertificate | Memart | ProofOfAddress | DirectorsId | BoardResolution

definition document_type_str :: "document_type \<Rightarrow> string" where
  "document_type_str t =
     (case t of CacCertificate \<Rightarrow> ''cac_certificate'' | Memart \<Rightarrow> ''memart''
      | ProofOfAddress \<Rightarrow> ''proof_of_address'' | DirectorsId \<Rightarrow> ''directors_id''
      | BoardResolution \<Rightarrow> ''board_resolution'')"

definition parse_document_type :: "string \<Rightarrow> document_type option" where
  "parse_document_type value =
     (if value = ''cac_certificate'' then Some CacCertificate
      else if value = ''memart'' then Some Memart
      else if value = ''proof_of_address'' then Some ProofOfAddress
      else if value = ''directors_id'' then Some DirectorsId
      else if value = ''board_resolution'' then Some BoardResolution
      else None)"

text \<open>The parsers that return an option are codecs too, with the unit as their only error.\<close>

definition to_sum :: "'a option \<Rightarrow> unit + 'a" where
  "to_sum x = (case x of None \<Rightarrow> Inl () | Some a \<Rightarrow> Inr a)"

interpretation principal_role: exact_codec principal_role_str "\<lambda>s. to_sum (parse_principal_role s)"
proof
  show "to_sum (parse_principal_role (principal_role_str x)) = Inr x" for x
    by (cases x) (simp_all add: parse_principal_role_def principal_role_str_def to_sum_def)
  show "principal_role_str x = s" if "to_sum (parse_principal_role s) = Inr x" for s x
    using that by (auto simp: parse_principal_role_def principal_role_str_def to_sum_def split: if_splits)
qed

interpretation document_type: exact_codec document_type_str "\<lambda>s. to_sum (parse_document_type s)"
proof
  show "to_sum (parse_document_type (document_type_str x)) = Inr x" for x
    by (cases x) (simp_all add: parse_document_type_def document_type_str_def to_sum_def)
  show "document_type_str x = s" if "to_sum (parse_document_type s) = Inr x" for s x
    using that by (auto simp: parse_document_type_def document_type_str_def to_sum_def split: if_splits)
qed

section \<open>Records\<close>

record address =
  ad_line1 :: "string option"
  ad_line2 :: "string option"
  ad_city :: "string option"
  ad_state :: string
  ad_postal_code :: "string option"
  ad_country :: string

record business_details =
  bd_legal_name :: string
  bd_trading_name :: "string option"
  bd_cac_number :: string
  bd_business_type :: business_type
  bd_industry :: industry_sector
  bd_trading_address :: address
  bd_country_of_incorporation :: string

record principal =
  pp_id :: "uuid option"
  pp_full_name :: string
  pp_role :: principal_role
  pp_ownership_percentage :: "f64 option"
  pp_date_of_birth :: "string option"
  pp_bvn :: "string option"
  pp_nin :: "string option"

record uploaded_document =
  ud_id :: uuid
  ud_type :: string
  ud_file_name :: string
  ud_mime_type :: string
  ud_size_bytes :: int
  ud_status :: string
  ud_upload_progress_percent :: int
  ud_uploaded_at :: "instant option"
  ud_error_message :: "string option"

record rejection_detail =
  rd_field :: string
  rd_reason :: string

record approved_summary =
  as_account_id :: string
  as_risk_rating_label :: string
  as_segment :: string
  as_corridor :: string
  as_monthly_limit :: money

record onboarding_application =
  oa_id :: uuid
  oa_customer :: uuid
  oa_status :: string
  oa_business :: "business_details option"
  oa_principals :: "principal list"
  oa_documents :: "uploaded_document list"
  oa_rejection_reasons :: "rejection_detail list option"
  oa_approved_summary :: "approved_summary option"
  oa_submitted_at :: "instant option"
  oa_reviewed_at :: "instant option"

section \<open>Serialisation\<close>

text \<open>A field with \<open>skip_serializing_if\<close> is left out when it is \<open>None\<close>.\<close>

definition json_skip :: "string \<Rightarrow> ('a \<Rightarrow> json) \<Rightarrow> 'a option \<Rightarrow> (string \<times> json) list" where
  "json_skip k f x = (case x of None \<Rightarrow> [] | Some v \<Rightarrow> [(k, f v)])"

definition address_json :: "address \<Rightarrow> json" where
  "address_json a = JObj (json_skip ''line1'' JStr (ad_line1 a) @ json_skip ''line2'' JStr (ad_line2 a) @
     json_skip ''city'' JStr (ad_city a) @ [(''state'', JStr (ad_state a))] @
     json_skip ''postalCode'' JStr (ad_postal_code a) @ [(''country'', JStr (ad_country a))])"

definition business_json :: "business_details \<Rightarrow> json" where
  "business_json b = JObj ([(''legalName'', JStr (bd_legal_name b))] @
     json_skip ''tradingName'' JStr (bd_trading_name b) @
     [(''cacNumber'', JStr (bd_cac_number b)),
      (''businessType'', JStr (business_type_str (bd_business_type b))),
      (''industry'', JStr (industry_str (bd_industry b))),
      (''tradingAddress'', address_json (bd_trading_address b)),
      (''countryOfIncorporation'', JStr (bd_country_of_incorporation b))])"

definition principal_json :: "(uuid \<Rightarrow> string) \<Rightarrow> principal \<Rightarrow> json" where
  "principal_json str p = JObj (json_skip ''id'' (\<lambda>i. JStr (str i)) (pp_id p) @
     [(''fullName'', JStr (pp_full_name p)), (''role'', JStr (principal_role_str (pp_role p)))] @
     json_skip ''ownershipPercentage'' JFloat (pp_ownership_percentage p) @
     json_skip ''dateOfBirth'' JStr (pp_date_of_birth p) @
     json_skip ''bvn'' JStr (pp_bvn p) @ json_skip ''nin'' JStr (pp_nin p))"

definition document_json :: "(uuid \<Rightarrow> string) \<Rightarrow> (instant \<Rightarrow> string) \<Rightarrow> uploaded_document \<Rightarrow> json" where
  "document_json str iso' d = JObj ([(''id'', JStr (str (ud_id d))), (''type'', JStr (ud_type d)),
      (''fileName'', JStr (ud_file_name d)), (''mimeType'', JStr (ud_mime_type d)),
      (''sizeBytes'', JInt (ud_size_bytes d)), (''status'', JStr (ud_status d)),
      (''uploadProgressPercent'', JInt (ud_upload_progress_percent d))] @
     json_skip ''uploadedAt'' (\<lambda>t. JStr (iso' t)) (ud_uploaded_at d) @
     json_skip ''errorMessage'' JStr (ud_error_message d))"

end
