(* ===== verification/Store.thy ===== *)
theory Store
  imports Units Onboarding_Contract
begin

text \<open>
  The state every component works on: the Postgres tables of \<open>migrations/*.sql\<close> as lists of rows
  in insertion order, read through the row structs of the Rust code. \<open>next_id\<close> stands for
  \<open>gen_random_uuid()\<close> and \<open>Uuid::new_v4()\<close>: it yields identifiers not used before. Foreign keys
  are not re-checked, since the code inserts only ids it has read from the referenced tables.

  A database transaction is a function of type \<open>tx\<close>: it fails, leaving no trace (the rollback of
  a dropped transaction), or returns a value with the new state. A handler of type \<open>io\<close> may
  commit several transactions, so it keeps what was committed before a failure.
\<close>

section \<open>Ambient services\<close>

text \<open>
  The clock, the random generator and the third-party functions an operation calls: \<open>chrono\<close>'s
  RFC 3339 printer and parser, \<open>uuid\<close>'s printer and parser, and the Keccak hash. Instants are milliseconds.
\<close>

record env =
  now :: instant
  draws :: "string \<Rightarrow> nat list"
  iso :: "instant \<Rightarrow> string"
  uuid_str :: "uuid \<Rightarrow> string"
  parse_uuid :: "string \<Rightarrow> uuid option"
  parse_rfc3339 :: "string \<Rightarrow> instant option"
  keccak256 :: "string \<Rightarrow> bytes"

definition new_reference :: "env \<Rightarrow> string \<Rightarrow> string" where
  "new_reference E prefix' = tagged_reference prefix' (draws E prefix')"

text \<open>\<open>Config\<close> (\<open>src/config.rs\<close>).\<close>

record config =
  cfg_host :: string
  cfg_port :: nat
  cfg_database_url :: string
  cfg_storage_dir :: string
  cfg_cors_origins :: "string list"
  kyb_check_delay_ms :: nat
  quote_ttl_seconds :: int
  transfer_auto_advance_ms :: int
  transfer_step_delay_ms :: nat
  max_transfer_amount_minor :: int
  max_aggregate_exposure_minor :: int
  compliance_amount_threshold_minor :: int
  fx_divergence_threshold_percent :: f64
  fx_breaker_failure_threshold :: nat
  fx_breaker_reset_seconds :: nat
  fx_cache_max_age_seconds :: nat
  fx_call_timeout_ms :: nat
  settlement_onchain :: bool
  settlement_confirmations :: nat
  settlement_poll_ms :: nat
  settlement_start_block :: nat
  settlement_log_range :: nat
  settlement_chain_id :: "nat option"
  settlement_vault_address :: "string option"
  settlement_usdc_address :: "string option"
  settlement_explorer_url :: "string option"
  yellowcard_api_key :: "string option"
  yellowcard_api_secret :: "string option"
  yellowcard_base_url :: string
  yellowcard_channel_id :: "string option"
  yellowcard_source_account :: "string option"
  bridge_api_key :: "string option"
  bridge_base_url :: string
  bridge_webhook_public_key :: "string option"
  bridge_destination_rail :: string
  bridge_destination_currency :: string
  bridge_destination_address :: "string option"
  cfg_is_test :: bool
  cookie_secure :: bool

text \<open>\<open>Session\<close> (\<open>src/http/auth.rs\<close>).\<close>

record session =
  user_id :: uuid
  role :: string
  display_name :: string
  operator_permissions :: "string list"
  customer_id :: uuid
  account_number :: string

section \<open>Rows\<close>

record account_row =
  acc_id :: uuid
  acc_customer :: uuid
  acc_currency :: string

record entry_row =
  le_id :: uuid
  le_account :: uuid
  le_transfer :: "uuid option"
  le_trade :: "uuid option"
  le_inbound :: "uuid option"
  le_amount :: int
  le_currency :: string
  le_running :: int
  le_description :: string
  le_reversal_of :: "uuid option"
  le_posted_at :: instant

record firm_quote =
  fq_id :: uuid
  fq_send_currency :: currency_code
  fq_receive_currency :: currency_code
  fq_rate :: f64
  fq_fee :: money
  fq_send_amount :: money
  fq_receive_amount :: money
  fq_source :: rate_source
  fq_issued_at :: instant
  fq_expires_at :: instant

record transfer_row =
  tr_id :: uuid
  tr_reference :: string
  tr_customer :: uuid
  tr_key :: string
  tr_recipient :: uuid
  tr_send_currency :: string
  tr_receive_currency :: string
  tr_send_amount :: int
  tr_receive_amount :: int
  tr_trade_description :: "string option"
  tr_quote :: firm_quote
  tr_status :: string
  tr_created_at :: instant
  tr_updated_at :: instant
  tr_settlement_ref :: "bytes option"

record history_row =
  th_transfer :: uuid
  th_position :: int
  th_status :: string
  th_entered_at :: instant
  th_note :: "string option"
  th_payload :: "json option"

record audit_row =
  au_actor :: "uuid option"
  au_role :: "string option"
  au_action :: string
  au_entity_type :: string
  au_entity :: string
  au_before :: "json option"
  au_after :: "json option"
  au_occurred_at :: instant

record customer_row =
  cu_id :: uuid
  cu_legal_name :: string
  cu_primary_user :: uuid
  cu_max_transfer :: "int option"
  cu_max_aggregate :: "int option"
  cu_account_number :: string

record recipient_row =
  rc_id :: uuid
  rc_customer :: uuid
  rc_account_name :: string
  rc_account_number :: string
  rc_bank_code :: string
  rc_bank_name :: string
  rc_currency :: string
  rc_country :: string
  rc_validation_status :: string
  rc_saved_at :: instant

record quote_row =
  qu_id :: uuid
  qu_customer :: uuid
  qu_send_currency :: string
  qu_receive_currency :: string
  qu_rate :: f64
  qu_fee :: int
  qu_send_amount :: int
  qu_receive_amount :: int
  qu_issued_at :: instant
  qu_expires_at :: instant
  qu_consumed_by :: "uuid option"

record trade_row =
  st_id :: uuid
  st_reference :: string
  st_customer :: uuid
  st_key :: string
  st_kind :: string
  st_usdc_amount :: int
  st_local_currency :: string
  st_local_amount :: int
  st_rate :: f64
  st_rate_source :: string
  st_created_by :: uuid
  st_created_at :: instant

record pay_in =
  pi_method :: string
  pi_bank_name :: "string option"
  pi_bank_address :: "string option"
  pi_account_name :: "string option"
  pi_account_number :: "string option"
  pi_routing_number :: "string option"
  pi_beneficiary_address :: "string option"
  pi_payment_rails :: "string list"
  pi_payment_link :: "string option"
  pi_memo :: "string option"

record collection_row =
  co_id :: uuid
  co_reference :: string
  co_customer :: uuid
  co_key :: string
  co_amount :: int
  co_currency :: string
  co_payer_name :: "string option"
  co_note :: "string option"
  co_status :: string
  co_provider :: string
  co_provider_ref :: "string option"
  co_pay_in :: pay_in
  co_expires_at :: instant
  co_paid_at :: "instant option"
  co_cancelled_at :: "instant option"
  co_created_by :: uuid
  co_created_at :: instant

record inbound_row =
  ip_id :: uuid
  ip_customer :: uuid
  ip_collection :: "uuid option"
  ip_provider :: string
  ip_provider_payment :: string
  ip_amount :: int
  ip_currency :: string
  ip_payer_name :: "string option"
  ip_description :: "string option"
  ip_received_at :: instant
  ip_raw :: json

record deposit_instructions =
  di_currency :: "string option"
  di_payment_rails :: "string list"
  di_bank_name :: "string option"
  di_bank_address :: "string option"
  di_bank_beneficiary_name :: "string option"
  di_bank_beneficiary_address :: "string option"
  di_bank_account_number :: "string option"
  di_bank_routing_number :: "string option"

record virtual_account_row =
  va_customer :: uuid
  va_bridge_customer :: string
  va_virtual_account :: string
  va_instructions :: deposit_instructions

record event_row =
  ev_vault :: bytes
  ev_tx_hash :: bytes
  ev_log_index :: nat
  ev_block_number :: nat
  ev_block_hash :: bytes
  ev_event :: string
  ev_settlement_ref :: bytes
  ev_transfer :: uuid
  ev_payload :: json

record fx_row =
  fx_pair :: string
  fx_rate :: f64
  fx_change_percent_24h :: f64
  fx_as_of :: instant

record divergence_row =
  dv_pair :: string
  dv_rate_a :: f64
  dv_rate_b :: f64
  dv_percent :: f64
  dv_threshold :: f64

record user_row =
  us_id :: uuid
  us_role :: string
  us_display_name :: string
  us_permissions :: "string list"
  us_email :: "string option"
  us_password_hash :: "string option"

record session_row =
  se_id :: uuid
  se_user :: uuid
  se_token_hash :: string
  se_expires_at :: instant
  se_revoked_at :: "instant option"

record application_row =
  ap_id :: uuid
  ap_customer :: uuid
  ap_status :: string
  ap_business :: "business_details option"
  ap_rejection_reasons :: "rejection_detail list option"
  ap_approved_summary :: "approved_summary option"
  ap_submitted_at :: "instant option"
  ap_reviewed_at :: "instant option"

record principal_row =
  pr_id :: uuid
  pr_application :: uuid
  pr_position :: int
  pr_full_name :: string
  pr_role :: string
  pr_ownership_percentage :: "f64 option"
  pr_date_of_birth :: "string option"
  pr_bvn :: "string option"
  pr_nin :: "string option"

record document_row =
  od_id :: uuid
  od_application :: uuid
  od_type :: string
  od_file_name :: string
  od_mime_type :: string
  od_size_bytes :: int
  od_status :: string
  od_upload_progress_percent :: int
  od_uploaded_at :: "instant option"
  od_error_message :: "string option"
  od_storage_key :: "string option"

record kyb_check_row =
  kc_application :: uuid
  kc_key :: string
  kc_passed :: bool
  kc_detail :: string

section \<open>The database\<close>

record db =
  next_id :: uuid
  customers :: "customer_row list"
  accounts :: "account_row list"
  ledger_entries :: "entry_row list"
  audit_log :: "audit_row list"
  recipients :: "recipient_row list"
  quotes :: "quote_row list"
  transfers :: "transfer_row list"
  transfer_history :: "history_row list"
  settlement_trades :: "trade_row list"
  collections :: "collection_row list"
  inbound_payments :: "inbound_row list"
  virtual_accounts :: "virtual_account_row list"
  settlement_events :: "event_row list"
  settlement_cursor :: "(bytes \<times> nat \<times> bytes) list"
  fx_rates :: "fx_row list"
  fx_secondary_rates :: "fx_row list"
  fx_divergences :: "divergence_row list"
  users :: "user_row list"
  sessions :: "session_row list"
  applications :: "application_row list"
  principals :: "principal_row list"
  documents :: "document_row list"
  kyb_checks :: "kyb_check_row list"

section \<open>Transactions\<close>

type_synonym 'a tx = "db \<Rightarrow> failure + ('a \<times> db)"
type_synonym 'a io = "db \<Rightarrow> 'a api_result \<times> db"

definition return_tx :: "'a \<Rightarrow> 'a tx" where
  "return_tx a = (\<lambda>s. Inr (a, s))"

definition throw :: "api_error \<Rightarrow> 'a tx" where
  "throw e = (\<lambda>s. Inl (Err e))"

definition bind_tx :: "'a tx \<Rightarrow> ('a \<Rightarrow> 'b tx) \<Rightarrow> 'b tx" where
  "bind_tx m f = (\<lambda>s. case m s of Inl e \<Rightarrow> Inl e | Inr (a, s') \<Rightarrow> f a s')"

definition gets :: "(db \<Rightarrow> 'a) \<Rightarrow> 'a tx" where
  "gets f = (\<lambda>s. Inr (f s, s))"

definition modify :: "(db \<Rightarrow> db) \<Rightarrow> unit tx" where
  "modify f = (\<lambda>s. Inr ((), f s))"

definition lift_result :: "'a api_result \<Rightarrow> 'a tx" where
  "lift_result r = (\<lambda>s. case r of Inl e \<Rightarrow> Inl e | Inr a \<Rightarrow> Inr (a, s))"

text \<open>\<open>ok_or_else\<close>.\<close>

definition ok_or :: "api_error \<Rightarrow> 'a option \<Rightarrow> 'a tx" where
  "ok_or e x = (case x of None \<Rightarrow> throw e | Some a \<Rightarrow> return_tx a)"

definition ensure :: "bool \<Rightarrow> api_error \<Rightarrow> unit tx" where
  "ensure b e = (if b then return_tx () else throw e)"

definition fresh_id :: "uuid tx" where
  "fresh_id = (\<lambda>s. Inr (next_id s, s\<lparr>next_id := Suc (next_id s)\<rparr>))"

text \<open>\<open>begin\<close> ... \<open>commit\<close>: an error drops the transaction.\<close>

definition transaction :: "'a tx \<Rightarrow> 'a io" where
  "transaction m s = (case m s of Inl e \<Rightarrow> (Inl e, s) | Inr (a, s') \<Rightarrow> (Inr a, s'))"

definition return_io :: "'a \<Rightarrow> 'a io" where
  "return_io a s = (Inr a, s)"

definition fail_io :: "api_error \<Rightarrow> 'a io" where
  "fail_io e s = (Inl (Err e), s)"

text \<open>An identifier drawn outside a transaction.\<close>

definition draw_id :: "db \<Rightarrow> uuid \<times> db" where
  "draw_id s = (next_id s, s\<lparr>next_id := Suc (next_id s)\<rparr>)"

definition bind_io :: "'a io \<Rightarrow> ('a \<Rightarrow> 'b io) \<Rightarrow> 'b io" where
  "bind_io m f = (\<lambda>s. case m s of (Inl e, s') \<Rightarrow> (Inl e, s') | (Inr a, s') \<Rightarrow> f a s')"

lemmas tx_defs = return_tx_def throw_def bind_tx_def gets_def modify_def lift_result_def
  ok_or_def ensure_def fresh_id_def

lemma bind_tx_Inr [tx_simps]:
  "bind_tx m f s = Inr (b, s') \<longleftrightarrow> (\<exists>a t. m s = Inr (a, t) \<and> f a t = Inr (b, s'))"
  by (auto simp: bind_tx_def split: sum.splits)

lemma bind_tx_Inl [tx_simps]:
  "bind_tx m f s = Inl e \<longleftrightarrow> m s = Inl e \<or> (\<exists>a t. m s = Inr (a, t) \<and> f a t = Inl e)"
  by (auto simp: bind_tx_def split: sum.splits)

lemma primitive_tx [tx_simps]:
  "return_tx a s = Inr (b, s') \<longleftrightarrow> b = a \<and> s' = s"
  "throw e s \<noteq> Inr p"
  "gets f s = Inr (b, s') \<longleftrightarrow> b = f s \<and> s' = s"
  "modify g s = Inr (u, s') \<longleftrightarrow> s' = g s"
  "lift_result r s = Inr (b, s') \<longleftrightarrow> r = Inr b \<and> s' = s"
  "ok_or e x s = Inr (b, s') \<longleftrightarrow> x = Some b \<and> s' = s"
  "ensure c e s = Inr (u, s') \<longleftrightarrow> c \<and> s' = s"
  "fresh_id s = Inr (i, s') \<longleftrightarrow> i = next_id s \<and> s' = s\<lparr>next_id := Suc (next_id s)\<rparr>"
  by (auto simp: tx_defs split: sum.splits option.splits if_splits)

lemma primitive_tx_Inl [tx_simps]:
  "return_tx a s \<noteq> Inl f"
  "throw e s = Inl f \<longleftrightarrow> f = Err e"
  "gets g s \<noteq> Inl f"
  "modify h s \<noteq> Inl f"
  "lift_result r s = Inl f \<longleftrightarrow> r = Inl f"
  "ok_or e x s = Inl f \<longleftrightarrow> x = None \<and> f = Err e"
  "ensure c e s = Inl f \<longleftrightarrow> \<not> c \<and> f = Err e"
  "fresh_id s \<noteq> Inl f"
  by (auto simp: tx_defs split: sum.splits option.splits if_splits)

lemma transaction_Inr: "transaction m s = (Inr a, s') \<longleftrightarrow> m s = Inr (a, s')"
  by (auto simp: transaction_def split: sum.splits)

lemma transaction_Inl: "transaction m s = (Inl e, s') \<longleftrightarrow> m s = Inl e \<and> s' = s"
  by (auto simp: transaction_def split: sum.splits)

section \<open>What a transaction does to the state\<close>

text \<open>
  \<open>upholds R m\<close>: every success of \<open>m\<close> relates the old state to the new one by \<open>R\<close>. For a
  preorder \<open>R\<close> this composes along \<open>bind_tx\<close>, which is how frame conditions, append-only tables
  and invariants are carried through the operations.
\<close>

definition upholds :: "(db \<Rightarrow> db \<Rightarrow> bool) \<Rightarrow> 'a tx \<Rightarrow> bool" where
  "upholds R m \<longleftrightarrow> (\<forall>s a s'. m s = Inr (a, s') \<longrightarrow> R s s')"

lemma upholdsI: "(\<And>s a s'. m s = Inr (a, s') \<Longrightarrow> R s s') \<Longrightarrow> upholds R m"
  by (auto simp: upholds_def)

lemma upholdsD: "upholds R m \<Longrightarrow> m s = Inr (a, s') \<Longrightarrow> R s s'"
  by (auto simp: upholds_def)

locale tx_frame =
  fixes R :: "db \<Rightarrow> db \<Rightarrow> bool"
  assumes refl: "R s s"
    and trans: "R s t \<Longrightarrow> R t u \<Longrightarrow> R s u"
begin

lemma upholds_bind:
  assumes "upholds R m" and "\<And>a. upholds R (f a)"
  shows "upholds R (bind_tx m f)"
proof (rule upholdsI)
  fix s b s'
  assume "bind_tx m f s = Inr (b, s')"
  then obtain a t where "m s = Inr (a, t)" and "f a t = Inr (b, s')" by (auto simp: bind_tx_Inr)
  with assms have "R s t" and "R t s'" by (auto dest: upholdsD)
  then show "R s s'" by (rule trans)
qed

lemma upholds_pure:
  "upholds R (return_tx a)" "upholds R (throw e)" "upholds R (gets g)"
  "upholds R (lift_result r)" "upholds R (ok_or e x)" "upholds R (ensure c e)"
  by (auto simp: upholds_def tx_simps refl)

lemma upholds_if: "(b \<Longrightarrow> upholds R m) \<Longrightarrow> (\<not> b \<Longrightarrow> upholds R n) \<Longrightarrow> upholds R (if b then m else n)"
  by simp

lemma upholds_option:
  "(x = None \<Longrightarrow> upholds R m) \<Longrightarrow> (\<And>a. x = Some a \<Longrightarrow> upholds R (f a)) \<Longrightarrow>
   upholds R (case x of None \<Rightarrow> m | Some a \<Rightarrow> f a)"
  by (cases x) simp_all

lemma upholds_prod: "(\<And>a b. x = (a, b) \<Longrightarrow> upholds R (f a b)) \<Longrightarrow> upholds R (case x of (a, b) \<Rightarrow> f a b)"
  by (cases x) simp

lemmas upholds_rules = upholds_bind upholds_pure upholds_if upholds_option upholds_prod

lemma transaction_upholds: "upholds R m \<Longrightarrow> R s (snd (transaction m s))"
  by (auto simp: upholds_def transaction_def refl split: sum.splits prod.splits)

lemma bind_io_upholds:
  assumes "\<And>s. R s (snd (m s))" and "\<And>a s. R s (snd (f a s))"
  shows "R s (snd (bind_io m f s))"
proof (cases "m s")
  case (Pair r t)
  with assms(1) [of s] have st: "R s t" by simp
  show ?thesis
  proof (cases r)
    case (Inl e)
    with Pair st show ?thesis by (simp add: bind_io_def)
  next
    case (Inr a)
    with Pair trans [OF st assms(2) [of t a]] show ?thesis by (simp add: bind_io_def)
  qed
qed

end

text \<open>
  The append-only tables: the triggers of the migrations forbid update and delete on the ledger
  and the audit log; every operation must leave the old rows as a prefix of the new ones.
\<close>

definition append_only :: "db \<Rightarrow> db \<Rightarrow> bool" where
  "append_only s s' \<longleftrightarrow> prefix (ledger_entries s) (ledger_entries s') \<and>
     prefix (audit_log s) (audit_log s') \<and>
     prefix (settlement_trades s) (settlement_trades s') \<and>
     prefix (inbound_payments s) (inbound_payments s') \<and>
     prefix (settlement_events s) (settlement_events s')"

interpretation append: tx_frame append_only
  by unfold_locales (auto simp: append_only_def intro: prefix_order.trans)

text \<open>\<open>keeps f\<close>: a component \<open>f\<close> of the state is left alone.\<close>

definition keeps :: "(db \<Rightarrow> 'a) \<Rightarrow> db \<Rightarrow> db \<Rightarrow> bool" where
  "keeps f s s' \<longleftrightarrow> f s' = f s"

interpretation keeps: tx_frame "keeps f" for f
  by unfold_locales (auto simp: keeps_def)

text \<open>\<open>maintains P\<close>: an invariant \<open>P\<close> carries over.\<close>

definition maintains :: "(db \<Rightarrow> bool) \<Rightarrow> db \<Rightarrow> db \<Rightarrow> bool" where
  "maintains P s s' \<longleftrightarrow> (P s \<longrightarrow> P s')"

interpretation maintains: tx_frame "maintains P" for P
  by unfold_locales (auto simp: maintains_def)

section \<open>The audit log\<close>

text \<open>\<open>src/audit.rs\<close>.\<close>

record audit_entry =
  ae_actor :: "uuid option"
  ae_role :: "string option"
  ae_action :: string
  ae_entity_type :: string
  ae_entity :: string
  ae_before :: "json option"
  ae_after :: "json option"

definition write_audit :: "env \<Rightarrow> audit_entry \<Rightarrow> unit tx" where
  "write_audit E e = modify (\<lambda>s. s\<lparr>audit_log := audit_log s @
     [\<lparr>au_actor = ae_actor e, au_role = ae_role e, au_action = ae_action e,
       au_entity_type = ae_entity_type e, au_entity = ae_entity e,
       au_before = ae_before e, au_after = ae_after e, au_occurred_at = now E\<rparr>]\<rparr>)"

lemma write_audit_Inl [tx_simps]: "write_audit E e s \<noteq> Inl f"
  by (simp add: write_audit_def tx_simps)

lemma write_audit_frame [frame_simps]:
  assumes "write_audit E e s = Inr (u, s')"
  shows "ledger_entries s' = ledger_entries s" "accounts s' = accounts s"
    "transfers s' = transfers s" "transfer_history s' = transfer_history s"
    "quotes s' = quotes s" "next_id s' = next_id s" "collections s' = collections s"
    "inbound_payments s' = inbound_payments s" "settlement_trades s' = settlement_trades s"
    "settlement_events s' = settlement_events s" "recipients s' = recipients s"
    "customers s' = customers s" "settlement_cursor s' = settlement_cursor s"
    "virtual_accounts s' = virtual_accounts s"
  using assms by (simp_all add: write_audit_def tx_simps)

lemma write_audit_append: "upholds append_only (write_audit E e)"
  by (auto simp: upholds_def write_audit_def tx_simps append_only_def)

end
