(* ===== verification/Ledger.thy ===== *)
theory Ledger
  imports Store "HOL-Library.Char_ord" "HOL-Library.List_Lexorder"
begin

text \<open>
  \<open>src/domain/ledger.rs\<close>: accounts, balances, exposure sums, limits and the append-only posting
  primitive. The interface \<open>ledger_store\<close> is what the transfer engine, the settlement wallet and
  the collections rely on: a posting moves the balance of its account by its amount and of no
  other account. The invariant \<open>ledger_ok\<close> says that each entry's running balance is the balance
  of its account after it.
\<close>

section \<open>Accounts and balances\<close>

definition usdc :: string where
  "usdc = ''USDC''"

definition find_account :: "uuid \<Rightarrow> string \<Rightarrow> db \<Rightarrow> account_row option" where
  "find_account c ccy s = find (\<lambda>a. acc_customer a = c \<and> acc_currency a = ccy) (accounts s)"

definition get_or_create_account_by_code :: "uuid \<Rightarrow> string \<Rightarrow> uuid tx" where
  "get_or_create_account_by_code c ccy =
     bind_tx (gets (find_account c ccy)) (\<lambda>found.
       case found of
         Some a \<Rightarrow> return_tx (acc_id a)
       | None \<Rightarrow> bind_tx fresh_id (\<lambda>i.
           bind_tx (modify (\<lambda>s. s\<lparr>accounts := accounts s @
               [\<lparr>acc_id = i, acc_customer = c, acc_currency = ccy\<rparr>]\<rparr>)) (\<lambda>_.
             return_tx i)))"

definition get_or_create_account :: "uuid \<Rightarrow> currency_code \<Rightarrow> uuid tx" where
  "get_or_create_account c ccy = get_or_create_account_by_code c (currency_str ccy)"

definition entries_sum :: "uuid \<Rightarrow> entry_row list \<Rightarrow> int" where
  "entries_sum a es = sum_list (map le_amount (filter (\<lambda>e. le_account e = a) es))"

definition account_sum :: "uuid \<Rightarrow> db \<Rightarrow> int" where
  "account_sum a s = entries_sum a (ledger_entries s)"

text \<open>A sum outside the range of \<open>bigint\<close> makes the query fail.\<close>

definition bigint :: "int \<Rightarrow> int tx" where
  "bigint n = (if in_i64 n then return_tx n else throw from_sqlx_error)"

definition account_balance_minor :: "uuid \<Rightarrow> int tx" where
  "account_balance_minor a = bind_tx (gets (account_sum a)) bigint"

record account_balance =
  ab_account :: uuid
  ab_currency :: currency_code
  ab_balance :: money
  ab_as_of :: string

fun map_tx :: "('a \<Rightarrow> 'b tx) \<Rightarrow> 'a list \<Rightarrow> 'b list tx" where
  "map_tx f [] = return_tx []"
| "map_tx f (x # xs) = bind_tx (f x) (\<lambda>y. bind_tx (map_tx f xs) (\<lambda>ys. return_tx (y # ys)))"

definition get_balances :: "env \<Rightarrow> uuid \<Rightarrow> account_balance list tx" where
  "get_balances E c =
     bind_tx (gets (\<lambda>s. sort_key acc_currency
         (filter (\<lambda>a. acc_customer a = c \<and> acc_currency a \<noteq> ''USDC'') (accounts s)))) (\<lambda>rows.
       map_tx (\<lambda>a.
         bind_tx (account_balance_minor (acc_id a)) (\<lambda>bal.
         bind_tx (lift_result (parse_currency (acc_currency a))) (\<lambda>ccy.
           return_tx \<lparr>ab_account = acc_id a, ab_currency = ccy,
             ab_balance = money_new bal ccy, ab_as_of = iso E (now E)\<rparr>))) rows)"

section \<open>Exposure and limits\<close>

definition terminal_statuses :: "string list" where
  "terminal_statuses = [''COMPLETED'', ''REJECTED'', ''EXPIRED'', ''REVERSED'']"

definition open_exposure :: "uuid \<Rightarrow> string \<Rightarrow> transfer_row list \<Rightarrow> int" where
  "open_exposure c ccy ts = sum_list (map tr_send_amount (filter (\<lambda>t.
     tr_customer t = c \<and> tr_send_currency t = ccy \<and> tr_status t \<notin> set terminal_statuses) ts))"

definition customer_open_exposure_minor :: "uuid \<Rightarrow> currency_code \<Rightarrow> int tx" where
  "customer_open_exposure_minor c ccy =
     bind_tx (gets (\<lambda>s. open_exposure c (currency_str ccy) (transfers s))) bigint"

record customer_limits =
  cl_max_transfer :: "int option"
  cl_max_aggregate :: "int option"

text \<open>\<open>fetch_one\<close> on a missing customer is a database error.\<close>

definition lock_customer_limits :: "uuid \<Rightarrow> customer_limits tx" where
  "lock_customer_limits c =
     bind_tx (gets (\<lambda>s. find (\<lambda>r. cu_id r = c) (customers s))) (\<lambda>row.
     bind_tx (ok_or from_sqlx_error row) (\<lambda>r.
       return_tx \<lparr>cl_max_transfer = cu_max_transfer r, cl_max_aggregate = cu_max_aggregate r\<rparr>))"

definition set_transfer_limit :: "uuid \<Rightarrow> int option \<Rightarrow> unit tx" where
  "set_transfer_limit c new_limit =
     modify (\<lambda>s. s\<lparr>customers := update_where (\<lambda>r. cu_id r = c)
       (\<lambda>r. r\<lparr>cu_max_transfer := new_limit\<rparr>) (customers s)\<rparr>)"

definition platform_open_exposure_by_currency :: "(currency_code \<times> int) list tx" where
  "platform_open_exposure_by_currency =
     bind_tx (gets (\<lambda>s. filter (\<lambda>t. tr_status t \<notin> set terminal_statuses) (transfers s))) (\<lambda>ts.
       map_tx (\<lambda>ccy.
         bind_tx (bigint (sum_list (map tr_send_amount (filter (\<lambda>t. tr_send_currency t = ccy) ts)))) (\<lambda>n.
         bind_tx (lift_result (parse_currency ccy)) (\<lambda>c. return_tx (c, n))))
       (remdups (map tr_send_currency ts)))"

section \<open>Postings\<close>

datatype entry_source = FromTransfer uuid | FromTrade uuid | FromInbound uuid

fun source_transfer :: "entry_source \<Rightarrow> uuid option" where
  "source_transfer (FromTransfer i) = Some i"
| "source_transfer _ = None"

fun source_trade :: "entry_source \<Rightarrow> uuid option" where
  "source_trade (FromTrade i) = Some i"
| "source_trade _ = None"

fun source_inbound :: "entry_source \<Rightarrow> uuid option" where
  "source_inbound (FromInbound i) = Some i"
| "source_inbound _ = None"

definition append_entry ::
  "env \<Rightarrow> uuid \<Rightarrow> int \<Rightarrow> string \<Rightarrow> string \<Rightarrow> entry_source \<Rightarrow> uuid option \<Rightarrow> (uuid \<times> int) tx" where
  "append_entry E account amount ccy description source reversal_of =
     bind_tx (account_balance_minor account) (\<lambda>prev.
     let running = wrap64 (prev + amount) in
     bind_tx fresh_id (\<lambda>i.
     bind_tx (modify (\<lambda>s. s\<lparr>ledger_entries := ledger_entries s @
       [\<lparr>le_id = i, le_account = account, le_transfer = source_transfer source,
         le_trade = source_trade source, le_inbound = source_inbound source,
         le_amount = amount, le_currency = ccy, le_running = running,
         le_description = description, le_reversal_of = reversal_of,
         le_posted_at = now E\<rparr>]\<rparr>)) (\<lambda>_.
       return_tx (i, running))))"

record ledger_posting =
  lp_account :: uuid
  lp_transfer :: uuid
  lp_amount :: int
  lp_currency :: currency_code
  lp_description :: string
  lp_reversal_of :: "uuid option"

definition post_ledger_entry :: "env \<Rightarrow> ledger_posting \<Rightarrow> (uuid \<times> int) tx" where
  "post_ledger_entry E p =
     append_entry E (lp_account p) (lp_amount p) (currency_str (lp_currency p)) (lp_description p)
       (FromTransfer (lp_transfer p)) (lp_reversal_of p)"

record settlement_posting =
  sp_account :: uuid
  sp_trade :: uuid
  sp_amount :: int
  sp_currency :: string
  sp_description :: string

definition post_settlement_entry :: "env \<Rightarrow> settlement_posting \<Rightarrow> (uuid \<times> int) tx" where
  "post_settlement_entry E p =
     append_entry E (sp_account p) (sp_amount p) (sp_currency p) (sp_description p)
       (FromTrade (sp_trade p)) None"

record inbound_posting =
  np_account :: uuid
  np_payment :: uuid
  np_amount :: int
  np_currency :: currency_code
  np_description :: string

definition post_inbound_entry :: "env \<Rightarrow> inbound_posting \<Rightarrow> (uuid \<times> int) tx" where
  "post_inbound_entry E p =
     append_entry E (np_account p) (np_amount p) (currency_str (np_currency p)) (np_description p)
       (FromInbound (np_payment p)) None"

section \<open>What the primitives do\<close>

lemma bigint_tx [tx_simps]:
  "bigint n s = Inr (m, s') \<longleftrightarrow> in_i64 n \<and> m = n \<and> s' = s"
  "bigint n s = Inl f \<longleftrightarrow> \<not> in_i64 n \<and> f = Err from_sqlx_error"
  by (auto simp: bigint_def tx_simps)

lemma account_balance_minor_tx [tx_simps]:
  "account_balance_minor a s = Inr (m, s') \<longleftrightarrow> in_i64 (account_sum a s) \<and> m = account_sum a s \<and> s' = s"
  "account_balance_minor a s = Inl f \<longleftrightarrow> \<not> in_i64 (account_sum a s) \<and> f = Err from_sqlx_error"
  by (auto simp: account_balance_minor_def tx_simps)

text \<open>The row a posting appends.\<close>

definition new_entry ::
  "env \<Rightarrow> uuid \<Rightarrow> int \<Rightarrow> string \<Rightarrow> string \<Rightarrow> entry_source \<Rightarrow> uuid option \<Rightarrow> db \<Rightarrow> entry_row" where
  "new_entry E account amount ccy description source reversal_of s =
     \<lparr>le_id = next_id s, le_account = account, le_transfer = source_transfer source,
      le_trade = source_trade source, le_inbound = source_inbound source, le_amount = amount,
      le_currency = ccy, le_running = wrap64 (account_sum account s + amount),
      le_description = description, le_reversal_of = reversal_of, le_posted_at = now E\<rparr>"

lemma append_entry_tx [tx_simps]:
  "append_entry E a x ccy d src rv s = Inr (p, s') \<longleftrightarrow>
     in_i64 (account_sum a s) \<and> p = (next_id s, wrap64 (account_sum a s + x)) \<and>
     s' = s\<lparr>next_id := Suc (next_id s),
            ledger_entries := ledger_entries s @ [new_entry E a x ccy d src rv s]\<rparr>"
  "append_entry E a x ccy d src rv s = Inl f \<longleftrightarrow>
     \<not> in_i64 (account_sum a s) \<and> f = Err from_sqlx_error"
  by (auto simp: append_entry_def tx_simps Let_def new_entry_def)

lemma entries_sum_simps [simp]:
  "entries_sum a [] = 0"
  "entries_sum a (es @ fs) = entries_sum a es + entries_sum a fs"
  "entries_sum a (e # es) = (if le_account e = a then le_amount e else 0) + entries_sum a es"
  by (simp_all add: entries_sum_def)

lemma new_entry_simps [simp]:
  "le_id (new_entry E a x ccy d src rv s) = next_id s"
  "le_account (new_entry E a x ccy d src rv s) = a"
  "le_amount (new_entry E a x ccy d src rv s) = x"
  "le_currency (new_entry E a x ccy d src rv s) = ccy"
  "le_running (new_entry E a x ccy d src rv s) = wrap64 (account_sum a s + x)"
  "le_transfer (new_entry E a x ccy d src rv s) = source_transfer src"
  "le_description (new_entry E a x ccy d src rv s) = d"
  "le_reversal_of (new_entry E a x ccy d src rv s) = rv"
  by (simp_all add: new_entry_def)

lemma account_sum_append:
  "account_sum b (s\<lparr>next_id := i, ledger_entries := ledger_entries s @ [new_entry E a x ccy d src rv s]\<rparr>)
   = account_sum b s + (if b = a then x else 0)"
  by (simp add: account_sum_def)

lemma account_sum_cong: "ledger_entries s' = ledger_entries s \<Longrightarrow> account_sum a s' = account_sum a s"
  by (simp add: account_sum_def)

definition new_account :: "uuid \<Rightarrow> string \<Rightarrow> db \<Rightarrow> account_row" where
  "new_account c ccy s = \<lparr>acc_id = next_id s, acc_customer = c, acc_currency = ccy\<rparr>"

lemma get_or_create_account_by_code_tx [tx_simps]:
  "get_or_create_account_by_code c ccy s = Inr (i, s') \<longleftrightarrow>
     (case find_account c ccy s of
        Some a \<Rightarrow> i = acc_id a \<and> s' = s
      | None \<Rightarrow> i = next_id s \<and> s' = s\<lparr>next_id := Suc (next_id s),
          accounts := accounts s @ [new_account c ccy s]\<rparr>)"
  "get_or_create_account_by_code c ccy s \<noteq> Inl f"
  by (auto simp: get_or_create_account_by_code_def new_account_def tx_simps split: option.splits)

lemma get_or_create_account_tx [tx_simps]:
  "get_or_create_account c ccy s = Inr (i, s') \<longleftrightarrow>
     get_or_create_account_by_code c (currency_str ccy) s = Inr (i, s')"
  "get_or_create_account c ccy s \<noteq> Inl f"
  by (simp_all add: get_or_create_account_def tx_simps)

section \<open>The ledger invariant\<close>

definition running_ok :: "entry_row list \<Rightarrow> bool" where
  "running_ok es \<longleftrightarrow> list_all (\<lambda>i.
     le_running (es ! i) = wrap64 (entries_sum (le_account (es ! i)) (take (Suc i) es))) [0..<length es]"

lemma running_ok_snoc:
  "running_ok (es @ [e]) \<longleftrightarrow>
     running_ok es \<and> le_running e = wrap64 (entries_sum (le_account e) es + le_amount e)"
  by (auto simp: running_ok_def list_all_iff nth_append less_Suc_eq)

definition holds :: "uuid \<Rightarrow> uuid \<Rightarrow> string \<Rightarrow> db \<Rightarrow> bool" where
  "holds c i ccy s \<longleftrightarrow>
     list_ex (\<lambda>a. acc_id a = i \<and> acc_customer a = c \<and> acc_currency a = ccy) (accounts s)"

definition entry_placed :: "db \<Rightarrow> entry_row \<Rightarrow> bool" where
  "entry_placed s e \<longleftrightarrow> le_id e < next_id s \<and>
     list_ex (\<lambda>a. acc_id a = le_account e \<and> acc_currency a = le_currency e) (accounts s)"

definition ledger_ok :: "db \<Rightarrow> bool" where
  "ledger_ok s \<longleftrightarrow> running_ok (ledger_entries s) \<and>
     distinct (map le_id (ledger_entries s)) \<and>
     list_all (entry_placed s) (ledger_entries s) \<and>
     distinct (map acc_id (accounts s)) \<and>
     distinct (map (\<lambda>a. (acc_customer a, acc_currency a)) (accounts s)) \<and>
     list_all (\<lambda>a. acc_id a < next_id s) (accounts s)"

text \<open>The customer's balance in a currency: the abstract state of the ledger.\<close>

definition balance :: "uuid \<Rightarrow> string \<Rightarrow> db \<Rightarrow> int" where
  "balance c ccy s = (case find_account c ccy s of None \<Rightarrow> 0 | Some a \<Rightarrow> account_sum (acc_id a) s)"

lemma find_account_Some:
  "find_account c ccy s = Some a \<Longrightarrow> a \<in> set (accounts s) \<and> acc_customer a = c \<and> acc_currency a = ccy"
  by (auto simp: find_account_def dest: find_Some_set)

lemma holds_find_account:
  assumes "ledger_ok s" and "holds c i ccy s"
  shows "\<exists>a. find_account c ccy s = Some a \<and> acc_id a = i"
proof -
  from assms(2) obtain a where a: "a \<in> set (accounts s)" "acc_id a = i"
      "acc_customer a = c" "acc_currency a = ccy"
    by (auto simp: holds_def list_ex_iff)
  have "find (\<lambda>x. (acc_customer x, acc_currency x) = (acc_customer a, acc_currency a)) (accounts s) = Some a"
    using assms(1) a(1) by (intro find_distinct_key) (simp_all add: ledger_ok_def)
  with a show ?thesis by (auto simp: find_account_def)
qed

lemma balance_holds: "ledger_ok s \<Longrightarrow> holds c i ccy s \<Longrightarrow> balance c ccy s = account_sum i s"
  by (auto simp: balance_def dest!: holds_find_account)

lemma holds_unique:
  assumes "ledger_ok s" and "holds c i ccy s" and "holds c' i ccy' s"
  shows "c' = c \<and> ccy' = ccy"
proof -
  from assms(2,3) obtain a b where ab: "a \<in> set (accounts s)" "b \<in> set (accounts s)"
      "acc_id a = i" "acc_id b = i" "acc_customer a = c" "acc_currency a = ccy"
      "acc_customer b = c'" "acc_currency b = ccy'"
    by (auto simp: holds_def list_ex_iff)
  with assms(1) have "a = b" by (auto simp: ledger_ok_def distinct_map dest: inj_onD)
  with ab show ?thesis by simp
qed

lemma fresh_account_sum:
  assumes "ledger_ok s"
  shows "account_sum (next_id s) s = 0"
proof -
  have "le_account e \<noteq> next_id s" if "e \<in> set (ledger_entries s)" for e
    using assms that by (fastforce simp: ledger_ok_def list_all_iff list_ex_iff entry_placed_def)
  then show ?thesis by (simp add: account_sum_def entries_sum_def filter_empty_conv)
qed

text \<open>Opening an account keeps the invariant and every balance.\<close>

lemma get_or_create_ok:
  assumes ok: "ledger_ok s" and run: "get_or_create_account_by_code c ccy s = Inr (i, s')"
  shows "ledger_ok s'" and "holds c i ccy s'" and "balance d k s' = balance d k s"
    and "ledger_entries s' = ledger_entries s"
proof -
  have "ledger_ok s' \<and> holds c i ccy s' \<and> balance d k s' = balance d k s \<and>
      ledger_entries s' = ledger_entries s"
  proof (cases "find_account c ccy s")
    case (Some a)
    with run have "s' = s" "i = acc_id a" by (simp_all add: tx_simps)
    with find_account_Some [OF Some] ok show ?thesis by (auto simp: holds_def list_ex_iff)
  next
    case None
    with run have i: "i = next_id s"
      and s': "s' = s\<lparr>next_id := Suc (next_id s), accounts := accounts s @ [new_account c ccy s]\<rparr>"
      by (simp_all add: tx_simps)
    have le: "ledger_entries s' = ledger_entries s" by (simp add: s')
    have new: "\<forall>a\<in>set (accounts s). \<not> (acc_customer a = c \<and> acc_currency a = ccy)"
      using None by (auto simp: find_account_def find_None_iff)
    have "ledger_ok s'"
      using ok new unfolding s'
      by (auto simp: ledger_ok_def new_account_def list_all_iff list_ex_iff entry_placed_def
          less_Suc_eq)
    moreover have "holds c i ccy s'" by (simp add: s' i holds_def new_account_def)
    moreover have "balance d k s' = balance d k s"
    proof (cases "(d, k) = (c, ccy)")
      case True
      have "find_account c ccy s' = Some (new_account c ccy s)"
        using None by (simp add: s' find_account_def find_append new_account_def)
      with True None fresh_account_sum [OF ok] show ?thesis
        by (simp add: balance_def new_account_def s' account_sum_def)
    next
      case False
      then have "find_account d k s' = find_account d k s"
        by (auto simp: s' find_account_def find_append new_account_def split: option.split)
      then show ?thesis by (simp add: balance_def account_sum_def le split: option.split)
    qed
    ultimately show ?thesis by (simp add: s')
  qed
  then show "ledger_ok s'" "holds c i ccy s'" "balance d k s' = balance d k s"
    "ledger_entries s' = ledger_entries s" by auto
qed

lemma get_or_create_frame [frame_simps]:
  assumes "get_or_create_account_by_code c ccy s = Inr (i, s')"
  shows "transfers s' = transfers s" "transfer_history s' = transfer_history s"
    "audit_log s' = audit_log s" "ledger_entries s' = ledger_entries s"
    "quotes s' = quotes s" "recipients s' = recipients s" "collections s' = collections s"
    "inbound_payments s' = inbound_payments s" "settlement_trades s' = settlement_trades s"
    "settlement_events s' = settlement_events s" "customers s' = customers s"
    "settlement_cursor s' = settlement_cursor s" "virtual_accounts s' = virtual_accounts s"
    "next_id s \<le> next_id s'"
  using assms by (auto simp: tx_simps split: option.splits)

lemma append_entry_frame [frame_simps]:
  assumes "append_entry E a x ccy d src rv s = Inr (p, s')"
  shows "transfers s' = transfers s" "transfer_history s' = transfer_history s"
    "audit_log s' = audit_log s" "accounts s' = accounts s" "quotes s' = quotes s"
    "recipients s' = recipients s" "collections s' = collections s"
    "inbound_payments s' = inbound_payments s" "settlement_trades s' = settlement_trades s"
    "settlement_events s' = settlement_events s" "customers s' = customers s"
    "settlement_cursor s' = settlement_cursor s" "virtual_accounts s' = virtual_accounts s"
    "next_id s \<le> next_id s'"
  using assms by (auto simp: tx_simps)

text \<open>A posting to an account in its own currency keeps the invariant and moves one balance.\<close>

lemma append_entry_ok:
  assumes ok: "ledger_ok s" and h: "holds c i ccy s"
    and run: "append_entry E i x ccy d src rv s = Inr (p, s')"
  shows "ledger_ok s'"
    and "balance c' ccy' s' = balance c' ccy' s + (if c' = c \<and> ccy' = ccy then x else 0)"
    and "holds c'' j k s' \<longleftrightarrow> holds c'' j k s"
proof -
  from run have s': "s' = s\<lparr>next_id := Suc (next_id s),
      ledger_entries := ledger_entries s @ [new_entry E i x ccy d src rv s]\<rparr>"
    by (simp add: tx_simps)
  have acc: "accounts s' = accounts s" by (simp add: s')
  have placed: "entry_placed s' (new_entry E i x ccy d src rv s)"
    using h by (auto simp: entry_placed_def s' holds_def list_ex_iff)
  moreover have "entry_placed s' e" if "entry_placed s e" for e
    using that by (simp add: entry_placed_def s')
  moreover have "running_ok (ledger_entries s')"
    using ok by (simp add: s' running_ok_snoc ledger_ok_def account_sum_def)
  moreover have "distinct (map le_id (ledger_entries s'))"
    using ok by (auto simp: s' ledger_ok_def list_all_iff entry_placed_def)
  ultimately show "ledger_ok s'"
    using ok by (auto simp: ledger_ok_def acc list_all_iff s' less_Suc_eq)
  show "holds c'' j k s' \<longleftrightarrow> holds c'' j k s" by (simp add: holds_def acc)
  have sums: "account_sum b s' = account_sum b s + (if b = i then x else 0)" for b
    by (simp only: s' account_sum_append)
  have fa: "find_account c' ccy' s' = find_account c' ccy' s" by (simp add: find_account_def acc)
  show "balance c' ccy' s' = balance c' ccy' s + (if c' = c \<and> ccy' = ccy then x else 0)"
  proof (cases "find_account c' ccy' s")
    case None
    with holds_find_account [OF ok h] show ?thesis by (auto simp: balance_def fa)
  next
    case (Some a)
    then have h': "holds c' (acc_id a) ccy' s"
      by (auto simp: holds_def list_ex_iff dest!: find_account_Some)
    have "acc_id a = i \<longleftrightarrow> c' = c \<and> ccy' = ccy"
    proof
      assume "acc_id a = i"
      with h' have "holds c' i ccy' s" by simp
      with ok h show "c' = c \<and> ccy' = ccy" by (rule holds_unique)
    next
      assume "c' = c \<and> ccy' = ccy"
      with holds_find_account [OF ok h] Some show "acc_id a = i" by simp
    qed
    then show ?thesis
      using Some by (simp add: balance_def fa sums)
  qed
qed

lemma append_entry_append_only: "upholds append_only (append_entry E a x ccy d src rv)"
  by (auto simp: upholds_def tx_simps append_only_def)

lemma get_or_create_append_only:
  "upholds append_only (get_or_create_account_by_code c ccy)"
  "upholds append_only (get_or_create_account c ccy')"
  by (auto simp: upholds_def tx_simps append_only_def split: option.splits)

section \<open>The posting interface\<close>

text \<open>
  What the engine, the wallet and the collections ask of the ledger: a posting for a key (a
  customer and a currency) moves the balance of that key by its amount and leaves every other
  balance alone. Any sequence of postings then adds up.
\<close>

fun run_posts :: "('k \<Rightarrow> int \<Rightarrow> 's \<Rightarrow> 's option) \<Rightarrow> ('k \<times> int) list \<Rightarrow> 's \<Rightarrow> 's option" where
  "run_posts post [] s = Some s"
| "run_posts post ((k, x) # ps) s = Option.bind (post k x s) (run_posts post ps)"

locale ledger_store =
  fixes post :: "'k \<Rightarrow> int \<Rightarrow> 's \<Rightarrow> 's option"
    and bal :: "'k \<Rightarrow> 's \<Rightarrow> int"
    and inv :: "'s \<Rightarrow> bool"
  assumes post_bal: "inv s \<Longrightarrow> post k x s = Some s' \<Longrightarrow> bal j s' = bal j s + (if j = k then x else 0)"
    and post_inv: "inv s \<Longrightarrow> post k x s = Some s' \<Longrightarrow> inv s'"
begin

lemma run_posts_bal:
  "inv s \<Longrightarrow> run_posts post ps s = Some s' \<Longrightarrow>
   inv s' \<and> bal j s' = bal j s + sum_list (map snd (filter (\<lambda>p. fst p = j) ps))"
proof (induction ps arbitrary: s)
  case (Cons p ps)
  obtain k x where p: "p = (k, x)" by (cases p)
  with Cons.prems obtain t where t: "post k x s = Some t" "run_posts post ps t = Some s'"
    by (auto simp: bind_eq_Some_conv)
  have "inv s' \<and> bal j s' = bal j t + sum_list (map snd (filter (\<lambda>p. fst p = j) ps))"
    by (rule Cons.IH) (use Cons.prems(1) t post_inv in auto)
  with post_bal [OF Cons.prems(1) t(1)] p show ?case by auto
qed simp

lemma two_legs:
  assumes "inv s" and "post k x s = Some t" and "post j y t = Some u" and "j \<noteq> k"
  shows "bal k u = bal k s + x" and "bal j u = bal j s + y"
    and "i \<noteq> j \<Longrightarrow> i \<noteq> k \<Longrightarrow> bal i u = bal i s"
  using assms post_bal [OF assms(1,2)] post_bal [OF post_inv [OF assms(1,2)] assms(3)] by auto

end

text \<open>Open the account if needed, then append the entry: the code's way of posting.\<close>

definition post_for ::
  "env \<Rightarrow> (uuid \<times> int \<Rightarrow> string) \<Rightarrow> entry_source \<Rightarrow> uuid option \<Rightarrow> uuid \<times> string \<Rightarrow> int \<Rightarrow> db \<Rightarrow> db option" where
  "post_for E describe src rv k x s =
     (case bind_tx (get_or_create_account_by_code (fst k) (snd k))
         (\<lambda>i. append_entry E i x (snd k) (describe (i, x)) src rv) s of
        Inl e \<Rightarrow> None
      | Inr (p, s') \<Rightarrow> Some s')"

lemma post_for_Some:
  "post_for E f src rv (c, ccy) x s = Some s' \<longleftrightarrow>
     (\<exists>i t p. get_or_create_account_by_code c ccy s = Inr (i, t) \<and>
        append_entry E i x ccy (f (i, x)) src rv t = Inr (p, s'))"
  by (auto simp: post_for_def bind_tx_def split: sum.splits prod.splits)

interpretation ledger: ledger_store "post_for E f src rv" "\<lambda>k. balance (fst k) (snd k)" ledger_ok
  for E f src rv
proof
  fix s s' :: db and k j :: "uuid \<times> string" and x
  assume ok: "ledger_ok s" and run: "post_for E f src rv k x s = Some s'"
  obtain c ccy where k: "k = (c, ccy)" by (cases k)
  from run obtain i t p where
    g: "get_or_create_account_by_code c ccy s = Inr (i, t)" and
    a: "append_entry E i x ccy (f (i, x)) src rv t = Inr (p, s')"
    by (auto simp: k post_for_Some)
  note t = get_or_create_ok [OF ok g]
  from append_entry_ok [OF t(1,2) a] show "ledger_ok s'" by blast
  from append_entry_ok(2) [OF t(1,2) a, of "fst j" "snd j"] t(3) [of "fst j" "snd j"]
  show "balance (fst j) (snd j) s' = balance (fst j) (snd j) s + (if j = k then x else 0)"
    by (auto simp: k prod_eq_iff)
qed

lemma ledger_ok_cong:
  "ledger_entries s' = ledger_entries s \<Longrightarrow> accounts s' = accounts s \<Longrightarrow> next_id s \<le> next_id s' \<Longrightarrow>
   ledger_ok s \<Longrightarrow> ledger_ok s'"
  by (fastforce simp: ledger_ok_def entry_placed_def list_all_iff)

lemma balance_cong:
  "ledger_entries s' = ledger_entries s \<Longrightarrow> accounts s' = accounts s \<Longrightarrow> balance c k s' = balance c k s"
  by (simp add: balance_def find_account_def account_sum_def split: option.split)

lemma holds_cong: "accounts s' = accounts s \<Longrightarrow> holds c i k s' = holds c i k s"
  by (simp add: holds_def)

end
