(* ===== verification/State_Machine.thy ===== *)
theory State_Machine
  imports Contract
begin

text \<open>
  \<open>src/domain/transfers/state_machine.rs\<close>: the transition table of a transfer and the check every
  status change goes through; with the interface \<open>lifecycle\<close>, a table whose transitions climb
  a rank, which bounds every history the table allows.
\<close>

section \<open>Histories over a transition table\<close>

fun path_ok :: "('s \<Rightarrow> 's list) \<Rightarrow> 's list \<Rightarrow> bool" where
  "path_ok allw [] = True"
| "path_ok allw [x] = True"
| "path_ok allw (x # y # xs) = (y \<in> set (allw x) \<and> path_ok allw (y # xs))"

lemma path_ok_snoc:
  "xs \<noteq> [] \<Longrightarrow> path_ok allw (xs @ [y]) \<longleftrightarrow> path_ok allw xs \<and> y \<in> set (allw (last xs))"
  by (induction allw xs rule: path_ok.induct) auto

locale lifecycle =
  fixes allw :: "'s \<Rightarrow> 's list" and rank :: "'s \<Rightarrow> nat" and top :: nat
  assumes climbs: "y \<in> set (allw x) \<Longrightarrow> rank x < rank y"
    and bounded: "rank x \<le> top"
begin

lemma path_rank: "path_ok allw (x # xs) \<Longrightarrow> y \<in> set xs \<Longrightarrow> rank x < rank y"
proof (induction xs arbitrary: x)
  case (Cons z zs)
  then have "rank x < rank z" by (auto intro: climbs)
  moreover from Cons have "y = z \<or> rank z < rank y" by auto
  ultimately show ?case by auto
qed simp

lemma path_tail: "path_ok allw (x # xs) \<Longrightarrow> path_ok allw xs"
  by (cases xs) auto

lemma path_distinct: "path_ok allw xs \<Longrightarrow> distinct xs"
proof (induction xs)
  case (Cons x xs)
  then have "x \<notin> set xs" using path_rank [of x xs x] by auto
  with Cons show ?case by (auto dest: path_tail)
qed simp

lemma path_length_rank: "path_ok allw (x # xs) \<Longrightarrow> rank x + length xs \<le> top"
proof (induction xs arbitrary: x)
  case Nil
  show ?case using bounded by simp
next
  case (Cons y ys)
  then have "rank x < rank y" and "rank y + length ys \<le> top" by (auto intro: climbs)
  then show ?case by simp
qed

lemma path_length: "path_ok allw xs \<Longrightarrow> length xs \<le> Suc top"
  using path_length_rank by (cases xs) fastforce+

end

section \<open>The transfer table\<close>

fun allowed :: "transfer_status \<Rightarrow> transfer_status list" where
  "allowed Created = [Quoted, Expired]"
| "allowed Quoted = [Screened, Expired]"
| "allowed Screened = [AwaitingFunds, Rejected, Expired]"
| "allowed AwaitingFunds = [Funded, Rejected, Expired]"
| "allowed Funded = [Settling, Rejected]"
| "allowed Settling = [Settled, Rejected]"
| "allowed Settled = [PayingOut, Reversing]"
| "allowed PayingOut = [Completed, Reversing]"
| "allowed Completed = [Reversing]"
| "allowed Rejected = []"
| "allowed Expired = []"
| "allowed Reversing = [Reversed]"
| "allowed Reversed = []"

fun forward_step :: "transfer_status \<Rightarrow> transfer_status option" where
  "forward_step Created = Some Quoted"
| "forward_step Quoted = Some Screened"
| "forward_step Screened = Some AwaitingFunds"
| "forward_step AwaitingFunds = Some Funded"
| "forward_step Funded = Some Settling"
| "forward_step Settling = Some Settled"
| "forward_step Settled = Some PayingOut"
| "forward_step PayingOut = Some Completed"
| "forward_step _ = None"

definition assert_transition :: "transfer_status \<Rightarrow> transfer_status \<Rightarrow> unit api_result" where
  "assert_transition from' to =
     (if to \<in> set (allowed from') then Inr ()
      else Inl (Err (conflict (''Transfer cannot move from '' @ status_str from' @ '' to '' @
             status_str to @ ''.''))))"

fun status_rank :: "transfer_status \<Rightarrow> nat" where
  "status_rank Created = 0"
| "status_rank Quoted = 1"
| "status_rank Screened = 2"
| "status_rank AwaitingFunds = 3"
| "status_rank Funded = 4"
| "status_rank Settling = 5"
| "status_rank Settled = 6"
| "status_rank PayingOut = 7"
| "status_rank Completed = 8"
| "status_rank Rejected = 9"
| "status_rank Expired = 9"
| "status_rank Reversing = 9"
| "status_rank Reversed = 10"

interpretation transfer: lifecycle allowed status_rank 10
proof
  show "status_rank x < status_rank y" if "y \<in> set (allowed x)" for x y
    using that by (cases x) auto
  show "status_rank x \<le> 10" for x by (cases x) auto
qed

lemma assert_transition_Inr: "assert_transition a b = Inr u \<longleftrightarrow> b \<in> set (allowed a)"
  by (simp add: assert_transition_def)

lemma forward_step_allowed: "forward_step a = Some b \<Longrightarrow> b \<in> set (allowed a)"
  by (cases a) auto

lemma forward_step_rank: "forward_step a = Some b \<Longrightarrow> status_rank b = Suc (status_rank a)"
  by (cases a) auto

lemma allowed_empty_iff: "allowed s = [] \<longleftrightarrow> s \<in> {Rejected, Expired, Reversed}"
  by (cases s) auto

text \<open>The happy path of the table, as the histories of the tests list it.\<close>

lemma happy_path: "path_ok allowed [Created, Quoted, Screened, AwaitingFunds, Funded, Settling,
    Settled, PayingOut, Completed]"
  by simp

section \<open>Properties\<close>

text \<open>
  C7: every history the transition table allows visits each status at most once and makes at
  most ten transitions, so no transfer can cycle.
\<close>

theorem transfer_history_bounded:
  assumes "path_ok allowed h"
  shows "distinct h \<and> length h \<le> 11"
  using transfer.path_distinct [OF assms] transfer.path_length [OF assms] by simp

theorem transfer_history_bounded_witness:
  "distinct [Settled, Reversing, Reversed] \<and> length [Settled, Reversing, Reversed] \<le> 11"
  by (rule transfer_history_bounded) simp

end
