(* ===== verification/Transfer_Repo.thy ===== *)
theory Transfer_Repo
  imports Ledger State_Machine
begin

text \<open>
  \<open>src/domain/transfers/repo.rs\<close>: the reads and writes of the \<open>transfers\<close> and
  \<open>transfer_state_history\<close> tables, and the reconstruction of a transfer's state from its status
  and the payload of its latest history row.
\<close>

section \<open>History rows\<close>

definition history_of :: "uuid \<Rightarrow> db \<Rightarrow> history_row list" where
  "history_of t s = filter (\<lambda>h. th_transfer h = t) (transfer_history s)"

text \<open>\<open>order by position desc limit 1\<close>.\<close>

definition latest_history :: "uuid \<Rightarrow> db \<Rightarrow> history_row option" where
  "latest_history t s =
     (let hs = sort_key th_position (history_of t s) in if hs = [] then None else Some (last hs))"

definition next_position :: "uuid \<Rightarrow> db \<Rightarrow> int" where
  "next_position t s = fold max (map th_position (history_of t s)) (- 1) + 1"

definition append_history ::
  "env \<Rightarrow> uuid \<Rightarrow> transfer_status \<Rightarrow> json option \<Rightarrow> string option \<Rightarrow> unit tx" where
  "append_history E t st payload note = modify (\<lambda>s. s\<lparr>transfer_history := transfer_history s @
     [\<lparr>th_transfer = t, th_position = next_position t s, th_status = status_str st,
       th_entered_at = now E, th_note = note, th_payload = payload\<rparr>]\<rparr>)"

definition set_status :: "env \<Rightarrow> uuid \<Rightarrow> transfer_status \<Rightarrow> unit tx" where
  "set_status E t st = modify (\<lambda>s. s\<lparr>transfers := update_where (\<lambda>r. tr_id r = t)
     (\<lambda>r. r\<lparr>tr_status := status_str st, tr_updated_at := now E\<rparr>) (transfers s)\<rparr>)"

text \<open>
  The vault key of a transfer: the hash of its id's canonical text. The column is unique, so a
  key another transfer holds is a database error.
\<close>

definition set_settlement_ref :: "env \<Rightarrow> uuid \<Rightarrow> unit tx" where
  "set_settlement_ref E t =
     (let key = transfer_ref (keccak256 E) (uuid_str E t)
      in bind_tx (gets (\<lambda>s. list_ex (\<lambda>r. tr_id r \<noteq> t \<and> tr_settlement_ref r = Some key) (transfers s)))
        (\<lambda>taken. if taken then throw from_sqlx_error
          else modify (\<lambda>s. s\<lparr>transfers := update_where (\<lambda>r. tr_id r = t)
            (\<lambda>r. r\<lparr>tr_settlement_ref := Some key\<rparr>) (transfers s)\<rparr>)))"

section \<open>Inserting a transfer\<close>

record insert_transfer =
  it_reference :: string
  it_customer :: uuid
  it_key :: string
  it_recipient :: uuid
  it_send_currency :: currency_code
  it_receive_currency :: currency_code
  it_send_amount :: int
  it_receive_amount :: int
  it_trade_description :: "string option"
  it_quote :: firm_quote
  it_initial_status :: transfer_status

text \<open>\<open>None\<close> on a violation of one of the two unique keys: \<open>reference\<close>, or customer and key.\<close>

definition insert_transfer_row :: "env \<Rightarrow> insert_transfer \<Rightarrow> uuid option tx" where
  "insert_transfer_row E i =
     bind_tx (gets (\<lambda>s. list_ex (\<lambda>r. tr_reference r = it_reference i \<or>
         (tr_customer r = it_customer i \<and> tr_key r = it_key i)) (transfers s))) (\<lambda>clash.
     if clash then return_tx None
     else bind_tx fresh_id (\<lambda>t.
       bind_tx (modify (\<lambda>s. s\<lparr>transfers := transfers s @
         [\<lparr>tr_id = t, tr_reference = it_reference i, tr_customer = it_customer i,
           tr_key = it_key i, tr_recipient = it_recipient i,
           tr_send_currency = currency_str (it_send_currency i),
           tr_receive_currency = currency_str (it_receive_currency i),
           tr_send_amount = it_send_amount i, tr_receive_amount = it_receive_amount i,
           tr_trade_description = it_trade_description i, tr_quote = it_quote i,
           tr_status = status_str (it_initial_status i), tr_created_at = now E,
           tr_updated_at = now E, tr_settlement_ref = None\<rparr>]\<rparr>)) (\<lambda>_.
         return_tx (Some t))))"

section \<open>Reads\<close>

datatype transfer_state =
    StCreated instant
  | StQuoted instant
  | StScreened instant bool "string option" "string option"
  | StAwaitingFunds instant string
  | StFunded instant
  | StSettling instant
  | StSettled instant
  | StPayingOut instant
  | StCompleted instant string
  | StRejected instant failure_category string
  | StExpired instant
  | StReversing instant string
  | StReversed instant string string

definition str_or_empty :: "json \<Rightarrow> string \<Rightarrow> string" where
  "str_or_empty p k = (case str_field p k of None \<Rightarrow> [] | Some v \<Rightarrow> v)"

definition bool_or_false :: "json \<Rightarrow> string \<Rightarrow> bool" where
  "bool_or_false p k = (case Option.bind (json_get p k) as_bool of None \<Rightarrow> False | Some b \<Rightarrow> b)"

fun build_state :: "transfer_status \<Rightarrow> instant \<Rightarrow> json option \<Rightarrow> transfer_state" where
  "build_state st entered payload =
     (let p = (case payload of None \<Rightarrow> JObj [] | Some j \<Rightarrow> j) in
      case st of
        Created \<Rightarrow> StCreated entered
      | Quoted \<Rightarrow> StQuoted entered
      | Screened \<Rightarrow> StScreened entered (bool_or_false p ''hold'') (str_field p ''holdReason'')
          (str_field p ''expectedResolutionBy'')
      | AwaitingFunds \<Rightarrow> StAwaitingFunds entered (str_or_empty p ''fundingReference'')
      | Funded \<Rightarrow> StFunded entered
      | Settling \<Rightarrow> StSettling entered
      | Settled \<Rightarrow> StSettled entered
      | PayingOut \<Rightarrow> StPayingOut entered
      | Completed \<Rightarrow> StCompleted entered (str_or_empty p ''payoutReference'')
      | Rejected \<Rightarrow> StRejected entered
          (case Option.bind (str_field p ''failureCategory'') parse_failure_category of
             None \<Rightarrow> FcPartnerFailure | Some c \<Rightarrow> c)
          (case str_field p ''reasonCode'' of None \<Rightarrow> ''UNKNOWN'' | Some v \<Rightarrow> v)
      | Expired \<Rightarrow> StExpired entered
      | Reversing \<Rightarrow> StReversing entered (str_or_empty p ''reason'')
      | Reversed \<Rightarrow> StReversed entered (str_or_empty p ''reason'') (str_or_empty p ''reversalLedgerEntryId''))"

declare build_state.simps [simp del]

text \<open>The contract's transfer; ids and instants are left unprinted.\<close>

record transfer =
  tf_id :: uuid
  tf_reference :: string
  tf_customer :: uuid
  tf_key :: string
  tf_recipient :: uuid
  tf_send_amount :: money
  tf_receive_amount :: money
  tf_trade_description :: "string option"
  tf_quote :: firm_quote
  tf_state :: transfer_state
  tf_created_at :: instant
  tf_updated_at :: instant

definition into_contract :: "db \<Rightarrow> transfer_row \<Rightarrow> transfer api_result" where
  "into_contract s r =
     (case parse_currency (tr_send_currency r) of Inl e \<Rightarrow> Inl e | Inr send \<Rightarrow>
      case parse_currency (tr_receive_currency r) of Inl e \<Rightarrow> Inl e | Inr receive \<Rightarrow>
      case parse_status (tr_status r) of Inl e \<Rightarrow> Inl e | Inr st \<Rightarrow>
      let h = latest_history (tr_id r) s;
          entered = (case h of None \<Rightarrow> tr_created_at r | Some row \<Rightarrow> th_entered_at row)
      in Inr \<lparr>tf_id = tr_id r, tf_reference = tr_reference r, tf_customer = tr_customer r,
        tf_key = tr_key r, tf_recipient = tr_recipient r,
        tf_send_amount = money_new (tr_send_amount r) send,
        tf_receive_amount = money_new (tr_receive_amount r) receive,
        tf_trade_description = tr_trade_description r, tf_quote = tr_quote r,
        tf_state = build_state st entered (Option.bind h th_payload),
        tf_created_at = tr_created_at r, tf_updated_at = tr_updated_at r\<rparr>)"

definition read_optional :: "(db \<Rightarrow> transfer_row option) \<Rightarrow> transfer option tx" where
  "read_optional q =
     bind_tx (gets (\<lambda>s. map_option (into_contract s) (q s))) (\<lambda>r.
       case r of None \<Rightarrow> return_tx None
       | Some x \<Rightarrow> bind_tx (lift_result x) (\<lambda>t. return_tx (Some t)))"

definition find_by_id_uuid :: "uuid \<Rightarrow> transfer option tx" where
  "find_by_id_uuid t = read_optional (\<lambda>s. find (\<lambda>r. tr_id r = t) (transfers s))"

text \<open>\<open>Uuid::parse_str(id).unwrap()\<close>, behind the \<open>is_uuid\<close> guard.\<close>

definition parse_id :: "env \<Rightarrow> string \<Rightarrow> uuid tx" where
  "parse_id E i = (case parse_uuid E i of None \<Rightarrow> (\<lambda>s. Inl Panic) | Some u \<Rightarrow> return_tx u)"

definition find_by_id :: "env \<Rightarrow> string \<Rightarrow> transfer option tx" where
  "find_by_id E i =
     (if \<not> is_uuid i then return_tx None else bind_tx (parse_id E i) find_by_id_uuid)"

definition find_by_idempotency_key :: "uuid \<Rightarrow> string \<Rightarrow> transfer option tx" where
  "find_by_idempotency_key c key =
     read_optional (\<lambda>s. find (\<lambda>r. tr_customer r = c \<and> tr_key r = key) (transfers s))"

text \<open>Newest first; \<open>sort_key\<close> is stable, so rows created at the same instant keep their order.\<close>

definition list_by_customer :: "uuid \<Rightarrow> transfer_status option \<Rightarrow> transfer list tx" where
  "list_by_customer c st =
     bind_tx (gets (\<lambda>s. map (into_contract s) (sort_key (\<lambda>r. - tr_created_at r)
       (filter (\<lambda>r. tr_customer r = c \<and> (case st of None \<Rightarrow> True | Some x \<Rightarrow> tr_status r = status_str x))
          (transfers s))))) (map_tx lift_result)"

record owner_and_status =
  os_customer :: uuid
  os_status :: transfer_status

definition owner_and_status_of :: "uuid \<Rightarrow> owner_and_status option tx" where
  "owner_and_status_of t =
     bind_tx (gets (\<lambda>s. find (\<lambda>r. tr_id r = t) (transfers s))) (\<lambda>row.
       case row of None \<Rightarrow> return_tx None
       | Some r \<Rightarrow> bind_tx (lift_result (parse_status (tr_status r))) (\<lambda>st.
           return_tx (Some \<lparr>os_customer = tr_customer r, os_status = st\<rparr>)))"

definition get_owner_and_status :: "env \<Rightarrow> string \<Rightarrow> owner_and_status option tx" where
  "get_owner_and_status E i =
     (if \<not> is_uuid i then return_tx None else bind_tx (parse_id E i) owner_and_status_of)"

record history_entry =
  he_status :: transfer_status
  he_entered_at :: instant
  he_note :: "string option"

definition get_history :: "uuid \<Rightarrow> history_entry list tx" where
  "get_history t =
     bind_tx (gets (\<lambda>s. sort_key th_position (history_of t s)))
       (map_tx (\<lambda>h. bind_tx (lift_result (parse_status (th_status h))) (\<lambda>st.
          return_tx \<lparr>he_status = st, he_entered_at = th_entered_at h, he_note = th_note h\<rparr>)))"

section \<open>Frames\<close>

lemma append_history_tx [tx_simps]:
  "append_history E t st payload note s \<noteq> Inl f"
  by (simp add: append_history_def tx_simps)

lemma set_status_tx [tx_simps]:
  "set_status E t st s \<noteq> Inl f"
  by (simp add: set_status_def tx_simps)

lemma append_history_frame [frame_simps]:
  assumes "append_history E t st payload note s = Inr (u, s')"
  shows "transfers s' = transfers s" "accounts s' = accounts s" "audit_log s' = audit_log s"
    "ledger_entries s' = ledger_entries s" "quotes s' = quotes s" "next_id s' = next_id s"
    "recipients s' = recipients s" "settlement_events s' = settlement_events s"
    "settlement_trades s' = settlement_trades s" "inbound_payments s' = inbound_payments s"
    "collections s' = collections s" "customers s' = customers s"
  using assms by (simp_all add: append_history_def tx_simps)

lemma set_status_frame [frame_simps]:
  assumes "set_status E t st s = Inr (u, s')"
  shows "transfer_history s' = transfer_history s" "accounts s' = accounts s"
    "audit_log s' = audit_log s" "ledger_entries s' = ledger_entries s" "quotes s' = quotes s"
    "next_id s' = next_id s" "recipients s' = recipients s"
    "settlement_events s' = settlement_events s" "settlement_trades s' = settlement_trades s"
    "inbound_payments s' = inbound_payments s" "collections s' = collections s"
    "customers s' = customers s"
  using assms by (simp_all add: set_status_def tx_simps)

lemma history_writes_append_only:
  "upholds append_only (append_history E t st payload note)"
  "upholds append_only (set_status E t st)"
  "upholds append_only (set_settlement_ref E t)"
  by (auto simp: upholds_def append_only_def append_history_def set_status_def
      set_settlement_ref_def Let_def tx_simps split: if_splits)

lemma insert_transfer_row_append_only: "upholds append_only (insert_transfer_row E i)"
  by (auto simp: upholds_def append_only_def insert_transfer_row_def tx_simps split: if_splits)

text \<open>Reads leave the state alone.\<close>

lemma map_tx_reads:
  assumes "\<And>x s y s'. f x s = Inr (y, s') \<Longrightarrow> s' = s"
  shows "map_tx f xs s = Inr (ys, s') \<Longrightarrow> s' = s"
  by (induction xs arbitrary: s ys) (auto simp: tx_simps dest: assms)

lemma read_optional_state: "read_optional q s = Inr (r, s') \<Longrightarrow> s' = s"
  by (auto simp: read_optional_def tx_simps split: option.splits)

lemma read_optional_None: "read_optional q s = Inr (None, s') \<longleftrightarrow> q s = None \<and> s' = s"
  by (auto simp: read_optional_def tx_simps split: option.splits)

lemma read_optional_Some:
  "read_optional q s = Inr (Some t, s') \<longleftrightarrow>
     (\<exists>r. q s = Some r \<and> into_contract s r = Inr t \<and> s' = s)"
  by (auto simp: read_optional_def tx_simps split: option.splits)

lemma owner_and_status_of_tx [tx_simps]:
  "owner_and_status_of t s = Inr (x, s') \<longleftrightarrow> s' = s \<and>
     (case find (\<lambda>r. tr_id r = t) (transfers s) of
        None \<Rightarrow> x = None
      | Some r \<Rightarrow> \<exists>st. tr_status r = status_str st \<and>
          x = Some \<lparr>os_customer = tr_customer r, os_status = st\<rparr>)"
  by (auto simp: owner_and_status_of_def tx_simps status.dec_Inr_iff split: option.splits)

end
