(* ===== verification/Screening.thy ===== *)
theory Screening
  imports Contract
begin

text \<open>
  \<open>src/domain/screening.rs\<close>: the compliance screen of a transfer, by recipient country and by
  send amount.
\<close>

definition watchlisted_countries :: "string list" where
  "watchlisted_countries = [''IR'', ''KP'', ''SY'', ''CU'', ''RU'']"

record screening_input =
  si_recipient_country :: string
  si_send_amount_minor :: int
  si_send_currency :: currency_code

record screening_outcome =
  so_hold :: bool
  so_hold_reason :: "string option"

definition screen :: "screening_input \<Rightarrow> int \<Rightarrow> screening_outcome" where
  "screen i amount_threshold_minor =
     (let country = to_ascii_uppercase (trim (si_recipient_country i))
      in if country \<in> set watchlisted_countries
         then \<lparr>so_hold = True, so_hold_reason = Some (''Recipient country '' @ country @
                 '' is on the sanctioned-country watchlist.'')\<rparr>
         else if amount_threshold_minor \<le> si_send_amount_minor i
         then \<lparr>so_hold = True, so_hold_reason = Some (''Send amount '' @
                 int_to_string (si_send_amount_minor i) @ '' '' @ currency_str (si_send_currency i) @
                 '' is at or above the compliance review threshold.'')\<rparr>
         else \<lparr>so_hold = False, so_hold_reason = None\<rparr>)"

lemma screen_hold_iff:
  "so_hold (screen i thr) \<longleftrightarrow>
     to_ascii_uppercase (trim (si_recipient_country i)) \<in> set watchlisted_countries \<or>
     thr \<le> si_send_amount_minor i"
  by (simp add: screen_def Let_def)

lemma screen_reason_iff: "so_hold_reason (screen i thr) = None \<longleftrightarrow> \<not> so_hold (screen i thr)"
  by (simp add: screen_def Let_def)

end
