(* ===== verification/Engine.thy ===== *)
theory Engine
  imports Transfer_Repo Screening
begin

text \<open>
  \<open>src/domain/transfers/engine.rs\<close>: the transfer state machine. Each operation is one
  transaction that writes the history row, the status, the ledger postings and the audit row of
  every transition it makes.
\<close>

section \<open>The locked transfer\<close>

record locked_transfer =
  lt_id :: uuid
  lt_reference :: string
  lt_customer :: uuid
  lt_recipient :: uuid
  lt_recipient_country :: string
  lt_send_currency :: string
  lt_receive_currency :: string
  lt_send_amount :: int
  lt_receive_amount :: int
  lt_status :: string
  lt_latest_payload :: "json option"

definition lock_row :: "uuid \<Rightarrow> db \<Rightarrow> locked_transfer option" where
  "lock_row t s =
     (case find (\<lambda>r. tr_id r = t) (transfers s) of None \<Rightarrow> None | Some r \<Rightarrow>
      case find (\<lambda>c. rc_id c = tr_recipient r) (recipients s) of None \<Rightarrow> None | Some c \<Rightarrow>
        Some \<lparr>lt_id = tr_id r, lt_reference = tr_reference r, lt_customer = tr_customer r,
          lt_recipient = tr_recipient r, lt_recipient_country = rc_country c,
          lt_send_currency = tr_send_currency r, lt_receive_currency = tr_receive_currency r,
          lt_send_amount = tr_send_amount r, lt_receive_amount = tr_receive_amount r,
          lt_status = tr_status r,
          lt_latest_payload = Option.bind (latest_history (tr_id r) s) th_payload\<rparr>)"

definition lock_transfer :: "uuid \<Rightarrow> locked_transfer tx" where
  "lock_transfer t =
     bind_tx (gets (lock_row t)) (ok_or (not_found ''Transfer not found.''))"

definition is_held :: "locked_transfer \<Rightarrow> bool" where
  "is_held t =
     (case Option.bind (Option.bind (lt_latest_payload t) (\<lambda>p. json_get p ''hold'')) as_bool of
        None \<Rightarrow> False
      | Some b \<Rightarrow> b)"

section \<open>One transition\<close>

definition hours_48 :: int where
  "hours_48 = 48 * 60 * 60 * 1000"

definition payload_for ::
  "env \<Rightarrow> locked_transfer \<Rightarrow> transfer_status \<Rightarrow> int \<Rightarrow> json option api_result" where
  "payload_for E t to amount_threshold_minor =
     (case to of
        Screened \<Rightarrow>
          (case parse_currency (lt_send_currency t) of
             Inl e \<Rightarrow> Inl e
           | Inr ccy \<Rightarrow>
               let outcome = screen \<lparr>si_recipient_country = lt_recipient_country t,
                     si_send_amount_minor = lt_send_amount t, si_send_currency = ccy\<rparr>
                     amount_threshold_minor;
                   payload = JObj [(''hold'', JBool (so_hold outcome))]
               in Inr (Some (if so_hold outcome
                  then json_insert ''expectedResolutionBy'' (JStr (iso E (now E + hours_48)))
                         (json_insert ''holdReason'' (json_opt_str (so_hold_reason outcome)) payload)
                  else payload)))
      | AwaitingFunds \<Rightarrow> Inr (Some (JObj [(''fundingReference'', JStr (new_reference E ''FR''))]))
      | Completed \<Rightarrow> Inr (Some (JObj [(''payoutReference'', JStr (new_reference E ''PO''))]))
      | _ \<Rightarrow> Inr None)"

text \<open>The UTF-8 bytes of the dash in the descriptions.\<close>

definition em_dash :: string where
  "em_dash = [CHR 0xE2, CHR 0x80, CHR 0x94]"

definition describe :: "locked_transfer \<Rightarrow> string \<Rightarrow> string" where
  "describe t what = ''Transfer '' @ lt_reference t @ '' '' @ em_dash @ '' '' @ what"

definition neg64 :: "int \<Rightarrow> int" where
  "neg64 x = wrap64 (- x)"

definition post_one ::
  "env \<Rightarrow> locked_transfer \<Rightarrow> currency_code \<Rightarrow> int \<Rightarrow> string \<Rightarrow> uuid option \<Rightarrow> uuid tx" where
  "post_one E t ccy amount what rv =
     bind_tx (get_or_create_account (lt_customer t) ccy) (\<lambda>acct.
     bind_tx (post_ledger_entry E \<lparr>lp_account = acct, lp_transfer = lt_id t, lp_amount = amount,
         lp_currency = ccy, lp_description = describe t what, lp_reversal_of = rv\<rparr>) (\<lambda>p.
       return_tx (fst p)))"

definition beneficiary_name :: "uuid \<Rightarrow> db \<Rightarrow> string" where
  "beneficiary_name rc s =
     (case find (\<lambda>c. rc_id c = rc) (recipients s) of None \<Rightarrow> ''beneficiary'' | Some c \<Rightarrow> rc_account_name c)"

definition post_ledger_for ::
  "env \<Rightarrow> locked_transfer \<Rightarrow> transfer_status \<Rightarrow> transfer_status \<Rightarrow> unit tx" where
  "post_ledger_for E t from' to =
     bind_tx (lift_result (parse_currency (lt_send_currency t))) (\<lambda>send_ccy.
     bind_tx (lift_result (parse_currency (lt_receive_currency t))) (\<lambda>recv_ccy.
       if to = Funded then
         bind_tx (post_one E t send_ccy (neg64 (lt_send_amount t)) ''funded'' None) (\<lambda>_. return_tx ())
       else if to = Settled then
         bind_tx (post_one E t recv_ccy (lt_receive_amount t) ''converted'' None) (\<lambda>_. return_tx ())
       else if to = Completed then
         bind_tx (gets (beneficiary_name (lt_recipient t))) (\<lambda>b.
         bind_tx (post_one E t recv_ccy (neg64 (lt_receive_amount t)) (''paid to '' @ b) None) (\<lambda>_.
           return_tx ()))
       else if to = Reversing \<and> (from' = Settled \<or> from' = PayingOut) then
         bind_tx (post_one E t recv_ccy (neg64 (lt_receive_amount t)) ''conversion reversed'' None)
           (\<lambda>_. return_tx ())
       else return_tx ()))"

definition customer_role :: "uuid option \<Rightarrow> string option" where
  "customer_role actor = map_option (\<lambda>_. ''customer'') actor"

fun merge_fields :: "json \<Rightarrow> (string \<times> json) list \<Rightarrow> json" where
  "merge_fields j [] = j"
| "merge_fields j ((k, v) # fs) = merge_fields (json_insert k v j) fs"

definition status_json :: "transfer_status \<Rightarrow> json" where
  "status_json st = JObj [(''status'', JStr (status_str st))]"

definition after_state :: "transfer_status \<Rightarrow> json option \<Rightarrow> json" where
  "after_state to payload =
     (case payload of Some (JObj fs) \<Rightarrow> merge_fields (status_json to) fs | _ \<Rightarrow> status_json to)"

definition apply_transition ::
  "env \<Rightarrow> locked_transfer \<Rightarrow> uuid option \<Rightarrow> transfer_status \<Rightarrow> transfer_status \<Rightarrow> json option \<Rightarrow> unit tx" where
  "apply_transition E t actor from' to payload =
     bind_tx (lift_result (assert_transition from' to)) (\<lambda>_.
     bind_tx (append_history E (lt_id t) to payload None) (\<lambda>_.
     bind_tx (set_status E (lt_id t) to) (\<lambda>_.
     bind_tx (post_ledger_for E t from' to) (\<lambda>_.
       write_audit E \<lparr>ae_actor = actor, ae_role = customer_role actor,
         ae_action = ''transfer.state_change'', ae_entity_type = ''transfer'',
         ae_entity = uuid_str E (lt_id t), ae_before = Some (status_json from'),
         ae_after = Some (after_state to payload)\<rparr>))))"

section \<open>Advancing\<close>

text \<open>The guard on \<open>AWAITING_FUNDS\<close>: can the customer pay?\<close>

definition funds_short :: "locked_transfer \<Rightarrow> transfer_status \<Rightarrow> bool tx" where
  "funds_short t from' =
     (if from' = AwaitingFunds
      then bind_tx (lift_result (parse_currency (lt_send_currency t))) (\<lambda>send_ccy.
           bind_tx (get_or_create_account (lt_customer t) send_ccy) (\<lambda>acct.
           bind_tx (account_balance_minor acct) (\<lambda>bal. return_tx (bal < lt_send_amount t))))
      else return_tx False)"

definition insufficient_funds_payload :: json where
  "insufficient_funds_payload =
     JObj [(''failureCategory'', JStr ''validation''), (''reasonCode'', JStr ''INSUFFICIENT_FUNDS'')]"

definition advance_once :: "env \<Rightarrow> config \<Rightarrow> uuid \<Rightarrow> uuid option \<Rightarrow> transfer_status io" where
  "advance_once E cfg tid actor = transaction (
     bind_tx (lock_transfer tid) (\<lambda>t.
     bind_tx (lift_result (parse_status (lt_status t))) (\<lambda>from'.
     bind_tx (ensure (\<not> (from' = Screened \<and> is_held t))
       (compliance_hold ''This transfer is on hold pending compliance review.'')) (\<lambda>_.
       case (if from' = Settling \<and> settlement_onchain cfg then None else forward_step from') of
         None \<Rightarrow> return_tx from'
       | Some to \<Rightarrow>
           bind_tx (funds_short t from') (\<lambda>short.
           if short then
             bind_tx (apply_transition E t actor from' Rejected (Some insufficient_funds_payload)) (\<lambda>_.
               return_tx Rejected)
           else
             bind_tx (lift_result (payload_for E t to (compliance_amount_threshold_minor cfg))) (\<lambda>payload.
             bind_tx (apply_transition E t actor from' to payload) (\<lambda>_.
               return_tx to)))))))"

text \<open>The id is printed, recognised as a UUID and parsed back before the lookup.\<close>

definition status_of :: "uuid \<Rightarrow> transfer_status io" where
  "status_of t = transaction (
     bind_tx (owner_and_status_of t) (\<lambda>o'.
       ok_or (not_found ''Transfer not found.'') (map_option os_status o')))"

definition advance_once_or_hold ::
  "env \<Rightarrow> config \<Rightarrow> uuid \<Rightarrow> transfer_status \<Rightarrow> transfer_status io" where
  "advance_once_or_hold E cfg tid from' s =
     (case advance_once E cfg tid None s of
        (Inl (Err e), s') \<Rightarrow>
          if err_code e = ComplianceHold then (Inr from', s') else (Inl (Err e), s')
      | other \<Rightarrow> other)"

text \<open>
  The drive loops, with fuel and one environment per turn: \<open>None\<close> would be a loop that has not
  returned. Eleven turns are always enough (\<open>drive_returns\<close>).
\<close>

fun drive ::
  "(transfer_status \<Rightarrow> bool) \<Rightarrow> nat \<Rightarrow> (nat \<Rightarrow> env) \<Rightarrow> config \<Rightarrow> uuid \<Rightarrow> transfer_status \<Rightarrow> db \<Rightarrow>
   (transfer_status api_result \<times> db) option" where
  "drive go 0 Es cfg tid status s = None"
| "drive go (Suc n) Es cfg tid status s =
     (if \<not> go status then Some (Inr status, s)
      else case advance_once_or_hold (Es n) cfg tid status s of
        (Inl e, s') \<Rightarrow> Some (Inl e, s')
      | (Inr next', s') \<Rightarrow>
          if next' = status \<or> is_terminal next' then Some (Inr next', s')
          else drive go n Es cfg tid next' s')"

definition pre_funding :: "transfer_status \<Rightarrow> bool" where
  "pre_funding st \<longleftrightarrow> st \<in> {Created, Quoted, Screened}"

definition drive_from ::
  "(transfer_status \<Rightarrow> bool) \<Rightarrow> nat \<Rightarrow> (nat \<Rightarrow> env) \<Rightarrow> config \<Rightarrow> uuid \<Rightarrow> db \<Rightarrow>
   (transfer_status api_result \<times> db) option" where
  "drive_from go n Es cfg tid s =
     (case status_of tid s of
        (Inl e, s') \<Rightarrow> Some (Inl e, s')
      | (Inr st, s') \<Rightarrow> drive go n Es cfg tid st s')"

definition advance_to_awaiting_funds ::
  "nat \<Rightarrow> (nat \<Rightarrow> env) \<Rightarrow> config \<Rightarrow> uuid \<Rightarrow> db \<Rightarrow> (transfer_status api_result \<times> db) option" where
  "advance_to_awaiting_funds = drive_from pre_funding"

definition advance_to_completion ::
  "nat \<Rightarrow> (nat \<Rightarrow> env) \<Rightarrow> config \<Rightarrow> uuid \<Rightarrow> db \<Rightarrow> (transfer_status api_result \<times> db) option" where
  "advance_to_completion = drive_from (\<lambda>st. forward_step st \<noteq> None)"

section \<open>Expiry and reversal\<close>

definition expire_transfer :: "env \<Rightarrow> uuid \<Rightarrow> uuid option \<Rightarrow> unit io" where
  "expire_transfer E tid actor = transaction (
     bind_tx (lock_transfer tid) (\<lambda>t.
     bind_tx (lift_result (parse_status (lt_status t))) (\<lambda>from'.
       apply_transition E t actor from' Expired None)))"

definition funding_entry :: "uuid \<Rightarrow> db \<Rightarrow> uuid option" where
  "funding_entry t s =
     (let es = sort_key le_posted_at (filter (\<lambda>e. le_transfer e = Some t \<and> le_amount e < 0 \<and>
            contains (le_description e) ''funded'') (ledger_entries s))
      in if es = [] then None else Some (le_id (hd es)))"

definition post_send_refund :: "env \<Rightarrow> locked_transfer \<Rightarrow> uuid tx" where
  "post_send_refund E t =
     bind_tx (gets (funding_entry (lt_id t))) (\<lambda>fe.
     bind_tx (lift_result (parse_currency (lt_send_currency t))) (\<lambda>send_ccy.
       post_one E t send_ccy (lt_send_amount t) ''reversed'' fe))"

definition reverse_transfer :: "env \<Rightarrow> uuid \<Rightarrow> string \<Rightarrow> uuid option \<Rightarrow> string io" where
  "reverse_transfer E tid reason actor = transaction (
     bind_tx (lock_transfer tid) (\<lambda>t.
     bind_tx (lift_result (parse_status (lt_status t))) (\<lambda>from'.
     bind_tx (apply_transition E t actor from' Reversing
         (Some (JObj [(''reason'', JStr reason)]))) (\<lambda>_.
     bind_tx (post_send_refund E t) (\<lambda>entry.
     bind_tx (apply_transition E t actor Reversing Reversed
         (Some (JObj [(''reason'', JStr reason),
                      (''reversalLedgerEntryId'', JStr (uuid_str E entry))]))) (\<lambda>_.
       return_tx (uuid_str E entry)))))))"

section \<open>On-chain transitions\<close>

datatype onchain_target = ToSettled | ToReversing | ToReversed | ToCancelled bool

datatype onchain_outcome =
    Applied transfer_status | AlreadyApplied transfer_status | Ignored transfer_status

definition onchain_path :: "onchain_target \<Rightarrow> transfer_status \<Rightarrow> transfer_status list" where
  "onchain_path target from' =
     (case target of
        ToSettled \<Rightarrow>
          if from' \<in> {Settled, PayingOut, Completed} then []
          else if from' = Funded then [Settling, Settled] else [Settled]
      | ToReversing \<Rightarrow> if from' \<in> {Reversing, Reversed} then [] else [Reversing]
      | ToReversed \<Rightarrow>
          if from' = Reversed then []
          else if from' \<in> {Settled, PayingOut} then [Reversing, Reversed] else [Reversed]
      | ToCancelled quote_expired \<Rightarrow>
          if from' \<in> {Expired, Rejected} then []
          else if quote_expired \<and> Expired \<in> set (allowed from') then [Expired] else [Rejected])"

fun apply_path ::
  "env \<Rightarrow> locked_transfer \<Rightarrow> json \<Rightarrow> transfer_status \<Rightarrow> transfer_status list \<Rightarrow> transfer_status tx" where
  "apply_path E t payload current [] = return_tx current"
| "apply_path E t payload current (to # path) =
     (if to = Reversed then
        bind_tx (post_send_refund E t) (\<lambda>entry.
        bind_tx (apply_transition E t None current to
            (Some (json_insert ''reversalLedgerEntryId'' (JStr (uuid_str E entry)) payload))) (\<lambda>_.
          apply_path E t payload to path))
      else
        bind_tx (apply_transition E t None current to (Some payload)) (\<lambda>_.
          apply_path E t payload to path))"

definition apply_onchain :: "env \<Rightarrow> uuid \<Rightarrow> onchain_target \<Rightarrow> json \<Rightarrow> onchain_outcome tx" where
  "apply_onchain E tid target payload =
     bind_tx (lock_transfer tid) (\<lambda>t.
     bind_tx (lift_result (parse_status (lt_status t))) (\<lambda>from'.
       let path = onchain_path target from'
       in if path = [] then return_tx (AlreadyApplied from')
          else if \<not> path_ok allowed (from' # path) then return_tx (Ignored from')
          else bind_tx (apply_path E t payload from' path) (\<lambda>st. return_tx (Applied st))))"

section \<open>Compliance holds\<close>

datatype screening_decision = Clear | Reject

definition decision_outcome ::
  "env \<Rightarrow> screening_decision \<Rightarrow> string option \<Rightarrow> transfer_status \<times> json" where
  "decision_outcome E decision reason =
     (case decision of
        Clear \<Rightarrow> (AwaitingFunds, JObj [(''fundingReference'', JStr (new_reference E ''FR'')),
          (''holdResolution'', JStr ''cleared''), (''holdResolutionReason'', json_opt_str reason)])
      | Reject \<Rightarrow> (Rejected, JObj [(''failureCategory'', JStr ''compliance_hold''),
          (''reasonCode'', JStr ''COMPLIANCE_HOLD''), (''reason'', json_opt_str reason)]))"

definition resolve_screening_hold ::
  "env \<Rightarrow> uuid \<Rightarrow> screening_decision \<Rightarrow> string option \<Rightarrow> uuid option \<Rightarrow> transfer_status io" where
  "resolve_screening_hold E tid decision reason actor = transaction (
     bind_tx (lock_transfer tid) (\<lambda>t.
     bind_tx (lift_result (parse_status (lt_status t))) (\<lambda>from'.
     bind_tx (ensure (\<not> (from' \<noteq> Screened \<or> \<not> is_held t))
       (conflict ''This transfer is not currently on a compliance hold.'')) (\<lambda>_.
     let (to, payload) = decision_outcome E decision reason
     in bind_tx (apply_transition E t actor from' to (Some payload)) (\<lambda>_. return_tx to)))))"

end
