(* ===== verification/Transfer_Invariant.thy ===== *)
theory Transfer_Invariant
  imports Engine
begin

text \<open>
  What the engine promises about a transfer, stated apart from how it does it: the postings a
  history calls for (\<open>path_postings\<close>), and the invariant \<open>engine_ok\<close>, by which every transfer
  has a history the transition table allows, the status of its last row and exactly the ledger
  postings its history calls for. Every operation of the engine keeps it.
\<close>

section \<open>The ledger of a history\<close>

definition step_postings ::
  "transfer_row \<Rightarrow> transfer_status \<Rightarrow> transfer_status \<Rightarrow> (string \<times> int) list" where
  "step_postings r from' to =
     (if to = Funded then [(tr_send_currency r, neg64 (tr_send_amount r))]
      else if to = Settled then [(tr_receive_currency r, tr_receive_amount r)]
      else if to = Completed then [(tr_receive_currency r, neg64 (tr_receive_amount r))]
      else if to = Reversing \<and> (from' = Settled \<or> from' = PayingOut)
      then [(tr_receive_currency r, neg64 (tr_receive_amount r))]
      else if to = Reversed then [(tr_send_currency r, tr_send_amount r)]
      else [])"

fun path_postings :: "transfer_row \<Rightarrow> transfer_status list \<Rightarrow> (string \<times> int) list" where
  "path_postings r [] = []"
| "path_postings r [x] = []"
| "path_postings r (x # y # xs) = step_postings r x y @ path_postings r (y # xs)"

lemma path_postings_snoc:
  "xs \<noteq> [] \<Longrightarrow> path_postings r (xs @ [y]) = path_postings r xs @ step_postings r (last xs) y"
  by (induction r xs rule: path_postings.induct) auto

definition postings_of :: "uuid \<Rightarrow> db \<Rightarrow> (string \<times> int) list" where
  "postings_of t s = map (\<lambda>e. (le_currency e, le_amount e))
     (filter (\<lambda>e. le_transfer e = Some t) (ledger_entries s))"

definition net :: "string \<Rightarrow> (string \<times> int) list \<Rightarrow> int" where
  "net k ps = sum_list (map snd (filter (\<lambda>p. fst p = k) ps))"

lemma net_simps [simp]:
  "net k [] = 0" "net k (p # ps) = (if fst p = k then snd p else 0) + net k ps"
  "net k (ps @ qs) = net k ps + net k qs"
  by (simp_all add: net_def)

section \<open>What a transaction of the engine may touch\<close>

definition other_tables :: "db \<Rightarrow> db \<Rightarrow> bool" where
  "other_tables s s' \<longleftrightarrow> customers s' = customers s \<and> recipients s' = recipients s \<and>
     quotes s' = quotes s \<and> settlement_trades s' = settlement_trades s \<and>
     collections s' = collections s \<and> inbound_payments s' = inbound_payments s \<and>
     virtual_accounts s' = virtual_accounts s \<and> settlement_events s' = settlement_events s \<and>
     settlement_cursor s' = settlement_cursor s"

interpretation other_tables: tx_frame other_tables
  by unfold_locales (auto simp: other_tables_def)

definition posted :: "uuid \<Rightarrow> uuid \<Rightarrow> (string \<times> int) list \<Rightarrow> db \<Rightarrow> db \<Rightarrow> bool" where
  "posted t c ps s s' \<longleftrightarrow>
     transfers s' = transfers s \<and> transfer_history s' = transfer_history s \<and>
     next_id s \<le> next_id s' \<and> other_tables s s' \<and> prefix (audit_log s) (audit_log s') \<and>
     (\<exists>es. ledger_entries s' = ledger_entries s @ es \<and>
        map (\<lambda>e. (le_currency e, le_amount e)) es = ps \<and> list_all (\<lambda>e. le_transfer e = Some t) es) \<and>
     (ledger_ok s \<longrightarrow> ledger_ok s' \<and>
        (\<forall>d k. balance d k s' = balance d k s + (if d = c then net k ps else 0)))"

lemma posted_trans:
  assumes "posted t c ps s u" and "posted t c qs u s'"
  shows "posted t c (ps @ qs) s s'"
  using assms unfolding posted_def
  by (fastforce intro: other_tables.trans prefix_order.trans)

lemma posted_refl: "posted t c [] s s"
  by (simp add: posted_def other_tables.refl)

lemma posted_audit:
  assumes "write_audit E e s = Inr (u, s')"
  shows "posted t c [] s s'"
proof -
  from assms have s': "\<exists>x. s' = s\<lparr>audit_log := audit_log s @ [x]\<rparr>"
    by (auto simp: write_audit_def tx_simps)
  then have "ledger_ok s \<longrightarrow> ledger_ok s'" by (auto intro: ledger_ok_cong)
  moreover from s' have "balance d k s' = balance d k s" for d k by (auto intro: balance_cong)
  ultimately show ?thesis using s' by (auto simp: posted_def other_tables_def)
qed

lemma posted_account:
  assumes run: "get_or_create_account_by_code c ccy s = Inr (i, s')"
  shows "posted t d [] s s'"
proof -
  note f = get_or_create_frame [OF run]
  have "other_tables s s'" by (simp add: other_tables_def f)
  moreover have "audit_log s' = audit_log s" by (rule f)
  ultimately show ?thesis
    using f get_or_create_ok [OF _ run] by (auto simp: posted_def)
qed

lemma post_one_posted:
  assumes run: "post_one E t ccy x what rv s = Inr (i, s')"
  shows "posted (lt_id t) (lt_customer t) [(currency_str ccy, x)] s s'"
proof -
  from run obtain acct u j r where
    g: "get_or_create_account_by_code (lt_customer t) (currency_str ccy) s = Inr (acct, u)" and
    a: "append_entry E acct x (currency_str ccy) (describe t what) (FromTransfer (lt_id t)) rv u
        = Inr ((j, r), s')"
    by (simp add: post_one_def post_ledger_entry_def tx_simps get_or_create_account_tx(1)
        del: get_or_create_account_by_code_tx append_entry_tx) blast
  from g have 1: "posted (lt_id t) (lt_customer t) [] s u" by (rule posted_account)
  note f = append_entry_frame [OF a]
  from a have le: "ledger_entries s' = ledger_entries u @
      [new_entry E acct x (currency_str ccy) (describe t what) (FromTransfer (lt_id t)) rv u]"
    by (simp add: tx_simps)
  have "ledger_ok s' \<and> (\<forall>d k. balance d k s' = balance d k u +
      (if d = lt_customer t then net k [(currency_str ccy, x)] else 0))" if "ledger_ok s"
    using append_entry_ok [OF get_or_create_ok(1,2) [OF that g] a] by auto
  moreover have "balance d k u = balance d k s" if "ledger_ok s" for d k
    by (rule get_or_create_ok(3) [OF that g])
  ultimately show ?thesis
    using 1 f le by (auto simp: posted_def other_tables_def)
qed

lemma posted_upholds_other: "posted t c ps s s' \<Longrightarrow> other_tables s s'"
  by (simp add: posted_def)

section \<open>The locked row\<close>

definition locks :: "transfer_row \<Rightarrow> locked_transfer \<Rightarrow> bool" where
  "locks r t \<longleftrightarrow> lt_id t = tr_id r \<and> lt_customer t = tr_customer r \<and>
     lt_send_currency t = tr_send_currency r \<and> lt_receive_currency t = tr_receive_currency r \<and>
     lt_send_amount t = tr_send_amount r \<and> lt_receive_amount t = tr_receive_amount r"

lemma lock_transfer_tx [tx_simps]:
  "lock_transfer tid s = Inr (t, s') \<longleftrightarrow> s' = s \<and> lock_row tid s = Some t"
  "lock_transfer tid s = Inl f \<longleftrightarrow> lock_row tid s = None \<and> f = Err (not_found ''Transfer not found.'')"
  by (auto simp: lock_transfer_def tx_simps)

lemma lock_row_Some:
  assumes "lock_row tid s = Some t"
  obtains r where "find (\<lambda>r. tr_id r = tid) (transfers s) = Some r" and "r \<in> set (transfers s)"
    and "tr_id r = tid" and "locks r t" and "lt_status t = tr_status r"
    and "lt_latest_payload t = Option.bind (latest_history tid s) th_payload"
proof -
  from assms obtain r where r: "find (\<lambda>r. tr_id r = tid) (transfers s) = Some r"
    by (auto simp: lock_row_def split: option.splits)
  from find_Some_set [OF r] assms r show thesis
    by (intro that [of r]) (auto simp: lock_row_def locks_def split: option.splits)
qed

lemma post_ledger_for_posted:
  assumes "post_ledger_for E t from' to s = Inr (u, s')" and "locks r t"
  shows "posted (tr_id r) (tr_customer r) (if to = Reversed then [] else step_postings r from' to) s s'"
  using assms
  by (auto simp: post_ledger_for_def step_postings_def tx_simps currency.dec_Inr_iff locks_def
      posted_refl dest!: post_one_posted split: if_splits)

section \<open>One transition on the state\<close>

definition moved ::
  "transfer_row \<Rightarrow> transfer_status \<Rightarrow> (string \<times> int) list \<Rightarrow> db \<Rightarrow> db \<Rightarrow> bool" where
  "moved r st ps s s' \<longleftrightarrow>
     (\<exists>n. transfers s' = update_where (\<lambda>x. tr_id x = tr_id r)
        (\<lambda>x. x\<lparr>tr_status := status_str st, tr_updated_at := n\<rparr>) (transfers s)) \<and>
     (\<exists>h. transfer_history s' = transfer_history s @ [h] \<and> th_transfer h = tr_id r \<and>
        th_position h = next_position (tr_id r) s \<and> th_status h = status_str st) \<and>
     next_id s \<le> next_id s' \<and> other_tables s s' \<and> prefix (audit_log s) (audit_log s') \<and>
     (\<exists>es. ledger_entries s' = ledger_entries s @ es \<and>
        map (\<lambda>e. (le_currency e, le_amount e)) es = ps \<and>
        list_all (\<lambda>e. le_transfer e = Some (tr_id r)) es) \<and>
     (ledger_ok s \<longrightarrow> ledger_ok s' \<and>
        (\<forall>d k. balance d k s' = balance d k s + (if d = tr_customer r then net k ps else 0)))"

lemma posted_moved:
  assumes "posted (tr_id r) (tr_customer r) ps s u" and "moved r st qs u s'"
  shows "moved r st (ps @ qs) s s'"
proof -
  have "next_position (tr_id r) u = next_position (tr_id r) s"
    using assms(1) by (simp add: posted_def next_position_def history_of_def)
  with assms show ?thesis
    unfolding posted_def moved_def
    by (fastforce intro: other_tables.trans prefix_order.trans)
qed

lemma moved_posted:
  assumes "moved r st ps s u" and "posted (tr_id r) (tr_customer r) qs u s'"
  shows "moved r st (ps @ qs) s s'"
  using assms unfolding posted_def moved_def
  by (fastforce intro: other_tables.trans prefix_order.trans)

lemma apply_transition_moved:
  assumes run: "apply_transition E t actor from' to payload s = Inr (u, s')" and "locks r t"
  shows "moved r to (if to = Reversed then [] else step_postings r from' to) s s'"
    and "to \<in> set (allowed from')"
proof -
  from run obtain s1 s2 s3 where
    ok: "to \<in> set (allowed from')" and
    h: "append_history E (lt_id t) to payload None s = Inr ((), s1)" and
    st: "set_status E (lt_id t) to s1 = Inr ((), s2)" and
    pl: "post_ledger_for E t from' to s2 = Inr ((), s3)" and
    au: "posted (tr_id r) (tr_customer r) [] s3 s'"
    by (auto simp: apply_transition_def tx_simps assert_transition_Inr dest!: posted_audit)
  have "moved r to [] s s2"
    using h st assms(2)
    by (auto simp: append_history_def set_status_def tx_simps moved_def locks_def other_tables_def
        intro: ledger_ok_cong balance_cong)
  from moved_posted [OF this post_ledger_for_posted [OF pl assms(2)]]
  have "moved r to (if to = Reversed then [] else step_postings r from' to) s s3" by simp
  from moved_posted [OF this au]
  show "moved r to (if to = Reversed then [] else step_postings r from' to) s s'" by simp
  show "to \<in> set (allowed from')" by (rule ok)
qed

lemma post_send_refund_posted:
  assumes "post_send_refund E t s = Inr (i, s')" and "locks r t"
  shows "posted (tr_id r) (tr_customer r) [(tr_send_currency r, tr_send_amount r)] s s'"
  using assms
  by (auto simp: post_send_refund_def tx_simps currency.dec_Inr_iff locks_def dest!: post_one_posted)

lemma refund_moved:
  assumes "post_send_refund E t s = Inr (i, u)" and "locks r t"
    and "apply_transition E t actor from' Reversed payload u = Inr (x, s')"
  shows "moved r Reversed (step_postings r from' Reversed) s s'"
  using posted_moved [OF post_send_refund_posted [OF assms(1,2)] apply_transition_moved(1) [OF assms(3,2)]]
  by (simp add: step_postings_def)

section \<open>The invariant\<close>

definition transfer_ok :: "db \<Rightarrow> transfer_row \<Rightarrow> bool" where
  "transfer_ok s r \<longleftrightarrow> (\<exists>p. p \<noteq> [] \<and> hd p = Created \<and> path_ok allowed p \<and>
     map th_status (history_of (tr_id r) s) = map status_str p \<and>
     map th_position (history_of (tr_id r) s) = map int [0..<length p] \<and>
     tr_status r = status_str (last p) \<and>
     postings_of (tr_id r) s = path_postings r p)"

definition transfer_ids :: "db \<Rightarrow> uuid set" where
  "transfer_ids s = tr_id ` set (transfers s)"

definition engine_ok :: "db \<Rightarrow> bool" where
  "engine_ok s \<longleftrightarrow> ledger_ok s \<and> distinct (map tr_id (transfers s)) \<and>
     distinct (map tr_reference (transfers s)) \<and>
     distinct (map (\<lambda>r. (tr_customer r, tr_key r)) (transfers s)) \<and>
     (\<forall>r\<in>set (transfers s). transfer_ok s r \<and> tr_id r < next_id s) \<and>
     (\<forall>h\<in>set (transfer_history s). th_transfer h \<in> transfer_ids s) \<and>
     (\<forall>e\<in>set (ledger_entries s). \<forall>t. le_transfer e = Some t \<longrightarrow> t \<in> transfer_ids s)"

lemma next_position_length:
  assumes "map th_position (history_of t s) = map int [0..<n]"
  shows "next_position t s = int n"
proof -
  have "fold max (map int [0..<m]) (- 1) = int m - 1" for m
    by (induction m) auto
  with assms show ?thesis by (simp add: next_position_def)
qed

lemma step_postings_status [simp]:
  "step_postings (r\<lparr>tr_status := x, tr_updated_at := n\<rparr>) = step_postings r"
  by (simp add: step_postings_def fun_eq_iff)

lemma path_postings_status [simp]:
  "path_postings (r\<lparr>tr_status := x, tr_updated_at := n\<rparr>) p = path_postings r p"
  by (induction r p rule: path_postings.induct) auto

lemma moved_own:
  assumes ok: "transfer_ok s r" and "tr_status r = status_str from'" and "st \<in> set (allowed from')"
    and m: "moved r st (step_postings r from' st) s s'"
  shows "transfer_ok s' (r\<lparr>tr_status := status_str st, tr_updated_at := n\<rparr>)"
proof -
  from ok obtain p where p: "p \<noteq> []" "hd p = Created" "path_ok allowed p"
      "map th_status (history_of (tr_id r) s) = map status_str p"
      "map th_position (history_of (tr_id r) s) = map int [0..<length p]"
      "tr_status r = status_str (last p)" "postings_of (tr_id r) s = path_postings r p"
    by (auto simp: transfer_ok_def)
  with assms(2) have last: "last p = from'" by (simp add: status.enc_inject)
  from m obtain h where h: "transfer_history s' = transfer_history s @ [h]" "th_transfer h = tr_id r"
      "th_position h = int (length p)" "th_status h = status_str st"
    using next_position_length [OF p(5)] by (auto simp: moved_def)
  from m have "postings_of (tr_id r) s' = postings_of (tr_id r) s @ step_postings r from' st"
    by (auto simp: moved_def postings_of_def list_all_iff)
  with h p last assms(3) show ?thesis
    unfolding transfer_ok_def
    by (intro exI [of _ "p @ [st]"])
      (auto simp: history_of_def path_ok_snoc path_postings_snoc)
qed

lemma moved_others:
  assumes "transfer_ok s q" and "tr_id q \<noteq> tr_id r" and "moved r st ps s s'"
  shows "transfer_ok s' q"
proof -
  have "history_of (tr_id q) s' = history_of (tr_id q) s"
    using assms(2,3) by (auto simp: moved_def history_of_def)
  moreover have "postings_of (tr_id q) s' = postings_of (tr_id q) s"
    using assms(2,3) by (auto simp: moved_def postings_of_def list_all_iff filter_empty_conv)
  ultimately show ?thesis using assms(1) by (simp add: transfer_ok_def)
qed

lemma moved_ok:
  assumes ok: "engine_ok s" and r: "r \<in> set (transfers s)" and st: "tr_status r = status_str from'"
    and al: "st \<in> set (allowed from')" and m: "moved r st (step_postings r from' st) s s'"
  shows "engine_ok s'"
    and "\<exists>n. r\<lparr>tr_status := status_str st, tr_updated_at := n\<rparr> \<in> set (transfers s')"
proof -
  from m obtain n where tr: "transfers s' = update_where (\<lambda>x. tr_id x = tr_id r)
        (\<lambda>x. x\<lparr>tr_status := status_str st, tr_updated_at := n\<rparr>) (transfers s)"
    by (auto simp: moved_def)
  have maps: "map tr_id (transfers s') = map tr_id (transfers s)"
    "map tr_reference (transfers s') = map tr_reference (transfers s)"
    "map (\<lambda>r. (tr_customer r, tr_key r)) (transfers s') = map (\<lambda>r. (tr_customer r, tr_key r)) (transfers s)"
    by (simp_all add: tr map_update_where_frame)
  from maps(1) have ids: "transfer_ids s' = transfer_ids s"
    unfolding transfer_ids_def by (metis set_map)
  have rows: "transfer_ok s' q \<and> tr_id q < next_id s'" if "q \<in> set (transfers s')" for q
  proof -
    from that obtain q0 where q0: "q0 \<in> set (transfers s)"
      and q: "q = (if tr_id q0 = tr_id r
        then q0\<lparr>tr_status := status_str st, tr_updated_at := n\<rparr> else q0)"
      by (auto simp: tr set_update_where)
    from ok q0 m have "tr_id q < next_id s'"
      by (fastforce simp: engine_ok_def moved_def q)
    moreover have "transfer_ok s' q"
    proof (cases "tr_id q0 = tr_id r")
      case True
      with ok r q0 have "q0 = r" by (auto simp: engine_ok_def distinct_map dest: inj_onD)
      with q ok r show ?thesis by (auto simp: engine_ok_def intro: moved_own [OF _ st al m])
    next
      case False
      with q ok q0 show ?thesis by (auto simp: engine_ok_def intro: moved_others [OF _ _ m])
    qed
    ultimately show ?thesis by simp
  qed
  have rid: "tr_id r \<in> transfer_ids s" using r by (simp add: transfer_ids_def)
  have "\<forall>h\<in>set (transfer_history s'). th_transfer h \<in> transfer_ids s'"
    using ok m rid by (auto simp: engine_ok_def moved_def ids)
  moreover have "\<forall>e\<in>set (ledger_entries s'). \<forall>t. le_transfer e = Some t \<longrightarrow> t \<in> transfer_ids s'"
    using ok m rid by (fastforce simp: engine_ok_def moved_def ids list_all_iff)
  moreover have "ledger_ok s'" using ok m by (auto simp: engine_ok_def moved_def)
  ultimately show "engine_ok s'"
    using ok rows unfolding engine_ok_def maps by blast
  show "\<exists>n. r\<lparr>tr_status := status_str st, tr_updated_at := n\<rparr> \<in> set (transfers s')"
    using r by (auto simp: tr set_update_where)
qed

text \<open>The state inside a transaction of the engine: the invariant, and where the locked transfer is.\<close>

definition engine_at :: "locked_transfer \<Rightarrow> transfer_status \<Rightarrow> db \<Rightarrow> bool" where
  "engine_at t st s \<longleftrightarrow> engine_ok s \<and>
     (\<exists>r\<in>set (transfers s). locks r t \<and> tr_status r = status_str st)"

lemma engine_atI:
  assumes "engine_ok s" and "lock_row tid s = Some t" and "lt_status t = status_str st"
  shows "engine_at t st s"
  using assms by (auto simp: engine_at_def elim!: lock_row_Some)

lemma moved_at:
  assumes at1: "engine_at t from' s" and al: "st \<in> set (allowed from')"
    and m: "\<And>r. locks r t \<Longrightarrow> moved r st (step_postings r from' st) s s'"
  shows "engine_at t st s'"
proof -
  from at1 obtain r where r: "engine_ok s" "r \<in> set (transfers s)" "locks r t"
      "tr_status r = status_str from'"
    by (auto simp: engine_at_def)
  note res = moved_ok [OF r(1,2,4) al m [OF r(3)]]
  then obtain n where "r\<lparr>tr_status := status_str st, tr_updated_at := n\<rparr> \<in> set (transfers s')" by blast
  with res(1) r(3) show ?thesis
    unfolding engine_at_def by (intro conjI bexI) (auto simp: locks_def)
qed

lemma apply_at:
  assumes "engine_at t from' s" and "apply_transition E t a from' to payload s = Inr (u, s')"
    and "to \<noteq> Reversed"
  shows "engine_at t to s'"
proof -
  from assms(1) obtain r where "locks r t" by (auto simp: engine_at_def)
  from moved_at [OF assms(1) apply_transition_moved(2) [OF assms(2) this]]
    apply_transition_moved(1) [OF assms(2)] assms(3)
  show ?thesis by simp
qed

lemma refund_at:
  assumes "engine_at t from' s" and "post_send_refund E t s = Inr (i, u)"
    and "apply_transition E t a from' Reversed payload u = Inr (x, s')"
  shows "engine_at t Reversed s'"
proof -
  from assms(1) obtain r where "locks r t" by (auto simp: engine_at_def)
  from moved_at [OF assms(1) apply_transition_moved(2) [OF assms(3) this]]
    refund_moved [OF assms(2) _ assms(3)]
  show ?thesis by simp
qed

lemma engine_ok_posted:
  assumes "engine_ok s" and "posted t c [] s s'"
  shows "engine_ok s'"
proof -
  from assms(2) have *: "transfers s' = transfers s" "transfer_history s' = transfer_history s"
      "ledger_entries s' = ledger_entries s" "next_id s \<le> next_id s'" "ledger_ok s \<Longrightarrow> ledger_ok s'"
    by (auto simp: posted_def)
  then show ?thesis using assms(1)
    by (fastforce simp: engine_ok_def transfer_ok_def history_of_def postings_of_def transfer_ids_def)
qed

lemma posted_at:
  "engine_at t st s \<Longrightarrow> posted i c [] s s' \<Longrightarrow> engine_at t st s'"
  by (auto simp: engine_at_def intro: engine_ok_posted) (auto simp: posted_def)

end
