(* ===== verification/Engine_Facts.thy ===== *)
theory Engine_Facts
  imports Transfer_Invariant
begin

text \<open>
  The operations of the engine against the invariant of \<open>Transfer_Invariant\<close>: each keeps it,
  none touches another component's tables or rewrites a posting, and the properties of the
  engine that follow from it.
\<close>

section \<open>Frames\<close>

definition deal :: "transfer_row \<Rightarrow> transfer_row" where
  "deal r = r\<lparr>tr_status := [], tr_updated_at := 0\<rparr>"

definition engine_frame :: "db \<Rightarrow> db \<Rightarrow> bool" where
  "engine_frame s s' \<longleftrightarrow> other_tables s s' \<and> map deal (transfers s') = map deal (transfers s) \<and>
     prefix (ledger_entries s) (ledger_entries s') \<and> prefix (audit_log s) (audit_log s') \<and>
     prefix (transfer_history s) (transfer_history s') \<and> next_id s \<le> next_id s' \<and>
     (ledger_ok s \<longrightarrow> ledger_ok s')"

interpretation engine_frame: tx_frame engine_frame
  by unfold_locales (auto simp: engine_frame_def intro: other_tables.refl other_tables.trans prefix_order.trans)

lemma engine_frame_append_only: "engine_frame s s' \<Longrightarrow> append_only s s'"
  by (simp add: engine_frame_def append_only_def other_tables_def)

lemma ex_locks: "\<exists>r. locks r t"
  unfolding locks_def
  by (intro exI [of _ "\<lparr>tr_id = lt_id t, tr_reference = [], tr_customer = lt_customer t, tr_key = [],
    tr_recipient = 0, tr_send_currency = lt_send_currency t,
    tr_receive_currency = lt_receive_currency t, tr_send_amount = lt_send_amount t,
    tr_receive_amount = lt_receive_amount t, tr_trade_description = None,
    tr_quote = undefined, tr_status = [], tr_created_at = 0, tr_updated_at = 0,
    tr_settlement_ref = None\<rparr>"]) simp

lemma moved_frame: "moved r st ps s s' \<Longrightarrow> engine_frame s s'"
  by (auto simp: moved_def engine_frame_def update_where_def deal_def)

lemma posted_frame: "posted t c ps s s' \<Longrightarrow> engine_frame s s'"
  by (auto simp: posted_def engine_frame_def)

lemma apply_transition_frame: "upholds engine_frame (apply_transition E t a from' to payload)"
proof (rule upholdsI)
  fix s u s' assume run: "apply_transition E t a from' to payload s = Inr (u, s')"
  obtain r where "locks r t" using ex_locks by blast
  from apply_transition_moved(1) [OF run this] show "engine_frame s s'" by (rule moved_frame)
qed

lemma post_send_refund_frame: "upholds engine_frame (post_send_refund E t)"
proof (rule upholdsI)
  fix s i s' assume run: "post_send_refund E t s = Inr (i, s')"
  obtain r where "locks r t" using ex_locks by blast
  from post_send_refund_posted [OF run this] show "engine_frame s s'" by (rule posted_frame)
qed

lemma apply_path_frame: "upholds engine_frame (apply_path E t payload current path)"
  by (induction path arbitrary: current)
    (auto intro!: engine_frame.upholds_rules apply_transition_frame post_send_refund_frame)

lemma funds_short_posted:
  assumes "funds_short t from' s = Inr (b, s')"
  shows "posted i c [] s s'"
  using assms by (auto simp: funds_short_def tx_simps get_or_create_account_tx(1) posted_refl
      simp del: get_or_create_account_by_code_tx intro: posted_account split: if_splits)

lemma funds_short_frame: "upholds engine_frame (funds_short t from')"
  by (rule upholdsI) (blast intro: posted_frame funds_short_posted)

lemma lock_transfer_frame: "upholds engine_frame (lock_transfer t)"
  by (simp add: lock_transfer_def engine_frame.upholds_rules)

lemmas engine_frames = engine_frame.upholds_rules apply_transition_frame post_send_refund_frame
  apply_path_frame funds_short_frame lock_transfer_frame

lemma apply_onchain_frame: "upholds engine_frame (apply_onchain E tid target payload)"
  unfolding apply_onchain_def Let_def by (intro engine_frames)

lemma advance_once_frame: "engine_frame s (snd (advance_once E cfg tid a s))"
  unfolding advance_once_def by (intro engine_frame.transaction_upholds engine_frames)

lemma expire_transfer_frame: "engine_frame s (snd (expire_transfer E tid a s))"
  unfolding expire_transfer_def by (intro engine_frame.transaction_upholds engine_frames)

lemma reverse_transfer_frame: "engine_frame s (snd (reverse_transfer E tid reason a s))"
  unfolding reverse_transfer_def by (intro engine_frame.transaction_upholds engine_frames)

lemma resolve_screening_hold_frame:
  "engine_frame s (snd (resolve_screening_hold E tid d reason a s))"
  unfolding resolve_screening_hold_def Let_def
  by (intro engine_frame.transaction_upholds engine_frames)

section \<open>What each operation makes of a transfer\<close>

lemma lock_parse_at:
  assumes "engine_ok s" and "lock_row tid s = Some t" and "parse_status (lt_status t) = Inr st"
  shows "engine_at t st s"
  using assms by (auto simp: status.dec_Inr_iff intro: engine_atI)

section \<open>What each operation makes of a transfer\<close>

text \<open>The runs of \<open>advance_once\<close> that return.\<close>

lemma advance_once_Inr:
  "advance_once E cfg tid a s = (Inr st', s') \<longleftrightarrow>
     (\<exists>t from'. lock_row tid s = Some t \<and> lt_status t = status_str from' \<and>
        \<not> (from' = Screened \<and> is_held t) \<and>
        (case (if from' = Settling \<and> settlement_onchain cfg then None else forward_step from') of
           None \<Rightarrow> st' = from' \<and> s' = s
         | Some to \<Rightarrow> \<exists>short u. funds_short t from' s = Inr (short, u) \<and>
           (if short
            then st' = Rejected \<and>
              apply_transition E t a from' Rejected (Some insufficient_funds_payload) u = Inr ((), s')
            else st' = to \<and>
              (\<exists>payload. payload_for E t to (compliance_amount_threshold_minor cfg) = Inr payload \<and>
                 apply_transition E t a from' to payload u = Inr ((), s')))))"
proof -
  have inner: "(case x of None \<Rightarrow> return_tx from'
       | Some to \<Rightarrow>
           bind_tx (funds_short t from') (\<lambda>short.
           if short then
             bind_tx (apply_transition E t a from' Rejected (Some insufficient_funds_payload)) (\<lambda>_.
               return_tx Rejected)
           else
             bind_tx (lift_result (payload_for E t to (compliance_amount_threshold_minor cfg))) (\<lambda>payload.
             bind_tx (apply_transition E t a from' to payload) (\<lambda>_.
               return_tx to)))) s = Inr (st', s') \<longleftrightarrow>
     (case x of None \<Rightarrow> st' = from' \<and> s' = s
         | Some to \<Rightarrow> \<exists>short u. funds_short t from' s = Inr (short, u) \<and>
           (if short
            then st' = Rejected \<and>
              apply_transition E t a from' Rejected (Some insufficient_funds_payload) u = Inr ((), s')
            else st' = to \<and>
              (\<exists>payload. payload_for E t to (compliance_amount_threshold_minor cfg) = Inr payload \<and>
                 apply_transition E t a from' to payload u = Inr ((), s'))))" for x t from' s
    by (cases x) (auto simp: bind_tx_Inr primitive_tx split: if_splits)
  show ?thesis
    unfolding advance_once_def transaction_Inr bind_tx_Inr lock_transfer_tx primitive_tx
      status.dec_Inr_iff inner by auto
qed

lemma advance_once_cases:
  assumes "advance_once E cfg tid a s = (Inr st', s')"
  obtains (blocked) t from' where "lock_row tid s = Some t" "lt_status t = status_str from'"
      "from' = Settling \<and> settlement_onchain cfg \<or> forward_step from' = None" "st' = from'" "s' = s"
  | (short) t u where "lock_row tid s = Some t" "lt_status t = status_str AwaitingFunds"
      "funds_short t AwaitingFunds s = Inr (True, u)" "st' = Rejected"
      "apply_transition E t a AwaitingFunds Rejected (Some insufficient_funds_payload) u = Inr ((), s')"
  | (forward) t from' u p where "lock_row tid s = Some t" "lt_status t = status_str from'"
      "\<not> (from' = Screened \<and> is_held t)" "\<not> (from' = Settling \<and> settlement_onchain cfg)"
      "forward_step from' = Some st'" "funds_short t from' s = Inr (False, u)"
      "payload_for E t st' (compliance_amount_threshold_minor cfg) = Inr p"
      "apply_transition E t a from' st' p u = Inr ((), s')"
proof -
  from assms obtain t from' where t: "lock_row tid s = Some t" "lt_status t = status_str from'"
      "\<not> (from' = Screened \<and> is_held t)"
    and c: "case (if from' = Settling \<and> settlement_onchain cfg then None else forward_step from') of
           None \<Rightarrow> st' = from' \<and> s' = s
         | Some to \<Rightarrow> \<exists>short u. funds_short t from' s = Inr (short, u) \<and>
           (if short
            then st' = Rejected \<and>
              apply_transition E t a from' Rejected (Some insufficient_funds_payload) u = Inr ((), s')
            else st' = to \<and>
              (\<exists>payload. payload_for E t to (compliance_amount_threshold_minor cfg) = Inr payload \<and>
                 apply_transition E t a from' to payload u = Inr ((), s')))"
    unfolding advance_once_Inr by blast
  show thesis
  proof (cases "if from' = Settling \<and> settlement_onchain cfg then None else forward_step from'")
    case None
    have "st' = from' \<and> s' = s" using c unfolding None by simp
    moreover from None have "from' = Settling \<and> settlement_onchain cfg \<or> forward_step from' = None"
      by (auto split: if_splits)
    ultimately show thesis using blocked [OF t(1,2)] by simp
  next
    case (Some to)
    note c = c [unfolded Some option.case]
    from c obtain b u where b: "funds_short t from' s = Inr (b, u)"
      and r: "if b then st' = Rejected \<and>
              apply_transition E t a from' Rejected (Some insufficient_funds_payload) u = Inr ((), s')
            else st' = to \<and>
              (\<exists>payload. payload_for E t to (compliance_amount_threshold_minor cfg) = Inr payload \<and>
                 apply_transition E t a from' to payload u = Inr ((), s'))"
      by blast
    show thesis
    proof (cases b)
      case True
      with b have "from' = AwaitingFunds" by (auto simp: funds_short_def primitive_tx split: if_splits)
      with True b r t show thesis by (intro short) auto
    next
      case False
      with r obtain p where p: "st' = to"
          "payload_for E t to (compliance_amount_threshold_minor cfg) = Inr p"
          "apply_transition E t a from' to p u = Inr ((), s')"
        by auto
      from Some have "\<not> (from' = Settling \<and> settlement_onchain cfg)" "forward_step from' = Some to"
        by (auto split: if_splits)
      with False b p t show thesis by (intro forward [of t from' u p]) simp_all
    qed
  qed
qed

lemma advance_once_atomic: "advance_once E cfg tid a s = (Inl e, s') \<Longrightarrow> s' = s"
  by (simp add: advance_once_def transaction_Inl)

lemma advance_once_at:
  assumes ok: "engine_ok s" and "advance_once E cfg tid a s = (Inr st', s')"
  shows "\<exists>t. lock_row tid s = Some t \<and> engine_at t st' s'"
  using assms(2)
proof (cases rule: advance_once_cases)
  case (blocked t from')
  with ok show ?thesis by (auto intro: engine_atI)
next
  case (short t u)
  from engine_atI [OF ok short(1,2)] have "engine_at t AwaitingFunds u"
    by (rule posted_at) (rule funds_short_posted [OF short(3)])
  from apply_at [OF this short(5)] short show ?thesis by auto
next
  case (forward t from' u p)
  from engine_atI [OF ok forward(1,2)] have "engine_at t from' u"
    by (rule posted_at) (rule funds_short_posted [OF forward(6)])
  from apply_at [OF this forward(8)] forward(1,5) show ?thesis by (cases from') auto
qed

lemma expire_transfer_Inr:
  "expire_transfer E tid a s = (Inr u, s') \<longleftrightarrow> (\<exists>t from'. lock_row tid s = Some t \<and>
     lt_status t = status_str from' \<and> apply_transition E t a from' Expired None s = Inr (u, s'))"
  unfolding expire_transfer_def transaction_Inr bind_tx_Inr lock_transfer_tx primitive_tx
    status.dec_Inr_iff by auto

lemma reverse_transfer_Inr:
  "reverse_transfer E tid reason a s = (Inr r, s') \<longleftrightarrow> (\<exists>t from' entry u v.
     lock_row tid s = Some t \<and> lt_status t = status_str from' \<and>
     apply_transition E t a from' Reversing (Some (JObj [(''reason'', JStr reason)])) s = Inr ((), u) \<and>
     post_send_refund E t u = Inr (entry, v) \<and>
     apply_transition E t a Reversing Reversed (Some (JObj [(''reason'', JStr reason),
       (''reversalLedgerEntryId'', JStr (uuid_str E entry))])) v = Inr ((), s') \<and>
     r = uuid_str E entry)"
  unfolding reverse_transfer_def transaction_Inr bind_tx_Inr lock_transfer_tx primitive_tx
    status.dec_Inr_iff by (auto; blast)

lemma resolve_screening_hold_Inr:
  "resolve_screening_hold E tid d reason a s = (Inr st', s') \<longleftrightarrow> (\<exists>t.
     lock_row tid s = Some t \<and> lt_status t = status_str Screened \<and> is_held t \<and>
     apply_transition E t a Screened st' (Some (snd (decision_outcome E d reason))) s = Inr ((), s') \<and>
     st' = fst (decision_outcome E d reason))"
  unfolding resolve_screening_hold_def transaction_Inr bind_tx_Inr lock_transfer_tx primitive_tx
    status.dec_Inr_iff Let_def case_prod_beta by auto

lemma apply_onchain_Inr:
  "apply_onchain E tid target payload s = Inr (out, s') \<longleftrightarrow> (\<exists>t from'.
     lock_row tid s = Some t \<and> lt_status t = status_str from' \<and>
     (if onchain_path target from' = [] then out = AlreadyApplied from' \<and> s' = s
      else if \<not> path_ok allowed (from' # onchain_path target from') then out = Ignored from' \<and> s' = s
      else \<exists>st. out = Applied st \<and>
        apply_path E t payload from' (onchain_path target from') s = Inr (st, s')))"
proof -
  have inner: "(if path = [] then return_tx (AlreadyApplied from')
      else if \<not> path_ok allowed (from' # path) then return_tx (Ignored from')
      else bind_tx (apply_path E t payload from' path) (\<lambda>st. return_tx (Applied st))) s = Inr (out, s') \<longleftrightarrow>
    (if path = [] then out = AlreadyApplied from' \<and> s' = s
      else if \<not> path_ok allowed (from' # path) then out = Ignored from' \<and> s' = s
      else \<exists>st. out = Applied st \<and> apply_path E t payload from' path s = Inr (st, s'))" for path t from' s
    by (auto simp: bind_tx_Inr primitive_tx simp del: path_ok.simps)
  show ?thesis
    unfolding apply_onchain_def bind_tx_Inr lock_transfer_tx primitive_tx status.dec_Inr_iff Let_def inner
    by auto
qed

lemma apply_onchain_decided:
  assumes "lock_row tid s = Some t" and "lt_status t = status_str from'"
  shows "apply_onchain E tid target payload s = Inr (out, s') \<longleftrightarrow>
     (if onchain_path target from' = [] then out = AlreadyApplied from' \<and> s' = s
      else if \<not> path_ok allowed (from' # onchain_path target from') then out = Ignored from' \<and> s' = s
      else \<exists>st. out = Applied st \<and>
        apply_path E t payload from' (onchain_path target from') s = Inr (st, s'))"
  unfolding apply_onchain_Inr using assms by (simp add: status.enc_inject del: path_ok.simps)

lemma apply_path_at:
  "engine_at t from' s \<Longrightarrow> apply_path E t payload from' path s = Inr (st, s') \<Longrightarrow>
   engine_at t st s' \<and> st = last (from' # path)"
proof (induction path arbitrary: from' s)
  case Nil
  then show ?case by (simp add: tx_simps)
next
  case (Cons to path)
  then obtain u where "engine_at t to u" "apply_path E t payload to path u = Inr (st, s')"
    by (auto simp: bind_tx_Inr split: if_splits intro: apply_at refund_at)
  from Cons.IH [OF this] show ?case by auto
qed

lemma expire_transfer_at:
  assumes "engine_ok s" and "expire_transfer E tid a s = (Inr u, s')"
  shows "\<exists>t. lock_row tid s = Some t \<and> engine_at t Expired s'"
  using assms apply_at [OF engine_atI] unfolding expire_transfer_Inr by blast

lemma reverse_transfer_at:
  assumes "engine_ok s" and "reverse_transfer E tid reason a s = (Inr r, s')"
  shows "\<exists>t. lock_row tid s = Some t \<and> engine_at t Reversed s'"
  using assms refund_at [OF apply_at [OF engine_atI]] unfolding reverse_transfer_Inr by blast

lemma resolve_screening_hold_at:
  assumes "engine_ok s" and "resolve_screening_hold E tid d reason a s = (Inr st', s')"
  shows "\<exists>t. lock_row tid s = Some t \<and> engine_at t st' s'"
proof -
  from assms(2) obtain t where t: "lock_row tid s = Some t" "lt_status t = status_str Screened"
    and ap: "apply_transition E t a Screened st' (Some (snd (decision_outcome E d reason))) s = Inr ((), s')"
    and st: "st' = fst (decision_outcome E d reason)"
    by (auto simp: resolve_screening_hold_Inr)
  have "st' \<noteq> Reversed" by (simp add: st decision_outcome_def split: screening_decision.split)
  with apply_at [OF engine_atI [OF assms(1) t] ap] t(1) show ?thesis by blast
qed

lemma apply_onchain_at:
  assumes "engine_ok s" and "apply_onchain E tid target payload s = Inr (out, s')"
  shows "\<exists>t from'. lock_row tid s = Some t \<and> lt_status t = status_str from' \<and>
    (case out of Applied st \<Rightarrow> engine_at t st s' \<and> st = last (from' # onchain_path target from')
     | _ \<Rightarrow> engine_at t from' s' \<and> s' = s)"
proof -
  from assms(2) obtain t from' where t: "lock_row tid s = Some t" "lt_status t = status_str from'"
    and c: "if onchain_path target from' = [] then out = AlreadyApplied from' \<and> s' = s
      else if \<not> path_ok allowed (from' # onchain_path target from') then out = Ignored from' \<and> s' = s
      else \<exists>st. out = Applied st \<and> apply_path E t payload from' (onchain_path target from') s = Inr (st, s')"
    unfolding apply_onchain_Inr by blast
  have at0: "engine_at t from' s" using assms(1) t by (rule engine_atI)
  have "case out of Applied st \<Rightarrow> engine_at t st s' \<and> st = last (from' # onchain_path target from')
     | _ \<Rightarrow> engine_at t from' s' \<and> s' = s"
    using c at0 apply_path_at [OF at0] by (auto split: if_splits simp del: path_ok.simps last.simps)
  with t show ?thesis by blast
qed

lemma engine_atomic:
  "expire_transfer E tid a s = (Inl e, s') \<Longrightarrow> s' = s"
  "reverse_transfer E tid reason a s = (Inl e, s') \<Longrightarrow> s' = s"
  "resolve_screening_hold E tid d reason' a s = (Inl e, s') \<Longrightarrow> s' = s"
  by (simp_all add: expire_transfer_def reverse_transfer_def resolve_screening_hold_def transaction_Inl)

lemma at_keeps:
  assumes "engine_ok s" and "\<And>a s'. m s = (Inr a, s') \<Longrightarrow> \<exists>t. lock_row tid s = Some t \<and> engine_at t (f a) s'"
    and "\<And>e s'. m s = (Inl e, s') \<Longrightarrow> s' = s"
  shows "engine_ok (snd (m s))"
proof (cases "m s")
  case (Pair r s')
  show ?thesis
  proof (cases r)
    case (Inl e)
    with Pair assms show ?thesis by auto
  next
    case (Inr a)
    with Pair assms(2) [of a s'] show ?thesis by (auto simp: engine_at_def)
  qed
qed

lemma advance_once_ok: "engine_ok s \<Longrightarrow> engine_ok (snd (advance_once E cfg tid a s))"
  by (rule at_keeps [OF _ advance_once_at advance_once_atomic])

lemma expire_transfer_ok: "engine_ok s \<Longrightarrow> engine_ok (snd (expire_transfer E tid a s))"
  by (rule at_keeps [OF _ expire_transfer_at engine_atomic(1)])

lemma reverse_transfer_ok: "engine_ok s \<Longrightarrow> engine_ok (snd (reverse_transfer E tid reason a s))"
  by (rule at_keeps [OF _ reverse_transfer_at engine_atomic(2)])

lemma resolve_screening_hold_ok:
  "engine_ok s \<Longrightarrow> engine_ok (snd (resolve_screening_hold E tid d reason a s))"
  by (rule at_keeps [OF _ resolve_screening_hold_at engine_atomic(3)])

lemma apply_onchain_ok:
  "engine_ok s \<Longrightarrow> apply_onchain E tid target payload s = Inr (out, s') \<Longrightarrow> engine_ok s'"
  using apply_onchain_at by (fastforce simp: engine_at_def split: onchain_outcome.splits)

end
