(* ===== verification/Engine_Properties.thy ===== *)
theory Engine_Properties
  imports Engine_Facts
begin

text \<open>
  The properties of the transfer engine: what a transfer's postings add up to in each status,
  that funding never overdraws, that the drive loops return, that a terminal transfer stays as it
  is, and how confirmed vault events are applied.
\<close>

section \<open>The net ledger effect of a history\<close>

definition amounts_ok :: "transfer_row \<Rightarrow> bool" where
  "amounts_ok r \<longleftrightarrow> 0 \<le> tr_send_amount r \<and> in_i64 (tr_send_amount r) \<and>
     0 \<le> tr_receive_amount r \<and> in_i64 (tr_receive_amount r)"

lemma neg64_nonneg: "0 \<le> x \<Longrightarrow> in_i64 x \<Longrightarrow> neg64 x = - x"
  by (simp add: neg64_def in_i64_def wrap64_def)

lemma path_funded:
  "path_ok allowed p \<Longrightarrow> p \<noteq> [] \<Longrightarrow> hd p = Created \<Longrightarrow>
   last p \<in> {Funded, Settling, Settled, PayingOut, Completed, Reversing, Reversed} \<Longrightarrow> Funded \<in> set p"
proof (induction p rule: rev_induct)
  case (snoc y p)
  show ?case
  proof (cases "p = []")
    case True
    with snoc.prems show ?thesis by simp
  next
    case False
    with snoc.prems have "path_ok allowed p" "hd p = Created" "y \<in> set (allowed (last p))"
      by (simp_all add: path_ok_snoc)
    with snoc False show ?thesis by (cases "last p") auto
  qed
qed simp

lemma path_net:
  assumes "amounts_ok r"
  shows "path_ok allowed p \<Longrightarrow> p \<noteq> [] \<Longrightarrow> hd p = Created \<Longrightarrow>
    net k (path_postings r p) =
      (if k = tr_send_currency r \<and> Funded \<in> set p \<and> last p \<noteq> Reversed then - tr_send_amount r else 0) +
      (if k = tr_receive_currency r \<and> last p \<in> {Settled, PayingOut} then tr_receive_amount r else 0)"
proof (induction p rule: rev_induct)
  case (snoc y p)
  show ?case
  proof (cases "p = []")
    case True
    with snoc.prems show ?thesis by simp
  next
    case False
    with snoc.prems have p: "path_ok allowed p" "hd p = Created" "y \<in> set (allowed (last p))"
      by (simp_all add: path_ok_snoc)
    have "Funded \<notin> set p" if "y = Funded"
      using transfer.path_distinct [OF snoc.prems(1)] that by simp
    moreover have "Funded \<in> set p" if "y = Reversed"
      using p that path_funded [OF p(1) False p(2)] by (cases "last p") auto
    moreover note snoc.IH [OF p(1) False p(2)]
    ultimately show ?thesis
      using assms p(3) False
      by (cases "last p")
        (auto simp: path_postings_snoc step_postings_def neg64_nonneg amounts_ok_def)
  qed
qed simp

definition was_funded :: "uuid \<Rightarrow> db \<Rightarrow> bool" where
  "was_funded t s \<longleftrightarrow> ''FUNDED'' \<in> set (map th_status (history_of t s))"


section \<open>Where a transfer is\<close>

definition status_at :: "uuid \<Rightarrow> transfer_status \<Rightarrow> db \<Rightarrow> bool" where
  "status_at tid st s \<longleftrightarrow>
     (case find (\<lambda>r. tr_id r = tid) (transfers s) of
        None \<Rightarrow> False
      | Some r \<Rightarrow> tr_status r = status_str st)"

lemma lock_row_status:
  "lock_row tid s = Some t \<Longrightarrow> status_at tid st s \<longleftrightarrow> lt_status t = status_str st"
  by (auto simp: status_at_def elim!: lock_row_Some)

lemma status_at_unique: "status_at tid x s \<Longrightarrow> status_at tid y s \<Longrightarrow> x = y"
  by (auto simp: status_at_def status.enc_inject split: option.splits)

lemma apply_transition_status:
  assumes "apply_transition E t a from' to payload u = Inr (x, s')" and "lock_row tid s = Some t"
    and "transfers u = transfers s"
  shows "status_at tid to s'" and "to \<in> set (allowed from')"
proof -
  from assms(2) obtain r where r: "find (\<lambda>r. tr_id r = tid) (transfers s) = Some r" "tr_id r = tid" "locks r t"
    by (rule lock_row_Some)
  from apply_transition_moved(1) [OF assms(1) r(3)] obtain n where
    "transfers s' = update_where (\<lambda>x. tr_id x = tid)
        (\<lambda>x. x\<lparr>tr_status := status_str to, tr_updated_at := n\<rparr>) (transfers s)"
    by (auto simp: moved_def r(2) assms(3))
  then show "status_at tid to s'"
    by (simp add: status_at_def find_update_where_key r(1))
  show "to \<in> set (allowed from')" by (rule apply_transition_moved(2) [OF assms(1) r(3)])
qed

lemma funds_short_transfers: "funds_short t from' s = Inr (b, u) \<Longrightarrow> transfers u = transfers s"
  using funds_short_posted by (simp add: posted_def)

text \<open>Each turn of \<open>advance_once\<close> that moves the transfer climbs the rank.\<close>

lemma advance_once_climbs:
  assumes "advance_once E cfg tid a s = (Inr st', s')" and "status_at tid st s"
  shows "status_at tid st' s'"
    and "st' = st \<and> s' = s \<and> (st = Settling \<and> settlement_onchain cfg \<or> forward_step st = None) \<or>
      status_rank st < status_rank st'"
  using assms(1)
proof (atomize (full), cases rule: advance_once_cases)
  case (blocked t from')
  with assms(2) have "from' = st" by (simp add: lock_row_status status.enc_inject)
  with blocked assms(2) show "status_at tid st' s' \<and> (st' = st \<and> s' = s \<and>
      (st = Settling \<and> settlement_onchain cfg \<or> forward_step st = None) \<or> status_rank st < status_rank st')"
    by auto
next
  case (short t u)
  with assms(2) have "st = AwaitingFunds" using status.enc_inject lock_row_status by metis
  with short apply_transition_status [OF short(5,1) funds_short_transfers [OF short(3)]]
  show "status_at tid st' s' \<and> (st' = st \<and> s' = s \<and>
      (st = Settling \<and> settlement_onchain cfg \<or> forward_step st = None) \<or> status_rank st < status_rank st')"
    by simp
next
  case (forward t from' u p)
  with assms(2) have "from' = st" by (simp add: lock_row_status status.enc_inject)
  with forward apply_transition_status [OF forward(8,1) funds_short_transfers [OF forward(6)]]
  show "status_at tid st' s' \<and> (st' = st \<and> s' = s \<and>
      (st = Settling \<and> settlement_onchain cfg \<or> forward_step st = None) \<or> status_rank st < status_rank st')"
    by (auto dest: forward_step_rank)
qed

section \<open>Errors of the engine\<close>

lemma parse_currency_Inl: "parse_currency x = Inl f \<Longrightarrow> \<exists>m. f = Err (validation m)"
  by (auto simp: parse_currency_def split: if_splits)

lemma parse_status_Inl: "parse_status x = Inl f \<Longrightarrow> \<exists>m. f = Err (validation m)"
  by (auto simp: parse_status_def split: if_splits)

definition code_of :: "failure \<Rightarrow> error_code option" where
  "code_of f = (case f of Err e \<Rightarrow> Some (err_code e) | Panic \<Rightarrow> None)"

lemma post_one_Inl: "post_one E t ccy x what rv s = Inl f \<Longrightarrow> f = Err from_sqlx_error"
  by (auto simp: post_one_def post_ledger_entry_def tx_simps)

lemma post_ledger_for_Inl:
  "post_ledger_for E t from' to s = Inl f \<Longrightarrow> code_of f \<in> {Some Validation, Some ServerError}"
  by (auto simp: post_ledger_for_def tx_simps code_of_def split: if_splits
      dest!: post_one_Inl parse_currency_Inl)

lemma apply_transition_Inl:
  "apply_transition E t a from' to payload s = Inl f \<Longrightarrow>
   code_of f \<in> {Some Conflict, Some Validation, Some ServerError}"
  by (auto simp: apply_transition_def tx_simps assert_transition_def code_of_def split: if_splits
      dest!: post_ledger_for_Inl)

lemma funds_short_Inl:
  "funds_short t from' s = Inl f \<Longrightarrow> code_of f \<in> {Some Validation, Some ServerError}"
  by (auto simp: funds_short_def tx_simps code_of_def split: if_splits dest!: parse_currency_Inl)

lemma payload_for_Inl: "payload_for E t to n = Inl f \<Longrightarrow> code_of f = Some Validation"
  by (auto simp: payload_for_def code_of_def Let_def split: transfer_status.splits sum.splits
      dest!: parse_currency_Inl)

text \<open>The only compliance hold that \<open>advance_once\<close> reports is the one recorded on the transfer.\<close>

lemma advance_once_hold:
  assumes "advance_once E cfg tid a s = (Inl f, s')" and "code_of f = Some ComplianceHold"
  shows "\<exists>t. lock_row tid s = Some t \<and> lt_status t = status_str Screened \<and> is_held t"
proof (rule ccontr)
  assume no: "\<not> ?thesis"
  have "code_of f \<in> {Some NotFound, Some Conflict, Some Validation, Some ServerError}"
    using assms(1) no
    unfolding advance_once_def transaction_Inl bind_tx_Inl lock_transfer_tx primitive_tx_Inl primitive_tx
      status.dec_Inr_iff
    by (auto simp: tx_simps code_of_def split: option.splits if_splits
        dest!: parse_status_Inl funds_short_Inl [unfolded code_of_def]
          apply_transition_Inl [unfolded code_of_def] payload_for_Inl [unfolded code_of_def])
  with assms(2) show False by simp
qed

section \<open>The drive loops\<close>

text \<open>Where a drive loop may leave a transfer: no step left, on hold, or waiting for the chain.\<close>

definition parked :: "config \<Rightarrow> uuid \<Rightarrow> transfer_status \<Rightarrow> db \<Rightarrow> bool" where
  "parked cfg tid st s \<longleftrightarrow> forward_step st = None \<or> st = Settling \<and> settlement_onchain cfg \<or>
     st = Screened \<and> (case lock_row tid s of None \<Rightarrow> False | Some t \<Rightarrow> is_held t)"

lemma advance_once_or_hold_turn:
  assumes "advance_once_or_hold E cfg tid st s = (Inr st', s')" and st: "status_at tid st s"
  shows "status_at tid st' s'"
    and "st' = st \<and> parked cfg tid st s' \<or> status_rank st < status_rank st'"
proof (atomize (full), cases "advance_once E cfg tid None s")
  case (Pair r u)
  show "status_at tid st' s' \<and> (st' = st \<and> parked cfg tid st s' \<or> status_rank st < status_rank st')"
  proof (cases r)
    case (Inr x)
    with Pair assms have a: "advance_once E cfg tid None s = (Inr st', s')"
      by (simp add: advance_once_or_hold_def)
    from advance_once_climbs [OF a st] show ?thesis by (auto simp: parked_def)
  next
    case (Inl f)
    with Pair assms(1) have f: "code_of f = Some ComplianceHold" "st' = st" "s' = u"
      by (auto simp: advance_once_or_hold_def code_of_def split: failure.splits if_splits)
    from Inl Pair have a: "advance_once E cfg tid None s = (Inl f, u)" by simp
    from advance_once_atomic [OF a] have u: "u = s" .
    from advance_once_hold [OF a f(1)] obtain t where
      "lock_row tid s = Some t" "lt_status t = status_str Screened" "is_held t" by blast
    moreover from this st have "st = Screened" using lock_row_status status.enc_inject by metis
    ultimately show ?thesis using st f u by (simp add: parked_def)
  qed
qed

lemma terminal_no_step: "is_terminal st \<Longrightarrow> forward_step st = None"
  by (auto simp: is_terminal_def)

lemma drive_returns:
  "status_at tid st s \<Longrightarrow> 10 < status_rank st + n \<Longrightarrow>
   \<exists>r s'. drive go n Es cfg tid st s = Some (r, s') \<and>
     (\<forall>st'. r = Inr st' \<longrightarrow> status_at tid st' s' \<and> (\<not> go st' \<or> parked cfg tid st' s'))"
proof (induction n arbitrary: st s)
  case 0
  have "status_rank st \<le> 10" by (rule transfer.bounded)
  with 0 show ?case by simp
next
  case (Suc n)
  show ?case
  proof (cases "go st")
    case False
    with Suc.prems show ?thesis by simp
  next
    case True
    obtain r u where run: "advance_once_or_hold (Es n) cfg tid st s = (r, u)"
      by (cases "advance_once_or_hold (Es n) cfg tid st s")
    show ?thesis
    proof (cases r)
      case (Inl e)
      with True run show ?thesis by simp
    next
      case (Inr st')
      note turn = advance_once_or_hold_turn [OF run [unfolded Inr] Suc.prems(1)]
      show ?thesis
      proof (cases "st' = st \<or> is_terminal st'")
        case stop: True
        have "parked cfg tid st' u"
          using stop turn(2) terminal_no_step [of st'] by (auto simp: parked_def)
        with True run Inr stop turn(1) show ?thesis by simp
      next
        case False
        with turn(2) Suc.prems(2) have "10 < status_rank st' + n" by auto
        from Suc.IH [OF turn(1) this] True run Inr False show ?thesis by simp
      qed
    qed
  qed
qed

lemma status_of_cases:
  "status_of tid s = (r, s') \<Longrightarrow> s' = s \<and> (\<forall>st. r = Inr st \<longrightarrow> status_at tid st s)"
  by (cases r) (auto simp: status_of_def transaction_Inr transaction_Inl tx_simps status_at_def
      split: option.splits)

lemma drive_from_returns:
  assumes "10 < n"
  shows "\<exists>r s'. drive_from go n Es cfg tid s = Some (r, s') \<and>
     (\<forall>st. r = Inr st \<longrightarrow> status_at tid st s' \<and> (\<not> go st \<or> parked cfg tid st s'))"
proof (cases "status_of tid s")
  case (Pair r s')
  from status_of_cases [OF Pair] have s': "s' = s" "\<And>st. r = Inr st \<Longrightarrow> status_at tid st s" by auto
  show ?thesis
  proof (cases r)
    case (Inl e)
    with Pair show ?thesis by (simp add: drive_from_def)
  next
    case (Inr st)
    from drive_returns [OF s'(2) [OF Inr], of n] assms Pair Inr s'(1)
    show ?thesis by (simp add: drive_from_def)
  qed
qed

text \<open>
  C3: \<open>advance_to_completion\<close> always returns within eleven turns, from any state; when it returns
  a status, it is the transfer's stored status, and the transfer has no forward step left, is held
  by the compliance screen, or waits for the chain in \<open>SETTLING\<close>.
\<close>

theorem advance_to_completion_returns:
  "\<exists>r s'. advance_to_completion 11 Es cfg tid s = Some (r, s') \<and>
     (case r of Inl e \<Rightarrow> True | Inr st \<Rightarrow> status_at tid st s' \<and> parked cfg tid st s')"
proof -
  obtain r s' where "advance_to_completion 11 Es cfg tid s = Some (r, s')"
    and "\<forall>st. r = Inr st \<longrightarrow> status_at tid st s' \<and> (forward_step st = None \<or> parked cfg tid st s')"
    using drive_from_returns [of 11 "\<lambda>st. forward_step st \<noteq> None" Es cfg tid s]
    by (auto simp: advance_to_completion_def)
  then show ?thesis by (auto simp: parked_def split: sum.split)
qed

text \<open>
  \<open>advance_to_awaiting_funds\<close> always returns; the status it returns is stored, and is past the
  internal checks, or \<open>SCREENED\<close> under a compliance hold.
\<close>

theorem advance_to_awaiting_funds_returns:
  "\<exists>r s'. advance_to_awaiting_funds 11 Es cfg tid s = Some (r, s') \<and>
     (case r of Inl e \<Rightarrow> True
      | Inr st \<Rightarrow> status_at tid st s' \<and>
          (if pre_funding st
           then st = Screened \<and> (case lock_row tid s' of None \<Rightarrow> False | Some t \<Rightarrow> is_held t)
           else True))"
proof -
  obtain r s' where "advance_to_awaiting_funds 11 Es cfg tid s = Some (r, s')"
    and "\<forall>st. r = Inr st \<longrightarrow> status_at tid st s' \<and> (\<not> pre_funding st \<or> parked cfg tid st s')"
    using drive_from_returns [of 11 pre_funding Es cfg tid s]
    by (auto simp: advance_to_awaiting_funds_def)
  then show ?thesis by (auto simp: parked_def pre_funding_def split: sum.split)
qed

section \<open>Funding\<close>

text \<open>
  C2: when \<open>advance_once\<close> funds a transfer, the customer's balance in the send currency drops by
  exactly the send amount and is not negative afterwards, and no other balance moves.
\<close>

theorem funding_is_covered:
  assumes ok: "engine_ok s" and r: "find (\<lambda>r. tr_id r = tid) (transfers s) = Some r"
    and amt: "amounts_ok r" and st: "tr_status r = ''AWAITING_FUNDS''"
    and run: "advance_once E cfg tid a s = (Inr Funded, s')"
  shows "0 \<le> balance (tr_customer r) (tr_send_currency r) s' \<and>
    balance c k s' = balance c k s -
      (if c = tr_customer r \<and> k = tr_send_currency r then tr_send_amount r else 0)"
  using run
proof (cases rule: advance_once_cases)
  case (blocked t from')
  with lock_row_Some [OF blocked(1)] r st show ?thesis by fastforce
next
  case (forward t from' u p)
  have lr: "locks r t" "lt_status t = tr_status r"
    using forward(1) r by (auto elim!: lock_row_Some)
  have from': "from' = AwaitingFunds"
    using forward(2) lr(2) st status.enc_inject [of from' AwaitingFunds] by simp
  have lok: "ledger_ok s" using ok by (simp add: engine_ok_def)
  from forward(6) obtain ccy acct where
    ccy: "tr_send_currency r = currency_str ccy" and
    g: "get_or_create_account_by_code (tr_customer r) (currency_str ccy) s = Inr (acct, u)" and
    bal: "tr_send_amount r \<le> account_sum acct u"
    using lr(1) by (auto simp: funds_short_def from' bind_tx_Inr primitive_tx currency.dec_Inr_iff
        locks_def account_balance_minor_tx get_or_create_account_tx(1))
  note u = get_or_create_ok [OF lok g]
  have mv: "moved r Funded (step_postings r AwaitingFunds Funded) u s'"
    using apply_transition_moved(1) [OF forward(8) lr(1)] by (simp add: from')
  have eff: "balance d j s' = balance d j s - (if d = tr_customer r \<and> j = tr_send_currency r
      then tr_send_amount r else 0)" for d j
    using mv u(1,3) amt by (simp add: moved_def step_postings_def neg64_nonneg amounts_ok_def)
  have "balance (tr_customer r) (tr_send_currency r) s = account_sum acct u"
    using balance_holds [OF u(1,2)] u(3) ccy by simp
  with bal eff show ?thesis by simp
qed simp

section \<open>Terminal transfers\<close>

lemma apply_transition_stuck:
  "to \<notin> set (allowed from') \<Longrightarrow> \<exists>f. apply_transition E t a from' to payload s = Inl f"
  by (simp add: apply_transition_def bind_tx_def lift_result_def assert_transition_def)

lemma unchanged:
  assumes "\<And>e s'. m s = (Inl e, s') \<Longrightarrow> s' = s" and "\<And>x s'. m s = (Inr x, s') \<Longrightarrow> s' = s"
  shows "snd (m s) = s"
  using assms by (cases "m s"; cases "fst (m s)") auto

lemma status_at_lock: "status_at tid st s \<Longrightarrow> lock_row tid s = Some t \<Longrightarrow> lt_status t = status_str x \<Longrightarrow> x = st"
  using lock_row_status status.enc_inject by metis

lemma advance_once_terminal:
  assumes st: "status_at tid st s" and fin: "st \<in> {Rejected, Expired, Reversed}"
  shows "snd (advance_once E cfg tid a s) = s"
proof (cases "advance_once E cfg tid a s")
  case (Pair r s')
  then show ?thesis
  proof (cases r)
    case (Inl e)
    with Pair show ?thesis using advance_once_atomic by simp
  next
    case (Inr st')
    with Pair have run: "advance_once E cfg tid a s = (Inr st', s')" by simp
    then have "s' = s"
    proof (cases rule: advance_once_cases)
      case (short t u)
      with status_at_lock [OF st short(1,2)] fin show ?thesis by simp
    next
      case (forward t from' u p)
      with status_at_lock [OF st forward(1,2)] fin show ?thesis by auto
    qed
    with run show ?thesis by simp
  qed
qed

lemma apply_onchain_terminal:
  assumes st: "status_at tid st s" and al: "allowed st = []"
    and run: "apply_onchain E tid target payload s = Inr (out, s')"
  shows "s' = s"
proof -
  from run obtain t from' where t: "lock_row tid s = Some t" "lt_status t = status_str from'"
    and c: "if onchain_path target from' = [] then out = AlreadyApplied from' \<and> s' = s
    else if \<not> path_ok allowed (from' # onchain_path target from') then out = Ignored from' \<and> s' = s
    else \<exists>st. out = Applied st \<and> apply_path E t payload from' (onchain_path target from') s = Inr (st, s')"
    unfolding apply_onchain_Inr by blast
  have "onchain_path target st = [] \<or> \<not> path_ok allowed (st # onchain_path target st)"
    using al by (cases "onchain_path target st") simp_all
  with c status_at_lock [OF st t] show ?thesis by (auto split: if_splits)
qed

text \<open>
  C4: a rejected, expired or reversed transfer is final: no operation of the engine, no drive and
  no vault event changes anything in the database.
\<close>

theorem terminal_is_final:
  assumes st: "status_at tid st s" and fin: "st \<in> {Rejected, Expired, Reversed}"
  shows "snd (advance_once E cfg tid a s) = s \<and> snd (expire_transfer E tid a s) = s \<and>
    snd (reverse_transfer E tid reason a s) = s \<and> snd (resolve_screening_hold E tid d why a s) = s \<and>
    (case apply_onchain E tid target payload s of Inl f \<Rightarrow> True | Inr (out, s') \<Rightarrow> s' = s)"
proof -
  have al: "allowed st = []" using fin by (simp add: allowed_empty_iff)
  have no: "apply_transition E t a' st to p s \<noteq> Inr y" for E t a' to p y
    using apply_transition_stuck [of to st] al by (metis empty_iff empty_set sum.simps(4))
  have "snd (expire_transfer E tid a s) = s"
    by (rule unchanged [OF engine_atomic(1)]) (auto simp: expire_transfer_Inr no dest: status_at_lock [OF st])
  moreover have "snd (reverse_transfer E tid reason a s) = s"
    by (rule unchanged [OF engine_atomic(2)]) (auto simp: reverse_transfer_Inr no dest: status_at_lock [OF st])
  moreover have "snd (resolve_screening_hold E tid d why a s) = s"
    by (rule unchanged [OF engine_atomic(3)])
      (use fin status_at_lock [OF st, where x = Screened] in \<open>auto simp: resolve_screening_hold_Inr\<close>)
  ultimately show ?thesis
    using advance_once_terminal [OF st fin] apply_onchain_terminal [OF st al] by (auto split: sum.split)
qed

section \<open>Vault events\<close>

lemma engine_at_status: "engine_at t st s \<Longrightarrow> status_at (lt_id t) st s"
  by (auto simp: engine_at_def engine_ok_def status_at_def locks_def
      dest: find_distinct_key [where k = tr_id])

lemma find_deal:
  assumes "map deal (transfers s') = map deal (transfers s)"
    and "find (\<lambda>r. tr_id r = tid) (transfers s) = Some r"
  obtains r' where "find (\<lambda>r. tr_id r = tid) (transfers s') = Some r'" and "deal r' = deal r"
proof -
  have id: "tr_id x = tr_id y" if "deal x = deal y" for x y
    using that by (cases x; cases y; simp add: deal_def)
  have "list_all2 (\<lambda>x y. deal x = deal y) (transfers s') (transfers s)"
    using assms(1) by (simp add: list_all2_map1 list_all2_map2 flip: list.rel_eq)
  then have "\<exists>r'. find (\<lambda>r. tr_id r = tid) (transfers s') = Some r' \<and> deal r' = deal r"
    using assms(2) by (induction rule: list_all2_induct) (auto dest: id split: if_splits)
  then show thesis using that by blast
qed

lemma lock_row_frame:
  assumes "lock_row tid s = Some t" and fr: "engine_frame s s'"
  shows "\<exists>t'. lock_row tid s' = Some t'"
proof -
  from assms(1) obtain r where r: "find (\<lambda>r. tr_id r = tid) (transfers s) = Some r"
    by (rule lock_row_Some)
  with assms(2) obtain r' where r': "find (\<lambda>r. tr_id r = tid) (transfers s') = Some r'" "deal r' = deal r"
    by (auto simp: engine_frame_def elim: find_deal)
  have "tr_recipient r' = tr_recipient r" using r'(2) by (cases r; cases r'; simp add: deal_def)
  with r r' assms show ?thesis
    by (auto simp: lock_row_def engine_frame_def other_tables_def split: option.splits)
qed

lemma onchain_path_settles:
  "path_ok allowed (from' # onchain_path target from') \<Longrightarrow>
   onchain_path target (last (from' # onchain_path target from')) = []"
  by (cases target; cases from') (auto simp: onchain_path_def split: if_splits)

text \<open>
  C5: a vault event is applied at most once: after it moved a transfer, the same kind of event for
  that transfer, with whatever payload and at whatever time, finds it already there and changes
  nothing.
\<close>

theorem onchain_replay_is_ignored:
  assumes ok: "engine_ok s" and run: "apply_onchain E tid target payload s = Inr (Applied st, s')"
  shows "apply_onchain E' tid target payload' s' = Inr (AlreadyApplied st, s')"
proof -
  from apply_onchain_at [OF ok run] obtain t from' where
    t: "lock_row tid s = Some t" "lt_status t = status_str from'" and
    at1: "engine_at t st s'" and st: "st = last (from' # onchain_path target from')"
    by auto
  note dec = run [unfolded apply_onchain_decided [OF t]]
  have "path_ok allowed (from' # onchain_path target from')"
  proof (rule ccontr)
    assume "\<not> ?thesis"
    with dec show False by (simp del: path_ok.simps split: if_splits)
  qed
  from onchain_path_settles [OF this] st have stay: "onchain_path target st = []" by simp
  have "lt_id t = tid" using t(1) by (auto simp: locks_def elim!: lock_row_Some)
  with engine_at_status [OF at1] have stat: "status_at tid st s'" by simp
  have "engine_frame s s'" by (rule upholdsD [OF apply_onchain_frame run])
  from lock_row_frame [OF t(1) this] obtain t' where t': "lock_row tid s' = Some t'" by blast
  have "lt_status t' = status_str st" using stat lock_row_status [OF t'] by simp
  from apply_onchain_decided [OF t' this] show ?thesis by (simp add: stay)
qed

text \<open>
  a vault event never errors on the transfer's status: if the transfer and its currencies are
  readable, the only failures are database failures, so an unexpected state cannot stall the
  listener.
\<close>

theorem onchain_never_rejects:
  assumes "lock_row tid s = Some t" and "lt_status t = status_str st" and "lt_send_currency t = currency_str c1"
    and "lt_receive_currency t = currency_str c2"
  shows "case apply_onchain E tid target payload s of Inl f \<Rightarrow> f = Err from_sqlx_error | Inr _ \<Rightarrow> True"
proof -
  have pl: "f = Err from_sqlx_error" if "post_ledger_for E t x y u = Inl f" for x y u f
    using that assms(3,4)
    by (auto simp: post_ledger_for_def tx_simps split: if_splits dest!: post_one_Inl)
  have ap: "f = Err from_sqlx_error"
    if "apply_transition E t a x y p u = Inl f" "y \<in> set (allowed x)" for a x y p u f
    using that by (auto simp: apply_transition_def tx_simps assert_transition_def dest!: pl)
  have rf: "f = Err from_sqlx_error" if "post_send_refund E t u = Inl f" for u f
    using that assms(3) by (auto simp: post_send_refund_def tx_simps dest!: post_one_Inl)
  have path: "f = Err from_sqlx_error"
    if "apply_path E t payload x path u = Inl f" "path_ok allowed (x # path)" for x path u f
    using that
  proof (induction path arbitrary: x u)
    case (Cons y path)
    from Cons.prems(2) have y: "y \<in> set (allowed x)" "path_ok allowed (y # path)" by (cases path; simp)+
    have ap': "f = Err from_sqlx_error" if "apply_transition E t a x y p v = Inl f" for a p v
      using that y(1) by (rule ap)
    show ?case
    proof (cases "y = Reversed")
      case True
      with Cons.prems(1) Cons.IH [OF _ y(2)] ap' show ?thesis by (auto simp: bind_tx_Inl dest: rf)
    next
      case False
      with Cons.prems(1) Cons.IH [OF _ y(2)] ap' show ?thesis by (auto simp: bind_tx_Inl)
    qed
  qed (simp add: tx_simps)
  have "f = Err from_sqlx_error" if "apply_onchain E tid target payload s = Inl f" for f
    using that assms(1,2)
    unfolding apply_onchain_def bind_tx_Inl lock_transfer_tx primitive_tx_Inl primitive_tx Let_def
    by (auto simp: bind_tx_Inl tx_simps split: if_splits dest: path)
  then show ?thesis by (auto split: sum.split)
qed

section \<open>Reversal\<close>

text \<open>
  C6: a reversal gives the send amount back to the send account, takes back the converted amount
  only if it had not been paid out yet, moves nothing else, and returns the id of the refund
  entry, the last one it posts.
\<close>

theorem reversal_restores:
  assumes ok: "engine_ok s" and r: "find (\<lambda>r. tr_id r = tid) (transfers s) = Some r"
    and amt: "amounts_ok r" and run: "reverse_transfer E tid reason a s = (Inr ref, s')"
  shows "balance c k s' = balance c k s +
      (if c = tr_customer r \<and> k = tr_send_currency r then tr_send_amount r else 0) -
      (if c = tr_customer r \<and> k = tr_receive_currency r \<and> tr_status r \<in> {''SETTLED'', ''PAYING_OUT''}
       then tr_receive_amount r else 0) \<and>
    status_at tid Reversed s' \<and> ref = uuid_str E (le_id (last (ledger_entries s'))) \<and>
    le_amount (last (ledger_entries s')) = tr_send_amount r"
proof -
  from run obtain t from' entry u v where t: "lock_row tid s = Some t" "lt_status t = status_str from'"
    and a1: "apply_transition E t a from' Reversing (Some (JObj [(''reason'', JStr reason)])) s = Inr ((), u)"
    and rf: "post_send_refund E t u = Inr (entry, v)"
    and a2: "apply_transition E t a Reversing Reversed (Some (JObj [(''reason'', JStr reason),
       (''reversalLedgerEntryId'', JStr (uuid_str E entry))])) v = Inr ((), s')"
    and ref: "ref = uuid_str E entry"
    unfolding reverse_transfer_Inr by blast
  have lr: "locks r t" "lt_status t = tr_status r" using t(1) r by (auto elim!: lock_row_Some)
  have tid: "lt_id t = tid" using t(1) by (auto simp: locks_def elim!: lock_row_Some)
  have lok: "ledger_ok s" using ok by (simp add: engine_ok_def)
  have rs: "tr_status r = status_str from'" using lr(2) t(2) by simp
  have fs: "tr_status r \<in> {''SETTLED'', ''PAYING_OUT''} \<longleftrightarrow> from' = Settled \<or> from' = PayingOut"
    by (simp add: rs; cases from'; simp)
  have m1: "moved r Reversing (step_postings r from' Reversing) s u"
    using apply_transition_moved(1) [OF a1 lr(1)] by simp
  have m2: "moved r Reversed (step_postings r Reversing Reversed) u s'"
    by (rule refund_moved [OF rf lr(1) a2])
  have "balance c k s' = balance c k s + (if c = tr_customer r
      then net k (step_postings r from' Reversing) + net k (step_postings r Reversing Reversed) else 0)"
    using m1 m2 lok by (simp add: moved_def)
  moreover have "engine_at t Reversed s'"
    by (rule refund_at [OF apply_at [OF engine_atI [OF ok t] a1] rf a2]) simp
  from engine_at_status [OF this] have "status_at tid Reversed s'" by (simp add: tid)
  moreover have "ledger_entries s' = ledger_entries v"
    using apply_transition_moved(1) [OF a2 lr(1)] by (auto simp: moved_def)
  moreover have "le_id (last (ledger_entries v)) = entry \<and> le_amount (last (ledger_entries v)) = tr_send_amount r"
    using rf lr(1) by (auto simp: post_send_refund_def post_one_def post_ledger_entry_def
        bind_tx_Inr primitive_tx append_entry_tx locks_def)
  ultimately show ?thesis
    using amt unfolding fs by (auto simp: ref step_postings_def neg64_nonneg amounts_ok_def)
qed

text \<open>
  a \<open>QuoteCancelled\<close> event on a transfer that was already funded rejects it and posts nothing:
  the funding debit stays, in a status no operation leaves again.
\<close>

theorem cancelled_after_funding_keeps_debit:
  assumes ok: "engine_ok s" and r: "find (\<lambda>r. tr_id r = tid) (transfers s) = Some r"
    and st: "tr_status r \<in> {''FUNDED'', ''SETTLING''}"
    and run: "apply_onchain E tid (ToCancelled q) payload s = Inr (out, s')"
  shows "out = Applied Rejected \<and> status_at tid Rejected s' \<and> balance c k s' = balance c k s"
proof -
  from run obtain t from' where t: "lock_row tid s = Some t" "lt_status t = status_str from'"
    and c: "if onchain_path (ToCancelled q) from' = [] then out = AlreadyApplied from' \<and> s' = s
      else if \<not> path_ok allowed (from' # onchain_path (ToCancelled q) from') then out = Ignored from' \<and> s' = s
      else \<exists>st. out = Applied st \<and>
        apply_path E t payload from' (onchain_path (ToCancelled q) from') s = Inr (st, s')"
    unfolding apply_onchain_Inr by blast
  have lr: "locks r t" "lt_status t = tr_status r" using t(1) r by (auto elim!: lock_row_Some)
  have tid: "lt_id t = tid" using t(1) by (auto simp: locks_def elim!: lock_row_Some)
  have rs: "tr_status r = status_str from'" using lr(2) t(2) by simp
  have from': "from' = Funded \<or> from' = Settling" using st by (simp add: rs; cases from'; simp)
  then have "onchain_path (ToCancelled q) from' = [Rejected]" "path_ok allowed [from', Rejected]"
    by (auto simp: onchain_path_def)
  with c have out: "out = Applied Rejected"
    and ap: "apply_transition E t None from' Rejected (Some payload) s = Inr ((), s')"
    by (auto simp: tx_simps)
  have "engine_at t Rejected s'" by (rule apply_at [OF engine_atI [OF ok t] ap]) simp
  from engine_at_status [OF this] out
  have "out = Applied Rejected \<and> status_at tid Rejected s'" by (simp add: tid)
  moreover have "balance c k s' = balance c k s"
    using apply_transition_moved(1) [OF ap lr(1)] ok
    by (simp add: moved_def step_postings_def engine_ok_def)
  ultimately show ?thesis by simp
qed

end
