(* ===== verification/Scenarios.thy ===== *)
theory Scenarios
  imports Engine_Properties
begin

text \<open>
  Concrete states and runs: the inhabited cases of the properties of \<open>Engine_Properties\<close>, and two
  runs that show what the ledger model of the engine lets happen.
\<close>

section \<open>A small database\<close>

definition sample_env :: env where
  "sample_env = \<lparr>now = 1000, draws = (\<lambda>_. []), iso = (\<lambda>_. ''t''), uuid_str = nat_to_string,
     parse_uuid = (\<lambda>_. None), parse_rfc3339 = (\<lambda>_. None), keccak256 = (\<lambda>_. [])\<rparr>"

definition sample_config :: config where
  "sample_config = \<lparr>cfg_host = [], cfg_port = 4000, cfg_database_url = [], cfg_storage_dir = ''.storage'',
     cfg_cors_origins = [], kyb_check_delay_ms = 0, quote_ttl_seconds = 300,
     transfer_auto_advance_ms = 0, transfer_step_delay_ms = 0, max_transfer_amount_minor = 1000000,
     max_aggregate_exposure_minor = 5000000, compliance_amount_threshold_minor = 1000000,
     fx_divergence_threshold_percent = f64_lit 2 0, fx_breaker_failure_threshold = 3,
     fx_breaker_reset_seconds = 10, fx_cache_max_age_seconds = 300, fx_call_timeout_ms = 2000,
     settlement_onchain = False, settlement_confirmations = 3, settlement_poll_ms = 2000,
     settlement_start_block = 0, settlement_log_range = 1000, settlement_chain_id = None,
     settlement_vault_address = None, settlement_usdc_address = None, settlement_explorer_url = None,
     yellowcard_api_key = None, yellowcard_api_secret = None, yellowcard_base_url = [],
     yellowcard_channel_id = None, yellowcard_source_account = None, bridge_api_key = None,
     bridge_base_url = [], bridge_webhook_public_key = None, bridge_destination_rail = ''base'',
     bridge_destination_currency = ''usdc'', bridge_destination_address = None, cfg_is_test = True,
     cookie_secure = False\<rparr>"

definition sample_quote :: firm_quote where
  "sample_quote = \<lparr>fq_id = 30, fq_send_currency = Ngn, fq_receive_currency = Usd,
     fq_rate = f64_lit 1 0, fq_fee = money_new 0 Ngn, fq_send_amount = money_new 400 Ngn,
     fq_receive_amount = money_new 50 Usd, fq_source = Live, fq_issued_at = 0, fq_expires_at = 0\<rparr>"

definition sample_transfer ::
  "uuid \<Rightarrow> string \<Rightarrow> string \<Rightarrow> string \<Rightarrow> int \<Rightarrow> int \<Rightarrow> transfer_status \<Rightarrow> transfer_row" where
  "sample_transfer i ref send receive x y st =
     \<lparr>tr_id = i, tr_reference = ref, tr_customer = 1, tr_key = ref, tr_recipient = 3,
      tr_send_currency = send, tr_receive_currency = receive, tr_send_amount = x,
      tr_receive_amount = y, tr_trade_description = None, tr_quote = sample_quote,
      tr_status = status_str st, tr_created_at = 0, tr_updated_at = 0, tr_settlement_ref = None\<rparr>"

definition sample_history :: "uuid \<Rightarrow> transfer_status list \<Rightarrow> history_row list" where
  "sample_history i sts = map (\<lambda>(n, st). \<lparr>th_transfer = i, th_position = int n,
     th_status = status_str st, th_entered_at = 0, th_note = None, th_payload = None\<rparr>)
     (zip [0..<length sts] sts)"

text \<open>
  Customer 1 has 1000 minor units of naira, paid in before. Transfer 20 sends 400 of them and
  converts to 50 dollar cents; transfer 21 sends 50 dollar cents.
\<close>

definition sample_db :: db where
  "sample_db = \<lparr>next_id = 100, customers = [],
     accounts = [\<lparr>acc_id = 10, acc_customer = 1, acc_currency = ''NGN''\<rparr>],
     ledger_entries = [\<lparr>le_id = 11, le_account = 10, le_transfer = None, le_trade = None,
       le_inbound = Some 12, le_amount = 1000, le_currency = ''NGN'', le_running = 1000,
       le_description = ''pay-in'', le_reversal_of = None, le_posted_at = 0\<rparr>],
     audit_log = [],
     recipients = [\<lparr>rc_id = 3, rc_customer = 1, rc_account_name = ''Ada'', rc_account_number = ''1'',
       rc_bank_code = ''1'', rc_bank_name = ''Bank'', rc_currency = ''USD'', rc_country = ''KE'',
       rc_validation_status = ''valid'', rc_saved_at = 0\<rparr>],
     quotes = [],
     transfers = [sample_transfer 20 ''KM-A'' ''NGN'' ''USD'' 400 50 AwaitingFunds,
                  sample_transfer 21 ''KM-B'' ''USD'' ''KES'' 50 6000 AwaitingFunds],
     transfer_history = sample_history 20 [Created, Quoted, Screened, AwaitingFunds] @
       sample_history 21 [Created, Quoted, Screened, AwaitingFunds],
     settlement_trades = [], collections = [], inbound_payments = [], virtual_accounts = [],
     settlement_events = [], settlement_cursor = [], fx_rates = [], fx_secondary_rates = [],
     fx_divergences = [], users = [], sessions = [], applications = [], principals = [],
     documents = [], kyb_checks = []\<rparr>"

lemma sample_ledger_ok: "ledger_ok sample_db"
  by (simp add: sample_db_def ledger_ok_def running_ok_def entry_placed_def wrap64_def)

lemma sample_engine_ok: "engine_ok sample_db"
proof -
  have "transfer_ok sample_db r" if "r \<in> set (transfers sample_db)" for r
    unfolding transfer_ok_def
    by (rule exI [of _ "[Created, Quoted, Screened, AwaitingFunds]"])
      (use that in \<open>auto simp: sample_db_def sample_transfer_def sample_history_def history_of_def
        postings_of_def step_postings_def upt_rec\<close>)
  with sample_ledger_ok show ?thesis
    by (auto simp: engine_ok_def sample_db_def sample_transfer_def sample_history_def
        transfer_ids_def upt_rec)
qed

text \<open>What evaluates a run of the engine on a concrete state.\<close>

lemmas engine_eval = advance_once_def transaction_def bind_tx_def return_tx_def throw_def gets_def
  modify_def lift_result_def ok_or_def ensure_def fresh_id_def lock_transfer_def lock_row_def
  parse_status_def parse_currency_def funds_short_def get_or_create_account_def
  get_or_create_account_by_code_def find_account_def account_balance_minor_def account_sum_def
  bigint_def payload_for_def apply_transition_def assert_transition_def append_history_def
  set_status_def post_ledger_for_def post_one_def post_ledger_entry_def append_entry_def
  write_audit_def neg64_def in_i64_def wrap64_def Let_def next_position_def history_of_def
  latest_history_def is_held_def

lemmas sample_eval = sample_db_def sample_config_def sample_transfer_def sample_history_def upt_rec

section \<open>A transfer from funding to reversal\<close>

definition sample_advance :: "uuid \<Rightarrow> db \<Rightarrow> db" where
  "sample_advance t s = snd (advance_once sample_env sample_config t None s)"

definition funded_db :: db where
  "funded_db = sample_advance 20 sample_db"

lemma funded_run: "advance_once sample_env sample_config 20 None sample_db = (Inr Funded, funded_db)"
proof -
  have "fst (advance_once sample_env sample_config 20 None sample_db) = Inr Funded"
    by (simp add: sample_eval engine_eval)
  then show ?thesis by (simp add: funded_db_def sample_advance_def prod_eq_iff)
qed

lemma funded_ok: "engine_ok funded_db"
  by (simp add: funded_db_def sample_advance_def advance_once_ok sample_engine_ok)

lemma funded_transfers:
  "transfers funded_db =
     [sample_transfer 20 ''KM-A'' ''NGN'' ''USD'' 400 50 Funded\<lparr>tr_updated_at := 1000\<rparr>,
      sample_transfer 21 ''KM-B'' ''USD'' ''KES'' 50 6000 AwaitingFunds]"
  by (simp add: funded_db_def sample_advance_def sample_eval engine_eval sample_env_def)

lemma funded_recipients: "recipients funded_db = recipients sample_db"
  using advance_once_frame [of sample_db sample_env sample_config 20 None]
  by (simp add: funded_db_def sample_advance_def engine_frame_def other_tables_def)

lemma sample_amounts_ok: "0 \<le> x \<Longrightarrow> in_i64 x \<Longrightarrow> 0 \<le> y \<Longrightarrow> in_i64 y \<Longrightarrow>
    amounts_ok (sample_transfer i ref a b x y st)"
  by (simp add: amounts_ok_def sample_transfer_def)


theorem funding_is_covered_witness:
  "0 \<le> balance 1 ''NGN'' funded_db \<and> balance 1 ''NGN'' funded_db = balance 1 ''NGN'' sample_db - 400"
proof -
  have "find (\<lambda>r. tr_id r = 20) (transfers sample_db) =
      Some (sample_transfer 20 ''KM-A'' ''NGN'' ''USD'' 400 50 AwaitingFunds)"
    by (simp add: sample_db_def sample_transfer_def)
  from funding_is_covered [OF sample_engine_ok this _ _ funded_run, of 1 "''NGN''"]
  show ?thesis by (simp add: sample_transfer_def amounts_ok_def in_i64_def)
qed

definition expired_db :: db where
  "expired_db = snd (expire_transfer sample_env 20 None sample_db)"

lemma expired_status: "status_at 20 Expired expired_db"
  by (simp add: expired_db_def expire_transfer_def sample_eval engine_eval sample_env_def status_at_def)

theorem terminal_is_final_witness:
  "snd (advance_once sample_env sample_config 20 None expired_db) = expired_db \<and>
   snd (expire_transfer sample_env 20 None expired_db) = expired_db \<and>
   snd (reverse_transfer sample_env 20 ''r'' None expired_db) = expired_db \<and>
   snd (resolve_screening_hold sample_env 20 Clear None None expired_db) = expired_db \<and>
   (case apply_onchain sample_env 20 ToSettled (JObj []) expired_db of
      Inl f \<Rightarrow> True | Inr (out, s') \<Rightarrow> s' = expired_db)"
  by (rule terminal_is_final [OF expired_status]) simp

section \<open>Vault events\<close>

definition settled_db :: db where
  "settled_db = (case apply_onchain sample_env 20 ToSettled (JObj []) funded_db of
     Inl f \<Rightarrow> funded_db | Inr (out, s') \<Rightarrow> s')"

lemma settled_run: "apply_onchain sample_env 20 ToSettled (JObj []) funded_db = Inr (Applied Settled, settled_db)"
proof -
  have "\<exists>s'. apply_onchain sample_env 20 ToSettled (JObj []) funded_db = Inr (Applied Settled, s')"
    by (simp add: apply_onchain_def onchain_path_def funded_db_def sample_advance_def sample_eval
        engine_eval sample_env_def)
  then show ?thesis by (auto simp: settled_db_def)
qed

lemma settled_ok: "engine_ok settled_db"
  by (rule apply_onchain_ok [OF funded_ok settled_run])

theorem onchain_replay_is_ignored_witness:
  "apply_onchain sample_env 20 ToSettled (JObj [(''again'', JNull)]) settled_db =
     Inr (AlreadyApplied Settled, settled_db)"
  by (rule onchain_replay_is_ignored [OF funded_ok settled_run])

lemma funded_lock:
  "\<exists>t. lock_row 20 funded_db = Some t \<and> lt_status t = status_str Funded \<and>
     lt_send_currency t = currency_str Ngn \<and> lt_receive_currency t = currency_str Usd"
  by (simp add: lock_row_def funded_transfers funded_recipients sample_db_def sample_transfer_def)

theorem onchain_never_rejects_witness:
  "case apply_onchain sample_env 20 ToReversed (JObj []) funded_db of
     Inl f \<Rightarrow> f = Err from_sqlx_error | Inr _ \<Rightarrow> True"
  using funded_lock onchain_never_rejects by blast

theorem cancelled_after_funding_keeps_debit_witness:
  "\<exists>s'. apply_onchain sample_env 20 (ToCancelled True) (JObj []) funded_db = Inr (Applied Rejected, s') \<and>
     status_at 20 Rejected s' \<and> balance 1 ''NGN'' s' = balance 1 ''NGN'' funded_db"
proof -
  have "\<exists>out s'. apply_onchain sample_env 20 (ToCancelled True) (JObj []) funded_db = Inr (out, s')"
    by (simp add: apply_onchain_def onchain_path_def funded_db_def sample_advance_def sample_eval
        engine_eval sample_env_def)
  then obtain out s' where run:
    "apply_onchain sample_env 20 (ToCancelled True) (JObj []) funded_db = Inr (out, s')" by blast
  have "find (\<lambda>r. tr_id r = 20) (transfers funded_db) =
      Some (sample_transfer 20 ''KM-A'' ''NGN'' ''USD'' 400 50 Funded\<lparr>tr_updated_at := 1000\<rparr>)"
    by (simp add: funded_transfers sample_transfer_def)
  from cancelled_after_funding_keeps_debit [OF funded_ok this _ run, of 1 "''NGN''"] run
  show ?thesis by (simp add: sample_transfer_def)
qed

section \<open>Reversal\<close>

lemma settled_transfer:
  "find (\<lambda>r. tr_id r = 20) (transfers settled_db) =
     Some (sample_transfer 20 ''KM-A'' ''NGN'' ''USD'' 400 50 Settled\<lparr>tr_updated_at := 1000\<rparr>)"
  by (simp add: settled_db_def apply_onchain_def onchain_path_def funded_db_def sample_advance_def
      sample_eval engine_eval sample_env_def)

definition reversed_db :: db where
  "reversed_db = snd (reverse_transfer sample_env 20 ''payout failed'' None settled_db)"

lemma reversal_run:
  "\<exists>ref. reverse_transfer sample_env 20 ''payout failed'' None settled_db = (Inr ref, reversed_db)"
proof -
  have "\<exists>ref. fst (reverse_transfer sample_env 20 ''payout failed'' None settled_db) = Inr ref"
    by (simp add: reverse_transfer_def post_send_refund_def settled_db_def apply_onchain_def
        onchain_path_def funded_db_def sample_advance_def sample_eval engine_eval sample_env_def)
  then show ?thesis by (auto simp: reversed_db_def prod_eq_iff)
qed

theorem reversal_restores_witness:
  "balance 1 ''NGN'' reversed_db = balance 1 ''NGN'' settled_db + 400 \<and> status_at 20 Reversed reversed_db"
proof -
  obtain ref where run: "reverse_transfer sample_env 20 ''payout failed'' None settled_db = (Inr ref, reversed_db)"
    using reversal_run by blast
  from reversal_restores [OF settled_ok settled_transfer _ run, of 1 "''NGN''"]
  show ?thesis by (simp add: sample_transfer_def amounts_ok_def in_i64_def)
qed

section \<open>The converted amount can be spent before it is paid out\<close>

text \<open>
  between \<open>SETTLED\<close> and \<open>COMPLETED\<close> the converted amount of a transfer sits in the customer's
  ordinary account, where another transfer can be funded with it; completing the first transfer
  then takes the account below zero. From a state with no negative balance, six calls of
  \<open>advance_once\<close> leave customer 1 with minus fifty dollar cents.
\<close>

theorem converted_amount_can_be_overdrawn:
  "balance 1 ''USD'' sample_db = 0 \<and> balance 1 ''USD'' (sample_advance 20 (sample_advance 20 (sample_advance 21
     (sample_advance 20 (sample_advance 20 (sample_advance 20 sample_db)))))) = - 50"
  by (simp add: sample_eval engine_eval balance_def sample_advance_def)

end
