(* ===== verification/Resilience.thy ===== *)
theory Resilience
  imports Prelude
begin

text \<open>
  \<open>src/domain/resilience.rs\<close>: the circuit breaker. A call is two critical sections around the
  protected operation, \<open>begin_call\<close> (admit or fail fast) and \<open>finish_call\<close> (record the outcome),
  so that concurrent calls can be interleaved; \<open>call\<close> runs the three in a row. Instants and
  durations are in milliseconds.
\<close>

datatype breaker_state = Closed | Open instant | HalfOpen

datatype 'e call_error = NotAttempted int | Failed 'e

record breaker =
  br_state :: breaker_state
  br_failures :: nat
  br_threshold :: nat
  br_reset :: int

definition new_breaker :: "nat \<Rightarrow> int \<Rightarrow> breaker" where
  "new_breaker failure_threshold reset_timeout =
     \<lparr>br_state = Closed, br_failures = 0, br_threshold = max failure_threshold 1,
      br_reset = reset_timeout\<rparr>"

text \<open>Admit a call, saying whether it is a trial, or fail fast with the time left.\<close>

definition begin_call :: "instant \<Rightarrow> breaker \<Rightarrow> (int + bool) \<times> breaker" where
  "begin_call t b =
     (case br_state b of
        Open opened_at \<Rightarrow>
          (let elapsed = t - opened_at
           in if elapsed < br_reset b then (Inl (br_reset b - elapsed), b)
              else (Inr True, b\<lparr>br_state := HalfOpen\<rparr>))
      | HalfOpen \<Rightarrow> (Inr True, b)
      | Closed \<Rightarrow> (Inr False, b))"

text \<open>The failure counter is a \<open>u32\<close>.\<close>

definition finish_call :: "instant \<Rightarrow> bool \<Rightarrow> bool \<Rightarrow> breaker \<Rightarrow> breaker" where
  "finish_call t is_trial ok b =
     (if ok then b\<lparr>br_failures := 0, br_state := Closed\<rparr>
      else let failures = (br_failures b + 1) mod 2 ^ 32
           in b\<lparr>br_failures := failures,
                br_state := (if is_trial \<or> br_threshold b \<le> failures then Open t else br_state b)\<rparr>)"

definition call ::
  "instant \<Rightarrow> instant \<Rightarrow> ('s \<Rightarrow> ('e + 'a) \<times> 's) \<Rightarrow> breaker \<Rightarrow> 's \<Rightarrow> ('e call_error + 'a) \<times> breaker \<times> 's" where
  "call t1 t2 op' b s =
     (case begin_call t1 b of
        (Inl retry_after, b1) \<Rightarrow> (Inl (NotAttempted retry_after), b1, s)
      | (Inr is_trial, b1) \<Rightarrow>
          (case op' s of
             (Inr v, s') \<Rightarrow> (Inr v, finish_call t2 is_trial True b1, s')
           | (Inl e, s') \<Rightarrow> (Inl (Failed e), finish_call t2 is_trial False b1, s')))"

section \<open>What the breaker promises\<close>

text \<open>
  The contract of a breaker for a client that makes one call after the other: the number of
  failures since the last success, and when the breaker opened.
\<close>

datatype spec_state = Counting nat | Tripped instant

definition abs_breaker :: "breaker \<Rightarrow> spec_state" where
  "abs_breaker b = (case br_state b of Open t \<Rightarrow> Tripped t | _ \<Rightarrow> Counting (br_failures b))"

fun spec_call :: "nat \<Rightarrow> int \<Rightarrow> instant \<Rightarrow> instant \<Rightarrow> bool \<Rightarrow> spec_state \<Rightarrow> spec_state" where
  "spec_call threshold reset t1 t2 ok (Counting n) =
     (if ok then Counting 0 else if threshold \<le> n + 1 then Tripped t2 else Counting (n + 1))"
| "spec_call threshold reset t1 t2 ok (Tripped t) =
     (if t1 - t < reset then Tripped t else if ok then Counting 0 else Tripped t2)"

definition breaker_ok :: "breaker \<Rightarrow> bool" where
  "breaker_ok b \<longleftrightarrow> 1 \<le> br_threshold b \<and> br_threshold b < 2 ^ 32 \<and> br_state b \<noteq> HalfOpen \<and>
     (br_state b = Closed \<longrightarrow> br_failures b < br_threshold b)"

lemma new_breaker_ok: "n < 2 ^ 32 \<Longrightarrow> breaker_ok (new_breaker n r)"
  by (simp add: new_breaker_def breaker_ok_def max_def)

lemma finish_call_fixed [simp]:
  "br_threshold (finish_call t tr ok b) = br_threshold b" "br_reset (finish_call t tr ok b) = br_reset b"
  by (simp_all add: finish_call_def Let_def)

lemma begin_call_fixed:
  "begin_call t b = (r, b') \<Longrightarrow> br_threshold b' = br_threshold b \<and> br_reset b' = br_reset b"
  by (auto simp: begin_call_def Let_def split: breaker_state.splits if_splits)

text \<open>
  C9: calls made one after the other refine the specification of a breaker: it counts consecutive
  failures, trips exactly when they reach the threshold, fails fast until the cooldown is over,
  and then lets one trial decide; the invariant that excludes a half-open breaker between calls is
  kept.
\<close>

theorem breaker_refines:
  assumes "breaker_ok b" and run: "call t1 t2 op' b s = (r, b', s')"
  shows "breaker_ok b' \<and> abs_breaker b' =
    spec_call (br_threshold b) (br_reset b) t1 t2 (case op' s of (Inr v, _) \<Rightarrow> True | (Inl e, _) \<Rightarrow> False)
      (abs_breaker b)"
proof (cases "br_state b")
  case Closed
  have "Suc (br_failures b) < 2 ^ 32" using assms(1) Closed by (simp add: breaker_ok_def)
  then have "Suc (br_failures b) mod 2 ^ 32 = Suc (br_failures b)" by simp
  with assms Closed show ?thesis
    by (auto simp: call_def begin_call_def finish_call_def abs_breaker_def breaker_ok_def Let_def
        split: sum.splits prod.splits)
next
  case (Open t)
  with assms show ?thesis
    by (auto simp: call_def begin_call_def finish_call_def abs_breaker_def breaker_ok_def Let_def
        split: sum.splits prod.splits if_splits)
next
  case HalfOpen
  with assms show ?thesis by (simp add: breaker_ok_def)
qed

theorem breaker_refines_witness:
  "abs_breaker (fst (snd (call 0 5 (\<lambda>s::nat. (Inl ''down'' :: string + nat, s)) (new_breaker 1 10) 7))) = Tripped 5"
proof -
  have ok: "breaker_ok (new_breaker 1 10)" by (rule new_breaker_ok) simp
  show ?thesis
    using breaker_refines [OF ok, of 0 5 "\<lambda>s::nat. (Inl ''down'' :: string + nat, s)" 7]
    by (cases "call 0 5 (\<lambda>s::nat. (Inl ''down'' :: string + nat, s)) (new_breaker 1 10) 7")
      (simp add: new_breaker_def abs_breaker_def)
qed

text \<open>
  while the breaker is open and the cooldown has not passed, the protected operation is not
  run: the call reports the time left, and neither the breaker nor the state behind it changes.
\<close>

theorem open_breaker_fails_fast:
  assumes "br_state b = Open t" and "t1 - t < br_reset b"
  shows "call t1 t2 op' b s = (Inl (NotAttempted (br_reset b - (t1 - t))), b, s)"
  using assms by (simp add: call_def begin_call_def)

theorem open_breaker_fails_fast_witness:
  "call 12 13 (\<lambda>n::nat. (Inr (n + 1) :: unit + nat, n + 1))
     \<lparr>br_state = Open 10, br_failures = 3, br_threshold = 3, br_reset = 5\<rparr> 0 =
   (Inl (NotAttempted 3), \<lparr>br_state = Open 10, br_failures = 3, br_threshold = 3, br_reset = 5\<rparr>, 0)"
  using open_breaker_fails_fast [of "\<lparr>br_state = Open 10, br_failures = 3, br_threshold = 3, br_reset = 5\<rparr>"
      10 12 13 "\<lambda>n::nat. (Inr (n + 1), n + 1)" 0] by simp

text \<open>
  calls that overlap are different: once the cooldown has passed, every call that begins before
  the first trial has finished is admitted as a trial of its own, however many there are.
\<close>

fun begin_all :: "instant list \<Rightarrow> breaker \<Rightarrow> (int + bool) list \<times> breaker" where
  "begin_all [] b = ([], b)"
| "begin_all (t # ts) b =
     (let (r, b1) = begin_call t b; (rs, b2) = begin_all ts b1 in (r # rs, b2))"

lemma begin_all_half_open:
  "br_state b = HalfOpen \<Longrightarrow> begin_all ts b = (replicate (length ts) (Inr True), b)"
  by (induction ts) (simp_all add: begin_call_def)

theorem overlapping_trials_all_admitted:
  assumes "br_state b = Open t" and "br_reset b \<le> t1 - t"
  shows "fst (begin_all (t1 # ts) b) = replicate (Suc (length ts)) (Inr True)"
  using assms by (simp add: begin_call_def begin_all_half_open)

theorem overlapping_trials_all_admitted_witness:
  "fst (begin_all [20, 20, 21] \<lparr>br_state = Open 10, br_failures = 3, br_threshold = 3, br_reset = 5\<rparr>) =
     replicate 3 (Inr True)"
  using overlapping_trials_all_admitted
    [of "\<lparr>br_state = Open 10, br_failures = 3, br_threshold = 3, br_reset = 5\<rparr>" 10 20 "[20, 21]"]
  by (simp del: begin_all.simps add: eval_nat_numeral)

end
