(* ===== verification/Fx.thy ===== *)
theory Fx
  imports Ledger Resilience
begin

text \<open>
  \<open>src/domain/fx.rs\<close>: the two rate providers, the divergence check, the primary feed behind the
  circuit breaker with its cache of last known rates, and the indicative rate. The breaker and the
  cache are in memory, next to the database. What the network does with a call of the primary feed
  is \<open>feed\<close>: it answers, fails, or hangs beyond the call timeout.
\<close>

section \<open>Providers\<close>

definition one_f64 :: f64 where "one_f64 = Fin 1"
definition hundred_f64 :: f64 where "hundred_f64 = Fin 100"

definition jitter_spread :: f64 where "jitter_spread = f64_lit 4 3"
definition secondary_jitter_spread :: f64 where "secondary_jitter_spread = f64_lit 6 3"

text \<open>\<open>(rate * (1 + (r - 0.5) * spread) * 100).round() / 100\<close>.\<close>

definition drift :: "f64 \<Rightarrow> f64 \<Rightarrow> f64 \<Rightarrow> f64" where
  "drift spread r rate =
     (let factor = f64_add one_f64 (f64_mul (f64_sub r (Fin (1 / 2))) spread)
      in f64_div (f64_round (f64_mul (f64_mul rate factor) hundred_f64)) hundred_f64)"

definition rate_of :: "string \<Rightarrow> fx_row list \<Rightarrow> f64 option" where
  "rate_of pair rows = map_option fx_rate (find (\<lambda>r. fx_pair r = pair) rows)"

definition primary_get_rate :: "string \<Rightarrow> f64 option tx" where
  "primary_get_rate pair = gets (\<lambda>s. rate_of pair (fx_rates s))"

definition secondary_get_rate :: "string \<Rightarrow> f64 option tx" where
  "secondary_get_rate pair = gets (\<lambda>s. rate_of pair (fx_secondary_rates s))"

definition jitter_secondary :: "env \<Rightarrow> f64 \<Rightarrow> string \<Rightarrow> unit tx" where
  "jitter_secondary E r pair =
     bind_tx (secondary_get_rate pair) (\<lambda>rate.
       case rate of None \<Rightarrow> return_tx ()
       | Some x \<Rightarrow> modify (\<lambda>s. s\<lparr>fx_secondary_rates := update_where (\<lambda>q. fx_pair q = pair)
           (\<lambda>q. q\<lparr>fx_rate := drift secondary_jitter_spread r x, fx_as_of := now E\<rparr>)
           (fx_secondary_rates s)\<rparr>))"

definition divergence_percent :: "f64 \<Rightarrow> f64 \<Rightarrow> f64" where
  "divergence_percent a b = f64_mul (f64_div (f64_abs (f64_sub a b)) a) hundred_f64"

definition check_divergence :: "string \<Rightarrow> f64 \<Rightarrow> f64 option tx" where
  "check_divergence pair threshold =
     bind_tx (primary_get_rate pair) (\<lambda>ra.
     bind_tx (secondary_get_rate pair) (\<lambda>rb.
       case ra of None \<Rightarrow> return_tx None | Some a \<Rightarrow>
       case rb of None \<Rightarrow> return_tx None | Some b \<Rightarrow>
       let d = divergence_percent a b
       in bind_tx (if f64_less threshold d
            then modify (\<lambda>s. s\<lparr>fx_divergences := fx_divergences s @
              [\<lparr>dv_pair = pair, dv_rate_a = a, dv_rate_b = b, dv_percent = d, dv_threshold = threshold\<rparr>]\<rparr>)
            else return_tx ()) (\<lambda>_. return_tx (Some d))))"

text \<open>Most recent first: the events are appended in the order they are detected.\<close>

definition recent_divergence_events :: "nat \<Rightarrow> divergence_row list tx" where
  "recent_divergence_events limit = gets (\<lambda>s. take limit (rev (fx_divergences s)))"

definition pair_key :: "currency_code \<Rightarrow> currency_code \<Rightarrow> string" where
  "pair_key send receive = currency_str send @ ''/'' @ currency_str receive"

record rate =
  rt_rate :: f64
  rt_change_percent_24h :: f64
  rt_as_of :: instant

definition current_rate :: "env \<Rightarrow> f64 \<Rightarrow> string \<Rightarrow> bool \<Rightarrow> rate option tx" where
  "current_rate E r pair jitter =
     bind_tx (gets (\<lambda>s. find (\<lambda>q. fx_pair q = pair) (fx_rates s))) (\<lambda>row.
       case row of None \<Rightarrow> return_tx None
       | Some q \<Rightarrow>
           if \<not> jitter then return_tx (Some \<lparr>rt_rate = fx_rate q,
             rt_change_percent_24h = fx_change_percent_24h q, rt_as_of = fx_as_of q\<rparr>)
           else let drifted = drift jitter_spread r (fx_rate q)
             in bind_tx (modify (\<lambda>s. s\<lparr>fx_rates := update_where (\<lambda>x. fx_pair x = pair)
                  (\<lambda>x. x\<lparr>fx_rate := drifted, fx_as_of := now E\<rparr>) (fx_rates s)\<rparr>)) (\<lambda>_.
                return_tx (Some \<lparr>rt_rate = drifted,
                  rt_change_percent_24h = fx_change_percent_24h q, rt_as_of = now E\<rparr>)))"

section \<open>The resilient feed\<close>

datatype rate_outcome = LiveRate rate | Provisional rate | NoRate

record cached_rate =
  cr_rate :: rate
  cr_cached_at :: instant

record fx_state =
  fx_breaker :: breaker
  fx_cache :: "string \<Rightarrow> cached_rate option"
  fx_max_cache_age :: int
  fx_call_timeout :: nat

definition new_fx :: "nat \<Rightarrow> int \<Rightarrow> int \<Rightarrow> nat \<Rightarrow> fx_state" where
  "new_fx failure_threshold reset_timeout max_cache_age call_timeout =
     \<lparr>fx_breaker = new_breaker failure_threshold reset_timeout, fx_cache = (\<lambda>_. None),
      fx_max_cache_age = max_cache_age, fx_call_timeout = call_timeout\<rparr>"

datatype feed = Answers | FailsWith api_error | Hangs

definition timed_fetch :: "nat \<Rightarrow> feed \<Rightarrow> rate option tx \<Rightarrow> db \<Rightarrow> (failure + rate option) \<times> db" where
  "timed_fetch timeout fd fetch s =
     (case fd of
        Answers \<Rightarrow> transaction fetch s
      | FailsWith e \<Rightarrow> (Inl (Err e), s)
      | Hangs \<Rightarrow> (Inl (Err (api_error_new PartnerFailure
          (''fx feed call exceeded '' @ nat_to_string timeout @ ''ms''))), s))"

text \<open>
  \<open>resolve\<close> at instants \<open>t1\<close> (the call begins) and \<open>t2\<close> (it has ended). A failed call falls back
  to the cache; the time to wait is reported in whole seconds.
\<close>

definition resolve ::
  "instant \<Rightarrow> instant \<Rightarrow> feed \<Rightarrow> string \<Rightarrow> rate option tx \<Rightarrow> fx_state \<Rightarrow> db \<Rightarrow>
   rate_outcome api_result \<times> fx_state \<times> db" where
  "resolve t1 t2 fd pair fetch fx s =
     (case call t1 t2 (timed_fetch (fx_call_timeout fx) fd fetch) (fx_breaker fx) s of
        (Inr (Some r), b, s') \<Rightarrow>
          (Inr (LiveRate r), fx\<lparr>fx_breaker := b,
             fx_cache := (fx_cache fx)(pair \<mapsto> \<lparr>cr_rate = r, cr_cached_at = t2\<rparr>)\<rparr>, s')
      | (Inr None, b, s') \<Rightarrow> (Inr NoRate, fx\<lparr>fx_breaker := b\<rparr>, s')
      | (Inl outcome, b, s') \<Rightarrow>
          let retry_after = (case outcome of NotAttempted d \<Rightarrow> d | Failed e \<Rightarrow> 0);
              unavailable = Inl (Err (partner_unavailable pair (nat (retry_after div 1000))))
          in (case fx_cache fx pair of
                None \<Rightarrow> unavailable
              | Some c \<Rightarrow> if t2 - cr_cached_at c \<le> fx_max_cache_age fx
                  then Inr (Provisional (cr_rate c)) else unavailable,
              fx\<lparr>fx_breaker := b\<rparr>, s'))"

record indicative_rate =
  ir_send :: currency_code
  ir_receive :: currency_code
  ir_rate :: f64
  ir_change_percent_24h :: f64
  ir_as_of :: instant
  ir_source :: rate_source

text \<open>What a request meets: the feed, the two instants and the two random draws.\<close>

record fx_event =
  fe_feed :: feed
  fe_begins :: instant
  fe_ends :: instant
  fe_draw :: f64
  fe_secondary_draw :: f64

definition get_indicative_rate ::
  "env \<Rightarrow> fx_event \<Rightarrow> config \<Rightarrow> currency_code \<Rightarrow> currency_code \<Rightarrow> fx_state \<Rightarrow> db \<Rightarrow>
   indicative_rate api_result \<times> fx_state \<times> db" where
  "get_indicative_rate E ev cfg send receive fx s =
     (let pair = pair_key send receive
      in case resolve (fe_begins ev) (fe_ends ev) (fe_feed ev) pair
              (current_rate E (fe_draw ev) pair (\<not> cfg_is_test cfg)) fx s of
        (Inl f, fx', s') \<Rightarrow> (Inl f, fx', s')
      | (Inr NoRate, fx', s') \<Rightarrow>
          (Inl (Err (validation (''No rate available for '' @ pair @ ''.''))), fx', s')
      | (Inr (LiveRate r), fx', s') \<Rightarrow>
          (case transaction (bind_tx
               (if \<not> cfg_is_test cfg then jitter_secondary E (fe_secondary_draw ev) pair else return_tx ())
               (\<lambda>_. check_divergence pair (fx_divergence_threshold_percent cfg))) s' of
             (Inl f, s'') \<Rightarrow> (Inl f, fx', s'')
           | (Inr _, s'') \<Rightarrow> (Inr \<lparr>ir_send = send, ir_receive = receive, ir_rate = rt_rate r,
                ir_change_percent_24h = rt_change_percent_24h r, ir_as_of = rt_as_of r,
                ir_source = Live\<rparr>, fx', s''))
      | (Inr (Provisional r), fx', s') \<Rightarrow>
          (Inr \<lparr>ir_send = send, ir_receive = receive, ir_rate = rt_rate r,
             ir_change_percent_24h = rt_change_percent_24h r, ir_as_of = rt_as_of r,
             ir_source = CachedProvisional\<rparr>, fx', s'))"

text \<open>The route \<open>GET /rates/indicative\<close>, with its two query parameters.\<close>

definition indicative_route ::
  "env \<Rightarrow> fx_event \<Rightarrow> config \<Rightarrow> string \<Rightarrow> string \<Rightarrow> fx_state \<Rightarrow> db \<Rightarrow>
   indicative_rate api_result \<times> fx_state \<times> db" where
  "indicative_route E ev cfg send receive fx s =
     (case parse_currency send of Inl e \<Rightarrow> (Inl e, fx, s)
      | Inr s1 \<Rightarrow> (case parse_currency receive of Inl e \<Rightarrow> (Inl e, fx, s)
          | Inr r1 \<Rightarrow> get_indicative_rate E ev cfg s1 r1 fx s))"

section \<open>Properties\<close>

text \<open>The operations here touch only the rate tables.\<close>

definition fx_only :: "db \<Rightarrow> db \<Rightarrow> bool" where
  "fx_only s s' \<longleftrightarrow> s'\<lparr>fx_rates := [], fx_secondary_rates := [], fx_divergences := []\<rparr> =
     s\<lparr>fx_rates := [], fx_secondary_rates := [], fx_divergences := []\<rparr>"

interpretation fx_only: tx_frame fx_only
  by unfold_locales (auto simp: fx_only_def)

lemma fx_modify [intro]:
  "upholds fx_only (modify (\<lambda>s. s\<lparr>fx_rates := f s\<rparr>))"
  "upholds fx_only (modify (\<lambda>s. s\<lparr>fx_secondary_rates := f s\<rparr>))"
  "upholds fx_only (modify (\<lambda>s. s\<lparr>fx_divergences := g s\<rparr>))"
  by (auto simp: upholds_def tx_simps fx_only_def)

lemma current_rate_fx_only: "upholds fx_only (current_rate E r pair jitter)"
  unfolding current_rate_def Let_def by (intro fx_only.upholds_rules fx_modify)

lemma check_divergence_fx_only: "upholds fx_only (check_divergence pair threshold)"
  unfolding check_divergence_def primary_get_rate_def secondary_get_rate_def Let_def
  by (intro fx_only.upholds_rules fx_modify)

lemma jitter_secondary_fx_only: "upholds fx_only (jitter_secondary E r pair)"
  unfolding jitter_secondary_def secondary_get_rate_def
  by (intro fx_only.upholds_rules fx_modify)

lemma timed_fetch_fx_only: "upholds fx_only fetch \<Longrightarrow> fx_only s (snd (timed_fetch n fd fetch s))"
  by (auto simp: timed_fetch_def fx_only.refl intro: fx_only.transaction_upholds split: feed.split)

lemma call_state: "call t1 t2 f b s = (r, b', s') \<Longrightarrow> s' = s \<or> s' = snd (f s)"
  by (auto simp: call_def split: prod.splits sum.splits)

lemma resolve_fx_only:
  assumes "resolve t1 t2 fd pair fetch fx s = (r, fx', s')" and "upholds fx_only fetch"
  shows "fx_only s s'"
proof -
  obtain x b u where c: "call t1 t2 (timed_fetch (fx_call_timeout fx) fd fetch) (fx_breaker fx) s = (x, b, u)"
    by (metis prod_cases3)
  from call_state [OF c] timed_fetch_fx_only [OF assms(2)] have "fx_only s u"
    by (auto simp: fx_only.refl)
  with assms(1) c show ?thesis
    by (auto simp: resolve_def Let_def split: sum.splits option.splits)
qed

lemma get_indicative_rate_fx_only:
  assumes "get_indicative_rate E ev cfg send receive fx s = (r, fx', s')"
  shows "fx_only s s'"
proof -
  obtain x g u where c: "resolve (fe_begins ev) (fe_ends ev) (fe_feed ev) (pair_key send receive)
      (current_rate E (fe_draw ev) (pair_key send receive) (\<not> cfg_is_test cfg)) fx s = (x, g, u)"
    by (metis prod_cases3)
  have su: "fx_only s u" by (rule resolve_fx_only [OF c current_rate_fx_only])
  have "upholds fx_only (bind_tx
      (if \<not> cfg_is_test cfg then jitter_secondary E (fe_secondary_draw ev) (pair_key send receive) else return_tx ())
      (\<lambda>_. check_divergence (pair_key send receive) (fx_divergence_threshold_percent cfg)))"
    by (intro fx_only.upholds_rules jitter_secondary_fx_only check_divergence_fx_only)
  from fx_only.transaction_upholds [OF this, of u] su assms c show ?thesis
    by (auto simp: get_indicative_rate_def Let_def intro: fx_only.trans
        split: sum.splits rate_outcome.splits prod.splits)
qed



end
