(* ===== verification/Quote.thy ===== *)
theory Quote
  imports Fx
begin

text \<open>
  \<open>src/domain/quote.rs\<close>: stored quotes, the claim of a quote by a transfer, the derivation of both
  amounts from the one entered, and the request of a firm quote.
\<close>

section \<open>Stored quotes\<close>

record stored_quote =
  sq_id :: uuid
  sq_customer :: uuid
  sq_firm_quote :: firm_quote
  sq_expires_at :: instant

text \<open>The table does not keep the source of the rate, so a stored quote reads as \<open>Live\<close>.\<close>

definition into_stored :: "quote_row \<Rightarrow> stored_quote api_result" where
  "into_stored q =
     (case parse_currency (qu_send_currency q) of Inl e \<Rightarrow> Inl e | Inr send \<Rightarrow>
      case parse_currency (qu_receive_currency q) of Inl e \<Rightarrow> Inl e | Inr receive \<Rightarrow>
        Inr \<lparr>sq_id = qu_id q, sq_customer = qu_customer q,
          sq_firm_quote = \<lparr>fq_id = qu_id q, fq_send_currency = send, fq_receive_currency = receive,
            fq_rate = qu_rate q, fq_fee = money_new (qu_fee q) send,
            fq_send_amount = money_new (qu_send_amount q) send,
            fq_receive_amount = money_new (qu_receive_amount q) receive, fq_source = Live,
            fq_issued_at = qu_issued_at q, fq_expires_at = qu_expires_at q\<rparr>,
          sq_expires_at = qu_expires_at q\<rparr>)"

definition quote_by_id :: "env \<Rightarrow> string \<Rightarrow> stored_quote option tx" where
  "quote_by_id E i =
     (if \<not> is_uuid i then return_tx None
      else case parse_uuid E i of
        None \<Rightarrow> (\<lambda>s. Inl Panic)
      | Some u \<Rightarrow> bind_tx (gets (\<lambda>s. find (\<lambda>q. qu_id q = u) (quotes s))) (\<lambda>row.
          case row of None \<Rightarrow> return_tx None
          | Some q \<Rightarrow> bind_tx (lift_result (into_stored q)) (\<lambda>x. return_tx (Some x))))"

definition claimable :: "uuid \<Rightarrow> quote_row \<Rightarrow> bool" where
  "claimable qid q \<longleftrightarrow> qu_id q = qid \<and> qu_consumed_by q = None"

definition try_consume :: "uuid \<Rightarrow> uuid \<Rightarrow> bool tx" where
  "try_consume qid tid =
     bind_tx (gets (\<lambda>s. list_ex (claimable qid) (quotes s))) (\<lambda>hit.
     bind_tx (modify (\<lambda>s. s\<lparr>quotes := update_where (claimable qid)
         (\<lambda>q. q\<lparr>qu_consumed_by := Some tid\<rparr>) (quotes s)\<rparr>)) (\<lambda>_.
       return_tx hit))"

section \<open>Requesting a firm quote\<close>

record request_body =
  rb_send_currency :: string
  rb_receive_currency :: string
  rb_amount :: money
  rb_amount_field :: quote_amount_field

definition derive_amounts :: "quote_amount_field \<Rightarrow> int \<Rightarrow> f64 \<Rightarrow> (int \<times> int) api_result" where
  "derive_amounts field amount r =
     (case field of
        Send \<Rightarrow> Inr (amount, apply_rate amount r)
      | Receive \<Rightarrow> (case invert_rate amount r of Inl e \<Rightarrow> Inl e | Inr x \<Rightarrow> Inr (x, amount)))"

definition field_name :: "quote_amount_field \<Rightarrow> string" where
  "field_name field = (case field of Send \<Rightarrow> ''Send'' | Receive \<Rightarrow> ''Receive'')"

definition check_request :: "request_body \<Rightarrow> (currency_code \<times> currency_code) api_result" where
  "check_request body =
     (case parse_currency (trim (rb_send_currency body)) of Inl e \<Rightarrow> Inl e | Inr send \<Rightarrow>
      case parse_currency (trim (rb_receive_currency body)) of Inl e \<Rightarrow> Inl e | Inr receive \<Rightarrow>
        if send = receive then Inl (Err (validation ''Send and receive currencies must differ.''))
        else if amount_minor (rb_amount body) \<le> 0
        then Inl (Err (validation ''Enter an amount greater than zero.''))
        else let expected = (case rb_amount_field body of Send \<Rightarrow> send | Receive \<Rightarrow> receive)
          in if currency (rb_amount body) \<noteq> expected
             then Inl (Err (validation (''Amount currency must be '' @ currency_str expected @
               '' when entered on the '' @ field_name (rb_amount_field body) @ '' side.'')))
             else Inr (send, receive))"

definition insert_quote ::
  "env \<Rightarrow> config \<Rightarrow> uuid \<Rightarrow> currency_code \<Rightarrow> currency_code \<Rightarrow> f64 \<Rightarrow> int \<Rightarrow> int \<Rightarrow> quote_row tx" where
  "insert_quote E cfg customer send receive r send_minor receive_minor =
     bind_tx fresh_id (\<lambda>i.
     let row = \<lparr>qu_id = i, qu_customer = customer, qu_send_currency = currency_str send,
           qu_receive_currency = currency_str receive, qu_rate = r, qu_fee = 0,
           qu_send_amount = send_minor, qu_receive_amount = receive_minor, qu_issued_at = now E,
           qu_expires_at = now E + quote_ttl_seconds cfg * 1000, qu_consumed_by = None\<rparr>
     in bind_tx (modify (\<lambda>s. s\<lparr>quotes := quotes s @ [row]\<rparr>)) (\<lambda>_. return_tx row))"

definition request_firm_quote ::
  "env \<Rightarrow> fx_event \<Rightarrow> config \<Rightarrow> session \<Rightarrow> request_body \<Rightarrow> fx_state \<Rightarrow> db \<Rightarrow>
   firm_quote api_result \<times> fx_state \<times> db" where
  "request_firm_quote E ev cfg sess body fx s =
     (case check_request body of
        Inl e \<Rightarrow> (Inl e, fx, s)
      | Inr (send, receive) \<Rightarrow>
        (case get_indicative_rate E ev cfg send receive fx s of
           (Inl e, fx', s') \<Rightarrow> (Inl e, fx', s')
         | (Inr indicative, fx', s') \<Rightarrow>
           (case derive_amounts (rb_amount_field body) (amount_minor (rb_amount body)) (ir_rate indicative) of
              Inl e \<Rightarrow> (Inl e, fx', s')
            | Inr (send_minor, receive_minor) \<Rightarrow>
              (case transaction (insert_quote E cfg (customer_id sess) send receive
                      (ir_rate indicative) send_minor receive_minor) s' of
                 (Inl e, s'') \<Rightarrow> (Inl e, fx', s'')
               | (Inr row, s'') \<Rightarrow>
                 (case into_stored row of
                    Inl e \<Rightarrow> (Inl e, fx', s'')
                  | Inr q \<Rightarrow> (Inr ((sq_firm_quote q)\<lparr>fq_source := ir_source indicative\<rparr>), fx', s''))))))"

section \<open>Properties\<close>

lemma try_consume_tx:
  "try_consume qid tid s = Inr (b, s') \<longleftrightarrow> b = list_ex (claimable qid) (quotes s) \<and>
     s' = s\<lparr>quotes := update_where (claimable qid) (\<lambda>q. q\<lparr>qu_consumed_by := Some tid\<rparr>) (quotes s)\<rparr>"
  "try_consume qid tid s \<noteq> Inl f"
  unfolding try_consume_def bind_tx_Inr bind_tx_Inl primitive_tx by (auto simp: primitive_tx_Inl)

text \<open>
  a quote is claimed at most once: after a successful claim every later claim of the same
  quote, by whatever transfer, is refused and changes nothing.
\<close>

theorem quote_is_claimed_once:
  assumes "try_consume qid t1 s = Inr (True, s1)"
  shows "try_consume qid t2 s1 = Inr (False, s1)"
proof -
  from assms have "s1 = s\<lparr>quotes := update_where (claimable qid) (\<lambda>q. q\<lparr>qu_consumed_by := Some t1\<rparr>) (quotes s)\<rparr>"
    unfolding try_consume_tx by blast
  then have s1: "quotes s1 = update_where (claimable qid) (\<lambda>q. q\<lparr>qu_consumed_by := Some t1\<rparr>) (quotes s)"
    by simp
  have none: "\<not> list_ex (claimable qid) (quotes s1)"
    unfolding s1 by (rule update_where_exhausts) (simp add: claimable_def)
  from update_where_none [OF this] none show ?thesis unfolding try_consume_tx by simp
qed

text \<open>
  C11: the rounding of a firm quote, when no intermediate leaves the 64-bit range. An amount entered
  on the send side converts to at most its exact value, so the customer is never given more than
  the rate allows; an amount entered on the receive side is charged at most its exact price, by
  less than one minor unit: there the rounding favours the customer.
\<close>

theorem derived_amounts_round_down:
  assumes "derive_amounts field amount r = Inr (snd', rcv)" and "0 \<le> amount" and "in_i64 amount"
    and "0 < scale_rate r"
    and "amount * scale_rate r div rate_scale \<le> i64_max" and "amount * rate_scale div scale_rate r \<le> i64_max"
  shows "case field of
      Send \<Rightarrow> snd' = amount \<and> rcv * rate_scale \<le> snd' * scale_rate r \<and>
        snd' * scale_rate r < (rcv + 1) * rate_scale
    | Receive \<Rightarrow> rcv = amount \<and> snd' * scale_rate r \<le> rcv * rate_scale \<and>
        rcv * rate_scale < (snd' + 1) * scale_rate r"
proof (cases field)
  case Send
  with assms have "snd' = amount" "rcv = amount * scale_rate r div rate_scale"
    by (auto simp: derive_amounts_def apply_rate_floor)
  with Send floor_bounds [of rate_scale "amount * scale_rate r"] show ?thesis
    by (simp add: rate_scale_def)
next
  case Receive
  with assms have "rcv = amount" "snd' = amount * rate_scale div scale_rate r"
    by (auto simp: derive_amounts_def invert_rate_floor)
  with Receive floor_bounds [OF assms(4), of "amount * rate_scale"] show ?thesis by simp
qed

lemma scale_rate_2: "scale_rate (Fin 2) = 200000000"
  using round_f64_int [of rate_scale] round_f64_int [of 200000000] f64_to_int_of_int [of 200000000]
    round_half_away_of_int [of 200000000]
  by (simp add: scale_rate_def int_to_f64_def rate_scale_def i128_max_def del: f64_to_int.simps)

theorem derived_amounts_round_down_witness:
  "derive_amounts Send 7 (Fin 2) = Inr (7, 14) \<and> (14::int) * rate_scale \<le> 7 * scale_rate (Fin 2)"
proof -
  have d: "derive_amounts Send 7 (Fin 2) = Inr (7, 14)"
    by (simp add: derive_amounts_def apply_rate_floor scale_rate_2 rate_scale_def i64_max_def)
  from derived_amounts_round_down [OF d] d show ?thesis
    by (simp add: scale_rate_2 rate_scale_def i64_max_def in_i64_def)
qed

text \<open>
  nothing checks the derived amount: one minor unit entered on the receive side, at a rate
  above one, is quoted for a send amount of zero, and the quote is issued.
\<close>

theorem receive_side_quote_can_be_free:
  assumes chk: "check_request body = Inr (send, receive)"
    and field: "rb_amount_field body = Receive" and one: "amount_minor (rb_amount body) = 1"
    and ir: "get_indicative_rate E ev cfg send receive fx s = (Inr ir, fx', s')"
    and high: "rate_scale < scale_rate (ir_rate ir)"
  shows "\<exists>q s''. request_firm_quote E ev cfg sess body fx s = (Inr q, fx', s'') \<and>
    fq_send_amount q = money_new 0 send \<and> fq_receive_amount q = money_new 1 receive \<and>
    list_ex (\<lambda>row. qu_id row = fq_id q \<and> qu_send_amount row = 0) (quotes s'')"
proof -
  have "invert_rate 1 (ir_rate ir) = Inr (1 * rate_scale div scale_rate (ir_rate ir))"
    using high by (intro invert_rate_floor) (simp_all add: in_i64_def rate_scale_def i64_max_def)
  moreover have "rate_scale div scale_rate (ir_rate ir) = 0"
    using high by (simp add: rate_scale_def)
  ultimately have "derive_amounts Receive 1 (ir_rate ir) = Inr (0, 1)"
    by (simp add: derive_amounts_def)
  then show ?thesis
    using chk ir field one
    by (simp add: request_firm_quote_def insert_quote_def transaction_def tx_defs Let_def into_stored_def)
qed

end
