(* ===== verification/Recipients.thy ===== *)
theory Recipients
  imports Ledger
begin

text \<open>
  \<open>src/domain/recipients.rs\<close>: the saved recipients of a customer, the check of a new one and the
  stand-in for the payout partner's name lookup.
\<close>

record recipient =
  rp_id :: uuid
  rp_customer :: uuid
  rp_account_name :: string
  rp_account_number :: string
  rp_bank_code :: string
  rp_bank_name :: string
  rp_currency :: currency_code
  rp_country :: string
  rp_validation_status :: string
  rp_saved_at :: instant

definition recipient_contract :: "recipient_row \<Rightarrow> recipient api_result" where
  "recipient_contract r =
     (case parse_currency (rc_currency r) of Inl e \<Rightarrow> Inl e | Inr ccy \<Rightarrow>
        Inr \<lparr>rp_id = rc_id r, rp_customer = rc_customer r, rp_account_name = rc_account_name r,
          rp_account_number = rc_account_number r, rp_bank_code = rc_bank_code r,
          rp_bank_name = rc_bank_name r, rp_currency = ccy, rp_country = rc_country r,
          rp_validation_status = rc_validation_status r, rp_saved_at = rc_saved_at r\<rparr>)"

definition recipients_by_customer :: "uuid \<Rightarrow> recipient list tx" where
  "recipients_by_customer c =
     bind_tx (gets (\<lambda>s. sort_key (\<lambda>r. - rc_saved_at r) (filter (\<lambda>r. rc_customer r = c) (recipients s))))
       (map_tx (\<lambda>r. lift_result (recipient_contract r)))"

definition recipient_by_id :: "env \<Rightarrow> string \<Rightarrow> uuid \<Rightarrow> recipient option tx" where
  "recipient_by_id E i c =
     (if \<not> is_uuid i then return_tx None
      else case parse_uuid E i of
        None \<Rightarrow> (\<lambda>s. Inl Panic)
      | Some u \<Rightarrow> bind_tx (gets (\<lambda>s. find (\<lambda>r. rc_id r = u \<and> rc_customer r = c) (recipients s))) (\<lambda>row.
          case row of None \<Rightarrow> return_tx None
          | Some r \<Rightarrow> bind_tx (lift_result (recipient_contract r)) (\<lambda>x. return_tx (Some x))))"

record new_recipient_body =
  nr_account_number :: string
  nr_bank_code :: string
  nr_currency :: string
  nr_country :: string

record save_recipient_body = new_recipient_body +
  sr_account_name :: string

definition validate_new :: "'a new_recipient_body_scheme \<Rightarrow> currency_code api_result" where
  "validate_new b =
     (if length (trim (nr_account_number b)) < 4
      then Inl (Err (validation ''Enter the destination account number.''))
      else if trim (nr_bank_code b) = [] then Inl (Err (validation ''Select the destination bank.''))
      else if length (trim (nr_country b)) \<noteq> 2
      then Inl (Err (validation ''Use a 2-letter ISO country code.''))
      else parse_currency (trim (nr_currency b)))"

text \<open>The last four characters: a UTF-8 continuation byte belongs to the character before it.\<close>

fun take_chars :: "nat \<Rightarrow> string \<Rightarrow> string" where
  "take_chars n [] = []"
| "take_chars 0 (c # s) = []"
| "take_chars (Suc n) (c # s) =
     c # take_chars (if 128 \<le> code c \<and> code c \<le> 191 then Suc n else n) s"

definition resolve_account_name :: "string \<Rightarrow> string" where
  "resolve_account_name number =
     ''Verified Beneficiary ('' @ rev (take_chars 4 (rev number)) @ '')''"

definition validate_recipient :: "new_recipient_body \<Rightarrow> string api_result" where
  "validate_recipient b =
     (case validate_new b of Inl e \<Rightarrow> Inl e | Inr ccy \<Rightarrow> Inr (resolve_account_name (nr_account_number b)))"

definition default_bank_name :: string where
  "default_bank_name = ''Partner Bank''"

definition recipient_json :: "env \<Rightarrow> recipient \<Rightarrow> json" where
  "recipient_json E r = JObj [(''id'', JStr (uuid_str E (rp_id r))),
     (''customerId'', JStr (uuid_str E (rp_customer r))), (''accountName'', JStr (rp_account_name r)),
     (''accountNumber'', JStr (rp_account_number r)), (''bankCode'', JStr (rp_bank_code r)),
     (''bankName'', JStr (rp_bank_name r)), (''currency'', JStr (currency_str (rp_currency r))),
     (''country'', JStr (rp_country r)), (''validationStatus'', JStr (rp_validation_status r)),
     (''savedAt'', JStr (iso E (rp_saved_at r)))]"

definition save_recipient :: "env \<Rightarrow> session \<Rightarrow> save_recipient_body \<Rightarrow> recipient io" where
  "save_recipient E sess body = transaction (
     bind_tx (lift_result (validate_new body)) (\<lambda>ccy.
     bind_tx (ensure (trim (sr_account_name body) \<noteq> [])
       (validation ''Confirm the account holder name.'')) (\<lambda>_.
     bind_tx fresh_id (\<lambda>i.
     let row = \<lparr>rc_id = i, rc_customer = customer_id sess, rc_account_name = trim (sr_account_name body),
           rc_account_number = trim (nr_account_number body), rc_bank_code = trim (nr_bank_code body),
           rc_bank_name = default_bank_name, rc_currency = currency_str ccy,
           rc_country = trim (nr_country body), rc_validation_status = ''valid'', rc_saved_at = now E\<rparr>
     in bind_tx (modify (\<lambda>s. s\<lparr>recipients := recipients s @ [row]\<rparr>)) (\<lambda>_.
        bind_tx (lift_result (recipient_contract row)) (\<lambda>r.
        bind_tx (write_audit E \<lparr>ae_actor = Some (user_id sess), ae_role = Some (role sess),
            ae_action = ''recipient.saved'', ae_entity_type = ''recipient'',
            ae_entity = uuid_str E (rp_id r), ae_before = None,
            ae_after = Some (recipient_json E r)\<rparr>) (\<lambda>_.
          return_tx r)))))))"

definition list_recipients :: "session \<Rightarrow> recipient list io" where
  "list_recipients sess = transaction (recipients_by_customer (customer_id sess))"

section \<open>Properties\<close>

lemma validate_new_Inr:
  "validate_new b = Inr ccy \<longleftrightarrow> 4 \<le> length (trim (nr_account_number b)) \<and>
     trim (nr_bank_code b) \<noteq> [] \<and> length (trim (nr_country b)) = 2 \<and>
     trim (nr_currency b) = currency_str ccy"
  by (auto simp: validate_new_def currency.dec_Inr_iff)

lemma recipient_by_id_owner:
  assumes "recipient_by_id E i c s = Inr (Some r, s')"
  shows "rp_customer r = c \<and> s' = s \<and> list_ex (\<lambda>x. rc_id x = rp_id r \<and> rc_customer x = c) (recipients s)"
  using assms
  by (auto simp: recipient_by_id_def tx_simps recipient_contract_def list_ex_iff
      split: option.splits if_splits sum.splits dest!: find_Some_set)

lemma save_recipient_Inr:
  assumes "save_recipient E sess body s = (Inr r, s')"
  shows "rp_customer r = customer_id sess \<and> rp_id r = next_id s \<and>
    (\<exists>row. recipients s' = recipients s @ [row] \<and> recipient_contract row = Inr r) \<and>
    transfers s' = transfers s \<and> ledger_entries s' = ledger_entries s \<and>
    length (audit_log s') = Suc (length (audit_log s))"
  using assms
  by (auto simp: save_recipient_def transaction_Inr tx_simps Let_def write_audit_def recipient_contract_def
      currency.dec_Inr_iff)

end
