(* ===== verification/Transfer_Service.thy ===== *)
theory Transfer_Service
  imports Quote Recipients Engine_Properties
begin

text \<open>
  \<open>src/domain/transfers/service.rs\<close>: the creation of a transfer from a quote, with its exposure
  limits and its idempotency key, and the reads and the compliance decision of the API.
\<close>

record create_input =
  ci_key :: string
  ci_quote :: string
  ci_recipient :: string

definition owned_transfer :: "env \<Rightarrow> session \<Rightarrow> string \<Rightarrow> transfer tx" where
  "owned_transfer E sess i =
     bind_tx (find_by_id E i) (\<lambda>t.
       ok_or (not_found ''That transfer couldn't be found.'')
         (case t of None \<Rightarrow> None
          | Some x \<Rightarrow> if tf_customer x = customer_id sess then Some x else None))"

section \<open>Exposure limits\<close>

definition check_exposure_limits ::
  "config \<Rightarrow> uuid \<Rightarrow> customer_limits \<Rightarrow> firm_quote \<Rightarrow> unit tx" where
  "check_exposure_limits cfg c limits q =
     (let amount = amount_minor (fq_send_amount q);
          ccy = fq_send_currency q;
          max_transfer = (case cl_max_transfer limits of None \<Rightarrow> max_transfer_amount_minor cfg | Some m \<Rightarrow> m);
          max_aggregate = (case cl_max_aggregate limits of None \<Rightarrow> max_aggregate_exposure_minor cfg | Some m \<Rightarrow> m)
      in bind_tx (ensure (\<not> max_transfer < amount)
           (validation (''This transfer exceeds the maximum allowed amount of '' @
              int_to_string max_transfer @ '' '' @ currency_str ccy @ ''.''))) (\<lambda>_.
         bind_tx (customer_open_exposure_minor c ccy) (\<lambda>existing.
         bind_tx (ensure (\<not> max_aggregate < wrap64 (existing + amount))
           (validation (''This transfer would exceed your aggregate exposure limit of '' @
              int_to_string max_aggregate @ '' '' @ currency_str ccy @ ''.''))) (\<lambda>_.
         bind_tx platform_open_exposure_by_currency (\<lambda>_. return_tx ())))))"

section \<open>Creating a transfer\<close>

datatype created = Existing transfer | NotInserted | Inserted uuid

definition created_audit :: "env \<Rightarrow> session \<Rightarrow> uuid \<Rightarrow> uuid \<Rightarrow> uuid \<Rightarrow> audit_entry" where
  "created_audit E sess t q r =
     \<lparr>ae_actor = Some (user_id sess), ae_role = Some (role sess), ae_action = ''transfer.created'',
      ae_entity_type = ''transfer'', ae_entity = uuid_str E t, ae_before = None,
      ae_after = Some (JObj [(''status'', JStr ''CREATED''), (''quoteId'', JStr (uuid_str E q)),
        (''recipientId'', JStr (uuid_str E r))])\<rparr>"

text \<open>
  The transaction of \<open>create_transfer\<close>. The two early returns, which roll back, come before its
  first write, so they are returns here; a quote claimed by another transfer fails the transaction.
\<close>

definition create_tx ::
  "env \<Rightarrow> config \<Rightarrow> session \<Rightarrow> string \<Rightarrow> stored_quote \<Rightarrow> uuid \<Rightarrow> created tx" where
  "create_tx E cfg sess key q rcpt =
     bind_tx (lock_customer_limits (customer_id sess)) (\<lambda>limits.
     bind_tx (find_by_idempotency_key (customer_id sess) key) (\<lambda>existing.
     case existing of
       Some t \<Rightarrow> return_tx (Existing t)
     | None \<Rightarrow>
       bind_tx (check_exposure_limits cfg (customer_id sess) limits (sq_firm_quote q)) (\<lambda>_.
       bind_tx (insert_transfer_row E \<lparr>it_reference = new_reference E ''KM'',
           it_customer = customer_id sess, it_key = key, it_recipient = rcpt,
           it_send_currency = fq_send_currency (sq_firm_quote q),
           it_receive_currency = fq_receive_currency (sq_firm_quote q),
           it_send_amount = amount_minor (fq_send_amount (sq_firm_quote q)),
           it_receive_amount = amount_minor (fq_receive_amount (sq_firm_quote q)),
           it_trade_description = None, it_quote = sq_firm_quote q,
           it_initial_status = Created\<rparr>) (\<lambda>inserted.
       case inserted of
         None \<Rightarrow> return_tx NotInserted
       | Some t \<Rightarrow>
         bind_tx (try_consume (sq_id q) t) (\<lambda>claimed.
         bind_tx (ensure claimed
           (conflict ''This quote has already been accepted by another transfer.'')) (\<lambda>_.
         bind_tx (set_settlement_ref E t) (\<lambda>_.
         bind_tx (append_history E t Created None None) (\<lambda>_.
         bind_tx (write_audit E (created_audit E sess t (sq_id q) rcpt)) (\<lambda>_.
           return_tx (Inserted t))))))))))"

text \<open>The checks before the transaction: the quote and the recipient.\<close>

definition load_quote :: "env \<Rightarrow> session \<Rightarrow> string \<Rightarrow> stored_quote tx" where
  "load_quote E sess i =
     bind_tx (quote_by_id E i) (\<lambda>found.
     bind_tx (ok_or (not_found ''That quote couldn't be found.'')
       (case found of None \<Rightarrow> None
        | Some q \<Rightarrow> if sq_customer q = customer_id sess then Some q else None)) (\<lambda>q.
     bind_tx (ensure (\<not> sq_expires_at q \<le> now E)
       (rate_expired ''That quote has expired. Request a fresh one.'')) (\<lambda>_.
       return_tx q)))"

definition load_recipient :: "env \<Rightarrow> session \<Rightarrow> string \<Rightarrow> uuid tx" where
  "load_recipient E sess i =
     bind_tx (recipient_by_id E i (customer_id sess)) (\<lambda>found.
     bind_tx (ok_or (not_found ''That recipient couldn't be found.'') found) (\<lambda>r. return_tx (rp_id r)))"

text \<open>
  \<open>create_transfer\<close>, with the environments of the drive that follows the commit. The background
  progression it schedules is a later, separate \<open>advance_to_completion\<close>. \<open>None\<close> would be a drive
  that has not returned.
\<close>

definition create_transfer ::
  "env \<Rightarrow> nat \<Rightarrow> (nat \<Rightarrow> env) \<Rightarrow> config \<Rightarrow> session \<Rightarrow> create_input \<Rightarrow> db \<Rightarrow>
   (transfer api_result \<times> db) option" where
  "create_transfer E n Es cfg sess input s =
     (if length (trim (ci_key input)) < 8
      then Some (Inl (Err (validation ''Provide a stable idempotency key.'')), s)
      else case transaction (find_by_idempotency_key (customer_id sess) (ci_key input)) s of
        (Inl e, s1) \<Rightarrow> Some (Inl e, s1)
      | (Inr (Some t), s1) \<Rightarrow> Some (Inr t, s1)
      | (Inr None, s1) \<Rightarrow>
        (case transaction (bind_tx (load_quote E sess (ci_quote input)) (\<lambda>q.
                bind_tx (load_recipient E sess (ci_recipient input)) (\<lambda>r. return_tx (q, r)))) s1 of
           (Inl e, s2) \<Rightarrow> Some (Inl e, s2)
         | (Inr (q, rcpt), s2) \<Rightarrow>
           (case transaction (create_tx E cfg sess (ci_key input) q rcpt) s2 of
              (Inl e, s3) \<Rightarrow> Some (Inl e, s3)
            | (Inr (Existing t), s3) \<Rightarrow> Some (Inr t, s3)
            | (Inr NotInserted, s3) \<Rightarrow>
                (case transaction (find_by_idempotency_key (customer_id sess) (ci_key input)) s3 of
                   (Inl e, s4) \<Rightarrow> Some (Inl e, s4)
                 | (Inr (Some t), s4) \<Rightarrow> Some (Inr t, s4)
                 | (Inr None, s4) \<Rightarrow> Some (Inl (Err (with_retryable True
                     (conflict ''Could not create the transfer. Try again.''))), s4))
            | (Inr (Inserted t), s3) \<Rightarrow>
                (case advance_to_awaiting_funds n Es cfg t s3 of
                   None \<Rightarrow> None
                 | Some (Inl e, s4) \<Rightarrow> Some (Inl e, s4)
                 | Some (Inr st, s4) \<Rightarrow>
                     Some (transaction (bind_tx (find_by_id_uuid t) (ok_or server_error)) s4)))))"

text \<open>
  The simulated progression scheduled after a creation: the delay before it starts, or none when the
  auto-advance setting is negative.
\<close>

definition schedule_simulated_progression :: "config \<Rightarrow> nat option" where
  "schedule_simulated_progression cfg =
     (let auto_ms = transfer_auto_advance_ms cfg in if auto_ms < 0 then None else Some (nat auto_ms))"

section \<open>Reads and the compliance decision\<close>

definition get_transfer :: "env \<Rightarrow> session \<Rightarrow> string \<Rightarrow> transfer io" where
  "get_transfer E sess i = transaction (owned_transfer E sess i)"

record timeline =
  tl_transfer :: string
  tl_history :: "history_entry list"
  tl_is_terminal :: bool

definition get_timeline :: "env \<Rightarrow> session \<Rightarrow> string \<Rightarrow> timeline io" where
  "get_timeline E sess i = transaction (
     bind_tx (get_owner_and_status E i) (\<lambda>o'.
     bind_tx (ok_or (not_found ''That transfer couldn't be found.'')
       (case o' of None \<Rightarrow> None
        | Some x \<Rightarrow> if os_customer x = customer_id sess then Some x else None)) (\<lambda>owner'.
     bind_tx (parse_id E i) (\<lambda>t.
     bind_tx (get_history t) (\<lambda>h.
       return_tx \<lparr>tl_transfer = i, tl_history = h, tl_is_terminal = is_terminal (os_status owner')\<rparr>)))))"

definition list_transfers :: "session \<Rightarrow> transfer_status option \<Rightarrow> transfer list io" where
  "list_transfers sess st = transaction (list_by_customer (customer_id sess) st)"

definition decide_screening ::
  "env \<Rightarrow> session \<Rightarrow> string \<Rightarrow> string \<Rightarrow> string option \<Rightarrow> transfer io" where
  "decide_screening E sess i decision reason =
     (if \<not> is_uuid i then (\<lambda>s. (Inl (Err (not_found ''That transfer couldn't be found.'')), s))
      else bind_io (transaction (parse_id E i)) (\<lambda>t.
        case (if decision = ''clear'' then Some Clear
              else if decision = ''reject'' then Some Reject else None) of
          None \<Rightarrow> (\<lambda>s. (Inl (Err (validation ''decision must be \"clear\" or \"reject\".'')), s))
        | Some d \<Rightarrow>
            bind_io (resolve_screening_hold E t d reason (Some (user_id sess))) (\<lambda>_.
              transaction (bind_tx (find_by_id_uuid t)
                (ok_or (not_found ''That transfer couldn't be found.''))))))"

end
