(* ===== verification/Service_Properties.thy ===== *)
theory Service_Properties
  imports Transfer_Service
begin

text \<open>
  What \<open>create_transfer\<close> promises: the state it leaves keeps the engine's invariant, a replayed
  idempotency key returns the first transfer and changes nothing, the quote is claimed, and the
  exposure limits hold for what it commits.
\<close>

section \<open>Reads\<close>

lemma find_by_key_tx:
  "find_by_idempotency_key c key s = Inr (None, s') \<longleftrightarrow>
     find (\<lambda>r. tr_customer r = c \<and> tr_key r = key) (transfers s) = None \<and> s' = s"
  "find_by_idempotency_key c key s = Inr (Some t, s') \<longleftrightarrow>
     (\<exists>r. find (\<lambda>r. tr_customer r = c \<and> tr_key r = key) (transfers s) = Some r \<and>
        into_contract s r = Inr t \<and> s' = s)"
  unfolding find_by_idempotency_key_def by (rule read_optional_None read_optional_Some)+

lemma find_by_id_uuid_tx:
  "find_by_id_uuid t s = Inr (Some x, s') \<longleftrightarrow>
     (\<exists>r. find (\<lambda>r. tr_id r = t) (transfers s) = Some r \<and> into_contract s r = Inr x \<and> s' = s)"
  unfolding find_by_id_uuid_def by (rule read_optional_Some)

lemma platform_exposure_state:
  "platform_open_exposure_by_currency s = Inr (x, s') \<Longrightarrow> s' = s"
  unfolding platform_open_exposure_by_currency_def bind_tx_Inr primitive_tx
  by (elim exE conjE, hypsubst, erule map_tx_reads [rotated])
    (auto simp: bind_tx_Inr primitive_tx bigint_tx)

lemma check_exposure_limits_Inr:
  assumes "check_exposure_limits cfg c limits q s = Inr (u, s')"
  shows "s' = s"
    and "amount_minor (fq_send_amount q) \<le>
      (case cl_max_transfer limits of None \<Rightarrow> max_transfer_amount_minor cfg | Some m \<Rightarrow> m)"
    and "in_i64 (open_exposure c (currency_str (fq_send_currency q)) (transfers s))"
    and "wrap64 (open_exposure c (currency_str (fq_send_currency q)) (transfers s) +
        amount_minor (fq_send_amount q)) \<le>
      (case cl_max_aggregate limits of None \<Rightarrow> max_aggregate_exposure_minor cfg | Some m \<Rightarrow> m)"
  using assms
  unfolding check_exposure_limits_def Let_def bind_tx_Inr primitive_tx customer_open_exposure_minor_def bigint_tx
  by (auto dest: platform_exposure_state)

lemma lock_customer_limits_Inr:
  "lock_customer_limits c s = Inr (l, s') \<longleftrightarrow> s' = s \<and>
     (\<exists>r. find (\<lambda>r. cu_id r = c) (customers s) = Some r \<and>
        l = \<lparr>cl_max_transfer = cu_max_transfer r, cl_max_aggregate = cu_max_aggregate r\<rparr>)"
  unfolding lock_customer_limits_def bind_tx_Inr primitive_tx by auto

section \<open>The row a creation inserts\<close>

definition created_row :: "env \<Rightarrow> session \<Rightarrow> string \<Rightarrow> stored_quote \<Rightarrow> uuid \<Rightarrow> uuid \<Rightarrow> transfer_row" where
  "created_row E sess key q rcpt t =
     (let f = sq_firm_quote q in
      \<lparr>tr_id = t, tr_reference = new_reference E ''KM'', tr_customer = customer_id sess,
       tr_key = key, tr_recipient = rcpt, tr_send_currency = currency_str (fq_send_currency f),
       tr_receive_currency = currency_str (fq_receive_currency f),
       tr_send_amount = amount_minor (fq_send_amount f),
       tr_receive_amount = amount_minor (fq_receive_amount f), tr_trade_description = None,
       tr_quote = f, tr_status = ''CREATED'', tr_created_at = now E, tr_updated_at = now E,
       tr_settlement_ref = Some (transfer_ref (keccak256 E) (uuid_str E t))\<rparr>)"

lemma created_row_simps [simp]:
  "tr_id (created_row E sess key q rcpt t) = t"
  "tr_status (created_row E sess key q rcpt t) = ''CREATED''"
  "tr_customer (created_row E sess key q rcpt t) = customer_id sess"
  "tr_key (created_row E sess key q rcpt t) = key"
  "tr_send_currency (created_row E sess key q rcpt t) = currency_str (fq_send_currency (sq_firm_quote q))"
  "tr_send_amount (created_row E sess key q rcpt t) = amount_minor (fq_send_amount (sq_firm_quote q))"
  by (simp_all add: created_row_def Let_def)

definition clashes :: "session \<Rightarrow> env \<Rightarrow> string \<Rightarrow> transfer_row \<Rightarrow> bool" where
  "clashes sess E key r \<longleftrightarrow> tr_reference r = new_reference E ''KM'' \<or>
     (tr_customer r = customer_id sess \<and> tr_key r = key)"

lemma update_where_fresh:
  assumes "\<forall>r\<in>set rs. \<not> P r"
  shows "update_where P f (rs @ [x]) = rs @ [if P x then f x else x]"
  using assms by (induction rs) auto

lemma create_tx_Inserted:
  assumes run: "create_tx E cfg sess key q rcpt s = Inr (Inserted t, s')"
    and fresh: "\<forall>r\<in>set (transfers s). tr_id r < next_id s"
  shows "t = next_id s"
    and "transfers s' = transfers s @ [created_row E sess key q rcpt t]"
    and "\<not> list_ex (clashes sess E key) (transfers s)"
    and "transfer_history s' = transfer_history s @ [\<lparr>th_transfer = t, th_position = next_position t s,
      th_status = ''CREATED'', th_entered_at = now E, th_note = None, th_payload = None\<rparr>]"
    and "ledger_entries s' = ledger_entries s" and "accounts s' = accounts s"
    and "next_id s' = Suc (next_id s)"
    and "list_ex (claimable (sq_id q)) (quotes s)"
    and "quotes s' = update_where (claimable (sq_id q)) (\<lambda>x. x\<lparr>qu_consumed_by := Some t\<rparr>) (quotes s)"
    and "\<exists>limits. lock_customer_limits (customer_id sess) s = Inr (limits, s) \<and>
      check_exposure_limits cfg (customer_id sess) limits (sq_firm_quote q) s = Inr ((), s)"
    and "append_only s s'" and "recipients s' = recipients s" and "customers s' = customers s"
proof -
  obtain limits s1 s2 s3 s4 s5 s6 where
    l: "lock_customer_limits (customer_id sess) s = Inr (limits, s)" and
    c: "check_exposure_limits cfg (customer_id sess) limits (sq_firm_quote q) s = Inr ((), s1)" and
    i: "insert_transfer_row E \<lparr>it_reference = new_reference E ''KM'',
           it_customer = customer_id sess, it_key = key, it_recipient = rcpt,
           it_send_currency = fq_send_currency (sq_firm_quote q),
           it_receive_currency = fq_receive_currency (sq_firm_quote q),
           it_send_amount = amount_minor (fq_send_amount (sq_firm_quote q)),
           it_receive_amount = amount_minor (fq_receive_amount (sq_firm_quote q)),
           it_trade_description = None, it_quote = sq_firm_quote q,
           it_initial_status = Created\<rparr> s1 = Inr (Some t, s2)" and
    tc: "try_consume (sq_id q) t s2 = Inr (True, s3)" and
    sr: "set_settlement_ref E t s3 = Inr ((), s4)" and
    ah: "append_history E t Created None None s4 = Inr ((), s5)" and
    wa: "write_audit E (created_audit E sess t (sq_id q) rcpt) s5 = Inr ((), s')"
    using run unfolding create_tx_def bind_tx_Inr lock_customer_limits_Inr
    by (auto simp: bind_tx_Inr primitive_tx find_by_key_tx split: option.splits)
  have s1: "s1 = s" using c check_exposure_limits_Inr(1) by blast
  from i have t: "t = next_id s"
    and nc: "\<not> list_ex (clashes sess E key) (transfers s)"
    unfolding s1 insert_transfer_row_def bind_tx_Inr primitive_tx
    by (auto simp: tx_simps clashes_def list_ex_iff split: if_splits)
  have s2: "s2 = s\<lparr>next_id := Suc (next_id s), transfers := transfers s @
      [(created_row E sess key q rcpt t)\<lparr>tr_settlement_ref := None\<rparr>]\<rparr>"
    using i unfolding s1 insert_transfer_row_def bind_tx_Inr primitive_tx
    by (auto simp: tx_simps created_row_def Let_def split: if_splits)
  have s3: "s3 = s2\<lparr>quotes := update_where (claimable (sq_id q)) (\<lambda>x. x\<lparr>qu_consumed_by := Some t\<rparr>) (quotes s2)\<rparr>"
    and cl: "list_ex (claimable (sq_id q)) (quotes s2)"
    using tc unfolding try_consume_tx by blast+
  have "\<forall>r\<in>set (transfers s). \<not> tr_id r = t" using fresh t by auto
  then have s4: "s4 = s3\<lparr>transfers := transfers s @ [created_row E sess key q rcpt t]\<rparr>"
    using sr unfolding set_settlement_ref_def Let_def bind_tx_Inr primitive_tx
    by (auto simp: primitive_tx s3 s2 update_where_fresh created_row_def Let_def split: if_splits)
  have s5: "s5 = s4\<lparr>transfer_history := transfer_history s4 @ [\<lparr>th_transfer = t,
      th_position = next_position t s4, th_status = ''CREATED'', th_entered_at = now E,
      th_note = None, th_payload = None\<rparr>]\<rparr>"
    using ah by (simp add: append_history_def primitive_tx)
  note w = write_audit_frame [OF wa]
  have np: "next_position t s4 = next_position t s"
    by (simp add: next_position_def history_of_def s4 s3 s2)
  show "t = next_id s" by (rule t)
  show "\<not> list_ex (clashes sess E key) (transfers s)" by (rule nc)
  show "transfers s' = transfers s @ [created_row E sess key q rcpt t]"
    "ledger_entries s' = ledger_entries s" "accounts s' = accounts s"
    "next_id s' = Suc (next_id s)" "recipients s' = recipients s" "customers s' = customers s"
    by (simp_all add: w s5 s4 s3 s2)
  show "transfer_history s' = transfer_history s @ [\<lparr>th_transfer = t, th_position = next_position t s,
      th_status = ''CREATED'', th_entered_at = now E, th_note = None, th_payload = None\<rparr>]"
    unfolding w s5 np [symmetric] by (simp add: s4 s3 s2)
  show "quotes s' = update_where (claimable (sq_id q)) (\<lambda>x. x\<lparr>qu_consumed_by := Some t\<rparr>) (quotes s)"
    "list_ex (claimable (sq_id q)) (quotes s)"
    using cl by (simp_all add: w s5 s4 s3 s2)
  show "\<exists>limits. lock_customer_limits (customer_id sess) s = Inr (limits, s) \<and>
      check_exposure_limits cfg (customer_id sess) limits (sq_firm_quote q) s = Inr ((), s)"
    using l c s1 by blast
  have "append_only s5 s'" using upholdsD [OF write_audit_append wa] .
  then show "append_only s s'" by (simp add: append_only_def s5 s4 s3 s2)
qed

section \<open>The invariant\<close>

lemma created_engine_ok:
  assumes ok: "engine_ok s" and run: "create_tx E cfg sess key q rcpt s = Inr (Inserted t, s')"
  shows "engine_ok s'"
proof -
  have fresh: "\<forall>r\<in>set (transfers s). tr_id r < next_id s" using ok by (simp add: engine_ok_def)
  note c = create_tx_Inserted [OF run fresh]
  let ?r = "created_row E sess key q rcpt t"
  have nh: "history_of t s = []"
    using ok fresh c(1) by (force simp: engine_ok_def history_of_def filter_empty_conv transfer_ids_def)
  have np: "postings_of t s = []"
    using ok fresh c(1) by (force simp: engine_ok_def postings_of_def filter_empty_conv transfer_ids_def)
  have "history_of t s' = [\<lparr>th_transfer = t, th_position = 0, th_status = ''CREATED'',
      th_entered_at = now E, th_note = None, th_payload = None\<rparr>]"
    using nh by (simp add: history_of_def c(4) next_position_def)
  moreover have "postings_of t s' = []" using np by (simp add: postings_of_def c(5))
  ultimately have new: "transfer_ok s' ?r"
    unfolding transfer_ok_def created_row_simps by (intro exI [of _ "[Created]"]) simp
  have old: "transfer_ok s' r" if "r \<in> set (transfers s)" for r
  proof -
    from that fresh c(1) have "tr_id r \<noteq> t" by auto
    then have "history_of (tr_id r) s' = history_of (tr_id r) s" by (simp add: history_of_def c(4))
    moreover have "postings_of (tr_id r) s' = postings_of (tr_id r) s" by (simp add: postings_of_def c(5))
    ultimately show ?thesis using ok that by (simp add: engine_ok_def transfer_ok_def)
  qed
  have lok: "ledger_ok s'" using ok c(5-7) by (auto simp: engine_ok_def intro: ledger_ok_cong)
  have ids: "transfer_ids s' = insert t (transfer_ids s)" by (simp add: transfer_ids_def c(2))
  have "tr_reference ?r \<notin> tr_reference ` set (transfers s)"
    "(tr_customer ?r, tr_key ?r) \<notin> (\<lambda>r. (tr_customer r, tr_key r)) ` set (transfers s)"
    using c(3) by (auto simp: list_ex_iff clashes_def created_row_def Let_def)
  moreover have "t \<notin> tr_id ` set (transfers s)" using fresh c(1) by auto
  ultimately show ?thesis
    using ok new old fresh lok c(1,7)
    by (auto simp: engine_ok_def c(2,4,5) ids)
qed

lemma create_tx_other:
  assumes run: "create_tx E cfg sess key q rcpt s = Inr (x, s')" and "\<And>t. x \<noteq> Inserted t"
  shows "s' = s"
  using assms unfolding create_tx_def bind_tx_Inr lock_customer_limits_Inr
  by (auto simp: bind_tx_Inr primitive_tx find_by_key_tx insert_transfer_row_def split: option.splits if_splits
      dest: check_exposure_limits_Inr(1))

section \<open>The drive after the commit\<close>

lemma advance_once_or_hold_state:
  "snd (advance_once_or_hold E cfg tid st s) = snd (advance_once E cfg tid None s)"
  by (auto simp: advance_once_or_hold_def split: prod.splits sum.splits failure.splits)

lemma drive_frame:
  "drive go n Es cfg tid st s = Some (r, s') \<Longrightarrow> engine_frame s s' \<and> (engine_ok s \<longrightarrow> engine_ok s')"
proof (induction n arbitrary: st s)
  case (Suc n)
  obtain x u where x: "advance_once_or_hold (Es n) cfg tid st s = (x, u)" by fastforce
  have su: "engine_frame s u" "engine_ok s \<Longrightarrow> engine_ok u"
    using advance_once_or_hold_state [of "Es n" cfg tid st s] advance_once_frame [of s "Es n" cfg tid None]
      advance_once_ok [of s "Es n" cfg tid None] x by simp_all
  show ?case
  proof (cases "go st")
    case False
    with Suc.prems show ?thesis by (simp add: engine_frame.refl)
  next
    case True
    show ?thesis
    proof (cases "\<exists>y. x = Inr y \<and> y \<noteq> st \<and> \<not> is_terminal y")
      case more: True
      then obtain y where y: "x = Inr y" "y \<noteq> st" "\<not> is_terminal y" by blast
      with Suc.prems True x have "drive go n Es cfg tid y u = Some (r, s')" by simp
      from Suc.IH [OF this] su show ?thesis by (blast intro: engine_frame.trans)
    next
      case False
      with Suc.prems True x have "s' = u" by (cases x) (auto split: if_splits)
      with su show ?thesis by blast
    qed
  qed
qed simp

lemma advance_to_awaiting_funds_frame:
  assumes "advance_to_awaiting_funds n Es cfg tid s = Some (r, s')"
  shows "engine_frame s s'" and "engine_ok s \<Longrightarrow> engine_ok s'"
proof -
  obtain x u where x: "status_of tid s = (x, u)" by fastforce
  from status_of_cases [OF x] have u: "u = s" by blast
  have "engine_frame s s' \<and> (engine_ok s \<longrightarrow> engine_ok s')"
    using assms x u
    by (auto simp: advance_to_awaiting_funds_def drive_from_def engine_frame.refl
        split: sum.splits dest: drive_frame)
  then show "engine_frame s s'" "engine_ok s \<Longrightarrow> engine_ok s'" by auto
qed

section \<open>The whole creation\<close>

lemma load_state:
  "load_quote E sess i s = Inr (q, s') \<Longrightarrow> s' = s"
  "load_recipient E sess i s = Inr (r, s') \<Longrightarrow> s' = s"
  unfolding load_quote_def load_recipient_def quote_by_id_def recipient_by_id_def bind_tx_Inr primitive_tx
  by (auto simp: bind_tx_Inr primitive_tx split: option.splits if_splits)

lemma transaction_read:
  assumes "\<And>x s'. m s = Inr (x, s') \<Longrightarrow> s' = s"
  shows "snd (transaction m s) = s"
  using assms by (auto simp: transaction_def split: sum.split prod.split)

lemma find_by_key_read: "snd (transaction (find_by_idempotency_key c key) s) = s"
  unfolding find_by_idempotency_key_def by (rule transaction_read) (rule read_optional_state)

text \<open>A creation either leaves the database alone, or commits one insertion and drives it.\<close>

lemma create_transfer_cases:
  assumes run: "create_transfer E n Es cfg sess input s = Some (r, s')"
  obtains (same) "s' = s" "\<And>t. r = Inr t \<Longrightarrow>
      find_by_idempotency_key (customer_id sess) (ci_key input) s = Inr (Some t, s)"
  | (inserted) q rcpt t u where
      "create_tx E cfg sess (ci_key input) q rcpt s = Inr (Inserted t, u)"
      "find_by_idempotency_key (customer_id sess) (ci_key input) s = Inr (None, s)"
      "engine_frame u s'" "engine_ok u \<Longrightarrow> engine_ok s'"
      "8 \<le> length (trim (ci_key input))"
      "\<And>x. r = Inr x \<Longrightarrow> find_by_id_uuid t s' = Inr (Some x, s')"
      "\<exists>d. advance_to_awaiting_funds n Es cfg t u = Some (d, s')"
proof -
  let ?find = "find_by_idempotency_key (customer_id sess) (ci_key input)"
  show thesis
  proof (cases "length (trim (ci_key input)) < 8")
    case True
    with run show thesis by (intro same) (auto simp: create_transfer_def)
  next
    case long: False
    obtain a where a: "transaction ?find s = (a, s)"
      using find_by_key_read [of "customer_id sess" "ci_key input" s] by (metis prod.collapse)
    show thesis
    proof (cases "a = Inr None")
      case False
      with a run long have "s' = s \<and> (\<forall>t. r = Inr t \<longrightarrow> a = Inr (Some t))"
        by (auto simp: create_transfer_def split: sum.splits option.splits)
      with a show thesis by (intro same) (auto simp: transaction_Inr)
    next
      case none: True
      with a have fnone: "?find s = Inr (None, s)" by (simp add: transaction_Inr)
      let ?load = "bind_tx (load_quote E sess (ci_quote input)) (\<lambda>q.
                bind_tx (load_recipient E sess (ci_recipient input)) (\<lambda>r. return_tx (q, r)))"
      have "snd (transaction ?load s) = s"
        by (rule transaction_read) (auto simp: bind_tx_Inr primitive_tx dest!: load_state)
      then obtain b where b: "transaction ?load s = (b, s)" by (metis prod.collapse)
      show thesis
      proof (cases b)
        case (Inl e)
        with a b none run long show thesis by (intro same) (auto simp: create_transfer_def)
      next
        case (Inr qr)
        obtain q rcpt where qr: "qr = (q, rcpt)" by fastforce
        obtain c u where c: "transaction (create_tx E cfg sess (ci_key input) q rcpt) s = (c, u)" by fastforce
        show thesis
        proof (cases "\<exists>t. c = Inr (Inserted t)")
          case True
          then obtain t where t: "c = Inr (Inserted t)" by blast
          with c have ct: "create_tx E cfg sess (ci_key input) q rcpt s = Inr (Inserted t, u)"
            by (simp add: transaction_Inr)
          from run a b c none Inr qr t long obtain d v where
            d: "advance_to_awaiting_funds n Es cfg t u = Some (d, v)"
            by (auto simp: create_transfer_def split: option.splits)
          note fr = advance_to_awaiting_funds_frame [OF d]
          have rd: "snd (transaction (bind_tx (find_by_id_uuid t) (ok_or server_error)) v) = v"
            by (rule transaction_read)
              (auto simp: bind_tx_Inr primitive_tx find_by_id_uuid_def dest: read_optional_state)
          have "s' = v \<and> (\<forall>x. r = Inr x \<longrightarrow> find_by_id_uuid t v = Inr (Some x, v))"
          proof (cases d)
            case (Inl e)
            with run a b c d none Inr qr t long show ?thesis by (auto simp: create_transfer_def)
          next
            case di: (Inr st)
            with run a b c d none Inr qr t long
            have res: "(r, s') = transaction (bind_tx (find_by_id_uuid t) (ok_or server_error)) v"
              by (simp add: create_transfer_def)
            with rd have s': "s' = v" by (metis snd_conv)
            have "find_by_id_uuid t v = Inr (Some x, v)" if "r = Inr x" for x
            proof -
              from res that s' have "bind_tx (find_by_id_uuid t) (ok_or server_error) v = Inr (x, v)"
                by (metis transaction_Inr)
              then obtain o' w where w: "find_by_id_uuid t v = Inr (o', w)" "o' = Some x" "w = v"
                unfolding bind_tx_Inr primitive_tx by blast
              then show ?thesis by simp
            qed
            with s' show ?thesis by blast
          qed
          with ct fnone fr long d show thesis by (intro inserted [of q rcpt t u]) auto
        next
          case False
          have "u = s"
          proof (cases c)
            case (Inl e)
            with c show ?thesis by (simp add: transaction_Inl)
          next
            case ci: (Inr x)
            with c have "create_tx E cfg sess (ci_key input) q rcpt s = Inr (x, u)"
              by (simp add: transaction_Inr)
            then show ?thesis by (rule create_tx_other) (use False ci in auto)
          qed
          moreover have "\<not> (\<exists>t. c = Inr (Existing t))"
          proof
            assume "\<exists>t. c = Inr (Existing t)"
            with c obtain t where "create_tx E cfg sess (ci_key input) q rcpt s = Inr (Existing t, u)"
              by (auto simp: transaction_Inr)
            then show False using fnone
              unfolding create_tx_def bind_tx_Inr lock_customer_limits_Inr
              by (auto simp: bind_tx_Inr primitive_tx split: option.splits)
          qed
          ultimately show thesis
            using run a b c none Inr qr long False
            by (intro same) (auto simp: create_transfer_def split: sum.splits created.splits)
        qed
      qed
    qed
  qed
qed

lemma create_transfer_ok:
  assumes "engine_ok s" and "create_transfer E n Es cfg sess input s = Some (r, s')"
  shows "engine_ok s'"
  using assms(2) by (cases rule: create_transfer_cases) (use assms(1) created_engine_ok in blast)+

end
