(* ===== verification/Clients.thy ===== *)
theory Clients
  imports Engine_Facts
begin

text \<open>
  What the components outside the transfer engine share: a transaction that may roll back with an
  answer, the frame of an operation that posts to the ledger on its own account and leaves the
  transfers alone, and the interface of a creation that is idempotent in a client-chosen key.
\<close>

section \<open>Transactions that roll back with an answer\<close>

text \<open>\<open>None\<close> stands for an explicit \<open>rollback\<close>: the database is as before.\<close>

definition commit_or_rollback :: "'a option tx \<Rightarrow> 'a option io" where
  "commit_or_rollback m s =
     (case m s of Inl e \<Rightarrow> (Inl e, s) | Inr (None, s') \<Rightarrow> (Inr None, s) | Inr (Some a, s') \<Rightarrow> (Inr (Some a), s'))"

lemma commit_or_rollback_cases:
  "commit_or_rollback m s = (r, s') \<longleftrightarrow>
     (\<exists>e. m s = Inl e \<and> r = Inl e \<and> s' = s) \<or>
     (\<exists>t. m s = Inr (None, t) \<and> r = Inr None \<and> s' = s) \<or>
     (\<exists>a. m s = Inr (Some a, s') \<and> r = Inr (Some a))"
  by (auto simp: commit_or_rollback_def split: sum.split prod.split option.split)

section \<open>Postings that belong to no transfer\<close>

definition foreign :: "db \<Rightarrow> db \<Rightarrow> bool" where
  "foreign s s' \<longleftrightarrow> transfers s' = transfers s \<and> transfer_history s' = transfer_history s \<and>
     (\<exists>es. ledger_entries s' = ledger_entries s @ es \<and> list_all (\<lambda>e. le_transfer e = None) es) \<and>
     next_id s \<le> next_id s' \<and> (ledger_ok s \<longrightarrow> ledger_ok s')"

interpretation foreign: tx_frame foreign
proof
  show "foreign s s" for s by (simp add: foreign_def)
  show "foreign s t \<Longrightarrow> foreign t u \<Longrightarrow> foreign s u" for s t u
    unfolding foreign_def by (auto simp: list_all_append)
qed

lemma foreign_engine_ok:
  assumes f: "foreign s s'" and ok: "engine_ok s"
  shows "engine_ok s'"
proof -
  from f obtain es where es: "ledger_entries s' = ledger_entries s @ es"
      "list_all (\<lambda>e. le_transfer e = None) es"
    and t: "transfers s' = transfers s" "transfer_history s' = transfer_history s"
      "next_id s \<le> next_id s'" "ledger_ok s'"
    using ok by (auto simp: foreign_def engine_ok_def)
  have "postings_of i s' = postings_of i s" for i
    using es by (auto simp: postings_of_def list_all_iff filter_empty_conv)
  then have "transfer_ok s' r \<longleftrightarrow> transfer_ok s r" for r
    by (simp add: transfer_ok_def history_of_def t)
  moreover have "transfer_ids s' = transfer_ids s" by (simp add: transfer_ids_def t)
  ultimately show ?thesis
    using ok es t by (fastforce simp: engine_ok_def list_all_iff)
qed

lemma foreign_cong:
  "transfers s' = transfers s \<Longrightarrow> transfer_history s' = transfer_history s \<Longrightarrow>
   ledger_entries s' = ledger_entries s \<Longrightarrow> accounts s' = accounts s \<Longrightarrow> next_id s \<le> next_id s' \<Longrightarrow>
   foreign s s'"
  by (auto simp: foreign_def intro: ledger_ok_cong)

lemma audit_foreign: "upholds foreign (write_audit E e)"
  by (auto intro!: upholdsI foreign_cong simp: frame_simps)

lemma open_account_foreign:
  "upholds foreign (get_or_create_account_by_code c ccy)"
  "upholds foreign (get_or_create_account c ccy')"
proof -
  show one: "upholds foreign (get_or_create_account_by_code c ccy)" for ccy
    by (rule upholdsI) (auto simp: foreign_def frame_simps intro: get_or_create_ok(1))
  show "upholds foreign (get_or_create_account c ccy')"
    unfolding get_or_create_account_def by (rule one)
qed

lemma fresh_foreign: "upholds foreign fresh_id"
  by (auto intro!: upholdsI foreign_cong simp: primitive_tx)

section \<open>Creations keyed by the client\<close>

text \<open>
  \<open>lookup k\<close> finds what was created under a key, \<open>create k\<close> answers a request under it. The laws:
  a success leaves its answer under the key, and a request whose key is taken is answered with
  what is there and changes nothing. So however often, and with whatever else in the body, a key
  is sent again, the client gets the first answer and the state of after it.
\<close>

fun resend :: "('i \<Rightarrow> 's \<Rightarrow> ('r \<times> 's) option) \<Rightarrow> 'i list \<Rightarrow> 's \<Rightarrow> ('r list \<times> 's) option" where
  "resend f [] s = Some ([], s)"
| "resend f (i # is) s =
     Option.bind (f i s) (\<lambda>(r, s1). map_option (\<lambda>(rs, s2). (r # rs, s2)) (resend f is s1))"

locale create_once =
  fixes lookup :: "'k \<Rightarrow> 's \<Rightarrow> 'r option"
    and create :: "'k \<Rightarrow> 'i \<Rightarrow> 's \<Rightarrow> ('r \<times> 's) option"
    and valid :: "'k \<Rightarrow> bool"
    and inv :: "'s \<Rightarrow> bool"
  assumes created: "inv s \<Longrightarrow> create k i s = Some (r, s') \<Longrightarrow> valid k \<and> lookup k s' = Some r"
    and hit: "valid k \<Longrightarrow> lookup k s = Some r \<Longrightarrow> create k i s = Some (r, s)"
begin

lemma replay: "inv s \<Longrightarrow> create k i s = Some (r, s') \<Longrightarrow> create k j s' = Some (r, s')"
  using created hit by blast

lemma resend_hit:
  "valid k \<Longrightarrow> lookup k s = Some r \<Longrightarrow> resend (create k) is s = Some (replicate (length is) r, s)"
  by (induction "is") (simp_all add: hit)

lemma retries:
  assumes "inv s" and "create k i s = Some (r, s')"
  shows "resend (create k) (i # is) s = Some (replicate (Suc (length is)) r, s')"
  using assms created [OF assms] by (simp add: resend_hit)

end

end
