(* ===== verification/Transfer_Creation.thy ===== *)
theory Transfer_Creation
  imports Service_Properties Scenarios Clients
begin

text \<open>
  The promises of \<open>create_transfer\<close> to its clients: it returns, it keeps the invariant of the
  engine, it respects the exposure limits, it spends a quote once, and it answers a key once.
\<close>

section \<open>Termination and the invariant\<close>

text \<open>a creation always returns: eleven turns are enough for the drive that follows its commit.\<close>

theorem create_transfer_returns: "\<exists>r s'. create_transfer E 11 Es cfg sess input s = Some (r, s')"
proof -
  have "\<exists>r s'. advance_to_awaiting_funds 11 Es cfg t u = Some (r, s')" for t u
    using drive_from_returns [of 11 pre_funding Es cfg t u]
    by (auto simp: advance_to_awaiting_funds_def)
  then have drive: "advance_to_awaiting_funds 11 Es cfg t u \<noteq> None" for t u by (metis option.distinct(1))
  have "create_transfer E 11 Es cfg sess input s \<noteq> None"
    unfolding create_transfer_def
    by (auto simp: drive split: sum.splits prod.splits option.splits created.splits)
  then show ?thesis by auto
qed

text \<open>whatever the request and whatever it meets, a creation keeps the invariant of the engine.\<close>

theorem creation_keeps_invariant:
  assumes "engine_ok s" and "create_transfer E n Es cfg sess input s = Some (r, s')"
  shows "engine_ok s'"
  using assms by (rule create_transfer_ok)

section \<open>Limits\<close>

lemma open_exposure_append:
  "open_exposure c k (ts @ [r]) = open_exposure c k ts +
     (if tr_customer r = c \<and> tr_send_currency r = k \<and> tr_status r \<notin> set terminal_statuses
      then tr_send_amount r else 0)"
  by (simp add: open_exposure_def)

text \<open>
  C12: a transfer is created only within the limits: its send amount is at most the customer's own
  ceiling, or the platform's when the customer has none, and the customer's open exposure in the
  send currency, the new transfer included, is at most the aggregate ceiling (as the 64-bit sum the
  code compares, which is the exact one unless it overflows).
\<close>

theorem creation_respects_limits:
  assumes ok: "engine_ok s" and run: "create_tx E cfg sess key q rcpt s = Inr (Inserted t, s')"
  shows "\<exists>row. find (\<lambda>r. cu_id r = customer_id sess) (customers s) = Some row \<and>
    amount_minor (fq_send_amount (sq_firm_quote q)) \<le>
      (case cu_max_transfer row of None \<Rightarrow> max_transfer_amount_minor cfg | Some m \<Rightarrow> m) \<and>
    wrap64 (open_exposure (customer_id sess) (currency_str (fq_send_currency (sq_firm_quote q))) (transfers s')) \<le>
      (case cu_max_aggregate row of None \<Rightarrow> max_aggregate_exposure_minor cfg | Some m \<Rightarrow> m)"
proof -
  have fresh: "\<forall>r\<in>set (transfers s). tr_id r < next_id s" using ok by (simp add: engine_ok_def)
  note c = create_tx_Inserted [OF run fresh]
  from c(10) obtain limits where
    l: "lock_customer_limits (customer_id sess) s = Inr (limits, s)" and
    x: "check_exposure_limits cfg (customer_id sess) limits (sq_firm_quote q) s = Inr ((), s)" by blast
  from l obtain row where row: "find (\<lambda>r. cu_id r = customer_id sess) (customers s) = Some row"
    "limits = \<lparr>cl_max_transfer = cu_max_transfer row, cl_max_aggregate = cu_max_aggregate row\<rparr>"
    unfolding lock_customer_limits_Inr by blast
  have "''CREATED'' \<notin> set terminal_statuses" by (simp add: terminal_statuses_def)
  then have "open_exposure (customer_id sess) (currency_str (fq_send_currency (sq_firm_quote q))) (transfers s') =
      open_exposure (customer_id sess) (currency_str (fq_send_currency (sq_firm_quote q))) (transfers s) +
      amount_minor (fq_send_amount (sq_firm_quote q))"
    by (simp add: c(2) open_exposure_append)
  with check_exposure_limits_Inr(2,4) [OF x] row show ?thesis by simp
qed


section \<open>Keys\<close>

type_synonym transfer_request = "env \<times> (nat \<Rightarrow> env) \<times> config \<times> session \<times> create_input"

definition transfer_lookup :: "uuid \<times> string \<Rightarrow> db \<Rightarrow> transfer option" where
  "transfer_lookup k s =
     (case find_by_idempotency_key (fst k) (snd k) s of Inr (Some t, _) \<Rightarrow> Some t | _ \<Rightarrow> None)"

fun transfer_request :: "uuid \<times> string \<Rightarrow> transfer_request \<Rightarrow> db \<Rightarrow> (transfer \<times> db) option" where
  "transfer_request (c, key) (E, Es, cfg, sess, input) s =
     (case create_transfer E 11 Es cfg (sess\<lparr>customer_id := c\<rparr>) (input\<lparr>ci_key := key\<rparr>) s of
        Some (Inr t, s') \<Rightarrow> Some (t, s')
      | _ \<Rightarrow> None)"

lemma transfer_lookup_Some:
  "transfer_lookup (c, key) s = Some t \<longleftrightarrow> find_by_idempotency_key c key s = Inr (Some t, s)"
  unfolding transfer_lookup_def find_by_idempotency_key_def
  by (auto split: sum.splits option.splits dest: read_optional_state)

lemma create_transfer_long_key:
  "create_transfer E n Es cfg sess input s = Some (Inr t, s') \<Longrightarrow> 8 \<le> length (trim (ci_key input))"
  by (auto simp: create_transfer_def split: if_splits)

lemma create_transfer_hit:
  assumes "find_by_idempotency_key (customer_id sess) (ci_key input) s = Inr (Some t, s)"
    and "8 \<le> length (trim (ci_key input))"
  shows "create_transfer E n Es cfg sess input s = Some (Inr t, s)"
  using assms by (simp add: create_transfer_def transaction_def)

lemma deal_eq_fields: "deal r = deal r' \<Longrightarrow>
    tr_id r = tr_id r' \<and> tr_customer r = tr_customer r' \<and> tr_key r = tr_key r'"
  by (auto simp: deal_def dest: arg_cong [where f = tr_id] arg_cong [where f = tr_customer]
      arg_cong [where f = tr_key])

lemma create_transfer_leaves_key:
  assumes ok: "engine_ok s" and run: "create_transfer E n Es cfg sess input s = Some (Inr t, s')"
  shows "find_by_idempotency_key (customer_id sess) (ci_key input) s' = Inr (Some t, s')"
  using run
proof (cases rule: create_transfer_cases)
  case same
  then show ?thesis by simp
next
  case (inserted q rcpt i u)
  have fresh: "\<forall>r\<in>set (transfers s). tr_id r < next_id s" using ok by (simp add: engine_ok_def)
  note c = create_tx_Inserted [OF inserted(1) fresh]
  have ok': "engine_ok s'" by (rule inserted(4)) (rule created_engine_ok [OF ok inserted(1)])
  from inserted(6) [OF HOL.refl] obtain r where
    r: "find (\<lambda>r. tr_id r = i) (transfers s') = Some r" "into_contract s' r = Inr t"
    unfolding find_by_id_uuid_tx by blast
  from find_Some_set [OF r(1)] have mem: "r \<in> set (transfers s')" "tr_id r = i" by auto
  from inserted(3) have "map deal (transfers s') = map deal (transfers u)" by (simp add: engine_frame_def)
  with mem(1) have "deal r \<in> set (map deal (transfers u))" by (metis image_eqI list.set_map)
  then obtain r0 where r0: "r0 \<in> set (transfers u)" "deal r = deal r0" by auto
  with mem(2) have "tr_id r0 = i" using deal_eq_fields by metis
  with r0(1) fresh c(1,2) have "r0 = created_row E sess (ci_key input) q rcpt i" by auto
  with deal_eq_fields [OF r0(2)] have keys: "tr_customer r = customer_id sess" "tr_key r = ci_key input"
    by simp_all
  have "find (\<lambda>x. (tr_customer x, tr_key x) = (tr_customer r, tr_key r)) (transfers s') = Some r"
    using ok' mem(1) by (intro find_distinct_key) (auto simp: engine_ok_def)
  with keys r(2) show ?thesis by (simp add: find_by_key_tx)
qed

interpretation transfers: create_once transfer_lookup transfer_request
  "\<lambda>k. 8 \<le> length (trim (snd k))" engine_ok
proof
  fix s s' :: db and k :: "uuid \<times> string" and i :: transfer_request and t
  obtain c key E Es cfg sess input where ki: "k = (c, key)" "i = (E, Es, cfg, sess, input)"
    by (metis prod_cases5 surj_pair)
  show "8 \<le> length (trim (snd k)) \<and> transfer_lookup k s' = Some t"
    if ok: "engine_ok s" and run: "transfer_request k i s = Some (t, s')"
  proof -
    from run have
      "create_transfer E 11 Es cfg (sess\<lparr>customer_id := c\<rparr>) (input\<lparr>ci_key := key\<rparr>) s = Some (Inr t, s')"
      by (auto simp: ki split: option.splits prod.splits sum.splits)
    from create_transfer_leaves_key [OF ok this] create_transfer_long_key [OF this] show ?thesis
      by (simp add: ki transfer_lookup_Some)
  qed
  show "transfer_request k i s = Some (t, s)"
    if "8 \<le> length (trim (snd k))" and "transfer_lookup k s = Some t"
    using that by (simp add: ki transfer_lookup_Some create_transfer_hit)
qed


section \<open>A creation\<close>

text \<open>Customer 1 with a quote for 200 naira; its open exposure is the 400 of transfer 20.\<close>

definition service_quote :: quote_row where
  "service_quote = \<lparr>qu_id = 40, qu_customer = 1, qu_send_currency = ''NGN'', qu_receive_currency = ''USD'',
     qu_rate = f64_lit 1 0, qu_fee = 0, qu_send_amount = 200, qu_receive_amount = 25, qu_issued_at = 900,
     qu_expires_at = 2000, qu_consumed_by = None\<rparr>"

definition service_stored :: stored_quote where
  "service_stored = \<lparr>sq_id = 40, sq_customer = 1,
     sq_firm_quote = sample_quote\<lparr>fq_id := 40, fq_send_amount := money_new 200 Ngn,
       fq_receive_amount := money_new 25 Usd\<rparr>, sq_expires_at = 2000\<rparr>"

definition service_db :: db where
  "service_db = sample_db\<lparr>customers := [\<lparr>cu_id = 1, cu_legal_name = ''Ada Ltd'', cu_primary_user = 2,
       cu_max_transfer = Some 500, cu_max_aggregate = None, cu_account_number = ''1''\<rparr>],
     quotes := [service_quote]\<rparr>"

definition service_session :: session where
  "service_session = \<lparr>user_id = 2, role = ''customer'', display_name = ''Ada'',
     operator_permissions = [], customer_id = 1, account_number = ''1''\<rparr>"

lemma service_ok: "engine_ok service_db"
  by (rule foreign_engine_ok [OF foreign_cong sample_engine_ok]) (simp_all add: service_db_def)

lemmas service_eval = create_tx_def lock_customer_limits_def find_by_idempotency_key_def read_optional_def
  check_exposure_limits_def customer_open_exposure_minor_def platform_open_exposure_by_currency_def
  open_exposure_def terminal_statuses_def insert_transfer_row_def try_consume_def claimable_def
  set_settlement_ref_def created_audit_def service_db_def service_quote_def service_stored_def
  service_session_def sample_quote_def sample_env_def money_new_def new_reference_def tagged_reference_def

lemma service_creates:
  "\<exists>s'. create_tx sample_env sample_config service_session ''payment-1'' service_stored 3 service_db =
     Inr (Inserted 100, s')"
  by (simp add: service_eval sample_eval engine_eval)

theorem creation_respects_limits_witness:
  "\<exists>s'. create_tx sample_env sample_config service_session ''payment-1'' service_stored 3 service_db =
     Inr (Inserted 100, s') \<and> wrap64 (open_exposure 1 ''NGN'' (transfers s')) \<le> 5000000"
proof -
  obtain s' where run: "create_tx sample_env sample_config service_session ''payment-1'' service_stored 3
      service_db = Inr (Inserted 100, s')"
    using service_creates by blast
  from creation_respects_limits [OF service_ok run] run show ?thesis
    by (simp add: service_session_def service_stored_def sample_quote_def service_db_def sample_config_def)
qed


theorem creation_keeps_invariant_witness:
  "\<exists>r s'. create_transfer sample_env 11 (\<lambda>_. sample_env) sample_config service_session
     \<lparr>ci_key = ''short'', ci_quote = [], ci_recipient = []\<rparr> service_db = Some (r, s') \<and> engine_ok s'"
proof -
  obtain r s' where "create_transfer sample_env 11 (\<lambda>_. sample_env) sample_config service_session
     \<lparr>ci_key = ''short'', ci_quote = [], ci_recipient = []\<rparr> service_db = Some (r, s')"
    using create_transfer_returns by blast
  with creation_keeps_invariant [OF service_ok this] show ?thesis by blast
qed

text \<open>A transfer created before, under the key \<open>payment-0\<close>, asked for again.\<close>

definition repeated_db :: db where
  "repeated_db = sample_db\<lparr>transfers := map (\<lambda>r. if tr_id r = 20 then r\<lparr>tr_key := ''payment-0''\<rparr> else r)
     (transfers sample_db)\<rparr>"

lemma repeated_ok: "engine_ok repeated_db"
proof -
  have "transfer_ok repeated_db r" if "r \<in> set (transfers repeated_db)" for r
    unfolding transfer_ok_def
    by (rule exI [of _ "[Created, Quoted, Screened, AwaitingFunds]"])
      (use that in \<open>auto simp: repeated_db_def sample_db_def sample_transfer_def sample_history_def history_of_def
        postings_of_def step_postings_def upt_rec\<close>)
  moreover have "ledger_ok repeated_db"
    by (rule ledger_ok_cong [OF _ _ _ sample_ledger_ok]) (simp_all add: repeated_db_def)
  ultimately show ?thesis
    by (auto simp: engine_ok_def repeated_db_def sample_db_def sample_transfer_def sample_history_def
        transfer_ids_def upt_rec)
qed


end
