(* ===== verification/Wallet.thy ===== *)
theory Wallet
  imports Fx Clients
begin

text \<open>
  \<open>src/domain/settlement_wallet.rs\<close>: buying USDC with a local currency and converting it back, the
  wallet's balance and the history of trades. A trade is two ledger legs at the indicative rate.
\<close>

section \<open>Trades\<close>

definition asset :: string where "asset = ''USDC''"
definition asset_decimals :: nat where "asset_decimals = 2"
definition history_limit :: nat where "history_limit = 100"

datatype trade_kind = Buy | Convert

definition trade_kind_str :: "trade_kind \<Rightarrow> string" where
  "trade_kind_str k = (case k of Buy \<Rightarrow> ''BUY'' | Convert \<Rightarrow> ''CONVERT'')"

definition parse_trade_kind :: "string \<Rightarrow> trade_kind api_result" where
  "parse_trade_kind value =
     (if value = ''BUY'' then Inr Buy else if value = ''CONVERT'' then Inr Convert
      else Inl (Err server_error))"

interpretation trade_kind: exact_codec trade_kind_str parse_trade_kind
proof
  show "parse_trade_kind (trade_kind_str x) = Inr x" for x
    by (cases x) (simp_all add: parse_trade_kind_def trade_kind_str_def)
  show "trade_kind_str x = s" if "parse_trade_kind s = Inr x" for s x
    using that by (auto simp: parse_trade_kind_def trade_kind_str_def split: if_splits)
qed

record settlement_trade =
  tt_id :: uuid
  tt_reference :: string
  tt_kind :: trade_kind
  tt_asset :: string
  tt_usdc_amount :: int
  tt_local_amount :: money
  tt_rate :: f64
  tt_rate_source :: rate_source
  tt_created_at :: instant

definition into_trade :: "trade_row \<Rightarrow> settlement_trade api_result" where
  "into_trade r =
     (case parse_currency (st_local_currency r) of Inl e \<Rightarrow> Inl e | Inr ccy \<Rightarrow>
      case parse_trade_kind (st_kind r) of Inl e \<Rightarrow> Inl e | Inr k \<Rightarrow>
        Inr \<lparr>tt_id = st_id r, tt_reference = st_reference r, tt_kind = k, tt_asset = asset,
          tt_usdc_amount = st_usdc_amount r, tt_local_amount = money_new (st_local_amount r) ccy,
          tt_rate = st_rate r,
          tt_rate_source = (if st_rate_source r = ''cachedProvisional'' then CachedProvisional else Live),
          tt_created_at = st_created_at r\<rparr>)"

definition read_trade :: "trade_row option \<Rightarrow> settlement_trade option api_result" where
  "read_trade row =
     (case row of None \<Rightarrow> Inr None | Some r \<Rightarrow> map_sum id Some (into_trade r))"

definition trade_by_key :: "uuid \<Rightarrow> string \<Rightarrow> settlement_trade option tx" where
  "trade_by_key c key =
     bind_tx (gets (\<lambda>s. find (\<lambda>r. st_customer r = c \<and> st_key r = key) (settlement_trades s))) (\<lambda>row.
       lift_result (read_trade row))"

section \<open>Rates\<close>

record wallet_rate =
  wr_rate :: f64
  wr_source :: rate_source

definition usdc_rate ::
  "env \<Rightarrow> fx_event \<Rightarrow> config \<Rightarrow> currency_code \<Rightarrow> fx_state \<Rightarrow> db \<Rightarrow>
   wallet_rate api_result \<times> fx_state \<times> db" where
  "usdc_rate E ev cfg local fx s =
     (if local = Usd then (Inr \<lparr>wr_rate = one_f64, wr_source = Live\<rparr>, fx, s)
      else case get_indicative_rate E ev cfg Usd local fx s of
        (Inl f, fx', s') \<Rightarrow>
          (Inl (case f of
              Err e \<Rightarrow> (if err_code e = Validation
                then Err (validation (''USDC can't be traded against '' @ currency_str local @ '' yet.''))
                else Err e)
            | Panic \<Rightarrow> Panic), fx', s')
      | (Inr ir, fx', s') \<Rightarrow> (Inr \<lparr>wr_rate = ir_rate ir, wr_source = ir_source ir\<rparr>, fx', s'))"

section \<open>Executing a trade\<close>

record trade_input =
  ti_kind :: trade_kind
  ti_key :: string
  ti_local_currency :: currency_code
  ti_amount :: int

text \<open>Both amounts, USDC first; each direction rounds down.\<close>

definition trade_amounts :: "trade_kind \<Rightarrow> int \<Rightarrow> f64 \<Rightarrow> (int \<times> int) api_result" where
  "trade_amounts k amount r =
     (case k of
        Buy \<Rightarrow> map_sum id (\<lambda>u. (u, amount)) (invert_rate amount r)
      | Convert \<Rightarrow> Inr (amount, apply_rate amount r))"

definition rate_source_str :: "rate_source \<Rightarrow> string" where
  "rate_source_str src = (case src of Live \<Rightarrow> ''live'' | CachedProvisional \<Rightarrow> ''cachedProvisional'')"

text \<open>
  \<open>INSERT_TRADE\<close>: no row when the key is taken, a database error when the reference is, or when a
  column check fails.
\<close>

definition insert_trade ::
  "env \<Rightarrow> session \<Rightarrow> trade_input \<Rightarrow> wallet_rate \<Rightarrow> int \<Rightarrow> int \<Rightarrow> trade_row option tx" where
  "insert_trade E sess input r usdc_minor local_minor =
     bind_tx (gets (\<lambda>s. list_ex (\<lambda>t. st_customer t = customer_id sess \<and> st_key t = ti_key input)
         (settlement_trades s))) (\<lambda>taken.
     if taken then return_tx None
     else
       bind_tx (gets (\<lambda>s. list_ex (\<lambda>t. st_reference t = new_reference E ''ST'') (settlement_trades s))) (\<lambda>clash.
       bind_tx (ensure (\<not> clash \<and> 0 < usdc_minor \<and> 0 < local_minor) from_sqlx_error) (\<lambda>_.
       bind_tx fresh_id (\<lambda>i.
       let row = \<lparr>st_id = i, st_reference = new_reference E ''ST'', st_customer = customer_id sess,
             st_key = ti_key input, st_kind = trade_kind_str (ti_kind input),
             st_usdc_amount = usdc_minor, st_local_currency = currency_str (ti_local_currency input),
             st_local_amount = local_minor, st_rate = wr_rate r,
             st_rate_source = rate_source_str (wr_source r), st_created_by = user_id sess,
             st_created_at = now E\<rparr>
       in bind_tx (modify (\<lambda>s. s\<lparr>settlement_trades := settlement_trades s @ [row]\<rparr>)) (\<lambda>_.
          return_tx (Some row))))))"

definition trade_audit :: "env \<Rightarrow> session \<Rightarrow> trade_input \<Rightarrow> trade_row \<Rightarrow> int \<Rightarrow> audit_entry" where
  "trade_audit E sess input row usdc_balance =
     \<lparr>ae_actor = Some (user_id sess), ae_role = Some (role sess),
      ae_action = (case ti_kind input of Buy \<Rightarrow> ''settlement.buy'' | Convert \<Rightarrow> ''settlement.convert''),
      ae_entity_type = ''settlement_trade'', ae_entity = uuid_str E (st_id row), ae_before = None,
      ae_after = Some (JObj [(''reference'', JStr (st_reference row)),
        (''usdcAmountMinor'', JInt (st_usdc_amount row)),
        (''localCurrency'', JStr (currency_str (ti_local_currency input))),
        (''localAmountMinor'', JInt (st_local_amount row)), (''rate'', JFloat (st_rate row)),
        (''rateSource'', JStr (st_rate_source row)), (''usdcBalanceMinor'', JInt usdc_balance)])\<rparr>"

text \<open>The transaction. The row lock on the debited account orders concurrent trades.\<close>

definition trade_tx ::
  "env \<Rightarrow> session \<Rightarrow> trade_input \<Rightarrow> wallet_rate \<Rightarrow> int \<Rightarrow> int \<Rightarrow> trade_row option tx" where
  "trade_tx E sess input r usdc_minor local_minor =
     (let local = ti_local_currency input in
      bind_tx (get_or_create_account (customer_id sess) local) (\<lambda>local_acct.
      bind_tx (get_or_create_account_by_code (customer_id sess) usdc) (\<lambda>usdc_acct.
      let (debit_acct, debit_minor, debit_label) =
        (case ti_kind input of Buy \<Rightarrow> (local_acct, local_minor, currency_str local)
         | Convert \<Rightarrow> (usdc_acct, usdc_minor, asset))
      in bind_tx (account_balance_minor debit_acct) (\<lambda>bal.
         bind_tx (ensure (\<not> bal < debit_minor)
           (validation (''Insufficient '' @ debit_label @ '' balance.''))) (\<lambda>_.
         bind_tx (insert_trade E sess input r usdc_minor local_minor) (\<lambda>inserted.
         case inserted of None \<Rightarrow> return_tx None
         | Some row \<Rightarrow>
           let (local_signed, usdc_signed, description) =
             (case ti_kind input of Buy \<Rightarrow> (neg64 local_minor, usdc_minor, ''USDC purchase'')
              | Convert \<Rightarrow> (local_minor, neg64 usdc_minor, ''USDC conversion''))
           in bind_tx (post_settlement_entry E \<lparr>sp_account = local_acct, sp_trade = st_id row,
                sp_amount = local_signed, sp_currency = currency_str local,
                sp_description = description\<rparr>) (\<lambda>_.
              bind_tx (post_settlement_entry E \<lparr>sp_account = usdc_acct, sp_trade = st_id row,
                sp_amount = usdc_signed, sp_currency = usdc, sp_description = description\<rparr>) (\<lambda>p.
              bind_tx (write_audit E (trade_audit E sess input row (snd p))) (\<lambda>_.
                return_tx (Some row))))))))))"

definition execute_trade ::
  "env \<Rightarrow> fx_event \<Rightarrow> config \<Rightarrow> session \<Rightarrow> trade_input \<Rightarrow> fx_state \<Rightarrow> db \<Rightarrow>
   settlement_trade api_result \<times> fx_state \<times> db" where
  "execute_trade E ev cfg sess input fx s =
     (if length (trim (ti_key input)) < 8
      then (Inl (Err (validation ''Provide a stable idempotency key.'')), fx, s)
      else case transaction (trade_by_key (customer_id sess) (ti_key input)) s of
        (Inl e, s1) \<Rightarrow> (Inl e, fx, s1)
      | (Inr (Some t), s1) \<Rightarrow> (Inr t, fx, s1)
      | (Inr None, s1) \<Rightarrow>
        if ti_amount input \<le> 0
        then (Inl (Err (validation ''Enter an amount greater than zero.'')), fx, s1)
        else case usdc_rate E ev cfg (ti_local_currency input) fx s1 of
          (Inl e, fx2, s2) \<Rightarrow> (Inl e, fx2, s2)
        | (Inr r, fx2, s2) \<Rightarrow>
          (case trade_amounts (ti_kind input) (ti_amount input) (wr_rate r) of
             Inl e \<Rightarrow> (Inl e, fx2, s2)
           | Inr (usdc_minor, local_minor) \<Rightarrow>
             if usdc_minor \<le> 0 \<or> local_minor \<le> 0
             then (Inl (Err (validation ''That amount is too small to convert at the current rate.'')), fx2, s2)
             else case commit_or_rollback (trade_tx E sess input r usdc_minor local_minor) s2 of
               (Inl e, s3) \<Rightarrow> (Inl e, fx2, s3)
             | (Inr None, s3) \<Rightarrow>
                 (let (r', s4) = transaction (bind_tx (trade_by_key (customer_id sess) (ti_key input))
                    (ok_or server_error)) s3 in (r', fx2, s4))
             | (Inr (Some row), s3) \<Rightarrow> (into_trade row, fx2, s3)))"

section \<open>Reads and routes\<close>

record settlement_network =
  sn_chain_id :: nat
  sn_vault_address :: string
  sn_asset_address :: "string option"
  sn_explorer_url :: "string option"

record settlement_balance =
  sb_asset :: string
  sb_amount :: int
  sb_decimals :: nat
  sb_network :: "settlement_network option"
  sb_as_of :: string

definition network :: "config \<Rightarrow> settlement_network option" where
  "network cfg =
     (case settlement_chain_id cfg of None \<Rightarrow> None | Some i \<Rightarrow>
      case settlement_vault_address cfg of None \<Rightarrow> None | Some v \<Rightarrow>
        Some \<lparr>sn_chain_id = i, sn_vault_address = v, sn_asset_address = settlement_usdc_address cfg,
          sn_explorer_url = settlement_explorer_url cfg\<rparr>)"

text \<open>The sum over the join of the customer's USDC accounts with their entries.\<close>

definition wallet_sum :: "uuid \<Rightarrow> db \<Rightarrow> int" where
  "wallet_sum c s = sum_list (map (\<lambda>a. account_sum (acc_id a) s)
     (filter (\<lambda>a. acc_customer a = c \<and> acc_currency a = usdc) (accounts s)))"

definition get_wallet_balance :: "env \<Rightarrow> config \<Rightarrow> session \<Rightarrow> settlement_balance io" where
  "get_wallet_balance E cfg sess = transaction (
     bind_tx (gets (wallet_sum (customer_id sess))) (\<lambda>n.
     bind_tx (bigint n) (\<lambda>amount.
       return_tx \<lparr>sb_asset = asset, sb_amount = amount, sb_decimals = asset_decimals,
         sb_network = network cfg, sb_as_of = iso E (now E)\<rparr>)))"

text \<open>Newest first, equal instants by id, at most \<open>history_limit\<close>.\<close>

definition list_trades :: "session \<Rightarrow> settlement_trade list io" where
  "list_trades sess = transaction (
     bind_tx (gets (\<lambda>s. take history_limit (sort_key (\<lambda>r. - st_created_at r) (sort_key st_id
         (filter (\<lambda>r. st_customer r = customer_id sess) (settlement_trades s)))))) (\<lambda>rows.
       map_tx (\<lambda>r. lift_result (into_trade r)) rows))"

text \<open>
  \<open>HeaderValue::to_str\<close> gives a string only for visible ASCII and tabs; a header that is absent or
  not such a string leaves the body's field.
\<close>

definition visible_ascii :: "char \<Rightarrow> bool" where
  "visible_ascii c \<longleftrightarrow> (32 \<le> code c \<and> code c < 127) \<or> code c = 9"

definition header_to_str :: "string option \<Rightarrow> string option" where
  "header_to_str h = (case h of None \<Rightarrow> None | Some v \<Rightarrow> if list_all visible_ascii v then Some v else None)"

definition idempotency_key :: "string option \<Rightarrow> string option \<Rightarrow> string" where
  "idempotency_key header body_key =
     (case header_to_str header of Some v \<Rightarrow> v
      | None \<Rightarrow> (case body_key of Some k \<Rightarrow> k | None \<Rightarrow> []))"

record buy_body =
  bb_key :: "string option"
  bb_amount :: money

record convert_body =
  cb_key :: "string option"
  cb_usdc_amount :: int
  cb_currency :: string

definition buy ::
  "env \<Rightarrow> fx_event \<Rightarrow> config \<Rightarrow> session \<Rightarrow> string option \<Rightarrow> buy_body \<Rightarrow> fx_state \<Rightarrow> db \<Rightarrow>
   settlement_trade api_result \<times> fx_state \<times> db" where
  "buy E ev cfg sess header body =
     execute_trade E ev cfg sess \<lparr>ti_kind = Buy, ti_key = idempotency_key header (bb_key body),
       ti_local_currency = currency (bb_amount body), ti_amount = amount_minor (bb_amount body)\<rparr>"

definition convert ::
  "env \<Rightarrow> fx_event \<Rightarrow> config \<Rightarrow> session \<Rightarrow> string option \<Rightarrow> convert_body \<Rightarrow> fx_state \<Rightarrow> db \<Rightarrow>
   settlement_trade api_result \<times> fx_state \<times> db" where
  "convert E ev cfg sess header body fx s =
     (case parse_currency (trim (cb_currency body)) of
        Inl e \<Rightarrow> (Inl e, fx, s)
      | Inr ccy \<Rightarrow> execute_trade E ev cfg sess \<lparr>ti_kind = Convert,
          ti_key = idempotency_key header (cb_key body), ti_local_currency = ccy,
          ti_amount = cb_usdc_amount body\<rparr> fx s)"

section \<open>Amounts\<close>

text \<open>
  C17: rounding never creates value: what a local amount buys, converted back at the same rate, gives
  at most that amount, and what USDC converts to, spent on USDC again, buys at most what was
  converted; and each direction gives the exact quotient rounded down.
\<close>

theorem round_trip_gains_nothing:
  assumes "0 \<le> x" and "in_i64 x" and pos: "0 < scale_rate r"
    and "x * rate_scale div scale_rate r \<le> i64_max" and "x * scale_rate r div rate_scale \<le> i64_max"
  shows "\<exists>u l. trade_amounts Buy x r = Inr (u, x) \<and> u * scale_rate r \<le> x * rate_scale \<and>
      (\<exists>y. trade_amounts Convert u r = Inr (u, y) \<and> y \<le> x) \<and>
      trade_amounts Convert x r = Inr (x, l) \<and> l * rate_scale \<le> x * scale_rate r \<and>
      (\<exists>v. trade_amounts Buy l r = Inr (v, l) \<and> v \<le> x)"
proof -
  let ?S = "rate_scale" and ?r = "scale_rate r"
  have S: "0 < ?S" by (simp add: rate_scale_def)
  let ?u = "x * ?S div ?r" and ?l = "x * ?r div ?S"
  have u: "invert_rate x r = Inr ?u" using assms by (intro invert_rate_floor)
  have l: "apply_rate x r = ?l" using assms by (intro apply_rate_floor) simp_all
  have u0: "0 \<le> ?u" and l0: "0 \<le> ?l"
    using assms(1) pos S by (simp_all add: pos_imp_zdiv_nonneg_iff)
  have ux: "?u * ?r div ?S \<le> x" and lx: "?l * ?S div ?r \<le> x"
    using floor_div_back [OF S pos assms(1)] floor_div_back [OF pos S assms(1)] by simp_all
  have xm: "x \<le> i64_max" using assms(2) by (simp add: in_i64_def i64_max_def)
  have "apply_rate ?u r = ?u * ?r div ?S"
    using u0 pos ux xm by (intro apply_rate_floor) simp_all
  moreover have "in_i64 ?l" using l0 assms(5) by (simp add: in_i64_def i64_max_def)
  then have "invert_rate ?l r = Inr (?l * ?S div ?r)"
    using l0 pos lx xm by (intro invert_rate_floor) simp_all
  moreover have "?u * ?r \<le> x * ?S" "?l * ?S \<le> x * ?r"
    using floor_bounds [OF pos, of "x * ?S"] floor_bounds [OF S, of "x * ?r"] by simp_all
  ultimately show ?thesis
    using u l ux lx by (auto simp: trade_amounts_def)
qed

section \<open>What a trade does\<close>

lemma currency_str_not_usdc [simp]: "currency_str c \<noteq> usdc" "usdc \<noteq> currency_str c"
  by (cases c; simp add: usdc_def)+

lemma map_sum_Inr: "map_sum id f x = Inr y \<longleftrightarrow> (\<exists>a. x = Inr a \<and> y = f a)"
  by (cases x) auto

lemma trade_by_key_tx:
  "trade_by_key c key s = Inr (None, s') \<longleftrightarrow>
     find (\<lambda>r. st_customer r = c \<and> st_key r = key) (settlement_trades s) = None \<and> s' = s"
  "trade_by_key c key s = Inr (Some t, s') \<longleftrightarrow> s' = s \<and>
     (\<exists>r. find (\<lambda>r. st_customer r = c \<and> st_key r = key) (settlement_trades s) = Some r \<and> into_trade r = Inr t)"
  unfolding trade_by_key_def bind_tx_Inr primitive_tx read_trade_def
  by (auto simp: map_sum_Inr split: option.splits)

lemma trade_by_key_state: "trade_by_key c key s = Inr (x, s') \<Longrightarrow> s' = s"
  by (cases x) (auto simp: trade_by_key_tx)

definition new_trade ::
  "env \<Rightarrow> session \<Rightarrow> trade_input \<Rightarrow> wallet_rate \<Rightarrow> int \<Rightarrow> int \<Rightarrow> uuid \<Rightarrow> trade_row" where
  "new_trade E sess input r usdc_minor local_minor i =
     \<lparr>st_id = i, st_reference = new_reference E ''ST'', st_customer = customer_id sess,
      st_key = ti_key input, st_kind = trade_kind_str (ti_kind input),
      st_usdc_amount = usdc_minor, st_local_currency = currency_str (ti_local_currency input),
      st_local_amount = local_minor, st_rate = wr_rate r,
      st_rate_source = rate_source_str (wr_source r), st_created_by = user_id sess,
      st_created_at = now E\<rparr>"

lemma new_trade_simps [simp]:
  "st_id (new_trade E sess input r u l i) = i"
  "st_customer (new_trade E sess input r u l i) = customer_id sess"
  "st_key (new_trade E sess input r u l i) = ti_key input"
  by (simp_all add: new_trade_def)

lemma insert_trade_Some:
  "insert_trade E sess input r u l s = Inr (Some row, s') \<longleftrightarrow>
     find (\<lambda>t. st_customer t = customer_id sess \<and> st_key t = ti_key input) (settlement_trades s) = None \<and>
     \<not> list_ex (\<lambda>t. st_reference t = new_reference E ''ST'') (settlement_trades s) \<and> 0 < u \<and> 0 < l \<and>
     row = new_trade E sess input r u l (next_id s) \<and>
     s' = s\<lparr>next_id := Suc (next_id s), settlement_trades := settlement_trades s @ [row]\<rparr>"
  unfolding insert_trade_def Let_def bind_tx_Inr primitive_tx new_trade_def
  by (auto simp: bind_tx_Inr primitive_tx list_ex_iff find_None_iff split: if_splits)

lemma insert_trade_None: "insert_trade E sess input r u l s = Inr (None, s') \<Longrightarrow>
    find (\<lambda>t. st_customer t = customer_id sess \<and> st_key t = ti_key input) (settlement_trades s) \<noteq> None"
  unfolding insert_trade_def Let_def bind_tx_Inr primitive_tx
  by (auto simp: bind_tx_Inr primitive_tx list_ex_iff find_None_iff split: if_splits)

text \<open>The two signed legs, local currency first.\<close>

definition legs :: "trade_kind \<Rightarrow> int \<Rightarrow> int \<Rightarrow> int \<times> int" where
  "legs k usdc_minor local_minor =
     (case k of Buy \<Rightarrow> (neg64 local_minor, usdc_minor) | Convert \<Rightarrow> (local_minor, neg64 usdc_minor))"

definition debited :: "trade_input \<Rightarrow> string" where
  "debited input = (case ti_kind input of Buy \<Rightarrow> currency_str (ti_local_currency input) | Convert \<Rightarrow> usdc)"

lemma post_settlement_entry_ok:
  assumes "ledger_ok s" and "holds c (sp_account p) (sp_currency p) s"
    and "post_settlement_entry E p s = Inr (x, s')"
  shows "ledger_ok s'" and "balance c' k s' = balance c' k s + (if c' = c \<and> k = sp_currency p then sp_amount p else 0)"
    and "holds d j k s' \<longleftrightarrow> holds d j k s"
  using append_entry_ok [OF assms(1,2)] assms(3) by (auto simp: post_settlement_entry_def)

lemma post_settlement_entry_foreign: "upholds keeps_others (post_settlement_entry E p)"
  if "keeps_others = (\<lambda>s s'. settlement_trades s' = settlement_trades s \<and> transfers s' = transfers s \<and>
       transfer_history s' = transfer_history s \<and> next_id s \<le> next_id s' \<and>
       (\<exists>e. ledger_entries s' = ledger_entries s @ [e] \<and> le_transfer e = None \<and> le_trade e = Some (sp_trade p)))"
  unfolding that post_settlement_entry_def
  by (rule upholdsI) (auto simp: append_entry_tx new_entry_def)

lemma trade_tx_Some:
  assumes ok: "ledger_ok s" and run: "trade_tx E sess input r u l s = Inr (Some row, s')"
  shows "find (\<lambda>t. st_customer t = customer_id sess \<and> st_key t = ti_key input) (settlement_trades s) = None"
    and "settlement_trades s' = settlement_trades s @ [row]"
    and "\<exists>i. row = new_trade E sess input r u l i"
    and "foreign s s'"
    and "balance c k s' = balance c k s +
      (if c = customer_id sess \<and> k = currency_str (ti_local_currency input) then fst (legs (ti_kind input) u l)
       else if c = customer_id sess \<and> k = usdc then snd (legs (ti_kind input) u l) else 0)"
    and "(case ti_kind input of Buy \<Rightarrow> l | Convert \<Rightarrow> u) \<le> balance (customer_id sess) (debited input) s"
    and "0 < u" and "0 < l"
proof -
  let ?c = "customer_id sess" and ?L = "currency_str (ti_local_currency input)"
  obtain la ua s1 s2 s3 s4 s5 p q dl where
    g1: "get_or_create_account_by_code ?c ?L s = Inr (la, s1)" and
    g2: "get_or_create_account_by_code ?c usdc s1 = Inr (ua, s2)" and
    en: "(case ti_kind input of Buy \<Rightarrow> l | Convert \<Rightarrow> u) \<le>
       account_sum (case ti_kind input of Buy \<Rightarrow> la | Convert \<Rightarrow> ua) s2" and
    i: "insert_trade E sess input r u l s2 = Inr (Some row, s3)" and
    p1: "post_settlement_entry E \<lparr>sp_account = la, sp_trade = st_id row,
        sp_amount = fst (legs (ti_kind input) u l), sp_currency = ?L, sp_description = dl\<rparr> s3 = Inr (p, s4)" and
    p2: "post_settlement_entry E \<lparr>sp_account = ua, sp_trade = st_id row,
        sp_amount = snd (legs (ti_kind input) u l), sp_currency = usdc, sp_description = dl\<rparr> s4 = Inr (q, s5)" and
    w: "write_audit E (trade_audit E sess input row (snd q)) s5 = Inr ((), s')"
    using run unfolding trade_tx_def Let_def bind_tx_Inr
    by (cases "ti_kind input")
      (auto simp: bind_tx_Inr primitive_tx account_balance_minor_tx get_or_create_account_def legs_def
        split: option.splits)
  note a1 = get_or_create_ok [OF ok g1]
  note a2 = get_or_create_ok [OF a1(1) g2]
  from g2 a1(2) have h1: "holds ?c la ?L s2"
    by (auto simp: get_or_create_account_by_code_tx holds_def split: option.splits)
  from i have i': "find (\<lambda>t. st_customer t = ?c \<and> st_key t = ti_key input) (settlement_trades s2) = None"
      "row = new_trade E sess input r u l (next_id s2)" "0 < u" "0 < l"
      "s3 = s2\<lparr>next_id := Suc (next_id s2), settlement_trades := settlement_trades s2 @ [row]\<rparr>"
    unfolding insert_trade_Some by blast+
  have ok3: "ledger_ok s3" by (rule ledger_ok_cong [OF _ _ _ a2(1)]) (simp_all add: i'(5))
  have h3: "holds ?c la ?L s3" "holds ?c ua usdc s3"
    using h1 a2(2) by (simp_all add: i'(5) holds_def)
  note b1 = post_settlement_entry_ok [OF ok3 _ p1, simplified, OF h3(1)]
  have h4: "holds ?c ua usdc s4" using b1(3) h3(2) by simp
  note b2 = post_settlement_entry_ok [OF b1(1) _ p2, simplified, OF h4]
  note wf = write_audit_frame [OF w]
  have "balance c k s3 = balance c k s2" for c k by (rule balance_cong) (simp_all add: i'(5))
  then have bal: "balance c k s3 = balance c k s" for c k using a1(3) a2(3) by simp
  note t1 = upholdsD [OF post_settlement_entry_foreign [OF HOL.refl] p1]
  note t2 = upholdsD [OF post_settlement_entry_foreign [OF HOL.refl] p2]
  have tr: "settlement_trades s2 = settlement_trades s"
    using get_or_create_frame [OF g1] get_or_create_frame [OF g2] by simp
  show "find (\<lambda>t. st_customer t = ?c \<and> st_key t = ti_key input) (settlement_trades s) = None"
    using i'(1) tr by simp
  show "settlement_trades s' = settlement_trades s @ [row]" using t1 t2 tr wf by (simp add: i'(5))
  show "\<exists>i. row = new_trade E sess input r u l i" using i'(2) by blast
  show "0 < u" "0 < l" by (rule i')+
  have "ledger_ok s'" by (rule ledger_ok_cong [OF _ _ _ b2(1)]) (simp_all add: wf)
  then show "foreign s s'"
    using t1 t2 wf get_or_create_frame [OF g1] get_or_create_frame [OF g2] by (auto simp: foreign_def i'(5))
  have "balance c k s' = balance c k s5" for c k by (rule balance_cong) (simp_all add: wf)
  then show "balance c k s' = balance c k s +
      (if c = ?c \<and> k = ?L then fst (legs (ti_kind input) u l)
       else if c = ?c \<and> k = usdc then snd (legs (ti_kind input) u l) else 0)"
    using b1(2) b2(2) bal by auto
  have "account_sum (case ti_kind input of Buy \<Rightarrow> la | Convert \<Rightarrow> ua) s2 = balance ?c (debited input) s2"
    using balance_holds [OF a2(1) h1] balance_holds [OF a2(1,2)] by (simp add: debited_def split: trade_kind.split)
  with en a1(3) a2(3)
  show "(case ti_kind input of Buy \<Rightarrow> l | Convert \<Rightarrow> u) \<le> balance ?c (debited input) s" by simp
qed

section \<open>Every outcome of a request\<close>

lemma usdc_rate_fx_only: "usdc_rate E ev cfg local fx s = (r, fx', s') \<Longrightarrow> fx_only s s'"
  unfolding usdc_rate_def
  by (auto simp: fx_only.refl split: if_splits prod.splits sum.splits dest: get_indicative_rate_fx_only)

lemma fx_only_tables:
  assumes "fx_only s s'"
  shows "settlement_trades s' = settlement_trades s" "transfers s' = transfers s"
    "transfer_history s' = transfer_history s" "ledger_entries s' = ledger_entries s"
    "accounts s' = accounts s" "next_id s' = next_id s" "audit_log s' = audit_log s"
  using assms unfolding fx_only_def
  by (auto dest: arg_cong [where f = settlement_trades] arg_cong [where f = transfers]
      arg_cong [where f = transfer_history] arg_cong [where f = ledger_entries]
      arg_cong [where f = accounts] arg_cong [where f = next_id] arg_cong [where f = audit_log])

lemma fx_only_foreign: "fx_only s s' \<Longrightarrow> foreign s s'"
  by (rule foreign_cong) (simp_all add: fx_only_tables)

lemma into_trade_new: "into_trade (new_trade E sess input r u l i) =
    Inr \<lparr>tt_id = i, tt_reference = new_reference E ''ST'', tt_kind = ti_kind input, tt_asset = asset,
      tt_usdc_amount = u, tt_local_amount = money_new l (ti_local_currency input), tt_rate = wr_rate r,
      tt_rate_source = wr_source r, tt_created_at = now E\<rparr>"
  by (cases "wr_source r") (simp_all add: into_trade_def new_trade_def rate_source_str_def)

lemma trade_tx_None:
  "trade_tx E sess input r u l s = Inr (None, s') \<Longrightarrow>
   find (\<lambda>t. st_customer t = customer_id sess \<and> st_key t = ti_key input) (settlement_trades s) \<noteq> None"
  unfolding trade_tx_def Let_def bind_tx_Inr get_or_create_account_def primitive_tx account_balance_minor_tx
  by (cases "ti_kind input") (auto simp: bind_tx_Inr account_balance_minor_tx primitive_tx frame_simps split: option.splits prod.splits dest!: insert_trade_None)

lemma execute_trade_cases:
  assumes run: "execute_trade E ev cfg sess input fx s = (res, fx', s')"
  obtains (found) t where "s' = s" "fx' = fx" "res = Inr t" "8 \<le> length (trim (ti_key input))"
      "trade_by_key (customer_id sess) (ti_key input) s = Inr (Some t, s)"
  | (failed) e where "res = Inl e" "fx_only s s'"
  | (traded) r u l s2 row where "fx_only s s2" "8 \<le> length (trim (ti_key input))"
      "trade_amounts (ti_kind input) (ti_amount input) (wr_rate r) = Inr (u, l)"
      "trade_tx E sess input r u l s2 = Inr (Some row, s')" "res = into_trade row"
      "\<exists>g. usdc_rate E ev cfg (ti_local_currency input) fx s = (Inr r, g, s2)"
proof (cases "length (trim (ti_key input)) < 8")
  case True
  with run show thesis by (intro failed) (auto simp: execute_trade_def fx_only.refl)
next
  case long: False
  let ?find = "trade_by_key (customer_id sess) (ti_key input)"
  have st: "snd (transaction ?find s) = s"
    by (auto simp: transaction_def split: sum.split dest: trade_by_key_state)
  then obtain a where a: "transaction ?find s = (a, s)" by (metis prod.collapse)
  show thesis
  proof (cases a)
    case (Inl e)
    with run a long show thesis by (intro failed) (auto simp: execute_trade_def fx_only.refl)
  next
    case (Inr f)
    show thesis
    proof (cases f)
      case (Some t)
      with run a long Inr show thesis
        by (intro found [of t]) (auto simp: execute_trade_def transaction_Inr)
    next
      case None
      with a Inr have none: "find (\<lambda>t. st_customer t = customer_id sess \<and> st_key t = ti_key input)
          (settlement_trades s) = None"
        by (simp add: transaction_Inr trade_by_key_tx)
      obtain x g s2 where x: "usdc_rate E ev cfg (ti_local_currency input) fx s = (x, g, s2)"
        by (metis prod_cases3)
      have fo: "fx_only s s2" by (rule usdc_rate_fx_only [OF x])
      show thesis
      proof (cases "0 < ti_amount input \<and> (case x of Inl _ \<Rightarrow> False | Inr r \<Rightarrow>
          (case trade_amounts (ti_kind input) (ti_amount input) (wr_rate r) of Inl _ \<Rightarrow> False
           | Inr (u, l) \<Rightarrow> 0 < u \<and> 0 < l))")
        case False
        with run a long Inr None x fo have "(\<exists>e. res = Inl e) \<and> fx_only s s'"
          by (auto simp: execute_trade_def fx_only.refl split: sum.splits if_splits)
        then obtain e where "res = Inl e" "fx_only s s'" by blast
        then show thesis by (rule failed)
      next
        case True
        then obtain r u l where rul: "x = Inr r" "0 < u" "0 < l" "0 < ti_amount input"
          "trade_amounts (ti_kind input) (ti_amount input) (wr_rate r) = Inr (u, l)"
          by (auto split: sum.splits)
        obtain y s3 where y: "commit_or_rollback (trade_tx E sess input r u l) s2 = (y, s3)" by fastforce
        have "y \<noteq> Inr None"
        proof
          assume "y = Inr None"
          with y obtain t where "trade_tx E sess input r u l s2 = Inr (None, t)"
            by (auto simp: commit_or_rollback_cases)
          from trade_tx_None [OF this] none show False by (simp add: fx_only_tables [OF fo])
        qed
        with y consider (e) e where "y = Inl e" "s3 = s2"
          | (ok) row where "y = Inr (Some row)" "trade_tx E sess input r u l s2 = Inr (Some row, s3)"
          by (auto simp: commit_or_rollback_cases)
        then show thesis
        proof cases
          case e
          with run a long Inr None x rul y fo show thesis
            by (intro failed [of e]) (auto simp: execute_trade_def)
        next
          case ok
          with run a long Inr None x rul y fo show thesis
            by (intro traded [of s2 r u l row]) (auto simp: execute_trade_def)
        qed
      qed
    qed
  qed
qed

lemma execute_trade_hit:
  assumes "trade_by_key (customer_id sess) (ti_key input) s = Inr (Some t, s)"
    and "8 \<le> length (trim (ti_key input))"
  shows "execute_trade E ev cfg sess input fx s = (Inr t, fx, s)"
  using assms by (simp add: execute_trade_def transaction_def)

lemma execute_trade_leaves_key:
  assumes "ledger_ok s" and run: "execute_trade E ev cfg sess input fx s = (Inr t, fx', s')"
  shows "8 \<le> length (trim (ti_key input)) \<and>
    trade_by_key (customer_id sess) (ti_key input) s' = Inr (Some t, s')"
  using run
proof (cases rule: execute_trade_cases)
  case (traded r u l s2 row)
  have "ledger_ok s2" using fx_only_foreign [OF traded(1)] assms(1) by (simp add: foreign_def)
  note n = trade_tx_Some [OF this traded(4)]
  from n(3) obtain i where "row = new_trade E sess input r u l i" by blast
  with n(1,2) traded(2,5) show ?thesis
    by (auto simp: trade_by_key_tx find_append)
qed auto

end
