(* ===== verification/Wallet_Properties.thy ===== *)
theory Wallet_Properties
  imports Wallet Scenarios
begin

text \<open>
  What the settlement wallet promises: a trade moves exactly its two legs and overdraws neither, a
  refused one leaves the ledger alone, and a key is answered once.
\<close>

lemma trade_amounts_in_i64:
  assumes "trade_amounts k amount r = Inr (u, l)" and "in_i64 amount"
  shows "in_i64 u" and "in_i64 l"
  using assms
  by (auto simp: trade_amounts_def apply_rate_def invert_rate_def Let_def map_sum_Inr
      split: trade_kind.splits if_splits)

lemma neg64_id: "in_i64 x \<Longrightarrow> 0 < x \<Longrightarrow> neg64 x = - x"
  by (simp add: neg64_def in_i64_def)

definition direction :: "trade_kind \<Rightarrow> int" where
  "direction k = (case k of Buy \<Rightarrow> - 1 | Convert \<Rightarrow> 1)"

text \<open>
  C15: a trade that is made moves exactly two balances of its customer, by the two amounts of the
  trade it returns, in opposite directions: the local currency and USDC; no other balance of
  anyone changes, the debited balance stays non-negative, both amounts are positive, one trade is
  recorded, and the invariant of the engine (so of every transfer's postings) is kept.
\<close>

theorem trade_moves_both_legs:
  assumes ok: "engine_ok s" and amount: "in_i64 (ti_amount input)"
    and run: "execute_trade E ev cfg sess input fx s = (Inr t, fx', s')"
    and new: "settlement_trades s' \<noteq> settlement_trades s"
  shows "engine_ok s' \<and>
    (\<forall>c k. balance c k s' = balance c k s +
      (if c \<noteq> customer_id sess then 0
       else if k = currency_str (ti_local_currency input)
       then direction (ti_kind input) * amount_minor (tt_local_amount t)
       else if k = usdc then - direction (ti_kind input) * tt_usdc_amount t else 0)) \<and>
    0 \<le> balance (customer_id sess) (debited input) s' \<and>
    0 < amount_minor (tt_local_amount t) \<and> 0 < tt_usdc_amount t \<and>
    length (settlement_trades s') = Suc (length (settlement_trades s))"
  using run
proof (cases rule: execute_trade_cases)
  case (traded r u l s2 row)
  have f: "foreign s s2" by (rule fx_only_foreign [OF traded(1)])
  then have ok2: "engine_ok s2" "ledger_ok s2" using ok foreign_engine_ok by (auto simp: engine_ok_def)
  note n = trade_tx_Some [OF ok2(2) traded(4)]
  have ok': "engine_ok s'" by (rule foreign_engine_ok [OF n(4) ok2(1)])
  from n(3) traded(5) have t: "tt_usdc_amount t = u" "amount_minor (tt_local_amount t) = l"
    by (auto simp: into_trade_new money_new_def)
  have b2: "balance c k s2 = balance c k s" for c k
    by (rule balance_cong) (simp_all add: fx_only_tables [OF traded(1)])
  note pos = n(7,8)
  have legs: "legs (ti_kind input) u l = (direction (ti_kind input) * l, - direction (ti_kind input) * u)"
    using trade_amounts_in_i64 [OF traded(3) amount] pos
    by (simp add: legs_def direction_def neg64_id split: trade_kind.split)
  have bal: "\<forall>c k. balance c k s' = balance c k s +
      (if c \<noteq> customer_id sess then 0
       else if k = currency_str (ti_local_currency input) then direction (ti_kind input) * l
       else if k = usdc then - direction (ti_kind input) * u else 0)"
    using n(5) unfolding legs b2 by simp
  then have "0 \<le> balance (customer_id sess) (debited input) s'"
    using n(6) unfolding b2 by (simp add: debited_def direction_def split: trade_kind.splits)
  with ok' bal pos n(2) fx_only_tables(1) [OF traded(1)] t show ?thesis by simp
qed (use new in simp_all)

text \<open>a request that is refused or fails changes nothing but the tables of rates.\<close>

theorem failed_trade_leaves_ledger:
  assumes "execute_trade E ev cfg sess input fx s = (Inl e, fx', s')"
  shows "fx_only s s' \<and> ledger_entries s' = ledger_entries s \<and> settlement_trades s' = settlement_trades s"
  using assms
proof (cases rule: execute_trade_cases)
  case (traded r u l s2 row)
  then obtain x where "trade_tx E sess input r u l s2 = Inr (Some x, s')" "into_trade x = Inl e" by auto
  then have "False"
  proof -
    assume x: "trade_tx E sess input r u l s2 = Inr (Some x, s')" "into_trade x = Inl e"
    have "\<exists>i. x = new_trade E sess input r u l i"
      using x(1) unfolding trade_tx_def Let_def bind_tx_Inr
      by (cases "ti_kind input") (auto simp: bind_tx_Inr primitive_tx insert_trade_Some split: option.splits)
    with x(2) show False by (auto simp: into_trade_new)
  qed
  then show ?thesis ..
qed (auto dest: fx_only_tables)

section \<open>Keys\<close>

type_synonym trade_request = "env \<times> fx_event \<times> config \<times> session \<times> trade_input \<times> fx_state"

definition wallet_lookup :: "uuid \<times> string \<Rightarrow> db \<Rightarrow> settlement_trade option" where
  "wallet_lookup k s = (case trade_by_key (fst k) (snd k) s of Inr (Some t, _) \<Rightarrow> Some t | _ \<Rightarrow> None)"

text \<open>A request of a customer under a key: the answer of a success, with the state it leaves.\<close>

fun wallet_request :: "uuid \<times> string \<Rightarrow> trade_request \<Rightarrow> db \<Rightarrow> (settlement_trade \<times> db) option" where
  "wallet_request (c, key) (E, ev, cfg, sess, input, fx) s =
     (case execute_trade E ev cfg (sess\<lparr>customer_id := c\<rparr>) (input\<lparr>ti_key := key\<rparr>) fx s of
        (Inr t, _, s') \<Rightarrow> Some (t, s')
      | (Inl e, _, _) \<Rightarrow> None)"

lemma wallet_lookup_Some: "wallet_lookup (c, key) s = Some t \<longleftrightarrow> trade_by_key c key s = Inr (Some t, s)"
  by (auto simp: wallet_lookup_def split: sum.splits option.splits dest: trade_by_key_state)

interpretation wallet: create_once wallet_lookup wallet_request "\<lambda>k. 8 \<le> length (trim (snd k))" ledger_ok
proof
  fix s s' :: db and k :: "uuid \<times> string" and i :: trade_request and t
  obtain c key E ev cfg sess input fx where ki: "k = (c, key)" "i = (E, ev, cfg, sess, input, fx)"
    by (metis prod_cases6 surj_pair)
  show "8 \<le> length (trim (snd k)) \<and> wallet_lookup k s' = Some t"
    if ok: "ledger_ok s" and run: "wallet_request k i s = Some (t, s')"
  proof -
    from run obtain g where
      "execute_trade E ev cfg (sess\<lparr>customer_id := c\<rparr>) (input\<lparr>ti_key := key\<rparr>) fx s = (Inr t, g, s')"
      by (auto simp: ki split: prod.splits sum.splits)
    from execute_trade_leaves_key [OF ok this] show ?thesis
      by (simp add: ki wallet_lookup_Some)
  qed
  show "wallet_request k i s = Some (t, s)"
    if "8 \<le> length (trim (snd k))" and "wallet_lookup k s = Some t"
    using that by (simp add: ki wallet_lookup_Some execute_trade_hit)
qed


section \<open>A purchase\<close>

text \<open>Customer 1 also has 500 dollar cents and buys USDC with 300 of them.\<close>

definition wallet_db :: db where
  "wallet_db = sample_db\<lparr>accounts := accounts sample_db @
       [\<lparr>acc_id = 13, acc_customer = 1, acc_currency = ''USD''\<rparr>],
     ledger_entries := ledger_entries sample_db @ [\<lparr>le_id = 14, le_account = 13, le_transfer = None,
       le_trade = None, le_inbound = Some 15, le_amount = 500, le_currency = ''USD'', le_running = 500,
       le_description = ''pay-in'', le_reversal_of = None, le_posted_at = 0\<rparr>]\<rparr>"

lemma wallet_engine_ok: "engine_ok wallet_db"
proof (rule foreign_engine_ok [OF _ sample_engine_ok])
  have "ledger_ok wallet_db"
    by (simp add: wallet_db_def sample_db_def ledger_ok_def running_ok_def entry_placed_def wrap64_def
        upt_rec eval_nat_numeral)
  then show "foreign sample_db wallet_db" by (simp add: foreign_def wallet_db_def)
qed

definition sample_session :: session where
  "sample_session = \<lparr>user_id = 2, role = ''customer'', display_name = ''Ada'',
     operator_permissions = [], customer_id = 1, account_number = ''1''\<rparr>"

definition sample_fx :: fx_state where
  "sample_fx = new_fx 3 10000 300000 2000"

definition sample_event :: fx_event where
  "sample_event = \<lparr>fe_feed = Answers, fe_begins = 0, fe_ends = 0, fe_draw = one_f64, fe_secondary_draw = one_f64\<rparr>"

definition sample_purchase :: trade_input where
  "sample_purchase = \<lparr>ti_kind = Buy, ti_key = ''purchase-1'', ti_local_currency = Usd, ti_amount = 300\<rparr>"

lemma scale_rate_1: "scale_rate one_f64 = rate_scale"
  using round_f64_int [of rate_scale] f64_to_int_of_int [of rate_scale] round_half_away_of_int [of rate_scale]
  by (simp add: scale_rate_def one_f64_def int_to_f64_def rate_scale_def i128_max_def del: f64_to_int.simps)

lemma invert_300: "invert_rate 300 one_f64 = Inr 300"
  by (simp add: invert_rate_floor scale_rate_1 rate_scale_def in_i64_def i64_max_def)

lemmas wallet_eval = execute_trade_def trade_tx_def trade_by_key_def insert_trade_def read_trade_def
  commit_or_rollback_def usdc_rate_def trade_amounts_def post_settlement_entry_def usdc_def
  wallet_db_def sample_purchase_def sample_session_def sample_env_def invert_300 trim_def trim_start_def
  is_whitespace_def code_def new_reference_def tagged_reference_def

lemma sample_purchase_runs:
  "\<exists>t s'. execute_trade sample_env sample_event sample_config sample_session sample_purchase sample_fx wallet_db =
     (Inr t, sample_fx, s') \<and> settlement_trades s' \<noteq> settlement_trades wallet_db \<and> tt_usdc_amount t = 300 \<and>
     amount_minor (tt_local_amount t) = 300"
  by (simp add: wallet_eval sample_eval engine_eval into_trade_def trade_kind_str_def parse_trade_kind_def
      money_new_def)

theorem trade_moves_both_legs_witness:
  "\<exists>t s'. execute_trade sample_env sample_event sample_config sample_session sample_purchase sample_fx wallet_db =
     (Inr t, sample_fx, s') \<and> balance 1 ''USD'' s' = 200 \<and> balance 1 ''USDC'' s' = 300 \<and>
     balance 1 ''NGN'' s' = 1000"
proof -
  obtain t s' where run: "execute_trade sample_env sample_event sample_config sample_session sample_purchase
      sample_fx wallet_db = (Inr t, sample_fx, s')" and new: "settlement_trades s' \<noteq> settlement_trades wallet_db"
    and t: "tt_usdc_amount t = 300" "amount_minor (tt_local_amount t) = 300"
    using sample_purchase_runs by blast
  have "in_i64 (ti_amount sample_purchase)" by (simp add: sample_purchase_def in_i64_def)
  from trade_moves_both_legs [OF wallet_engine_ok this run new]
  have "balance c k s' = balance c k wallet_db + (if c \<noteq> 1 then 0 else if k = ''USD'' then - 300
      else if k = ''USDC'' then 300 else 0)" for c k
    using t by (simp add: sample_session_def sample_purchase_def direction_def usdc_def)
  moreover have "balance 1 ''USD'' wallet_db = 500" "balance 1 ''USDC'' wallet_db = 0"
    "balance 1 ''NGN'' wallet_db = 1000"
    by (simp_all add: balance_def wallet_db_def sample_db_def find_account_def account_sum_def)
  ultimately show ?thesis using run by simp
qed

theorem failed_trade_leaves_ledger_witness:
  "\<exists>e fx' s'. execute_trade sample_env sample_event sample_config sample_session
     (sample_purchase\<lparr>ti_amount := 0\<rparr>) sample_fx wallet_db = (Inl e, fx', s') \<and>
     ledger_entries s' = ledger_entries wallet_db"
proof -
  have run: "execute_trade sample_env sample_event sample_config sample_session
     (sample_purchase\<lparr>ti_amount := 0\<rparr>) sample_fx wallet_db =
     (Inl (Err (validation ''Enter an amount greater than zero.'')), sample_fx, wallet_db)"
    by (simp add: wallet_eval sample_eval engine_eval)
  from failed_trade_leaves_ledger [OF run] run show ?thesis by blast
qed


theorem round_trip_gains_nothing_witness:
  "trade_amounts Buy 300 one_f64 = Inr (300, 300) \<and> trade_amounts Convert 300 one_f64 = Inr (300, 300)"
proof -
  have "in_i64 300" "0 < scale_rate one_f64" "300 * rate_scale div scale_rate one_f64 \<le> i64_max"
    "300 * scale_rate one_f64 div rate_scale \<le> i64_max"
    by (simp_all add: scale_rate_1 rate_scale_def i64_max_def in_i64_def)
  from round_trip_gains_nothing [OF _ this]
  show ?thesis
    by (auto simp: trade_amounts_def invert_300 apply_rate_floor scale_rate_1 rate_scale_def i64_max_def)
qed

end
