(* ===== verification/Partners.thy ===== *)
theory Partners
  imports Store
begin

text \<open>
  \<open>src/partners\<close>: the HTTP clients of the collection partners. The crates they call are the
  parameters of \<open>crypto\<close>: SHA-256, base64, the RSA verification primitive, the JSON text
  reader and writer, and the regex engine's table of word characters beyond ASCII; the network is a function from requests to results, since a handler sends a
  given request at most once. The typed readers follow what \<open>serde\<close> derives: a field with a default
  may be absent or null, any other must be there.
\<close>

record crypto =
  sha256 :: "bytes \<Rightarrow> bytes"
  b64_encode :: "bytes \<Rightarrow> string"
  b64_decode :: "string \<Rightarrow> bytes option"
  rsa_verify :: "bytes \<Rightarrow> bytes \<Rightarrow> bytes \<Rightarrow> bool"
  from_pem :: "string \<Rightarrow> bytes option"
  from_pkcs1_pem :: "string \<Rightarrow> bytes option"
  read_json :: "string \<Rightarrow> json option"
  write_json :: "json \<Rightarrow> string"
  unicode_word :: "nat \<Rightarrow> bool"

definition as_bytes :: "string \<Rightarrow> bytes" where
  "as_bytes s = map (\<lambda>c. of_nat (code c)) s"

section \<open>Requests\<close>

record http_request =
  hr_method :: string
  hr_url :: string
  hr_headers :: "(string \<times> string) list"
  hr_body :: "string option"

datatype http_result = NotSent | Unreadable nat | Replied nat string

type_synonym http = "http_request \<Rightarrow> http_result"

text \<open>Every failure of a partner call is logged and becomes the same retryable error.\<close>

definition partner_error :: api_error where
  "partner_error = api_error_new PartnerFailure
     ''Our payment partner is unavailable. Try again in a moment.''"

definition partner_failure :: "'a api_result" where
  "partner_failure = Inl (Err partner_error)"

text \<open>The body of a reply: the text of a success, read as JSON and then as the expected type.\<close>

definition read_reply ::
  "crypto \<Rightarrow> (json \<Rightarrow> 'a option) \<Rightarrow> http_result \<Rightarrow> ('a \<times> json) api_result" where
  "read_reply P decode r =
     (case r of
        NotSent \<Rightarrow> partner_failure
      | Unreadable st \<Rightarrow> partner_failure
      | Replied st text \<Rightarrow>
          if \<not> (200 \<le> st \<and> st < 300) then partner_failure
          else (case read_json P text of None \<Rightarrow> partner_failure | Some raw \<Rightarrow>
            (case decode raw of None \<Rightarrow> partner_failure | Some a \<Rightarrow> Inr (a, raw))))"

definition trim_end_matches :: "char \<Rightarrow> string \<Rightarrow> string" where
  "trim_end_matches c s = rev (dropWhile (\<lambda>x. x = c) (rev s))"

section \<open>Typed JSON\<close>

definition is_null :: "json option \<Rightarrow> bool" where
  "is_null j = (case j of None \<Rightarrow> True | Some JNull \<Rightarrow> True | _ \<Rightarrow> False)"

definition opt_field :: "(json \<Rightarrow> 'a option) \<Rightarrow> json \<Rightarrow> string \<Rightarrow> 'a option option" where
  "opt_field f j k =
     (if is_null (json_get j k) then Some None else map_option Some (Option.bind (json_get j k) f))"

definition req_field :: "(json \<Rightarrow> 'a option) \<Rightarrow> json \<Rightarrow> string \<Rightarrow> 'a option" where
  "req_field f j k = Option.bind (json_get j k) f"

text \<open>A number is read as a double whether it is written as an integer or not.\<close>

fun as_f64 :: "json \<Rightarrow> f64 option" where
  "as_f64 (JFloat x) = Some x"
| "as_f64 (JInt n) = Some (int_to_f64 n)"
| "as_f64 _ = None"

fun as_strings :: "json list \<Rightarrow> string list option" where
  "as_strings [] = Some []"
| "as_strings (j # js) = (case as_str j of None \<Rightarrow> None | Some s \<Rightarrow> map_option ((#) s) (as_strings js))"

text \<open>\<open>#[serde(default)]\<close> on a vector: an absent field is empty, a null is an error.\<close>

definition strings_field :: "json \<Rightarrow> string \<Rightarrow> string list option" where
  "strings_field j k =
     (case json_get j k of None \<Rightarrow> Some [] | Some (JArr js) \<Rightarrow> as_strings js | Some _ \<Rightarrow> None)"

section \<open>Yellow Card\<close>

record yellowcard =
  yc_base_url :: string
  yc_api_key :: string
  yc_api_secret :: string
  yc_channel_id :: "string option"
  yc_source_account :: "string option"

definition yellowcard_from_config :: "config \<Rightarrow> yellowcard option" where
  "yellowcard_from_config cfg =
     (case yellowcard_api_key cfg of None \<Rightarrow> None | Some key \<Rightarrow>
      case yellowcard_api_secret cfg of None \<Rightarrow> None | Some secret \<Rightarrow>
        Some \<lparr>yc_base_url = trim_end_matches (CHR ''/'') (yellowcard_base_url cfg), yc_api_key = key,
          yc_api_secret = secret, yc_channel_id = yellowcard_channel_id cfg,
          yc_source_account = yellowcard_source_account cfg\<rparr>)"

record channel =
  ch_id :: string
  ch_ramp_type :: "string option"
  ch_channel_type :: "string option"
  ch_country :: "string option"
  ch_currency :: "string option"
  ch_status :: "string option"
  ch_api_status :: "string option"

definition decode_channel :: "json \<Rightarrow> channel option" where
  "decode_channel j =
     Option.bind (req_field as_str j ''id'') (\<lambda>i.
      Option.bind (opt_field as_str j ''rampType'') (\<lambda>ramp.
      Option.bind (opt_field as_str j ''channelType'') (\<lambda>ty.
      Option.bind (opt_field as_str j ''country'') (\<lambda>country.
      Option.bind (opt_field as_str j ''currency'') (\<lambda>ccy.
      Option.bind (opt_field as_str j ''status'') (\<lambda>st.
      Option.bind (opt_field as_str j ''apiStatus'') (\<lambda>ast.
        Some \<lparr>ch_id = i, ch_ramp_type = ramp, ch_channel_type = ty, ch_country = country,
          ch_currency = ccy, ch_status = st, ch_api_status = ast\<rparr>)))))))"

fun decode_all :: "(json \<Rightarrow> 'a option) \<Rightarrow> json list \<Rightarrow> 'a list option" where
  "decode_all f [] = Some []"
| "decode_all f (j # js) = (case f j of None \<Rightarrow> None | Some a \<Rightarrow> map_option ((#) a) (decode_all f js))"

definition decode_channels :: "json \<Rightarrow> channel list option" where
  "decode_channels j =
     (case json_get j ''channels'' of Some (JArr js) \<Rightarrow> decode_all decode_channel js | _ \<Rightarrow> None)"

record bank_info =
  bi_name :: "string option"
  bi_account_number :: "string option"
  bi_account_name :: "string option"
  bi_payment_link :: "string option"

definition decode_bank_info :: "json \<Rightarrow> bank_info option" where
  "decode_bank_info j =
     Option.bind (opt_field as_str j ''name'') (\<lambda>n.
      Option.bind (opt_field as_str j ''accountNumber'') (\<lambda>an.
      Option.bind (opt_field as_str j ''accountName'') (\<lambda>nm.
      Option.bind (opt_field as_str j ''paymentLink'') (\<lambda>l.
        Some \<lparr>bi_name = n, bi_account_number = an, bi_account_name = nm, bi_payment_link = l\<rparr>))))"

definition decode_receive_source :: "json \<Rightarrow> string option option" where
  "decode_receive_source j = opt_field as_str j ''accountName''"

record receive =
  re_id :: string
  re_sequence_id :: "string option"
  re_status :: string
  re_currency :: "string option"
  re_amount :: "f64 option"
  re_converted_amount :: "f64 option"
  re_expires_at :: "string option"
  re_updated_at :: "string option"
  re_bank_info :: "bank_info option"
  re_source_account_name :: "string option option"
  re_error_code :: "string option"

definition decode_receive :: "json \<Rightarrow> receive option" where
  "decode_receive j =
     Option.bind (req_field as_str j ''id'') (\<lambda>i.
      Option.bind (opt_field as_str j ''sequenceId'') (\<lambda>sq.
      Option.bind (req_field as_str j ''status'') (\<lambda>st.
      Option.bind (opt_field as_str j ''currency'') (\<lambda>ccy.
      Option.bind (opt_field as_f64 j ''amount'') (\<lambda>am.
      Option.bind (opt_field as_f64 j ''convertedAmount'') (\<lambda>ca.
      Option.bind (opt_field as_str j ''expiresAt'') (\<lambda>ex.
      Option.bind (opt_field as_str j ''updatedAt'') (\<lambda>up.
      Option.bind (opt_field decode_bank_info j ''bankInfo'') (\<lambda>b.
      Option.bind (opt_field decode_receive_source j ''source'') (\<lambda>src.
      Option.bind (opt_field as_str j ''errorCode'') (\<lambda>ec.
        Some \<lparr>re_id = i, re_sequence_id = sq, re_status = st, re_currency = ccy, re_amount = am,
          re_converted_amount = ca, re_expires_at = ex, re_updated_at = up, re_bank_info = b,
          re_source_account_name = src, re_error_code = ec\<rparr>)))))))))))"

text \<open>The request signature covers the timestamp, the path, the method and the body's hash.\<close>

definition sign :: "crypto \<Rightarrow> string \<Rightarrow> string \<Rightarrow> string \<Rightarrow> string \<Rightarrow> string option \<Rightarrow> string" where
  "sign P secret timestamp path method body =
     (let message = timestamp @ path @ to_ascii_uppercase method @
        (case body of None \<Rightarrow> [] | Some b \<Rightarrow> b64_encode P (sha256 P (as_bytes b)))
      in b64_encode P (hmac_sha256 (sha256 P) (as_bytes secret) (as_bytes message)))"

definition verify_webhook :: "crypto \<Rightarrow> string \<Rightarrow> string \<Rightarrow> string \<Rightarrow> bool" where
  "verify_webhook P secret signature body =
     (case b64_decode P (trim signature) of None \<Rightarrow> False
      | Some given \<Rightarrow> constant_time_eq given (hmac_sha256 (sha256 P) (as_bytes secret) (as_bytes body)))"

definition yc_call ::
  "crypto \<Rightarrow> env \<Rightarrow> http \<Rightarrow> yellowcard \<Rightarrow> string \<Rightarrow> string \<Rightarrow> json option \<Rightarrow> (json \<Rightarrow> 'a option) \<Rightarrow>
   ('a \<times> json) api_result" where
  "yc_call P E net yc method path body decode =
     (let text = map_option (write_json P) body;
          timestamp = iso E (now E);
          signature = sign P (yc_api_secret yc) timestamp path method text
      in read_reply P decode (net
        \<lparr>hr_method = method, hr_url = yc_base_url yc @ path,
         hr_headers = [(''X-YC-Timestamp'', timestamp),
           (''Authorization'', ''YcHmacV1 '' @ yc_api_key yc @ '':'' @ signature)] @
           (case text of None \<Rightarrow> [] | Some _ \<Rightarrow> [(''Content-Type'', ''application/json'')]),
         hr_body = text\<rparr>))"

definition active :: "string option \<Rightarrow> bool" where
  "active s = (case s of None \<Rightarrow> True | Some v \<Rightarrow> v = ''active'')"

definition is_ngn_bank_channel :: "channel \<Rightarrow> bool" where
  "is_ngn_bank_channel c \<longleftrightarrow> ch_country c = Some ''NG'' \<and>
     (case ch_currency c of None \<Rightarrow> True | Some v \<Rightarrow> v = ''NGN'') \<and> ch_ramp_type c = Some ''deposit'' \<and>
     ch_channel_type c = Some ''bank'' \<and> active (ch_status c) \<and> active (ch_api_status c)"

definition ngn_bank_channel :: "crypto \<Rightarrow> env \<Rightarrow> http \<Rightarrow> yellowcard \<Rightarrow> string api_result" where
  "ngn_bank_channel P E net yc =
     (case yc_channel_id yc of Some i \<Rightarrow> Inr i
      | None \<Rightarrow>
        (case yc_call P E net yc ''GET'' ''/business/channels'' None decode_channels of
           Inl e \<Rightarrow> Inl e
         | Inr (cs, _) \<Rightarrow>
             (case find is_ngn_bank_channel cs of None \<Rightarrow> partner_failure | Some c \<Rightarrow> Inr (ch_id c))))"

definition hundred :: f64 where "hundred = Fin 100"

definition minor_to_major :: "int \<Rightarrow> f64" where
  "minor_to_major amount = f64_div (int_to_f64 amount) hundred"

definition major_to_minor :: "f64 \<Rightarrow> int option" where
  "major_to_minor amount =
     (let minor = f64_round (f64_mul amount hundred)
      in if (case amount of Fin _ \<Rightarrow> True | _ \<Rightarrow> False) \<and> f64_less (Fin 0) minor \<and> f64_less minor (int_to_f64 i64_max)
         then Some (f64_to_int minor) else None)"

record new_receive =
  nv_sequence_id :: string
  nv_amount :: int
  nv_reason :: string
  nv_business_name :: string
  nv_email :: "string option"

definition receive_body :: "yellowcard \<Rightarrow> string \<Rightarrow> new_receive \<Rightarrow> json" where
  "receive_body yc channel_id n =
     (let source = JObj ([(''accountType'', JStr ''bank'')] @
            (case yc_source_account yc of None \<Rightarrow> [] | Some a \<Rightarrow> [(''accountNumber'', JStr a)]));
          recipient = JObj ([(''name'', JStr (nv_business_name n)),
            (''businessName'', JStr (nv_business_name n)), (''country'', JStr ''NG'')] @
            (case nv_email n of None \<Rightarrow> [] | Some e \<Rightarrow> [(''email'', JStr e)]))
      in JObj [(''sequenceId'', JStr (nv_sequence_id n)), (''channelId'', JStr channel_id),
        (''channelType'', JStr ''bank''), (''currency'', JStr ''NGN''), (''country'', JStr ''NG''),
        (''localAmount'', JFloat (minor_to_major (nv_amount n))), (''reason'', JStr (nv_reason n)),
        (''customerType'', JStr ''institution''), (''forceAccept'', JBool True),
        (''source'', source), (''recipient'', recipient)])"

definition submit_receive ::
  "crypto \<Rightarrow> env \<Rightarrow> http \<Rightarrow> yellowcard \<Rightarrow> new_receive \<Rightarrow> (receive \<times> json) api_result" where
  "submit_receive P E net yc n =
     (case ngn_bank_channel P E net yc of Inl e \<Rightarrow> Inl e | Inr channel_id \<Rightarrow>
        yc_call P E net yc ''POST'' ''/business/receive'' (Some (receive_body yc channel_id n)) decode_receive)"

definition get_receive :: "crypto \<Rightarrow> env \<Rightarrow> http \<Rightarrow> yellowcard \<Rightarrow> string \<Rightarrow> (receive \<times> json) api_result" where
  "get_receive P E net yc i =
     yc_call P E net yc ''GET'' (''/business/receive/'' @ i) None decode_receive"

definition cancel_receive :: "crypto \<Rightarrow> env \<Rightarrow> http \<Rightarrow> yellowcard \<Rightarrow> string \<Rightarrow> unit api_result" where
  "cancel_receive P E net yc i =
     map_sum id (\<lambda>_. ()) (yc_call P E net yc ''POST'' (''/business/receive/'' @ i @ ''/cancel'')
       (Some (JObj [])) (\<lambda>j. Some ()))"

definition starts_with :: "string \<Rightarrow> string \<Rightarrow> bool" where
  "starts_with p s = (take (length p) s = p)"

definition is_receive_event :: "string \<Rightarrow> bool" where
  "is_receive_event event \<longleftrightarrow>
     (let e = to_ascii_uppercase event in starts_with ''RECEIVE.'' e \<or> starts_with ''COLLECTION.'' e)"

section \<open>Bridge\<close>

definition webhook_tolerance_ms :: int where
  "webhook_tolerance_ms = 600000"

definition parse_public_key :: "crypto \<Rightarrow> string \<Rightarrow> bytes option" where
  "parse_public_key P pem =
     (case from_pem P (trim pem) of Some k \<Rightarrow> Some k | None \<Rightarrow> from_pkcs1_pem P (trim pem))"

definition signed_hash :: "crypto \<Rightarrow> string \<Rightarrow> string \<Rightarrow> bytes" where
  "signed_hash P timestamp body = sha256 P (sha256 P (as_bytes (timestamp @ ''.'' @ body)))"

datatype webhook_check = Valid | Invalid | Stale

text \<open>\<open>str::split\<close> on a character, and \<open>str::parse\<close> to an \<open>i64\<close>.\<close>

fun split_on :: "char \<Rightarrow> string \<Rightarrow> string list" where
  "split_on d [] = [[]]"
| "split_on d (c # s) =
     (if c = d then [] # split_on d s
      else case split_on d s of w # ws \<Rightarrow> (c # w) # ws | [] \<Rightarrow> [[c]])"

definition parse_i64 :: "string \<Rightarrow> int option" where
  "parse_i64 s =
     (let (neg, ds) = (case s of [] \<Rightarrow> (False, [])
        | c # r \<Rightarrow> if c = CHR ''-'' then (True, r) else if c = CHR ''+'' then (False, r) else (False, s));
          v = (if neg then - int (digits_value ds) else int (digits_value ds))
      in if ds \<noteq> [] \<and> all_digits ds \<and> in_i64 v then Some v else None)"

text \<open>The loop over the header's parts: a later \<open>t\<close> or \<open>v0\<close> replaces an earlier one.\<close>

fun header_parts :: "string list \<Rightarrow> string option \<times> string option \<Rightarrow> string option \<times> string option" where
  "header_parts [] acc = acc"
| "header_parts (p # ps) (t, v) =
     header_parts ps
       (case split_once (CHR ''='') (trim p) of
          None \<Rightarrow> (t, v)
        | Some (k, x) \<Rightarrow> if k = ''t'' then (Some x, v) else if k = ''v0'' then (t, Some x) else (t, v))"

definition abs64 :: "int \<Rightarrow> int" where
  "abs64 x = wrap64 \<bar>x\<bar>"

definition verify_bridge_webhook :: "crypto \<Rightarrow> bytes \<Rightarrow> string \<Rightarrow> string \<Rightarrow> instant \<Rightarrow> webhook_check" where
  "verify_bridge_webhook P key header body now_ms =
     (case header_parts (split_on (CHR '','') header) (None, None) of
        (Some timestamp, Some signature) \<Rightarrow>
          (case parse_i64 timestamp of None \<Rightarrow> Invalid | Some sent_ms \<Rightarrow>
           case b64_decode P signature of None \<Rightarrow> Invalid | Some sig \<Rightarrow>
             if \<not> rsa_verify P key (signed_hash P timestamp body) sig then Invalid
             else if webhook_tolerance_ms < abs64 (wrap64 (now_ms - sent_ms)) then Stale
             else Valid)
      | _ \<Rightarrow> Invalid)"

definition decode_deposit_instructions :: "json \<Rightarrow> deposit_instructions option" where
  "decode_deposit_instructions j =
     Option.bind (opt_field as_str j ''currency'') (\<lambda>ccy.
      Option.bind (strings_field j ''payment_rails'') (\<lambda>rails.
      Option.bind (opt_field as_str j ''bank_name'') (\<lambda>bn.
      Option.bind (opt_field as_str j ''bank_address'') (\<lambda>ba.
      Option.bind (opt_field as_str j ''bank_beneficiary_name'') (\<lambda>bbn.
      Option.bind (opt_field as_str j ''bank_beneficiary_address'') (\<lambda>bba.
      Option.bind (opt_field as_str j ''bank_account_number'') (\<lambda>an.
      Option.bind (opt_field as_str j ''bank_routing_number'') (\<lambda>rn.
        Some \<lparr>di_currency = ccy, di_payment_rails = rails, di_bank_name = bn, di_bank_address = ba,
          di_bank_beneficiary_name = bbn, di_bank_beneficiary_address = bba,
          di_bank_account_number = an, di_bank_routing_number = rn\<rparr>))))))))"

record virtual_account =
  vt_id :: string
  vt_status :: "string option"
  vt_instructions :: deposit_instructions

definition decode_virtual_account :: "json \<Rightarrow> virtual_account option" where
  "decode_virtual_account j =
     Option.bind (req_field as_str j ''id'') (\<lambda>i.
      Option.bind (opt_field as_str j ''status'') (\<lambda>st.
      Option.bind (req_field decode_deposit_instructions j ''source_deposit_instructions'') (\<lambda>d. Some \<lparr>vt_id = i, vt_status = st, vt_instructions = d\<rparr>)))"

record activity_source =
  as_sender_name :: "string option"
  as_description :: "string option"

definition decode_activity_source :: "json \<Rightarrow> activity_source option" where
  "decode_activity_source j =
     Option.bind (opt_field as_str j ''sender_name'') (\<lambda>n.
      Option.bind (opt_field as_str j ''description'') (\<lambda>d.
        Some \<lparr>as_sender_name = n, as_description = d\<rparr>))"

record activity =
  av_id :: string
  av_kind :: string
  av_virtual_account :: string
  av_amount :: string
  av_currency :: "string option"
  av_deposit_id :: "string option"
  av_created_at :: "string option"
  av_source :: "activity_source option"

definition decode_activity :: "json \<Rightarrow> activity option" where
  "decode_activity j =
     Option.bind (req_field as_str j ''id'') (\<lambda>i.
      Option.bind (req_field as_str j ''type'') (\<lambda>k.
      Option.bind (req_field as_str j ''virtual_account_id'') (\<lambda>va.
      Option.bind (req_field as_str j ''amount'') (\<lambda>am.
      Option.bind (opt_field as_str j ''currency'') (\<lambda>ccy.
      Option.bind (opt_field as_str j ''deposit_id'') (\<lambda>dep.
      Option.bind (opt_field as_str j ''created_at'') (\<lambda>cr.
      Option.bind (opt_field decode_activity_source j ''source'') (\<lambda>src.
        Some \<lparr>av_id = i, av_kind = k, av_virtual_account = va, av_amount = am, av_currency = ccy,
          av_deposit_id = dep, av_created_at = cr, av_source = src\<rparr>))))))))"

record bridge_event =
  be_event_id :: string
  be_category :: string
  be_object :: json

definition decode_bridge_event :: "json \<Rightarrow> bridge_event option" where
  "decode_bridge_event j =
     Option.bind (req_field as_str j ''event_id'') (\<lambda>i.
      Option.bind (req_field as_str j ''event_category'') (\<lambda>c.
      Option.bind (json_get j ''event_object'') (\<lambda>ob. Some \<lparr>be_event_id = i, be_category = c, be_object = ob\<rparr>)))"

record bridge =
  bg_base_url :: string
  bg_api_key :: string
  bg_destination_rail :: string
  bg_destination_currency :: string
  bg_destination_address :: "string option"

definition bridge_from_config :: "config \<Rightarrow> bridge option" where
  "bridge_from_config cfg =
     (case bridge_api_key cfg of None \<Rightarrow> None | Some key \<Rightarrow>
        Some \<lparr>bg_base_url = trim_end_matches (CHR ''/'') (bridge_base_url cfg), bg_api_key = key,
          bg_destination_rail = bridge_destination_rail cfg,
          bg_destination_currency = bridge_destination_currency cfg,
          bg_destination_address = bridge_destination_address cfg\<rparr>)"

definition create_virtual_account ::
  "crypto \<Rightarrow> http \<Rightarrow> bridge \<Rightarrow> string \<Rightarrow> string \<Rightarrow> (virtual_account \<times> json) api_result" where
  "create_virtual_account P net bg bridge_customer key =
     (case bg_destination_address bg of None \<Rightarrow> partner_failure | Some address \<Rightarrow>
        read_reply P decode_virtual_account (net
          \<lparr>hr_method = ''POST'',
           hr_url = bg_base_url bg @ ''/customers/'' @ bridge_customer @ ''/virtual_accounts'',
           hr_headers = [(''Api-Key'', bg_api_key bg), (''Idempotency-Key'', key)],
           hr_body = Some (write_json P (JObj [(''source'', JObj [(''currency'', JStr ''usd'')]),
             (''destination'', JObj [(''currency'', JStr (bg_destination_currency bg)),
               (''payment_rail'', JStr (bg_destination_rail bg)), (''address'', JStr address)])]))\<rparr>))"

definition dollars_to_cents :: "string \<Rightarrow> int option" where
  "dollars_to_cents s =
     (let value = trim s;
          (whole, frac') = (case split_once (CHR ''.'') value of None \<Rightarrow> (value, []) | Some p \<Rightarrow> p)
      in if whole = [] \<and> frac' = [] then None
         else if \<not> all_digits whole \<or> \<not> all_digits frac' then None
         else case (if whole = [] then Some 0 else parse_i64 whole) of None \<Rightarrow> None | Some w \<Rightarrow>
           (case parse_i64 (take 2 (pad_right 2 frac')) of None \<Rightarrow> None | Some cents \<Rightarrow>
             if in_i64 (w * 100) then if in_i64 (w * 100 + cents) then Some (w * 100 + cents) else None
             else None))"

text \<open>The partners the process runs with. A malformed webhook key stops it at startup.\<close>

record partners =
  pt_yellowcard :: "yellowcard option"
  pt_bridge :: "bridge option"
  pt_webhook_key :: "bytes option"

definition partners_from_config :: "crypto \<Rightarrow> config \<Rightarrow> partners api_result" where
  "partners_from_config P cfg =
     (case bridge_webhook_public_key cfg of
        None \<Rightarrow> Inr \<lparr>pt_yellowcard = yellowcard_from_config cfg, pt_bridge = bridge_from_config cfg,
          pt_webhook_key = None\<rparr>
      | Some pem \<Rightarrow>
          (case parse_public_key P pem of None \<Rightarrow> Inl Panic
           | Some k \<Rightarrow> Inr \<lparr>pt_yellowcard = yellowcard_from_config cfg, pt_bridge = bridge_from_config cfg,
               pt_webhook_key = Some k\<rparr>))"

section \<open>Signatures\<close>

lemma verify_webhook_iff:
  "verify_webhook P secret signature body \<longleftrightarrow>
     b64_decode P (trim signature) = Some (hmac_sha256 (sha256 P) (as_bytes secret) (as_bytes body))"
  by (simp add: verify_webhook_def constant_time_eq_iff split: option.split)

end
