(* ===== verification/Collections.thy ===== *)
theory Collections
  imports Partners Wallet
begin

text \<open>
  \<open>src/domain/collections.rs\<close>: payment requests, the money partners confirm, and the webhooks that
  announce it.
\<close>

section \<open>Rows and what the API shows\<close>

definition yellowcard_name :: string where "yellowcard_name = ''yellowcard''"
definition bridge_name :: string where "bridge_name = ''bridge''"
definition default_ttl_days :: int where "default_ttl_days = 7"
definition max_ttl_days :: int where "max_ttl_days = 90"
definition max_payer_name_chars :: nat where "max_payer_name_chars = 140"
definition max_note_chars :: nat where "max_note_chars = 280"
definition list_limit :: nat where "list_limit = 100"

definition days :: "int \<Rightarrow> int" where
  "days n = n * 86400000"

datatype collection_status = CoPending | CoPaid | CoExpired | CoCancelled

definition collection_status_str :: "collection_status \<Rightarrow> string" where
  "collection_status_str c =
     (case c of CoPending \<Rightarrow> ''PENDING'' | CoPaid \<Rightarrow> ''PAID'' | CoExpired \<Rightarrow> ''EXPIRED''
      | CoCancelled \<Rightarrow> ''CANCELLED'')"

definition parse_collection_status :: "string \<Rightarrow> collection_status api_result" where
  "parse_collection_status value =
     (if value = ''PENDING'' then Inr CoPending
      else if value = ''PAID'' then Inr CoPaid
      else if value = ''EXPIRED'' then Inr CoExpired
      else if value = ''CANCELLED'' then Inr CoCancelled
      else Inl (Err server_error))"

interpretation collection_status: exact_codec collection_status_str parse_collection_status
proof
  show "parse_collection_status (collection_status_str x) = Inr x" for x
    by (cases x) (simp_all add: parse_collection_status_def collection_status_str_def)
  show "collection_status_str x = s" if "parse_collection_status s = Inr x" for s x
    using that by (auto simp: parse_collection_status_def collection_status_str_def split: if_splits)
qed

definition us_pay_in :: "deposit_instructions \<Rightarrow> string option \<Rightarrow> pay_in" where
  "us_pay_in d memo = \<lparr>pi_method = ''US_BANK_TRANSFER'', pi_bank_name = di_bank_name d,
     pi_bank_address = di_bank_address d, pi_account_name = di_bank_beneficiary_name d,
     pi_account_number = di_bank_account_number d, pi_routing_number = di_bank_routing_number d,
     pi_beneficiary_address = di_bank_beneficiary_address d, pi_payment_rails = di_payment_rails d,
     pi_payment_link = None, pi_memo = memo\<rparr>"

record collection_payment =
  cp_amount :: money
  cp_payer_name :: "string option"
  cp_received_at :: instant

record collection =
  cn_id :: uuid
  cn_reference :: string
  cn_amount :: money
  cn_payer_name :: "string option"
  cn_note :: "string option"
  cn_status :: collection_status
  cn_pay_in :: pay_in
  cn_expires_at :: instant
  cn_paid_at :: "instant option"
  cn_cancelled_at :: "instant option"
  cn_payment :: "collection_payment option"
  cn_created_at :: instant

record receiving_account =
  ra_currency :: currency_code
  ra_pay_in :: pay_in

text \<open>
  \<open>CollectionRow\<close>: a stored request, its status as the query reads it, and the payment that joins
  it. \<open>now()\<close> is the start of the transaction.
\<close>

record collection_view =
  cv_row :: collection_row
  cv_status :: string
  cv_payment :: "inbound_row option"

definition read_status :: "instant \<Rightarrow> collection_row \<Rightarrow> string" where
  "read_status t c = (if co_status c = ''PENDING'' \<and> co_expires_at c \<le> t then ''EXPIRED'' else co_status c)"

definition payment_of :: "uuid \<Rightarrow> db \<Rightarrow> inbound_row option" where
  "payment_of i s = find (\<lambda>p. ip_collection p = Some i) (inbound_payments s)"

definition select_view :: "env \<Rightarrow> db \<Rightarrow> collection_row \<Rightarrow> collection_view" where
  "select_view E s c = \<lparr>cv_row = c, cv_status = read_status (now E) c, cv_payment = payment_of (co_id c) s\<rparr>"

definition view_status :: "collection_view \<Rightarrow> collection_status api_result" where
  "view_status v = parse_collection_status (cv_status v)"

definition into_collection :: "collection_view \<Rightarrow> collection api_result" where
  "into_collection v =
     (let c = cv_row v in
      case parse_currency (co_currency c) of Inl e \<Rightarrow> Inl e | Inr ccy \<Rightarrow>
      case view_status v of Inl e \<Rightarrow> Inl e | Inr st \<Rightarrow>
      case (case cv_payment v of None \<Rightarrow> Inr None
        | Some p \<Rightarrow> (case parse_currency (ip_currency p) of Inl e \<Rightarrow> Inl e
            | Inr paid_in \<Rightarrow> Inr (Some \<lparr>cp_amount = money_new (ip_amount p) paid_in,
                cp_payer_name = ip_payer_name p, cp_received_at = ip_received_at p\<rparr>))) of
        Inl e \<Rightarrow> Inl e
      | Inr payment \<Rightarrow> Inr \<lparr>cn_id = co_id c, cn_reference = co_reference c,
          cn_amount = money_new (co_amount c) ccy, cn_payer_name = co_payer_name c,
          cn_note = co_note c, cn_status = st, cn_pay_in = co_pay_in c,
          cn_expires_at = co_expires_at c, cn_paid_at = co_paid_at c,
          cn_cancelled_at = co_cancelled_at c, cn_payment = payment, cn_created_at = co_created_at c\<rparr>)"

definition collection_view_by_id :: "env \<Rightarrow> uuid \<Rightarrow> collection_view option tx" where
  "collection_view_by_id E i =
     gets (\<lambda>s. map_option (select_view E s) (find (\<lambda>c. co_id c = i) (collections s)))"

definition collection_by_key :: "env \<Rightarrow> uuid \<Rightarrow> string \<Rightarrow> collection option tx" where
  "collection_by_key E customer key =
     bind_tx (gets (\<lambda>s. map_option (select_view E s)
         (find (\<lambda>c. co_customer c = customer \<and> co_key c = key) (collections s)))) (\<lambda>row.
       case row of None \<Rightarrow> return_tx None
       | Some v \<Rightarrow> bind_tx (lift_result (into_collection v)) (\<lambda>c. return_tx (Some c)))"

definition optional_text :: "string option \<Rightarrow> string \<Rightarrow> nat \<Rightarrow> string option api_result" where
  "optional_text value field max_chars =
     (case value of None \<Rightarrow> Inr None | Some v \<Rightarrow>
        if trim v = [] then Inr None
        else if max_chars < char_count (trim v)
        then Inl (Err (validation (field @ '' must be at most '' @ nat_to_string max_chars @ '' characters.'')))
        else Inr (Some (trim v)))"

definition parse_time :: "env \<Rightarrow> string option \<Rightarrow> instant option" where
  "parse_time E raw = Option.bind raw (\<lambda>r. parse_rfc3339 E (trim r))"

definition bridge_account :: "uuid \<Rightarrow> deposit_instructions option tx" where
  "bridge_account customer =
     gets (\<lambda>s. map_option va_instructions (find (\<lambda>v. va_customer v = customer) (virtual_accounts s)))"

section \<open>Opening a request\<close>

record create_collection_input =
  cc_key :: string
  cc_amount :: money
  cc_payer_name :: "string option"
  cc_note :: "string option"
  cc_expires_at :: "string option"

record opened =
  op_provider :: string
  op_provider_ref :: "string option"
  op_pay_in :: pay_in
  op_expires_at :: instant

text \<open>\<open>fetch_one\<close> over the join of the customer with its user.\<close>

definition payee :: "uuid \<Rightarrow> (string \<times> string option) tx" where
  "payee c =
     bind_tx (gets (\<lambda>s. Option.bind (find (\<lambda>r. cu_id r = c) (customers s)) (\<lambda>r.
         map_option (\<lambda>u. (cu_legal_name r, us_email u))
           (find (\<lambda>u. us_id u = cu_primary_user r) (users s))))) (\<lambda>row.
       ok_or from_sqlx_error row)"

text \<open>
  The Yellow Card side. Its reply is read before anything is written, so this is a read of the
  database with a partner call inside. The best-effort cancellations of a receive, whose results the
  code discards, have no effect on the database and are left out.
\<close>

definition open_yellowcard ::
  "crypto \<Rightarrow> env \<Rightarrow> http \<Rightarrow> partners \<Rightarrow> session \<Rightarrow> uuid \<Rightarrow> string \<Rightarrow> int \<Rightarrow> string option \<Rightarrow> instant \<Rightarrow>
   opened tx" where
  "open_yellowcard P E web pt sess i reference amount note expires_at =
     bind_tx (ok_or (validation ''Receiving NGN isn't available yet.'') (pt_yellowcard pt)) (\<lambda>yc.
     bind_tx (payee (customer_id sess)) (\<lambda>(legal_name, email).
     bind_tx (lift_result (submit_receive P E web yc \<lparr>nv_sequence_id = uuid_str E i, nv_amount = amount,
         nv_reason = (case note of Some n \<Rightarrow> n | None \<Rightarrow> ''Payment request '' @ reference),
         nv_business_name = legal_name, nv_email = email\<rparr>)) (\<lambda>(rcv, raw).
     case (case re_bank_info rcv of None \<Rightarrow> None
         | Some b \<Rightarrow> if bi_account_number b = None then None else Some b) of
       None \<Rightarrow> throw partner_error
     | Some bank \<Rightarrow> return_tx \<lparr>op_provider = yellowcard_name, op_provider_ref = Some (re_id rcv),
         op_pay_in = \<lparr>pi_method = ''NG_BANK_TRANSFER'', pi_bank_name = bi_name bank,
           pi_bank_address = None, pi_account_name = bi_account_name bank,
           pi_account_number = bi_account_number bank, pi_routing_number = None,
           pi_beneficiary_address = None, pi_payment_rails = [],
           pi_payment_link = bi_payment_link bank, pi_memo = Some reference\<rparr>,
         op_expires_at = (case parse_time E (re_expires_at rcv) of None \<Rightarrow> expires_at
           | Some x \<Rightarrow> min x expires_at)\<rparr>)))"

definition open_request ::
  "crypto \<Rightarrow> env \<Rightarrow> http \<Rightarrow> partners \<Rightarrow> session \<Rightarrow> uuid \<Rightarrow> string \<Rightarrow> money \<Rightarrow> string option \<Rightarrow> instant \<Rightarrow>
   opened tx" where
  "open_request P E web pt sess i reference amount note expires_at =
     (if currency amount = Ngn
      then open_yellowcard P E web pt sess i reference (amount_minor amount) note expires_at
      else if currency amount = Usd
      then bind_tx (bridge_account (customer_id sess)) (\<lambda>account.
           bind_tx (ok_or (validation
             ''Your USD receiving account isn't set up yet. Contact support to open one.'') account) (\<lambda>d.
             return_tx \<lparr>op_provider = bridge_name, op_provider_ref = None,
               op_pay_in = us_pay_in d (Some reference), op_expires_at = expires_at\<rparr>))
      else throw (validation (''Payments can't be collected in '' @ currency_str (currency amount) @ '' yet.'')))"

definition request_expiry :: "env \<Rightarrow> string option \<Rightarrow> instant api_result" where
  "request_expiry E raw =
     (case (case map_option trim raw of
          None \<Rightarrow> Inr (now E + days default_ttl_days)
        | Some r \<Rightarrow> if r = [] then Inr (now E + days default_ttl_days)
            else (case parse_time E (Some r) of
                None \<Rightarrow> Inl (Err (validation ''expiresAt must be an ISO-8601 timestamp.''))
              | Some t \<Rightarrow> Inr t)) of
        Inl e \<Rightarrow> Inl e
      | Inr t \<Rightarrow>
          if t \<le> now E then Inl (Err (validation ''Choose an expiry in the future.''))
          else if now E + days max_ttl_days < t
          then Inl (Err (validation (''A payment request can stay open for at most '' @
            int_to_string max_ttl_days @ '' days.'')))
          else Inr t)"

definition new_collection ::
  "env \<Rightarrow> session \<Rightarrow> create_collection_input \<Rightarrow> uuid \<Rightarrow> string \<Rightarrow> string option \<Rightarrow> string option \<Rightarrow> opened \<Rightarrow>
   collection_row" where
  "new_collection E sess input i reference payer note op =
     \<lparr>co_id = i, co_reference = reference, co_customer = customer_id sess, co_key = cc_key input,
      co_amount = amount_minor (cc_amount input), co_currency = currency_str (currency (cc_amount input)),
      co_payer_name = payer, co_note = note, co_status = ''PENDING'', co_provider = op_provider op,
      co_provider_ref = op_provider_ref op, co_pay_in = op_pay_in op, co_expires_at = op_expires_at op,
      co_paid_at = None, co_cancelled_at = None, co_created_by = user_id sess, co_created_at = now E\<rparr>"

text \<open>
  The insertion: no row when the key is taken, a database error on a violation of one of the other
  unique keys.
\<close>

definition insert_collection_row :: "collection_row \<Rightarrow> bool tx" where
  "insert_collection_row row =
     bind_tx (gets (\<lambda>s. list_ex (\<lambda>c. co_customer c = co_customer row \<and> co_key c = co_key row) (collections s))) (\<lambda>taken.
     if taken then return_tx False
     else
       bind_tx (gets (\<lambda>s. list_ex (\<lambda>c. co_id c = co_id row \<or> co_reference c = co_reference row \<or>
           (co_provider_ref row \<noteq> None \<and> co_provider c = co_provider row \<and>
            co_provider_ref c = co_provider_ref row)) (collections s))) (\<lambda>clash.
       bind_tx (ensure (\<not> clash \<and> 0 < co_amount row) from_sqlx_error) (\<lambda>_.
       bind_tx (modify (\<lambda>s. s\<lparr>collections := collections s @ [row]\<rparr>)) (\<lambda>_. return_tx True))))"

definition create_audit :: "env \<Rightarrow> session \<Rightarrow> uuid \<Rightarrow> collection_row \<Rightarrow> audit_entry" where
  "create_audit E sess i row =
     \<lparr>ae_actor = Some (user_id sess), ae_role = Some (role sess), ae_action = ''collection.create'',
      ae_entity_type = ''collection'', ae_entity = uuid_str E i, ae_before = None,
      ae_after = Some (JObj [(''reference'', JStr (co_reference row)), (''amountMinor'', JInt (co_amount row)),
        (''currency'', JStr (co_currency row)), (''provider'', JStr (co_provider row)),
        (''providerRef'', json_opt_str (co_provider_ref row)),
        (''expiresAt'', JStr (iso E (co_expires_at row)))])\<rparr>"

definition insert_collection :: "env \<Rightarrow> session \<Rightarrow> collection_row \<Rightarrow> collection_view option tx" where
  "insert_collection E sess row =
     bind_tx (insert_collection_row row) (\<lambda>inserted.
     if \<not> inserted then return_tx None
     else
       bind_tx (collection_view_by_id E (co_id row)) (\<lambda>found.
       bind_tx (ok_or server_error found) (\<lambda>v.
       bind_tx (write_audit E (create_audit E sess (co_id row) (cv_row v))) (\<lambda>_. return_tx (Some v)))))"

definition create_collection ::
  "crypto \<Rightarrow> env \<Rightarrow> http \<Rightarrow> partners \<Rightarrow> session \<Rightarrow> create_collection_input \<Rightarrow> collection io" where
  "create_collection P E web pt sess input s =
     (let find_existing = collection_by_key E (customer_id sess) (cc_key input) in
      if length (trim (cc_key input)) < 8
      then (Inl (Err (validation ''Provide a stable idempotency key.'')), s)
      else case transaction find_existing s of
        (Inl e, s1) \<Rightarrow> (Inl e, s1)
      | (Inr (Some c), s1) \<Rightarrow> (Inr c, s1)
      | (Inr None, s1) \<Rightarrow>
        if amount_minor (cc_amount input) \<le> 0
        then (Inl (Err (validation ''Enter an amount greater than zero.'')), s1)
        else case optional_text (cc_payer_name input) ''Payer name'' max_payer_name_chars of
          Inl e \<Rightarrow> (Inl e, s1) | Inr payer \<Rightarrow>
        case optional_text (cc_note input) ''Note'' max_note_chars of
          Inl e \<Rightarrow> (Inl e, s1) | Inr note \<Rightarrow>
        case request_expiry E (cc_expires_at input) of
          Inl e \<Rightarrow> (Inl e, s1) | Inr expires_at \<Rightarrow>
        let (i, s2) = draw_id s1; reference = new_reference E ''CL'' in
        case transaction (open_request P E web pt sess i reference (cc_amount input) note expires_at) s2 of
          (Inl e, s3) \<Rightarrow> (Inl e, s3)
        | (Inr op, s3) \<Rightarrow>
          (case commit_or_rollback (insert_collection E sess
                (new_collection E sess input i reference payer note op)) s3 of
             (Inl e, s4) \<Rightarrow> (Inl e, s4)
           | (Inr None, s4) \<Rightarrow> transaction (bind_tx find_existing (ok_or server_error)) s4
           | (Inr (Some v), s4) \<Rightarrow> (into_collection v, s4)))"

record create_collection_body =
  ob_key :: "string option"
  ob_amount :: money
  ob_payer_name :: "string option"
  ob_note :: "string option"
  ob_expires_at :: "string option"

definition create_collection_route ::
  "crypto \<Rightarrow> env \<Rightarrow> http \<Rightarrow> partners \<Rightarrow> session \<Rightarrow> string option \<Rightarrow> create_collection_body \<Rightarrow> collection io" where
  "create_collection_route P E web pt sess header body =
     create_collection P E web pt sess \<lparr>cc_key = idempotency_key header (ob_key body),
       cc_amount = ob_amount body, cc_payer_name = ob_payer_name body, cc_note = ob_note body,
       cc_expires_at = ob_expires_at body\<rparr>"

section \<open>Reading and cancelling\<close>

definition list_collections :: "env \<Rightarrow> session \<Rightarrow> collection list io" where
  "list_collections E sess = transaction (
     bind_tx (gets (\<lambda>s. map (select_view E s) (take list_limit (sort_key (\<lambda>c. - co_created_at c) (sort_key co_id
         (filter (\<lambda>c. co_customer c = customer_id sess) (collections s))))))) (\<lambda>rows.
       map_tx (\<lambda>v. lift_result (into_collection v)) rows))"

definition collection_not_found :: api_error where
  "collection_not_found = not_found ''Payment request not found.''"

definition owned_row :: "env \<Rightarrow> session \<Rightarrow> string \<Rightarrow> collection_view tx" where
  "owned_row E sess i =
     (if \<not> is_uuid i then throw collection_not_found
      else bind_tx (ok_or collection_not_found (parse_uuid E i)) (\<lambda>u.
        bind_tx (collection_view_by_id E u) (\<lambda>found.
          ok_or collection_not_found (case found of None \<Rightarrow> None
            | Some v \<Rightarrow> if co_customer (cv_row v) = customer_id sess then Some v else None))))"

definition get_collection :: "env \<Rightarrow> session \<Rightarrow> string \<Rightarrow> collection io" where
  "get_collection E sess i =
     transaction (bind_tx (owned_row E sess i) (\<lambda>v. lift_result (into_collection v)))"

definition status_json :: "string \<Rightarrow> json" where
  "status_json st = JObj [(''status'', JStr st)]"

text \<open>
  The partner side is closed first, with the row locked; if Yellow Card refuses, the request stays
  open.
\<close>

definition close_partner_side ::
  "crypto \<Rightarrow> env \<Rightarrow> http \<Rightarrow> partners \<Rightarrow> collection_row \<Rightarrow> unit tx" where
  "close_partner_side P E web pt c =
     (if co_provider c \<noteq> yellowcard_name then return_tx ()
      else case (pt_yellowcard pt, co_provider_ref c) of
        (Some yc, Some receive_id) \<Rightarrow> lift_result (cancel_receive P E web yc receive_id)
      | _ \<Rightarrow> throw partner_error)"

definition cancel_audit :: "env \<Rightarrow> session \<Rightarrow> uuid \<Rightarrow> audit_entry" where
  "cancel_audit E sess i =
     \<lparr>ae_actor = Some (user_id sess), ae_role = Some (role sess), ae_action = ''collection.cancel'',
      ae_entity_type = ''collection'', ae_entity = uuid_str E i,
      ae_before = Some (status_json ''PENDING''), ae_after = Some (status_json ''CANCELLED'')\<rparr>"

definition cancel_row :: "env \<Rightarrow> uuid \<Rightarrow> collection_row list \<Rightarrow> collection_row list" where
  "cancel_row E i cs = update_where (\<lambda>c. co_id c = i)
     (\<lambda>c. c\<lparr>co_status := ''CANCELLED'', co_cancelled_at := Some (now E)\<rparr>) cs"

definition cancel_pending ::
  "crypto \<Rightarrow> env \<Rightarrow> http \<Rightarrow> partners \<Rightarrow> session \<Rightarrow> collection_row \<Rightarrow> collection_view tx" where
  "cancel_pending P E web pt sess c =
     bind_tx (close_partner_side P E web pt c) (\<lambda>_.
     bind_tx (modify (\<lambda>s. s\<lparr>collections := cancel_row E (co_id c) (collections s)\<rparr>)) (\<lambda>_.
     bind_tx (write_audit E (cancel_audit E sess (co_id c))) (\<lambda>_.
     bind_tx (collection_view_by_id E (co_id c)) (\<lambda>found. ok_or server_error found))))"

text \<open>The row is converted after the commit, so a failure there does not undo the cancellation.\<close>

definition cancel_collection ::
  "crypto \<Rightarrow> env \<Rightarrow> http \<Rightarrow> partners \<Rightarrow> session \<Rightarrow> string \<Rightarrow> collection io" where
  "cancel_collection P E web pt sess i = bind_io (transaction (
     bind_tx (owned_row E sess i) (\<lambda>v.
     bind_tx (lift_result (view_status v)) (\<lambda>st.
     case st of
       CoPending \<Rightarrow> cancel_pending P E web pt sess (cv_row v)
     | CoCancelled \<Rightarrow> return_tx v
     | CoPaid \<Rightarrow> throw (conflict ''This payment request has already been paid.'')
     | CoExpired \<Rightarrow> throw (conflict ''This payment request has expired.'')))))
     (\<lambda>v s. (into_collection v, s))"

definition receiving_accounts :: "session \<Rightarrow> receiving_account list io" where
  "receiving_accounts sess = transaction (
     bind_tx (bridge_account (customer_id sess)) (\<lambda>account.
       return_tx (case account of None \<Rightarrow> []
         | Some d \<Rightarrow> [\<lparr>ra_currency = Usd, ra_pay_in = us_pay_in d None\<rparr>])))"

section \<open>Inbound money\<close>

record inbound =
  in_customer :: uuid
  in_collection :: "uuid option"
  in_settles_closed :: bool
  in_provider :: string
  in_payment_id :: string
  in_amount :: int
  in_currency :: currency_code
  in_payer_name :: "string option"
  in_description :: "string option"
  in_received_at :: instant
  in_raw :: json

text \<open>The request this payment settles: of the same customer, unpaid, and open unless it settles closed ones.\<close>

definition settled_request :: "env \<Rightarrow> inbound \<Rightarrow> collection_row option tx" where
  "settled_request E p =
     (case in_collection p of None \<Rightarrow> return_tx None
      | Some i \<Rightarrow> bind_tx (collection_view_by_id E i) (\<lambda>found.
          case found of None \<Rightarrow> return_tx None
          | Some v \<Rightarrow> bind_tx (lift_result (view_status v)) (\<lambda>st.
              let open' = (st = CoPending); unpaid = (cv_payment v = None)
              in return_tx (if co_customer (cv_row v) = in_customer p \<and> unpaid \<and>
                (open' \<or> in_settles_closed p) then Some (cv_row v) else None))))"

definition insert_inbound :: "inbound \<Rightarrow> uuid option \<Rightarrow> uuid option tx" where
  "insert_inbound p settles =
     bind_tx (gets (\<lambda>s. list_ex (\<lambda>x. ip_provider x = in_provider p \<and>
         ip_provider_payment x = in_payment_id p) (inbound_payments s))) (\<lambda>seen.
     if seen then return_tx None
     else
       bind_tx (gets (\<lambda>s. settles \<noteq> None \<and> list_ex (\<lambda>x. ip_collection x = settles) (inbound_payments s))) (\<lambda>clash.
       bind_tx (ensure (\<not> clash \<and> 0 < in_amount p) from_sqlx_error) (\<lambda>_.
       bind_tx fresh_id (\<lambda>i.
       bind_tx (modify (\<lambda>s. s\<lparr>inbound_payments := inbound_payments s @
         [\<lparr>ip_id = i, ip_customer = in_customer p, ip_collection = settles, ip_provider = in_provider p,
           ip_provider_payment = in_payment_id p, ip_amount = in_amount p,
           ip_currency = currency_str (in_currency p), ip_payer_name = in_payer_name p,
           ip_description = in_description p, ip_received_at = in_received_at p, ip_raw = in_raw p\<rparr>]\<rparr>)) (\<lambda>_.
         return_tx (Some i))))))"

definition mark_settled :: "env \<Rightarrow> collection_row option \<Rightarrow> unit tx" where
  "mark_settled E settles =
     (case settles of None \<Rightarrow> return_tx ()
      | Some row \<Rightarrow> modify (\<lambda>s. s\<lparr>collections := update_where (\<lambda>c. co_id c = co_id row)
          (\<lambda>c. c\<lparr>co_status := ''PAID'', co_paid_at := Some (now E)\<rparr>) (collections s)\<rparr>))"

definition inbound_audit :: "env \<Rightarrow> inbound \<Rightarrow> collection_row option \<Rightarrow> uuid \<Rightarrow> int \<Rightarrow> audit_entry" where
  "inbound_audit E p settles i bal =
     \<lparr>ae_actor = None, ae_role = None, ae_action = ''collection.payment_received'',
      ae_entity_type = ''inbound_payment'', ae_entity = uuid_str E i, ae_before = None,
      ae_after = Some (JObj [(''provider'', JStr (in_provider p)),
        (''providerPaymentId'', JStr (in_payment_id p)), (''amountMinor'', JInt (in_amount p)),
        (''currency'', JStr (currency_str (in_currency p))),
        (''collectionId'', json_opt_str (map_option (\<lambda>c. uuid_str E (co_id c)) settles)),
        (''reference'', json_opt_str (map_option co_reference settles)), (''balanceMinor'', JInt bal)])\<rparr>"

definition inbound_tx :: "env \<Rightarrow> inbound \<Rightarrow> unit option tx" where
  "inbound_tx E p =
     bind_tx (settled_request E p) (\<lambda>settles.
     bind_tx (insert_inbound p (map_option co_id settles)) (\<lambda>inserted.
     case inserted of None \<Rightarrow> return_tx None
     | Some i \<Rightarrow>
       bind_tx (get_or_create_account (in_customer p) (in_currency p)) (\<lambda>account.
       bind_tx (post_inbound_entry E \<lparr>np_account = account, np_payment = i, np_amount = in_amount p,
           np_currency = in_currency p, np_description = ''Payment received''\<rparr>) (\<lambda>(entry, bal).
       bind_tx (mark_settled E settles) (\<lambda>_.
       bind_tx (write_audit E (inbound_audit E p settles i bal)) (\<lambda>_.
         return_tx (Some ())))))))"

definition apply_inbound :: "env \<Rightarrow> inbound \<Rightarrow> bool io" where
  "apply_inbound E p s =
     (let (r, s') = commit_or_rollback (inbound_tx E p) s in (map_sum id (\<lambda>x. x \<noteq> None) r, s'))"

section \<open>Webhooks\<close>

record webhook_ack =
  wa_applied :: bool
  wa_duplicate :: bool

definition ignored :: webhook_ack where
  "ignored = \<lparr>wa_applied = False, wa_duplicate = False\<rparr>"

definition route_not_found :: api_error where
  "route_not_found = not_found ''That endpoint doesn't exist.''"

definition or_empty :: "string option \<Rightarrow> string" where
  "or_empty x = (case x of None \<Rightarrow> [] | Some v \<Rightarrow> v)"

record yellowcard_event =
  ye_id :: string
  ye_event :: "string option"

definition decode_yellowcard_event :: "json \<Rightarrow> yellowcard_event option" where
  "decode_yellowcard_event j =
     Option.bind (req_field as_str j ''id'') (\<lambda>i.
      Option.bind (opt_field as_str j ''event'') (\<lambda>e. Some \<lparr>ye_id = i, ye_event = e\<rparr>))"

definition ack_of :: "bool io \<Rightarrow> webhook_ack io" where
  "ack_of m = bind_io m (\<lambda>applied. return_io \<lparr>wa_applied = True, wa_duplicate = \<not> applied\<rparr>)"

definition received_at :: "env \<Rightarrow> string option \<Rightarrow> instant" where
  "received_at E raw = (case parse_time E raw of None \<Rightarrow> now E | Some t \<Rightarrow> t)"

text \<open>Crediting a completed receive.\<close>

definition credit_receive :: "env \<Rightarrow> receive \<Rightarrow> json \<Rightarrow> webhook_ack io" where
  "credit_receive E rcv raw =
     bind_io (transaction (gets (\<lambda>s. find (\<lambda>c. co_provider c = yellowcard_name \<and>
         co_provider_ref c = Some (re_id rcv)) (collections s)))) (\<lambda>row.
     case row of None \<Rightarrow> fail_io (not_found ''No payment request matches that receive.'')
     | Some c \<Rightarrow>
       if (case re_currency rcv of None \<Rightarrow> False | Some v \<Rightarrow> v \<noteq> ''NGN'') then fail_io partner_error
       else case Option.bind (re_converted_amount rcv) major_to_minor of
         None \<Rightarrow> fail_io partner_error
       | Some amount \<Rightarrow> ack_of (apply_inbound E \<lparr>in_customer = co_customer c, in_collection = Some (co_id c),
           in_settles_closed = True, in_provider = yellowcard_name, in_payment_id = re_id rcv,
           in_amount = amount, in_currency = Ngn,
           in_payer_name = Option.bind (re_source_account_name rcv) id, in_description = None,
           in_received_at = received_at E (re_updated_at rcv), in_raw = raw\<rparr>))"

definition receive_yellowcard ::
  "crypto \<Rightarrow> env \<Rightarrow> http \<Rightarrow> partners \<Rightarrow> string option \<Rightarrow> string \<Rightarrow> webhook_ack io" where
  "receive_yellowcard P E web pt header body =
     (case pt_yellowcard pt of None \<Rightarrow> fail_io route_not_found | Some yc \<Rightarrow>
        if \<not> verify_webhook P (yc_api_secret yc) (or_empty (header_to_str header)) body
        then fail_io (unauthorized ''Invalid webhook signature.'')
        else case Option.bind (read_json P body) decode_yellowcard_event of
          None \<Rightarrow> fail_io from_serde_error
        | Some ev \<Rightarrow>
          if \<not> (case ye_event ev of None \<Rightarrow> False | Some e \<Rightarrow> is_receive_event e) then return_io ignored
          else case get_receive P E web yc (ye_id ev) of
            Inl e \<Rightarrow> (\<lambda>s. (Inl e, s))
          | Inr (rcv, raw) \<Rightarrow>
              if re_status rcv \<noteq> ''complete'' then return_io ignored else credit_receive E rcv raw)"

text \<open>
  The reference in a memo: the regular expression \<open>\bCL-?([A-Z0-9]{6})\b\<close> on the upper-cased text,
  matched over code points. \<open>scan_ref w prev cps\<close> looks for the leftmost match, \<open>prev\<close> telling whether
  the code point before is a word character.
\<close>

definition is_upper_alnum :: "nat \<Rightarrow> bool" where
  "is_upper_alnum n \<longleftrightarrow> (65 \<le> n \<and> n \<le> 90) \<or> (48 \<le> n \<and> n \<le> 57)"

definition is_word :: "(nat \<Rightarrow> bool) \<Rightarrow> nat \<Rightarrow> bool" where
  "is_word uw n \<longleftrightarrow> (if n < 128 then is_upper_alnum n \<or> (97 \<le> n \<and> n \<le> 122) \<or> n = 95 else uw n)"

definition ref_at :: "(nat \<Rightarrow> bool) \<Rightarrow> nat list \<Rightarrow> string option" where
  "ref_at uw cps =
     (if take 2 cps \<noteq> [67, 76] then None
      else let r = (if take 1 (drop 2 cps) = [45] then drop 3 cps else drop 2 cps)
        in if length (take 6 r) = 6 \<and> list_all is_upper_alnum (take 6 r) \<and>
              \<not> list_ex (is_word uw) (take 1 (drop 6 r))
           then Some (''CL-'' @ map char_of (take 6 r)) else None)"

fun scan_ref :: "(nat \<Rightarrow> bool) \<Rightarrow> bool \<Rightarrow> nat list \<Rightarrow> string option" where
  "scan_ref uw prev [] = None"
| "scan_ref uw prev (n # cps) =
     (case (if prev then None else ref_at uw (n # cps)) of
        Some r \<Rightarrow> Some r
      | None \<Rightarrow> scan_ref uw (is_word uw n) cps)"

definition find_reference :: "crypto \<Rightarrow> string \<Rightarrow> string option" where
  "find_reference P text = scan_ref (unicode_word P) False (code_points 0 0 (to_ascii_uppercase text))"

definition credit_deposit :: "crypto \<Rightarrow> env \<Rightarrow> activity \<Rightarrow> json \<Rightarrow> webhook_ack io" where
  "credit_deposit P E a raw =
     bind_io (transaction (gets (\<lambda>s. find (\<lambda>v. va_virtual_account v = av_virtual_account a)
         (virtual_accounts s)))) (\<lambda>row.
     case row of None \<Rightarrow> fail_io (not_found ''Unknown virtual account.'')
     | Some va \<Rightarrow>
       (case dollars_to_cents (av_amount a) of
          None \<Rightarrow> fail_io (validation ''Deposit amount is not a positive dollar amount.'')
        | Some cents \<Rightarrow>
          if cents \<le> 0 then fail_io (validation ''Deposit amount is not a positive dollar amount.'')
          else let description = Option.bind (av_source a) as_description in
            bind_io (transaction (gets (\<lambda>s.
              case Option.bind description (find_reference P) of None \<Rightarrow> None
              | Some ref \<Rightarrow> map_option co_id (find (\<lambda>c. co_reference c = ref \<and>
                  co_customer c = va_customer va \<and> co_provider c = bridge_name) (collections s))))) (\<lambda>collection.
            ack_of (apply_inbound E \<lparr>in_customer = va_customer va, in_collection = collection,
              in_settles_closed = False, in_provider = bridge_name,
              in_payment_id = (case av_deposit_id a of Some d \<Rightarrow> d | None \<Rightarrow> av_id a),
              in_amount = cents, in_currency = Usd,
              in_payer_name = Option.bind (av_source a) as_sender_name, in_description = description,
              in_received_at = received_at E (av_created_at a), in_raw = raw\<rparr>))))"

definition receive_bridge :: "crypto \<Rightarrow> env \<Rightarrow> partners \<Rightarrow> string option \<Rightarrow> string \<Rightarrow> webhook_ack io" where
  "receive_bridge P E pt header body =
     (case pt_webhook_key pt of None \<Rightarrow> fail_io route_not_found | Some key \<Rightarrow>
      case verify_bridge_webhook P key (or_empty (header_to_str header)) body (now E) of
        Invalid \<Rightarrow> fail_io (unauthorized ''Invalid webhook signature.'')
      | Stale \<Rightarrow> fail_io (validation ''Webhook delivery is too old.'')
      | Valid \<Rightarrow>
        (case read_json P body of None \<Rightarrow> fail_io from_serde_error | Some raw \<Rightarrow>
         case decode_bridge_event raw of None \<Rightarrow> fail_io from_serde_error | Some ev \<Rightarrow>
           if be_category ev \<noteq> ''virtual_account.activity'' then return_io ignored
           else case decode_activity (be_object ev) of None \<Rightarrow> fail_io from_serde_error | Some a \<Rightarrow>
             if av_kind a \<noteq> ''payment_processed'' then return_io ignored
             else credit_deposit P E a raw))"

section \<open>Linking a customer\<close>

definition link_bridge_tx :: "env \<Rightarrow> uuid \<Rightarrow> string \<Rightarrow> virtual_account \<Rightarrow> receiving_account tx" where
  "link_bridge_tx E c bridge_customer account =
     bind_tx (gets (\<lambda>s. list_ex (\<lambda>v. va_customer v = c \<or> va_bridge_customer v = bridge_customer \<or>
         va_virtual_account v = vt_id account) (virtual_accounts s))) (\<lambda>clash.
     bind_tx (ensure (\<not> clash) from_sqlx_error) (\<lambda>_.
     bind_tx (modify (\<lambda>s. s\<lparr>virtual_accounts := virtual_accounts s @
       [\<lparr>va_customer = c, va_bridge_customer = bridge_customer, va_virtual_account = vt_id account,
         va_instructions = vt_instructions account\<rparr>]\<rparr>)) (\<lambda>_.
     bind_tx (write_audit E \<lparr>ae_actor = None, ae_role = Some ''operator'',
         ae_action = ''collection.bridge_link'', ae_entity_type = ''customer'', ae_entity = uuid_str E c,
         ae_before = None, ae_after = Some (JObj [(''bridgeCustomerId'', JStr bridge_customer),
           (''virtualAccountId'', JStr (vt_id account)), (''status'', json_opt_str (vt_status account))])\<rparr>) (\<lambda>_.
       return_tx \<lparr>ra_currency = Usd, ra_pay_in = us_pay_in (vt_instructions account) None\<rparr>))))"

definition link_bridge_account ::
  "crypto \<Rightarrow> env \<Rightarrow> http \<Rightarrow> partners \<Rightarrow> uuid \<Rightarrow> string \<Rightarrow> receiving_account io" where
  "link_bridge_account P E web pt c bridge_customer =
     (case pt_bridge pt of None \<Rightarrow> fail_io (validation ''Set BRIDGE_API_KEY to link Bridge accounts.'')
      | Some bg \<Rightarrow>
        if trim bridge_customer = [] then fail_io (validation ''Provide the Bridge customer id.'')
        else bind_io (transaction (
            bind_tx (gets (\<lambda>s. find (\<lambda>r. cu_id r = c) (customers s))) (\<lambda>row.
            bind_tx (ensure (row \<noteq> None) (not_found ''Customer not found.'')) (\<lambda>_.
            bind_tx (bridge_account c) (\<lambda>account.
              ensure (account = None) (conflict ''This customer already has a Bridge virtual account.'')))))) (\<lambda>_.
          case create_virtual_account P web bg (trim bridge_customer) (''kimana-va-'' @ uuid_str E c) of
            Inl e \<Rightarrow> (\<lambda>s. (Inl e, s))
          | Inr (account, raw) \<Rightarrow> transaction (link_bridge_tx E c (trim bridge_customer) account)))"

end
