(* ===== verification/Collection_Properties.thy ===== *)
theory Collection_Properties
  imports Collections Wallet_Properties
begin

text \<open>
  What the collections promise: the money a partner confirms is credited once and in full, a
  request is paid by one payment, a key is answered once, and only authentic deliveries move money.
\<close>

section \<open>Reads\<close>

lemma view_by_id_tx:
  "collection_view_by_id E i s = Inr (v, s') \<longleftrightarrow>
     v = map_option (select_view E s) (find (\<lambda>c. co_id c = i) (collections s)) \<and> s' = s"
  "collection_view_by_id E i s \<noteq> Inl e"
  unfolding collection_view_by_id_def primitive_tx by (auto simp: primitive_tx_Inl)

lemma settled_request_Inr:
  assumes "settled_request E p s = Inr (settles, s')"
  shows "s' = s"
    and "case settles of None \<Rightarrow> True | Some c \<Rightarrow>
      c \<in> set (collections s) \<and> in_collection p = Some (co_id c) \<and> co_customer c = in_customer p \<and>
      payment_of (co_id c) s = None \<and> (in_settles_closed p \<or> read_status (now E) c = ''PENDING'')"
proof -
  have "s' = s \<and> (case settles of None \<Rightarrow> True | Some c \<Rightarrow>
      c \<in> set (collections s) \<and> in_collection p = Some (co_id c) \<and> co_customer c = in_customer p \<and>
      payment_of (co_id c) s = None \<and> (in_settles_closed p \<or> read_status (now E) c = ''PENDING''))"
  proof (cases "in_collection p")
    case None
    with assms show ?thesis by (auto simp: settled_request_def primitive_tx)
  next
    case (Some i)
    show ?thesis
    proof (cases "find (\<lambda>c. co_id c = i) (collections s)")
      case None
      with assms Some show ?thesis
        by (auto simp: settled_request_def bind_tx_Inr primitive_tx view_by_id_tx)
    next
      case (Some c)
      with \<open>in_collection p = Some i\<close> assms find_Some_set [OF Some] show ?thesis
        unfolding settled_request_def Let_def
        by (auto simp: bind_tx_Inr primitive_tx view_by_id_tx select_view_def view_status_def
            collection_status.dec_Inr_iff collection_status_str_def split: if_splits)
    qed
  qed
  then show "s' = s" and "case settles of None \<Rightarrow> True | Some c \<Rightarrow>
      c \<in> set (collections s) \<and> in_collection p = Some (co_id c) \<and> co_customer c = in_customer p \<and>
      payment_of (co_id c) s = None \<and> (in_settles_closed p \<or> read_status (now E) c = ''PENDING'')" by auto
qed

section \<open>One payment\<close>

definition inbound_key :: "inbound_row \<Rightarrow> string \<times> string" where
  "inbound_key x = (ip_provider x, ip_provider_payment x)"

definition new_inbound :: "inbound \<Rightarrow> uuid option \<Rightarrow> uuid \<Rightarrow> inbound_row" where
  "new_inbound p settles i = \<lparr>ip_id = i, ip_customer = in_customer p, ip_collection = settles,
     ip_provider = in_provider p, ip_provider_payment = in_payment_id p, ip_amount = in_amount p,
     ip_currency = currency_str (in_currency p), ip_payer_name = in_payer_name p,
     ip_description = in_description p, ip_received_at = in_received_at p, ip_raw = in_raw p\<rparr>"

lemma new_inbound_simps [simp]:
  "ip_collection (new_inbound p c i) = c" "ip_customer (new_inbound p c i) = in_customer p"
  "ip_amount (new_inbound p c i) = in_amount p" "inbound_key (new_inbound p c i) = (in_provider p, in_payment_id p)"
  "ip_currency (new_inbound p c i) = currency_str (in_currency p)"
  by (simp_all add: new_inbound_def inbound_key_def)

lemma insert_inbound_Inr:
  "insert_inbound p c s = Inr (None, s') \<longleftrightarrow>
     (in_provider p, in_payment_id p) \<in> inbound_key ` set (inbound_payments s) \<and> s' = s"
  "insert_inbound p c s = Inr (Some i, s') \<longleftrightarrow>
     (in_provider p, in_payment_id p) \<notin> inbound_key ` set (inbound_payments s) \<and>
     (c \<noteq> None \<longrightarrow> c \<notin> ip_collection ` set (inbound_payments s)) \<and> 0 < in_amount p \<and> i = next_id s \<and>
     s' = s\<lparr>next_id := Suc (next_id s), inbound_payments := inbound_payments s @ [new_inbound p c (next_id s)]\<rparr>"
proof -
  have seen: "list_ex (\<lambda>x. ip_provider x = in_provider p \<and> ip_provider_payment x = in_payment_id p) xs \<longleftrightarrow>
      (in_provider p, in_payment_id p) \<in> inbound_key ` set xs" for xs
    by (induction xs) (auto simp: inbound_key_def)
  have clash: "list_ex (\<lambda>x. ip_collection x = c) xs \<longleftrightarrow> c \<in> ip_collection ` set xs" for xs
    by (induction xs) auto
  show "insert_inbound p c s = Inr (None, s') \<longleftrightarrow>
     (in_provider p, in_payment_id p) \<in> inbound_key ` set (inbound_payments s) \<and> s' = s"
    unfolding insert_inbound_def bind_tx_Inr primitive_tx seen clash by (simp add: bind_tx_Inr primitive_tx)
  show "insert_inbound p c s = Inr (Some i, s') \<longleftrightarrow>
     (in_provider p, in_payment_id p) \<notin> inbound_key ` set (inbound_payments s) \<and>
     (c \<noteq> None \<longrightarrow> c \<notin> ip_collection ` set (inbound_payments s)) \<and> 0 < in_amount p \<and> i = next_id s \<and>
     s' = s\<lparr>next_id := Suc (next_id s), inbound_payments := inbound_payments s @ [new_inbound p c (next_id s)]\<rparr>"
    unfolding insert_inbound_def bind_tx_Inr primitive_tx seen clash new_inbound_def
    by (cases "(in_provider p, in_payment_id p) \<in> inbound_key ` set (inbound_payments s)")
      (auto simp: bind_tx_Inr primitive_tx)
qed

definition settle :: "env \<Rightarrow> collection_row option \<Rightarrow> collection_row list \<Rightarrow> collection_row list" where
  "settle E settles cs = (case settles of None \<Rightarrow> cs | Some r \<Rightarrow>
     update_where (\<lambda>c. co_id c = co_id r) (\<lambda>c. c\<lparr>co_status := ''PAID'', co_paid_at := Some (now E)\<rparr>) cs)"

lemma inbound_tx_steps:
  assumes run: "inbound_tx E p s = Inr (Some (), s')"
  obtains settles i s1 a s2 e bal s3 s4 where
    "settled_request E p s = Inr (settles, s)"
    "insert_inbound p (map_option co_id settles) s = Inr (Some i, s1)"
    "get_or_create_account_by_code (in_customer p) (currency_str (in_currency p)) s1 = Inr (a, s2)"
    "append_entry E a (in_amount p) (currency_str (in_currency p)) ''Payment received'' (FromInbound i) None s2 =
       Inr ((e, bal), s3)"
    "mark_settled E settles s3 = Inr ((), s4)"
    "write_audit E (inbound_audit E p settles i bal) s4 = Inr ((), s')"
proof -
  let ?c = "in_customer p" and ?k = "currency_str (in_currency p)"
  obtain settles i s0 s1 a s2 e bal s3 s4 where
    sr0: "settled_request E p s = Inr (settles, s0)" and
    ins0: "insert_inbound p (map_option co_id settles) s0 = Inr (Some i, s1)" and
    g: "get_or_create_account_by_code ?c ?k s1 = Inr (a, s2)" and
    ap: "append_entry E a (in_amount p) ?k ''Payment received'' (FromInbound i) None s2 = Inr ((e, bal), s3)" and
    mp: "mark_settled E settles s3 = Inr ((), s4)" and
    w: "write_audit E (inbound_audit E p settles i bal) s4 = Inr ((), s')"
    using run unfolding inbound_tx_def bind_tx_Inr
    by (auto simp: bind_tx_Inr primitive_tx get_or_create_account_def post_inbound_entry_def
        split: option.splits prod.splits)
  have "s0 = s" by (rule settled_request_Inr(1) [OF sr0])
  with sr0 ins0 have sr: "settled_request E p s = Inr (settles, s)"
    and ins: "insert_inbound p (map_option co_id settles) s = Inr (Some i, s1)" by simp_all
  show thesis by (rule that [OF sr ins g ap mp w])
qed

lemma inbound_tx_Some:
  assumes ok: "ledger_ok s" and run: "inbound_tx E p s = Inr (Some (), s')"
  shows "\<exists>settles i. settled_request E p s = Inr (settles, s) \<and> i = next_id s \<and>
      inbound_payments s' = inbound_payments s @ [new_inbound p (map_option co_id settles) i] \<and>
      collections s' = settle E settles (collections s) \<and>
      (settles \<noteq> None \<longrightarrow> map_option co_id settles \<notin> ip_collection ` set (inbound_payments s))"
    and "(in_provider p, in_payment_id p) \<notin> inbound_key ` set (inbound_payments s)"
    and "0 < in_amount p"
    and "balance c k s' = balance c k s +
      (if c = in_customer p \<and> k = currency_str (in_currency p) then in_amount p else 0)"
    and "foreign s s'" and "virtual_accounts s' = virtual_accounts s" and "settlement_trades s' = settlement_trades s"
    and "append_only s s'" and "settlement_events s' = settlement_events s"
proof -
  let ?c = "in_customer p" and ?k = "currency_str (in_currency p)"
  from inbound_tx_steps [OF run] obtain settles i s1 a s2 e bal s3 s4 where
    sr: "settled_request E p s = Inr (settles, s)" and
    ins: "insert_inbound p (map_option co_id settles) s = Inr (Some i, s1)" and
    g: "get_or_create_account_by_code ?c ?k s1 = Inr (a, s2)" and
    ap: "append_entry E a (in_amount p) ?k ''Payment received'' (FromInbound i) None s2 = Inr ((e, bal), s3)" and
    mp: "mark_settled E settles s3 = Inr ((), s4)" and
    w: "write_audit E (inbound_audit E p settles i bal) s4 = Inr ((), s')" .
  note i = ins [unfolded insert_inbound_Inr]
  have ok1: "ledger_ok s1" by (rule ledger_ok_cong [OF _ _ _ ok]) (simp_all add: i)
  note g' = get_or_create_ok [OF ok1 g] and gf = get_or_create_frame [OF g]
  note a' = append_entry_ok [OF g'(1,2) ap] and af = append_entry_frame [OF ap]
  from mp have s4: "s4 = s3\<lparr>collections := settle E settles (collections s3)\<rparr>"
    by (cases settles) (auto simp: settle_def mark_settled_def primitive_tx)
  note wf = write_audit_frame [OF w]
  have nx: "next_id s2 \<le> next_id s3" "next_id s1 \<le> next_id s2" using af gf by simp_all
  show "\<exists>settles i. settled_request E p s = Inr (settles, s) \<and> i = next_id s \<and>
      inbound_payments s' = inbound_payments s @ [new_inbound p (map_option co_id settles) i] \<and>
      collections s' = settle E settles (collections s) \<and>
      (settles \<noteq> None \<longrightarrow> map_option co_id settles \<notin> ip_collection ` set (inbound_payments s))"
    using sr i by (intro exI [of _ settles] exI [of _ "next_id s"]) (simp add: wf s4 af gf)
  show "(in_provider p, in_payment_id p) \<notin> inbound_key ` set (inbound_payments s)" "0 < in_amount p"
    using i by simp_all
  have ok': "ledger_ok s'" by (rule ledger_ok_cong [OF _ _ _ a'(1)]) (simp_all add: wf s4)
  have le: "ledger_entries s' = ledger_entries s @ [new_entry E a (in_amount p) ?k ''Payment received'' (FromInbound i) None s2]"
    using ap gf by (simp add: wf s4 append_entry_tx i)
  have "next_id s \<le> next_id s'" using nx by (simp add: wf s4 i)
  then show "foreign s s'" using ok' le by (simp add: foreign_def wf s4 af gf i)
  show "virtual_accounts s' = virtual_accounts s" "settlement_trades s' = settlement_trades s"
    "settlement_events s' = settlement_events s"
    by (simp_all add: wf s4 af gf i)
  have "balance c k s' = balance c k s3" for c k by (rule balance_cong) (simp_all add: wf s4)
  moreover have "balance c k s1 = balance c k s" for c k by (rule balance_cong) (simp_all add: i)
  ultimately show "balance c k s' = balance c k s + (if c = ?c \<and> k = ?k then in_amount p else 0)"
    using a'(2) g'(3) by simp
  have "prefix (audit_log s) (audit_log s')"
    using w af gf by (simp add: write_audit_def primitive_tx s4 i)
  then show "append_only s s'" by (simp add: append_only_def le wf s4 af gf i)
qed

lemma inbound_tx_None:
  assumes "inbound_tx E p s = Inr (None, s')"
  shows "s' = s" and "(in_provider p, in_payment_id p) \<in> inbound_key ` set (inbound_payments s)"
  using assms unfolding inbound_tx_def bind_tx_Inr
  by (auto simp: bind_tx_Inr primitive_tx insert_inbound_Inr split: option.splits prod.splits
      dest!: settled_request_Inr(1))

lemma apply_inbound_cases:
  assumes "apply_inbound E p s = (r, s')"
  obtains (credited) "r = Inr True" "inbound_tx E p s = Inr (Some (), s')"
  | (duplicate) "r = Inr False" "s' = s" "(in_provider p, in_payment_id p) \<in> inbound_key ` set (inbound_payments s)"
  | (failed) e where "r = Inl e" "s' = s"
proof -
  obtain x u where x: "commit_or_rollback (inbound_tx E p) s = (x, u)" by fastforce
  with assms have ru: "r = map_sum id (\<lambda>x. x \<noteq> None) x" "s' = u" by (auto simp: apply_inbound_def)
  from x consider (e) e where "x = Inl e" "u = s" | (n) t where "inbound_tx E p s = Inr (None, t)" "x = Inr None" "u = s"
    | (s) a where "inbound_tx E p s = Inr (Some a, u)" "x = Inr (Some a)"
    by (auto simp: commit_or_rollback_cases)
  then show thesis
  proof cases
    case e
    with ru show thesis by (intro failed) auto
  next
    case n
    with ru inbound_tx_None [OF n(1)] show thesis by (intro duplicate) auto
  next
    case s
    with ru show thesis by (intro credited) auto
  qed
qed

lemma seen_payment_is_ignored:
  assumes run: "apply_inbound E p s = (x, s')"
    and seen: "(in_provider p, in_payment_id p) \<in> inbound_key ` set (inbound_payments s)"
  shows "x \<noteq> Inr True \<and> s' = s"
  using run
proof (cases rule: apply_inbound_cases)
  case credited
  from credited(2) have False
    by (rule inbound_tx_steps) (use seen in \<open>simp add: insert_inbound_Inr\<close>)
  then show ?thesis ..
qed simp_all

section \<open>The invariant of requests and payments\<close>

definition paid_ids :: "db \<Rightarrow> uuid option set" where
  "paid_ids s = ip_collection ` set (inbound_payments s)"

definition request_ok :: "db \<Rightarrow> collection_row \<Rightarrow> bool" where
  "request_ok s c \<longleftrightarrow> co_id c < next_id s \<and> co_status c \<in> {''PENDING'', ''PAID'', ''CANCELLED''} \<and>
     (co_status c = ''PAID'' \<longleftrightarrow> Some (co_id c) \<in> paid_ids s) \<and>
     (co_status c = ''PAID'' \<longleftrightarrow> co_paid_at c \<noteq> None)"

definition payment_ok :: "db \<Rightarrow> inbound_row \<Rightarrow> bool" where
  "payment_ok s p \<longleftrightarrow> 0 < ip_amount p \<and> (case ip_collection p of None \<Rightarrow> True
     | Some i \<Rightarrow> list_ex (\<lambda>c. co_id c = i \<and> co_customer c = ip_customer p) (collections s))"

definition collections_ok :: "db \<Rightarrow> bool" where
  "collections_ok s \<longleftrightarrow> distinct (map co_id (collections s)) \<and>
     distinct (map (\<lambda>c. (co_customer c, co_key c)) (collections s)) \<and>
     list_all (request_ok s) (collections s) \<and> list_all (payment_ok s) (inbound_payments s) \<and>
     distinct (map inbound_key (inbound_payments s)) \<and>
     distinct (filter (\<lambda>x. x \<noteq> None) (map ip_collection (inbound_payments s)))"

lemma collections_ok_cong:
  "collections s' = collections s \<Longrightarrow> inbound_payments s' = inbound_payments s \<Longrightarrow> next_id s \<le> next_id s' \<Longrightarrow>
   collections_ok s \<Longrightarrow> collections_ok s'"
proof -
  assume c: "collections s' = collections s" and p: "inbound_payments s' = inbound_payments s"
    and n: "next_id s \<le> next_id s'" and ok: "collections_ok s"
  have "request_ok s c \<Longrightarrow> request_ok s' c" for c
    using n unfolding request_ok_def paid_ids_def p by (meson less_le_trans)
  moreover have "payment_ok s' = payment_ok s" unfolding payment_ok_def [abs_def] c ..
  ultimately show ?thesis
    using ok unfolding collections_ok_def c p by (simp add: list_all_iff)
qed

lemma settle_simps:
  "map co_id (settle E x cs) = map co_id cs" "map co_customer (settle E x cs) = map co_customer cs"
  "map (\<lambda>c. (co_customer c, co_key c)) (settle E x cs) = map (\<lambda>c. (co_customer c, co_key c)) cs"
  by (auto simp: settle_def update_where_def split: option.split)

lemma settle_list_ex: "list_ex (\<lambda>c. co_id c = i \<and> co_customer c = k) (settle E x cs) \<longleftrightarrow>
    list_ex (\<lambda>c. co_id c = i \<and> co_customer c = k) cs"
proof (cases x)
  case (Some r)
  show ?thesis unfolding settle_def Some by (induction cs) auto
qed (simp add: settle_def)

lemma inbound_tx_collections_ok:
  assumes ok: "collections_ok s" and lok: "ledger_ok s" and run: "inbound_tx E p s = Inr (Some (), s')"
  shows "collections_ok s'"
proof -
  from inbound_tx_Some(1) [OF lok run] obtain settles i where
    sr: "settled_request E p s = Inr (settles, s)" and
    pay: "inbound_payments s' = inbound_payments s @ [new_inbound p (map_option co_id settles) i]" and
    col: "collections s' = settle E settles (collections s)" and
    new: "settles \<noteq> None \<longrightarrow> map_option co_id settles \<notin> paid_ids s"
    by (auto simp: paid_ids_def)
  note key = inbound_tx_Some(2,3) [OF lok run]
  have nx: "next_id s \<le> next_id s'" using inbound_tx_Some(5) [OF lok run] by (simp add: foreign_def)
  have ids: "paid_ids s' = insert (map_option co_id settles) (paid_ids s)" by (auto simp: paid_ids_def pay)
  from settled_request_Inr(2) [OF sr]
  have st: "case settles of None \<Rightarrow> True | Some r \<Rightarrow> r \<in> set (collections s) \<and> co_customer r = in_customer p"
    by (simp split: option.splits)
  have "list_all (request_ok s') (collections s')"
    unfolding list_all_iff
  proof
    fix c' assume "c' \<in> set (collections s')"
    then obtain c where c: "c \<in> set (collections s)" and c': "c' = (case settles of None \<Rightarrow> c
        | Some r \<Rightarrow> if co_id c = co_id r then c\<lparr>co_status := ''PAID'', co_paid_at := Some (now E)\<rparr> else c)"
      by (cases settles) (auto simp: col settle_def update_where_def)
    from ok c have rc: "request_ok s c" by (simp add: collections_ok_def list_all_iff)
    show "request_ok s' c'"
    proof (cases settles)
      case None
      with c' rc nx show ?thesis by (auto simp: request_ok_def ids)
    next
      case (Some r)
      with c' rc nx show ?thesis by (cases "co_id c = co_id r") (auto simp: request_ok_def ids)
    qed
  qed
  moreover have "list_all (payment_ok s') (inbound_payments s')"
  proof -
    have "payment_ok s' = payment_ok s" unfolding payment_ok_def [abs_def] col settle_list_ex ..
    moreover have "payment_ok s (new_inbound p (map_option co_id settles) i)"
      using st key by (auto simp: payment_ok_def list_ex_iff split: option.splits)
    ultimately show ?thesis using ok by (simp add: collections_ok_def pay)
  qed
  moreover have "distinct (filter (\<lambda>x. x \<noteq> None) (map ip_collection (inbound_payments s')))"
    using ok new by (auto simp: collections_ok_def pay paid_ids_def)
  moreover have "distinct (map inbound_key (inbound_payments s'))"
    using ok key by (simp add: collections_ok_def pay)
  ultimately show ?thesis
    using ok by (simp add: collections_ok_def col settle_simps)
qed

lemma settled_or_paid:
  assumes ok: "collections_ok s" and lok: "ledger_ok s" and run: "inbound_tx E p s = Inr (Some (), s')"
    and c: "c \<in> set (collections s)" "in_collection p = Some (co_id c)" "in_customer p = co_customer c"
    and closed: "in_settles_closed p"
  shows "\<forall>d \<in> set (collections s'). co_id d = co_id c \<longrightarrow> co_status d = ''PAID''"
proof -
  from inbound_tx_Some(1) [OF lok run] obtain settles where
    sr: "settled_request E p s = Inr (settles, s)" and col: "collections s' = settle E settles (collections s)"
    by blast
  have f: "find (\<lambda>d. co_id d = co_id c) (collections s) = Some c"
    using ok c(1) by (intro find_distinct_key) (auto simp: collections_ok_def)
  show ?thesis
  proof (cases "payment_of (co_id c) s")
    case None
    with sr c f closed have "settles = Some c"
      unfolding settled_request_def Let_def
      by (auto simp: bind_tx_Inr primitive_tx view_by_id_tx select_view_def)
    then show ?thesis by (auto simp: col settle_def update_where_def)
  next
    case (Some q)
    with sr c f have "settles = None"
      unfolding settled_request_def Let_def
      by (auto simp: bind_tx_Inr primitive_tx view_by_id_tx select_view_def)
    moreover have "co_status c = ''PAID''"
      using ok c(1) find_Some_set [OF Some [unfolded payment_of_def]]
      by (auto simp: collections_ok_def list_all_iff request_ok_def paid_ids_def image_iff dest!: bspec)
    moreover have "d = c" if "d \<in> set (collections s)" "co_id d = co_id c" for d
      using ok c(1) that by (auto simp: collections_ok_def distinct_map dest: inj_onD)
    ultimately show ?thesis by (auto simp: col settle_def)
  qed
qed

lemma apply_inbound_ok:
  assumes "collections_ok s" and "ledger_ok s"
  shows "collections_ok (snd (apply_inbound E p s))" and "foreign s (snd (apply_inbound E p s))"
proof -
  obtain r s' where run: "apply_inbound E p s = (r, s')" by fastforce
  then have "collections_ok s' \<and> foreign s s'"
    using assms
    by (cases rule: apply_inbound_cases) (auto simp: foreign.refl intro: inbound_tx_collections_ok inbound_tx_Some(5))
  with run show "collections_ok (snd (apply_inbound E p s))" "foreign s (snd (apply_inbound E p s))" by simp_all
qed

text \<open>
  C20: a confirmed payment is credited once and in full: when it is applied, exactly the balance of
  its customer in its currency grows, by exactly its amount, which is positive; the payment is
  recorded; the invariants of the engine and of the requests are kept; and in every later state
  (the payments are append-only) the same partner payment, however it is announced again, is never
  applied again and changes nothing.
\<close>

theorem payment_is_credited_once:
  assumes ok: "engine_ok s" "collections_ok s" and run: "apply_inbound E p s = (Inr True, s1)"
    and later: "append_only s1 s2" and again: "in_provider q = in_provider p" "in_payment_id q = in_payment_id p"
  shows "engine_ok s1 \<and> collections_ok s1 \<and> 0 < in_amount p \<and>
    (\<forall>c k. balance c k s1 = balance c k s +
      (if c = in_customer p \<and> k = currency_str (in_currency p) then in_amount p else 0)) \<and>
    length (inbound_payments s1) = Suc (length (inbound_payments s)) \<and>
    fst (apply_inbound E2 q s2) \<noteq> Inr True \<and> snd (apply_inbound E2 q s2) = s2"
proof -
  have lok: "ledger_ok s" using ok(1) by (simp add: engine_ok_def)
  from run have tx: "inbound_tx E p s = Inr (Some (), s1)" by (cases rule: apply_inbound_cases) auto
  note t = inbound_tx_Some [OF lok tx]
  have "(in_provider p, in_payment_id p) \<in> inbound_key ` set (inbound_payments s1)"
    using t(1) by auto
  with later have seen: "(in_provider q, in_payment_id q) \<in> inbound_key ` set (inbound_payments s2)"
    using again by (force simp: append_only_def prefix_def)
  obtain r s' where q: "apply_inbound E2 q s2 = (r, s')" by fastforce
  from seen_payment_is_ignored [OF q seen] have "r \<noteq> Inr True \<and> s' = s2" .
  moreover have "engine_ok s1" by (rule foreign_engine_ok [OF t(5) ok(1)])
  moreover have "collections_ok s1" by (rule inbound_tx_collections_ok [OF ok(2) lok tx])
  ultimately show ?thesis using t(1,3,4) q by auto
qed

section \<open>Requests\<close>

text \<open>What a change of the requests may do to the money: nothing.\<close>

definition same_money :: "db \<Rightarrow> db \<Rightarrow> bool" where
  "same_money s s' \<longleftrightarrow> ledger_entries s' = ledger_entries s \<and> accounts s' = accounts s \<and>
     inbound_payments s' = inbound_payments s \<and> transfers s' = transfers s \<and>
     transfer_history s' = transfer_history s \<and> settlement_events s' = settlement_events s \<and>
     settlement_trades s' = settlement_trades s \<and> virtual_accounts s' = virtual_accounts s \<and>
     prefix (audit_log s) (audit_log s') \<and> next_id s \<le> next_id s'"

lemma same_money_foreign: "same_money s s' \<Longrightarrow> foreign s s'"
  by (rule foreign_cong) (simp_all add: same_money_def)

lemma owned_row_Inr: "owned_row E sess i s = Inr (v, s') \<Longrightarrow> s' = s \<and>
    cv_row v \<in> set (collections s) \<and> v = select_view E s (cv_row v) \<and> co_customer (cv_row v) = customer_id sess"
  unfolding owned_row_def bind_tx_Inr primitive_tx
  by (auto simp: bind_tx_Inr primitive_tx view_by_id_tx select_view_def split: if_splits option.splits
      dest!: find_Some_set)

lemma cancel_pending_Inr:
  assumes "cancel_pending P E web pt sess c s = Inr (x, s')"
  shows "collections s' = cancel_row E (co_id c) (collections s)" and "same_money s s'"
proof -
  have part: "u = s" if "close_partner_side P E web pt c s = Inr (y, u)" for y u
    using that by (auto simp: close_partner_side_def primitive_tx split: if_splits option.splits)
  from assms obtain u where
    w: "write_audit E (cancel_audit E sess (co_id c))
      (s\<lparr>collections := cancel_row E (co_id c) (collections s)\<rparr>) = Inr ((), s')"
    unfolding cancel_pending_def bind_tx_Inr primitive_tx view_by_id_tx by (auto dest!: part)
  have "append_only (s\<lparr>collections := cancel_row E (co_id c) (collections s)\<rparr>) s'"
    by (rule upholdsD [OF write_audit_append w])
  with write_audit_frame [OF w]
  show "collections s' = cancel_row E (co_id c) (collections s)" "same_money s s'"
    by (simp_all add: same_money_def append_only_def)
qed

lemma pending_view: "view_status (select_view E s c) = Inr CoPending \<longleftrightarrow>
    co_status c = ''PENDING'' \<and> now E < co_expires_at c"
  by (auto simp: view_status_def select_view_def collection_status.dec_Inr_iff collection_status_str_def read_status_def)

lemma cancel_collection_cases:
  assumes run: "cancel_collection P E web pt sess i s = (r, s')"
  obtains (same) "s' = s"
  | (cancelled) c where "c \<in> set (collections s)" "co_customer c = customer_id sess"
      "co_status c = ''PENDING''" "now E < co_expires_at c"
      "collections s' = cancel_row E (co_id c) (collections s)" "same_money s s'"
proof -
  let ?go = "\<lambda>v st. case st of
       CoPending \<Rightarrow> cancel_pending P E web pt sess (cv_row v)
     | CoCancelled \<Rightarrow> return_tx v
     | CoPaid \<Rightarrow> throw (conflict ''This payment request has already been paid.'')
     | CoExpired \<Rightarrow> throw (conflict ''This payment request has expired.'')"
  let ?m = "bind_tx (owned_row E sess i) (\<lambda>v. bind_tx (lift_result (view_status v)) (?go v))"
  obtain x s2 where m: "transaction ?m s = (x, s2)" by fastforce
  with run have s2: "s' = s2" by (auto simp: cancel_collection_def bind_io_def split: sum.splits)
  show thesis
  proof (cases x)
    case (Inl e)
    with m s2 show thesis by (intro same) (simp add: transaction_Inl)
  next
    case (Inr y)
    from m [unfolded Inr transaction_Inr bind_tx_Inr primitive_tx] obtain v s0 st where
      v: "owned_row E sess i s = Inr (v, s0)" and st: "view_status v = Inr st" and go: "?go v st s0 = Inr (y, s2)"
      by blast
    from owned_row_Inr [OF v] have o': "s0 = s" "cv_row v \<in> set (collections s)"
      "v = select_view E s (cv_row v)" "co_customer (cv_row v) = customer_id sess" by auto
    show thesis
    proof (cases st)
      case CoPending
      with st o'(3) pending_view [of E s "cv_row v"]
      have pend: "co_status (cv_row v) = ''PENDING''" "now E < co_expires_at (cv_row v)" by auto
      from go CoPending o'(1) s2 have "cancel_pending P E web pt sess (cv_row v) s = Inr (y, s')" by simp
      from cancel_pending_Inr [OF this] show thesis by (intro cancelled [OF o'(2,4) pend])
    next
      case CoCancelled
      with go o'(1) s2 show thesis by (intro same) (simp add: primitive_tx)
    qed (use go in \<open>simp_all add: primitive_tx\<close>)
  qed
qed

lemma collection_by_key_tx:
  "collection_by_key E k key s = Inr (None, s') \<longleftrightarrow>
     find (\<lambda>c. co_customer c = k \<and> co_key c = key) (collections s) = None \<and> s' = s"
  "collection_by_key E k key s = Inr (Some x, s') \<longleftrightarrow> s' = s \<and>
     (\<exists>c. find (\<lambda>c. co_customer c = k \<and> co_key c = key) (collections s) = Some c \<and>
        into_collection (select_view E s c) = Inr x)"
  unfolding collection_by_key_def bind_tx_Inr primitive_tx
  by (auto simp: bind_tx_Inr primitive_tx split: option.splits)

lemma collection_by_key_state: "collection_by_key E k key s = Inr (x, s') \<Longrightarrow> s' = s"
  by (cases x) (auto simp: collection_by_key_tx)

lemma open_request_state: "open_request P E web pt sess i ref amount note t s = Inr (op, s') \<Longrightarrow> s' = s"
  unfolding open_request_def open_yellowcard_def payee_def bridge_account_def
  by (auto simp: bind_tx_Inr primitive_tx split: if_splits option.splits prod.splits)

lemma insert_collection_row_Inr:
  "insert_collection_row row s = Inr (b, s') \<longleftrightarrow>
     (if list_ex (\<lambda>c. co_customer c = co_customer row \<and> co_key c = co_key row) (collections s)
      then \<not> b \<and> s' = s
      else b \<and> \<not> list_ex (\<lambda>c. co_id c = co_id row \<or> co_reference c = co_reference row \<or>
           (co_provider_ref row \<noteq> None \<and> co_provider c = co_provider row \<and>
            co_provider_ref c = co_provider_ref row)) (collections s) \<and> 0 < co_amount row \<and>
        s' = s\<lparr>collections := collections s @ [row]\<rparr>)"
  unfolding insert_collection_row_def bind_tx_Inr primitive_tx by (auto simp: bind_tx_Inr primitive_tx)

lemma insert_collection_Some:
  assumes run: "insert_collection E sess row s = Inr (Some v, s')"
  shows "find (\<lambda>c. co_customer c = co_customer row \<and> co_key c = co_key row) (collections s) = None"
    and "collections s' = collections s @ [row]" and "v = select_view E s' row" and "same_money s s'"
    and "co_id row \<notin> co_id ` set (collections s)"
proof -
  from run obtain s1 u where i: "insert_collection_row row s = Inr (True, s1)"
    and v: "collection_view_by_id E (co_id row) s1 = Inr (Some v, s1)"
    and w: "write_audit E (create_audit E sess (co_id row) (cv_row v)) s1 = Inr (u, s')"
    unfolding insert_collection_def bind_tx_Inr
    by (auto simp: bind_tx_Inr primitive_tx view_by_id_tx split: if_splits)
  from i have n: "\<not> list_ex (\<lambda>c. co_customer c = co_customer row \<and> co_key c = co_key row) (collections s)"
    and m: "co_id row \<notin> co_id ` set (collections s)" and s1: "s1 = s\<lparr>collections := collections s @ [row]\<rparr>"
    unfolding insert_collection_row_Inr by (auto simp: list_ex_iff split: if_splits)
  note wf = write_audit_frame [OF w]
  show "find (\<lambda>c. co_customer c = co_customer row \<and> co_key c = co_key row) (collections s) = None"
    using n by (simp add: find_None_iff list_ex_iff)
  show "collections s' = collections s @ [row]" by (simp add: wf s1)
  show "co_id row \<notin> co_id ` set (collections s)" by (rule m)
  have "append_only s1 s'" by (rule upholdsD [OF write_audit_append w])
  then show "same_money s s'" by (simp add: same_money_def wf s1 append_only_def)
  have "find (\<lambda>c. co_id c = co_id row) (collections s) = None"
    using m by (metis (mono_tags, lifting) find_None_iff image_eqI)
  with v have "v = select_view E s1 row" by (simp add: view_by_id_tx s1 find_append)
  then show "v = select_view E s' row" by (simp add: select_view_def payment_of_def wf)
qed

lemma insert_collection_None:
  "insert_collection E sess row s = Inr (None, s') \<Longrightarrow>
   find (\<lambda>c. co_customer c = co_customer row \<and> co_key c = co_key row) (collections s) \<noteq> None"
  unfolding insert_collection_def bind_tx_Inr
  by (auto simp: bind_tx_Inr primitive_tx insert_collection_row_Inr list_ex_iff find_None_iff split: if_splits)

lemma new_collection_simps [simp]:
  "co_id (new_collection E sess input i r p n x) = i" "co_status (new_collection E sess input i r p n x) = ''PENDING''"
  "co_customer (new_collection E sess input i r p n x) = customer_id sess"
  "co_key (new_collection E sess input i r p n x) = cc_key input"
  "co_paid_at (new_collection E sess input i r p n x) = None"
  by (simp_all add: new_collection_def)

lemma create_collection_cases:
  assumes run: "create_collection P E web pt sess input s = (res, s')"
  obtains (found) c where "s' = s" "res = Inr c" "8 \<le> length (trim (cc_key input))"
      "collection_by_key E (customer_id sess) (cc_key input) s = Inr (Some c, s)"
  | (failed) err where "res = Inl err" "s' = s \<or> s' = s\<lparr>next_id := Suc (next_id s)\<rparr>"
  | (created) rf payer memo opn v where "8 \<le> length (trim (cc_key input))"
      "insert_collection E sess (new_collection E sess input (next_id s) rf payer memo opn)
         (s\<lparr>next_id := Suc (next_id s)\<rparr>) = Inr (Some v, s')" "res = into_collection v"
proof (cases "length (trim (cc_key input)) < 8")
  case True
  with run show thesis by (intro failed) (auto simp: create_collection_def)
next
  case long: False
  let ?find = "collection_by_key E (customer_id sess) (cc_key input)" and ?s1 = "s\<lparr>next_id := Suc (next_id s)\<rparr>"
  have "snd (transaction ?find s) = s"
    by (auto simp: transaction_def split: sum.split dest: collection_by_key_state)
  then obtain a where a: "transaction ?find s = (a, s)" by (metis prod.collapse)
  show thesis
  proof (cases a)
    case (Inl e)
    with run a long show thesis by (intro failed [of e]) (auto simp: create_collection_def)
  next
    case (Inr f)
    show thesis
    proof (cases f)
      case (Some c)
      with run a long Inr show thesis
        by (intro found [of c]) (auto simp: create_collection_def transaction_Inr)
    next
      case None
      with a Inr have none: "find (\<lambda>c. co_customer c = customer_id sess \<and> co_key c = cc_key input) (collections s) = None"
        by (simp add: transaction_Inr collection_by_key_tx)
      show thesis
      proof (cases "0 < amount_minor (cc_amount input) \<and>
          (\<exists>p n t. optional_text (cc_payer_name input) ''Payer name'' max_payer_name_chars = Inr p \<and>
            optional_text (cc_note input) ''Note'' max_note_chars = Inr n \<and>
            request_expiry E (cc_expires_at input) = Inr t)")
        case False
        with run a long Inr None have "(\<exists>e. res = Inl e) \<and> s' = s"
          by (auto simp: create_collection_def split: sum.splits if_splits)
        then obtain e where "res = Inl e" "s' = s" by blast
        then show thesis by (intro failed) auto
      next
        case True
        then obtain p n t where ok: "0 < amount_minor (cc_amount input)"
            "optional_text (cc_payer_name input) ''Payer name'' max_payer_name_chars = Inr p"
            "optional_text (cc_note input) ''Note'' max_note_chars = Inr n"
            "request_expiry E (cc_expires_at input) = Inr t" by blast
        let ?open = "open_request P E web pt sess (next_id s) (new_reference E ''CL'') (cc_amount input) n t"
        have "snd (transaction ?open ?s1) = ?s1"
          by (auto simp: transaction_def split: sum.split dest: open_request_state)
        then obtain b where b: "transaction ?open ?s1 = (b, ?s1)" by (metis prod.collapse)
        show thesis
        proof (cases b)
          case (Inl e)
          with run a long Inr None ok b show thesis
            by (intro failed [of e]) (auto simp: create_collection_def draw_id_def Let_def)
        next
          case bi: (Inr op)
          let ?row = "new_collection E sess input (next_id s) (new_reference E ''CL'') p n op"
          obtain y u where y: "commit_or_rollback (insert_collection E sess ?row) ?s1 = (y, u)" by fastforce
          have "y \<noteq> Inr None"
          proof
            assume "y = Inr None"
            with y obtain w where "insert_collection E sess ?row ?s1 = Inr (None, w)"
              by (auto simp: commit_or_rollback_cases)
            from insert_collection_None [OF this] none show False by simp
          qed
          with y consider (e) e where "y = Inl e" "u = ?s1"
            | (ok) v where "y = Inr (Some v)" "insert_collection E sess ?row ?s1 = Inr (Some v, u)"
            by (auto simp: commit_or_rollback_cases)
          then show thesis
          proof cases
            case e
            with run a long Inr None ok b bi y show thesis
              by (intro failed [of e]) (auto simp: create_collection_def draw_id_def Let_def)
          next
            case (ok v)
            with run a long Inr None \<open>0 < _\<close> \<open>optional_text (cc_payer_name input) _ _ = _\<close>
              \<open>optional_text (cc_note input) _ _ = _\<close> \<open>request_expiry _ _ = _\<close> b bi y
            have "res = into_collection v" "s' = u"
              by (auto simp: create_collection_def draw_id_def Let_def)
            with long ok(2) show thesis by (intro created [of _ _ _ _ v]) auto
          qed
        qed
      qed
    qed
  qed
qed

lemma create_collection_foreign:
  "foreign s (snd (create_collection P E web pt sess input s))"
proof -
  obtain r s' where run: "create_collection P E web pt sess input s = (r, s')" by fastforce
  have "foreign s (s\<lparr>next_id := Suc (next_id s)\<rparr>)" by (rule foreign_cong) simp_all
  with run have "foreign s s'"
    by (cases rule: create_collection_cases)
      (auto simp: foreign.refl intro: foreign.trans same_money_foreign dest: insert_collection_Some(4))
  with run show ?thesis by simp
qed

lemma insert_collection_ok:
  assumes ok: "collections_ok s" and i: "i < next_id s"
    and run: "insert_collection E sess (new_collection E sess input i rf payer memo opn) s = Inr (Some v, s')"
  shows "collections_ok s'"
proof -
  let ?row = "new_collection E sess input i rf payer memo opn"
  note n = insert_collection_Some [OF run, simplified]
  have m: "inbound_payments s' = inbound_payments s" "next_id s \<le> next_id s'"
    using n(4) by (simp_all add: same_money_def)
  have fresh: "Some i \<notin> paid_ids s"
  proof
    assume "Some i \<in> paid_ids s"
    then obtain p where "p \<in> set (inbound_payments s)" "ip_collection p = Some i"
      by (auto simp: paid_ids_def)
    moreover from this ok have "payment_ok s p" by (simp add: collections_ok_def list_all_iff)
    ultimately obtain c where "c \<in> set (collections s)" "co_id c = i"
      by (auto simp: payment_ok_def list_ex_iff)
    with n(5) show False by force
  qed
  have "request_ok s c \<Longrightarrow> request_ok s' c" for c
    using m(2) unfolding request_ok_def paid_ids_def m(1) by (elim conjE, intro conjI) simp_all
  moreover have "request_ok s' ?row"
    using fresh m i by (simp add: request_ok_def paid_ids_def)
  moreover have "payment_ok s p \<Longrightarrow> payment_ok s' p" for p
    by (auto simp: payment_ok_def n(2) split: option.splits)
  moreover have "(customer_id sess, cc_key input) \<notin> (\<lambda>c. (co_customer c, co_key c)) ` set (collections s)"
    using n(1) by (auto simp: find_None_iff)
  ultimately show ?thesis
    using ok n(5) by (simp add: collections_ok_def n(2) m(1) list_all_iff)
qed

lemma create_collection_ok:
  assumes ok: "collections_ok s" shows "collections_ok (snd (create_collection P E web pt sess input s))"
proof -
  obtain r s' where run: "create_collection P E web pt sess input s = (r, s')" by fastforce
  let ?s1 = "s\<lparr>next_id := Suc (next_id s)\<rparr>"
  have ok1: "collections_ok ?s1" by (rule collections_ok_cong [OF _ _ _ ok]) simp_all
  from run have "collections_ok s'"
    by (cases rule: create_collection_cases) (use ok ok1 in \<open>auto intro: insert_collection_ok [OF ok1]\<close>)
  with run show ?thesis by simp
qed

lemma cancel_row_list_ex:
  "list_ex (\<lambda>d. co_id d = i \<and> co_customer d = k) (cancel_row E x cs) \<longleftrightarrow>
   list_ex (\<lambda>d. co_id d = i \<and> co_customer d = k) cs"
  unfolding cancel_row_def by (induction cs) auto

lemma cancel_collection_ok:
  assumes ok: "collections_ok s" shows "collections_ok (snd (cancel_collection P E web pt sess i s))"
    and "foreign s (snd (cancel_collection P E web pt sess i s))"
proof -
  obtain r s' where run: "cancel_collection P E web pt sess i s = (r, s')" by fastforce
  have "collections_ok s' \<and> foreign s s'"
    using run
  proof (cases rule: cancel_collection_cases)
    case same
    with ok show ?thesis by (simp add: foreign.refl)
  next
    case (cancelled c)
    have m: "inbound_payments s' = inbound_payments s" "next_id s \<le> next_id s'"
      using cancelled(6) by (simp_all add: same_money_def)
    have maps: "map co_id (collections s') = map co_id (collections s)"
      "map (\<lambda>c. (co_customer c, co_key c)) (collections s') = map (\<lambda>c. (co_customer c, co_key c)) (collections s)"
      unfolding cancelled(5) cancel_row_def by (simp_all add: map_update_where_frame)
    have "list_all (request_ok s') (collections s')"
      unfolding list_all_iff
    proof
      fix c' assume "c' \<in> set (collections s')"
      then obtain d where d: "d \<in> set (collections s)" and c': "c' = (if co_id d = co_id c
          then d\<lparr>co_status := ''CANCELLED'', co_cancelled_at := Some (now E)\<rparr> else d)"
        by (auto simp: cancelled(5) cancel_row_def set_update_where)
      from ok d have rd: "request_ok s d" by (simp add: collections_ok_def list_all_iff)
      have "co_status d = ''PENDING''" if "co_id d = co_id c"
        using ok d cancelled(1,3) that by (auto simp: collections_ok_def distinct_map dest: inj_onD)
      with rd c' m show "request_ok s' c'" by (auto simp: request_ok_def paid_ids_def)
    qed
    moreover have "payment_ok s' = payment_ok s"
    proof -
      show ?thesis unfolding payment_ok_def [abs_def] cancelled(5) cancel_row_list_ex ..
    qed
    ultimately show ?thesis
      using ok same_money_foreign [OF cancelled(6)] by (simp add: collections_ok_def maps m(1))
  qed
  with run show "collections_ok (snd (cancel_collection P E web pt sess i s))"
    "foreign s (snd (cancel_collection P E web pt sess i s))" by simp_all
qed

end
