(* ===== verification/Webhook_Properties.thy ===== *)
theory Webhook_Properties
  imports Collection_Properties
begin

text \<open>
  The two webhooks: only a delivery its partner signed moves money, to the customer it belongs to and
  in the amount the partner states; a repeated delivery moves nothing; the reference a memo carries.
\<close>

section \<open>Bridge\<close>

text \<open>A delivery Bridge signed at time \<open>t\<close>, and the deposit it announces.\<close>

definition signed_delivery :: "crypto \<Rightarrow> bytes \<Rightarrow> string \<Rightarrow> string \<Rightarrow> int \<Rightarrow> bool" where
  "signed_delivery P key header body t \<longleftrightarrow>
     (\<exists>ts sg sig. header_parts (split_on (CHR '','') header) (None, None) = (Some ts, Some sg) \<and>
        parse_i64 ts = Some t \<and> b64_decode P sg = Some sig \<and> rsa_verify P key (signed_hash P ts body) sig)"

definition deposit_event :: "crypto \<Rightarrow> string \<Rightarrow> activity option" where
  "deposit_event P body =
     Option.bind (read_json P body) (\<lambda>raw. Option.bind (decode_bridge_event raw) (\<lambda>ev.
       if be_category ev = ''virtual_account.activity''
       then Option.bind (decode_activity (be_object ev)) (\<lambda>a.
         if av_kind a = ''payment_processed'' then Some a else None)
       else None))"

definition deposit_key :: "activity \<Rightarrow> string" where
  "deposit_key a = (case av_deposit_id a of Some d \<Rightarrow> d | None \<Rightarrow> av_id a)"

lemma verify_bridge_Valid:
  "verify_bridge_webhook P key header body t = Valid \<longleftrightarrow>
     (\<exists>u. signed_delivery P key header body u \<and> abs64 (wrap64 (t - u)) \<le> webhook_tolerance_ms)"
  unfolding verify_bridge_webhook_def signed_delivery_def
  by (auto split: prod.split option.split)

lemma credit_deposit_cases:
  assumes run: "credit_deposit P E a raw s = (r, s')"
  obtains (failed) err where "r = Inl err" "s' = s"
  | (applied) va cents p x where "va \<in> set (virtual_accounts s)" "va_virtual_account va = av_virtual_account a"
      "dollars_to_cents (av_amount a) = Some cents" "in_customer p = va_customer va" "in_amount p = cents"
      "in_currency p = Usd" "in_provider p = bridge_name" "in_payment_id p = deposit_key a"
      "\<not> in_settles_closed p" "apply_inbound E p s = (x, s')"
      "r = map_sum id (\<lambda>b. \<lparr>wa_applied = True, wa_duplicate = \<not> b\<rparr>) x"
proof (cases "find (\<lambda>v. va_virtual_account v = av_virtual_account a) (virtual_accounts s)")
  case None
  with run show thesis by (intro failed) (auto simp: credit_deposit_def bind_io_def transaction_def primitive_tx gets_def fail_io_def)
next
  case (Some va)
  from find_Some_set [OF this] have va: "va \<in> set (virtual_accounts s)" "va_virtual_account va = av_virtual_account a" by auto
  show thesis
  proof (cases "\<exists>cents. dollars_to_cents (av_amount a) = Some cents \<and> 0 < cents")
    case False
    with run Some have "\<exists>e. r = Inl e \<and> s' = s"
      by (cases "dollars_to_cents (av_amount a)")
        (auto simp: credit_deposit_def bind_io_def transaction_def gets_def fail_io_def)
    then show thesis by (auto intro: failed)
  next
    case True
    then obtain cents where cents: "dollars_to_cents (av_amount a) = Some cents" "0 < cents" by blast
    let ?description = "Option.bind (av_source a) as_description"
    let ?c = "case Option.bind ?description (find_reference P) of None \<Rightarrow> None
              | Some ref \<Rightarrow> map_option co_id (find (\<lambda>c. co_reference c = ref \<and>
                  co_customer c = va_customer va \<and> co_provider c = bridge_name) (collections s))"
    let ?p = "\<lparr>in_customer = va_customer va, in_collection = ?c,
              in_settles_closed = False, in_provider = bridge_name, in_payment_id = deposit_key a,
              in_amount = cents, in_currency = Usd,
              in_payer_name = Option.bind (av_source a) as_sender_name, in_description = ?description,
              in_received_at = received_at E (av_created_at a), in_raw = raw\<rparr>"
    obtain x u where x: "apply_inbound E ?p s = (x, u)" by fastforce
    from run Some cents have "(r, s') = ack_of (apply_inbound E ?p) s"
      unfolding credit_deposit_def by (simp add: bind_io_def transaction_def gets_def Let_def deposit_key_def)
    with x have "s' = u" "r = map_sum id (\<lambda>b. \<lparr>wa_applied = True, wa_duplicate = \<not> b\<rparr>) x"
      by (auto simp: ack_of_def bind_io_def return_io_def split: sum.splits)
    with x cents va show thesis by (intro applied [of va cents ?p x]) simp_all
  qed
qed

lemma receive_bridge_cases:
  assumes run: "receive_bridge P E pt header body s = (r, s')"
  obtains (same) "s' = s" "\<And>w. r = Inr w \<Longrightarrow> w = ignored"
  | (deposit) key t a raw where "pt_webhook_key pt = Some key"
      "signed_delivery P key (or_empty (header_to_str header)) body t"
      "abs64 (wrap64 (now E - t)) \<le> webhook_tolerance_ms" "deposit_event P body = Some a"
      "credit_deposit P E a raw s = (r, s')"
proof (cases "\<exists>key. pt_webhook_key pt = Some key \<and>
    verify_bridge_webhook P key (or_empty (header_to_str header)) body (now E) = Valid")
  case False
  with run have "s' = s \<and> (\<exists>e. r = Inl e)"
    by (auto simp: receive_bridge_def fail_io_def split: option.splits webhook_check.splits)
  then show thesis by (auto intro: same)
next
  case True
  then obtain key t where key: "pt_webhook_key pt = Some key"
    and v: "verify_bridge_webhook P key (or_empty (header_to_str header)) body (now E) = Valid"
    and sd: "signed_delivery P key (or_empty (header_to_str header)) body t"
    and fresh: "abs64 (wrap64 (now E - t)) \<le> webhook_tolerance_ms"
    by (auto simp: verify_bridge_Valid)
  show thesis
  proof (cases "deposit_event P body")
    case None
    with run key v have "s' = s \<and> (\<forall>w. r = Inr w \<longrightarrow> w = ignored)"
      by (auto simp: receive_bridge_def deposit_event_def fail_io_def return_io_def split: option.splits if_splits)
    then show thesis by (auto intro: same)
  next
    case (Some a)
    then obtain raw where raw: "read_json P body = Some raw" by (cases "read_json P body") (simp_all add: deposit_event_def)
    with run key v Some have "credit_deposit P E a raw s = (r, s')"
      by (auto simp: receive_bridge_def deposit_event_def split: option.splits if_splits bind_splits)
    with key sd fresh Some show thesis by (intro deposit)
  qed
qed

lemma parse_i64_range: "parse_i64 x = Some t \<Longrightarrow> in_i64 t"
  by (auto simp: parse_i64_def Let_def split: prod.splits if_splits)

text \<open>Only a time before the epoch can make the distance wrap.\<close>

lemma recent:
  assumes "abs64 (wrap64 (n - t)) \<le> webhook_tolerance_ms" "0 \<le> t" "in_i64 t" "0 \<le> n" "in_i64 n"
  shows "\<bar>n - t\<bar> \<le> 600000"
proof -
  have "wrap64 (n - t) = n - t" "wrap64 \<bar>n - t\<bar> = \<bar>n - t\<bar>"
    using assms(2-) by (auto simp: in_i64_def i64_max_def intro!: wrap64_id)
  with assms(1) show ?thesis by (simp add: abs64_def webhook_tolerance_ms_def)
qed

text \<open>
  C21: a Bridge delivery changes the database only if it carries the signature of the configured key
  over its own timestamp and body, is at most ten minutes old, and announces a processed deposit into
  a virtual account that is linked; then exactly the balance in dollars of the customer that account
  belongs to grows, by exactly the amount the deposit states, and every invariant is kept.
\<close>

theorem deposit_is_authentic:
  assumes ok: "engine_ok s" "collections_ok s" and clock: "0 \<le> now E" "in_i64 (now E)"
    and run: "receive_bridge P E pt header body s = (r, s')" and moved: "s' \<noteq> s"
  shows "(\<exists>key t a va cents. pt_webhook_key pt = Some key \<and>
      signed_delivery P key (or_empty (header_to_str header)) body t \<and>
      (0 \<le> t \<longrightarrow> \<bar>now E - t\<bar> \<le> 600000) \<and>
      deposit_event P body = Some a \<and> va \<in> set (virtual_accounts s) \<and>
      va_virtual_account va = av_virtual_account a \<and> dollars_to_cents (av_amount a) = Some cents \<and> 0 < cents \<and>
      (\<forall>c k. balance c k s' = balance c k s + (if c = va_customer va \<and> k = ''USD'' then cents else 0))) \<and>
    engine_ok s' \<and> collections_ok s'"
  using run
proof (cases rule: receive_bridge_cases)
  case same
  with moved show ?thesis by simp
next
  case (deposit key t a raw)
  have lok: "ledger_ok s" using ok(1) by (simp add: engine_ok_def)
  from deposit(5) show ?thesis
  proof (cases rule: credit_deposit_cases)
    case failed
    with moved show ?thesis by simp
  next
    case (applied va cents p x)
    from applied(10) moved have tx: "inbound_tx E p s = Inr (Some (), s')" by (cases rule: apply_inbound_cases) auto
    note t = inbound_tx_Some [OF lok tx]
    have "in_i64 t" using deposit(2) by (auto simp: signed_delivery_def dest: parse_i64_range)
    then have "0 \<le> t \<longrightarrow> \<bar>now E - t\<bar> \<le> 600000"
      using deposit(3) clock by (auto intro: recent)
    with deposit applied t show ?thesis
      using foreign_engine_ok [OF t(5) ok(1)] inbound_tx_collections_ok [OF ok(2) lok tx]
      by (intro conjI exI [of _ key] exI [of _ t] exI [of _ a] exI [of _ va] exI [of _ cents])
        simp_all
  qed
qed

text \<open>
  a deposit is credited once: after a delivery was applied, any delivery of the same deposit, in
  whatever form and state of the database (payments are append-only), leaves the database as it is.
\<close>

theorem deposit_is_credited_once:
  assumes ok: "ledger_ok s" and run: "receive_bridge P E pt header body s = (Inr w, s1)" and applied: "wa_applied w"
    and event: "deposit_event P body = Some a" "deposit_event P body2 = Some a2" "deposit_key a2 = deposit_key a"
    and later: "append_only s1 s2"
  shows "snd (receive_bridge P E2 pt2 header2 body2 s2) = s2"
proof -
  have in_s1: "(bridge_name, deposit_key a) \<in> inbound_key ` set (inbound_payments s1)"
    using run
  proof (cases rule: receive_bridge_cases)
    case same
    with applied show ?thesis by (simp add: ignored_def)
  next
    case (deposit key t a' raw)
    with event have "a' = a" by simp
    from deposit(5) show ?thesis
    proof (cases rule: credit_deposit_cases)
      case (applied va cents p x)
      note p = applied(7,8) [unfolded \<open>a' = a\<close>]
      from applied(10) show ?thesis
      proof (cases rule: apply_inbound_cases)
        case credited
        from inbound_tx_Some(1) [OF ok credited(2)] p show ?thesis by auto
      next
        case duplicate
        with p show ?thesis by simp
      next
        case failed
        with applied(11) show ?thesis by simp
      qed
    qed simp
  qed
  with later have seen: "(bridge_name, deposit_key a2) \<in> inbound_key ` set (inbound_payments s2)"
    using event by (force simp: append_only_def prefix_def)
  obtain r s' where q: "receive_bridge P E2 pt2 header2 body2 s2 = (r, s')" by fastforce
  then have "s' = s2"
  proof (cases rule: receive_bridge_cases)
    case (deposit key t a' raw)
    with event have "a' = a2" by simp
    from deposit(5) show ?thesis
    proof (cases rule: credit_deposit_cases)
      case (applied va cents p x)
      with seen \<open>a' = a2\<close> show ?thesis by (intro conjunct2 [OF seen_payment_is_ignored [OF applied(10)]]) simp
    qed simp
  qed
  with q show ?thesis by simp
qed

section \<open>Yellow Card\<close>

text \<open>
  The tag of a delivery, made with the shared secret over its body; what the partner says of the
  receive the delivery names.
\<close>

definition tagged_delivery :: "crypto \<Rightarrow> yellowcard \<Rightarrow> string \<Rightarrow> string \<Rightarrow> bool" where
  "tagged_delivery P yc header body \<longleftrightarrow>
     b64_decode P (trim header) = Some (hmac_sha256 (sha256 P) (as_bytes (yc_api_secret yc)) (as_bytes body))"

definition receive_event :: "crypto \<Rightarrow> string \<Rightarrow> yellowcard_event option" where
  "receive_event P body =
     (case Option.bind (read_json P body) decode_yellowcard_event of None \<Rightarrow> None
      | Some ev \<Rightarrow> if (case ye_event ev of None \<Rightarrow> False | Some e \<Rightarrow> is_receive_event e) then Some ev else None)"

definition naira_amount :: "receive \<Rightarrow> int option" where
  "naira_amount rcv = (if re_status rcv = ''complete'' \<and> re_currency rcv \<in> {None, Some ''NGN''}
     then Option.bind (re_converted_amount rcv) major_to_minor else None)"

lemma credit_receive_cases:
  assumes run: "credit_receive E rcv raw s = (r, s')" and complete: "re_status rcv = ''complete''"
  obtains (failed) err where "r = Inl err" "s' = s"
  | (applied) c amount p x where "c \<in> set (collections s)" "co_provider c = yellowcard_name"
      "co_provider_ref c = Some (re_id rcv)" "naira_amount rcv = Some amount" "in_customer p = co_customer c"
      "in_amount p = amount" "in_currency p = Ngn" "in_provider p = yellowcard_name"
      "in_payment_id p = re_id rcv" "in_collection p = Some (co_id c)" "in_settles_closed p"
      "apply_inbound E p s = (x, s')" "r = map_sum id (\<lambda>b. \<lparr>wa_applied = True, wa_duplicate = \<not> b\<rparr>) x"
proof (cases "find (\<lambda>c. co_provider c = yellowcard_name \<and> co_provider_ref c = Some (re_id rcv)) (collections s)")
  case None
  with run show thesis by (intro failed) (auto simp: credit_receive_def bind_io_def transaction_def gets_def fail_io_def)
next
  case (Some c)
  from find_Some_set [OF this]
  have c: "c \<in> set (collections s)" "co_provider c = yellowcard_name" "co_provider_ref c = Some (re_id rcv)" by auto
  show thesis
  proof (cases "naira_amount rcv")
    case None
    with run Some complete have "\<exists>e. r = Inl e \<and> s' = s"
      by (auto simp: credit_receive_def bind_io_def transaction_def gets_def fail_io_def naira_amount_def
          split: if_splits option.splits)
    then show thesis by (auto intro: failed)
  next
    case amount: (Some amount)
    let ?p = "\<lparr>in_customer = co_customer c, in_collection = Some (co_id c),
           in_settles_closed = True, in_provider = yellowcard_name, in_payment_id = re_id rcv,
           in_amount = amount, in_currency = Ngn,
           in_payer_name = Option.bind (re_source_account_name rcv) id, in_description = None,
           in_received_at = received_at E (re_updated_at rcv), in_raw = raw\<rparr>"
    obtain x u where x: "apply_inbound E ?p s = (x, u)" by fastforce
    from run Some amount complete have "(r, s') = ack_of (apply_inbound E ?p) s"
      by (auto simp: credit_receive_def bind_io_def transaction_def gets_def naira_amount_def
          split: if_splits option.splits)
    with x have "s' = u" "r = map_sum id (\<lambda>b. \<lparr>wa_applied = True, wa_duplicate = \<not> b\<rparr>) x"
      by (auto simp: ack_of_def bind_io_def return_io_def split: sum.splits)
    with x amount c show thesis by (intro applied [of c amount ?p x]) simp_all
  qed
qed

lemma receive_yellowcard_cases:
  assumes run: "receive_yellowcard P E web pt header body s = (r, s')"
  obtains (same) "s' = s" "\<And>w. r = Inr w \<Longrightarrow> w = ignored"
  | (receive) yc ev rcv raw where "pt_yellowcard pt = Some yc"
      "tagged_delivery P yc (or_empty (header_to_str header)) body" "receive_event P body = Some ev"
      "get_receive P E web yc (ye_id ev) = Inr (rcv, raw)" "re_status rcv = ''complete''"
      "credit_receive E rcv raw s = (r, s')"
proof (cases "pt_yellowcard pt")
  case None
  with run show thesis by (intro same) (auto simp: receive_yellowcard_def fail_io_def)
next
  case (Some yc)
  show thesis
  proof (cases "verify_webhook P (yc_api_secret yc) (or_empty (header_to_str header)) body")
    case False
    with run Some show thesis by (intro same) (auto simp: receive_yellowcard_def fail_io_def)
  next
    case v: True
    show thesis
    proof (cases "receive_event P body")
      case None
      with run Some v have "s' = s \<and> (\<forall>w. r = Inr w \<longrightarrow> w = ignored)"
        by (auto simp: receive_yellowcard_def receive_event_def fail_io_def return_io_def
            split: option.splits if_splits)
      then show thesis by (auto intro: same)
    next
      case ev: (Some ev)
      show thesis
      proof (cases "\<exists>rcv raw. get_receive P E web yc (ye_id ev) = Inr (rcv, raw) \<and> re_status rcv = ''complete''")
        case False
        with run Some v ev have "s' = s \<and> (\<forall>w. r = Inr w \<longrightarrow> w = ignored)"
          by (auto simp: receive_yellowcard_def receive_event_def fail_io_def return_io_def
              split: option.splits if_splits sum.splits bind_splits)
        then show thesis by (auto intro: same)
      next
        case True
        then obtain rcv raw where "get_receive P E web yc (ye_id ev) = Inr (rcv, raw)" "re_status rcv = ''complete''"
          by blast
        moreover from this run Some v ev have "credit_receive E rcv raw s = (r, s')"
          by (auto simp: receive_yellowcard_def receive_event_def split: option.splits if_splits bind_splits)
        ultimately show thesis
          using Some v ev by (intro receive) (simp_all add: tagged_delivery_def verify_webhook_iff)
      qed
    qed
  qed
qed

text \<open>
  C22: a Yellow Card delivery changes the database only if its tag is the one the shared secret gives
  its body, and the partner itself, asked again, reports the receive complete and in naira; then
  exactly the naira balance of the customer whose request opened that receive grows, by exactly the
  amount the partner reports, the request ends paid, and every invariant is kept.
\<close>

theorem receive_is_authentic:
  assumes ok: "engine_ok s" "collections_ok s"
    and run: "receive_yellowcard P E web pt header body s = (r, s')" and moved: "s' \<noteq> s"
  shows "(\<exists>yc ev rcv raw c amount. pt_yellowcard pt = Some yc \<and>
      tagged_delivery P yc (or_empty (header_to_str header)) body \<and> receive_event P body = Some ev \<and>
      get_receive P E web yc (ye_id ev) = Inr (rcv, raw) \<and> naira_amount rcv = Some amount \<and> 0 < amount \<and>
      c \<in> set (collections s) \<and> co_provider_ref c = Some (re_id rcv) \<and>
      (\<forall>d \<in> set (collections s'). co_id d = co_id c \<longrightarrow> co_status d = ''PAID'') \<and>
      (\<forall>k y. balance k y s' = balance k y s + (if k = co_customer c \<and> y = ''NGN'' then amount else 0))) \<and>
    engine_ok s' \<and> collections_ok s'"
  using run
proof (cases rule: receive_yellowcard_cases)
  case same
  with moved show ?thesis by simp
next
  case (receive yc ev rcv raw)
  have lok: "ledger_ok s" using ok(1) by (simp add: engine_ok_def)
  from receive(6,5) show ?thesis
  proof (cases rule: credit_receive_cases)
    case failed
    with moved show ?thesis by simp
  next
    case (applied c amount p x)
    from applied(12) moved have tx: "inbound_tx E p s = Inr (Some (), s')" by (cases rule: apply_inbound_cases) auto
    note t = inbound_tx_Some [OF lok tx]
    have "\<forall>d \<in> set (collections s'). co_id d = co_id c \<longrightarrow> co_status d = ''PAID''"
      by (rule settled_or_paid [OF ok(2) lok tx applied(1)]) (simp_all add: applied)
    with receive applied t show ?thesis
      using foreign_engine_ok [OF t(5) ok(1)] inbound_tx_collections_ok [OF ok(2) lok tx]
      by (intro conjI exI [of _ yc] exI [of _ ev] exI [of _ rcv] exI [of _ raw] exI [of _ c] exI [of _ amount]) simp_all
  qed
qed

end
