(* ===== verification/Listener.thy ===== *)
theory Listener
  imports Clients "HOL-Library.AList"
begin

text \<open>
  \<open>src/settlement/listener.rs\<close>: confirmed events of the settlement vault drive the transfers. The
  node (\<open>node\<close>: head, blocks, logs) and what \<open>alloy\<close> prints and decodes are parameters; a log comes
  decoded, or with \<open>None\<close> when it does not decode.
\<close>

section \<open>The chain\<close>

datatype listener_error = ReorgBeyondConfirmations nat | Rpc | MissingBlock nat | Db | Api failure

type_synonym 'a listened = "listener_error + 'a"

record listener_config =
  lc_vault :: bytes
  lc_confirmations :: nat
  lc_start_block :: nat
  lc_poll_ms :: int
  lc_max_range :: nat

text \<open>The vault's events with the arguments the code reads; amounts and rates are \<open>uint256\<close>.\<close>

datatype vault_event =
    QuoteLocked bytes bytes bytes nat nat nat nat nat
    \<comment> \<open>ref, quote id, receive currency, rate, usdc amount, fee, receive amount, expires at\<close>
  | QuoteCancelled bytes bytes
  | SettlementInitiated bytes bytes nat
  | SettlementReturned bytes bytes nat
  | SettlementRefunded bytes bytes nat
  | RateDivergence bytes bytes nat nat nat
  | ReferenceRateStale bytes bytes nat
  | OtherEvent

record chain_log =
  lg_event :: "vault_event option"
  lg_tx_hash :: "bytes option"
  lg_log_index :: "nat option"
  lg_block_number :: "nat option"
  lg_block_hash :: "bytes option"

record block =
  bk_hash :: bytes
  bk_timestamp :: nat

text \<open>
  What the node answers during one pass: \<open>None\<close> is a transport error; a block may be missing.
  \<open>hex\<close> and \<open>address_str\<close> are the printers of hashes and addresses.
\<close>

record node =
  nd_head :: "nat option"
  nd_block :: "nat \<Rightarrow> block option option"
  nd_logs :: "nat \<Rightarrow> nat \<Rightarrow> chain_log list option"
  hex :: "bytes \<Rightarrow> string"
  address_str :: "bytes \<Rightarrow> string"

section \<open>Reading an event\<close>

text \<open>
  \<open>String::from_utf8_lossy\<close>: every maximal piece that is not UTF-8 becomes \<open>U+FFFD\<close>. \<open>utf8_lead b\<close> is
  the number of bytes that follow a lead byte and the range of the first of them.
\<close>

definition replacement :: bytes where
  "replacement = [239, 191, 189]"

definition utf8_lead :: "8 word \<Rightarrow> (nat \<times> 8 word \<times> 8 word) option" where
  "utf8_lead b =
     (if 194 \<le> b \<and> b \<le> 223 then Some (1, 128, 191)
      else if b = 224 then Some (2, 160, 191)
      else if b = 237 then Some (2, 128, 159)
      else if 225 \<le> b \<and> b \<le> 239 then Some (2, 128, 191)
      else if b = 240 then Some (3, 144, 191)
      else if 241 \<le> b \<and> b \<le> 243 then Some (3, 128, 191)
      else if b = 244 then Some (3, 128, 143)
      else None)"

definition is_cont :: "8 word \<Rightarrow> bool" where
  "is_cont b \<longleftrightarrow> 128 \<le> b \<and> b \<le> 191"

fun utf8_lossy :: "bytes \<Rightarrow> bytes" where
  "utf8_lossy [] = []"
| "utf8_lossy (b # bs) =
     (if b < 128 then b # utf8_lossy bs
      else case utf8_lead b of None \<Rightarrow> replacement @ utf8_lossy bs
      | Some (n, lo, hi) \<Rightarrow>
          (case bs of [] \<Rightarrow> replacement
           | c # cs \<Rightarrow>
               if \<not> (lo \<le> c \<and> c \<le> hi) then replacement @ utf8_lossy bs
               else let k = length (takeWhile is_cont (take (n - 1) cs)) in
                 (if k = n - 1 then b # c # take k cs else replacement) @ utf8_lossy (drop k cs)))"

definition currency_text :: "bytes \<Rightarrow> string" where
  "currency_text code3 = map (\<lambda>b. char_of (unat b)) (utf8_lossy code3)"

text \<open>\<open>describe\<close>: the name, the ref and the fields kept for audit.\<close>

definition describe :: "node \<Rightarrow> vault_event \<Rightarrow> string \<times> bytes \<times> (string \<times> json) list" where
  "describe N ev =
     (let big = (\<lambda>n. JStr (nat_to_string n)); h = (\<lambda>b. JStr (hex N b)); a = (\<lambda>b. JStr (address_str N b)) in
      case ev of
        QuoteLocked rf q ccy r paid fee amount expires \<Rightarrow> (''QuoteLocked'', rf,
          [(''quoteId'', h q), (''receiveCurrency'', JStr (currency_text ccy)), (''rate'', big r),
           (''usdcAmount'', big paid), (''feeUsdc'', big fee), (''receiveAmountMinor'', big amount),
           (''expiresAt'', JInt (int expires))])
      | QuoteCancelled rf q \<Rightarrow> (''QuoteCancelled'', rf, [(''quoteId'', h q)])
      | SettlementInitiated rf p n \<Rightarrow> (''SettlementInitiated'', rf, [(''partner'', a p), (''amount'', big n)])
      | SettlementReturned rf p n \<Rightarrow> (''SettlementReturned'', rf, [(''partner'', a p), (''amount'', big n)])
      | SettlementRefunded rf t n \<Rightarrow> (''SettlementRefunded'', rf, [(''to'', a t), (''amount'', big n)])
      | RateDivergence rf ccy q r d \<Rightarrow> (''RateDivergence'', rf,
          [(''currency'', JStr (currency_text ccy)), (''quotedRate'', big q), (''referenceRate'', big r),
           (''deviationBps'', big d)])
      | ReferenceRateStale rf ccy t \<Rightarrow> (''ReferenceRateStale'', rf,
          [(''currency'', JStr (currency_text ccy)), (''referenceUpdatedAt'', JInt (int t))])
      | OtherEvent \<Rightarrow> (''Other'', replicate 32 0, []))"

definition audit_action :: "string \<Rightarrow> string" where
  "audit_action event =
     (if event = ''QuoteLocked'' then ''transfer.quote_locked''
      else if event = ''RateDivergence'' \<or> event = ''ReferenceRateStale'' then ''transfer.settlement_alert''
      else ''transfer.settlement_event'')"

definition block_at :: "node \<Rightarrow> nat \<Rightarrow> block listened" where
  "block_at N n =
     (case nd_block N n of None \<Rightarrow> Inl Rpc
      | Some None \<Rightarrow> Inl (MissingBlock n)
      | Some (Some b) \<Rightarrow> Inr b)"

definition block_hash :: "node \<Rightarrow> nat \<Rightarrow> bytes listened" where
  "block_hash N n = map_sum id bk_hash (block_at N n)"

text \<open>
  The latest lock's expiry, cast to \<open>bigint\<close> as the query does: a value out of range, or a payload
  without the field, is a database error.
\<close>

definition locked_expiry :: "uuid \<Rightarrow> db \<Rightarrow> int option listened" where
  "locked_expiry t s =
     (let rows = filter (\<lambda>e. ev_transfer e = t \<and> ev_event e = ''QuoteLocked'') (settlement_events s) in
      if rows = [] then Inr None
      else case json_get (ev_payload (hd (rev (sort_key ev_block_number rows)))) ''expiresAt'' of
          Some (JInt n) \<Rightarrow> if in_i64 n then Inr (Some n) else Inl Db
        | _ \<Rightarrow> Inl Db)"

definition quote_expired_at :: "node \<Rightarrow> uuid \<Rightarrow> nat \<Rightarrow> db \<Rightarrow> bool listened" where
  "quote_expired_at N t n s =
     (case locked_expiry t s of
        Inl e \<Rightarrow> Inl e
      | Inr None \<Rightarrow> Inr False
      | Inr (Some expires_at) \<Rightarrow>
          (case block_at N n of Inl e \<Rightarrow> Inl e
           | Inr b \<Rightarrow> Inr (expires_at \<le> wrap64 (int (bk_timestamp b)))))"

definition event_target :: "node \<Rightarrow> vault_event \<Rightarrow> uuid \<Rightarrow> nat \<Rightarrow> db \<Rightarrow> onchain_target option listened" where
  "event_target N ev t n s =
     (case ev of
        SettlementInitiated _ _ _ \<Rightarrow> Inr (Some ToSettled)
      | SettlementReturned _ _ _ \<Rightarrow> Inr (Some ToReversing)
      | SettlementRefunded _ _ _ \<Rightarrow> Inr (Some ToReversed)
      | QuoteCancelled _ _ \<Rightarrow> map_sum id (\<lambda>b. Some (ToCancelled b)) (quote_expired_at N t n s)
      | _ \<Rightarrow> Inr None)"

definition outcome_text :: "onchain_outcome option \<Rightarrow> string" where
  "outcome_text x =
     (case x of None \<Rightarrow> ''recorded''
      | Some (Applied st) \<Rightarrow> ''applied:'' @ status_str st
      | Some (AlreadyApplied st) \<Rightarrow> ''already:'' @ status_str st
      | Some (Ignored st) \<Rightarrow> ''ignored:'' @ status_str st)"

section \<open>One event\<close>

definition new_event ::
  "listener_config \<Rightarrow> bytes \<Rightarrow> nat \<Rightarrow> nat \<Rightarrow> bytes \<Rightarrow> string \<Rightarrow> bytes \<Rightarrow> uuid \<Rightarrow> json \<Rightarrow> event_row" where
  "new_event cfg tx_hash log_index block_number bh name rf t row =
     \<lparr>ev_vault = lc_vault cfg, ev_tx_hash = tx_hash, ev_log_index = log_index,
      ev_block_number = block_number, ev_block_hash = bh, ev_event = name, ev_settlement_ref = rf,
      ev_transfer = t, ev_payload = row\<rparr>"

definition event_seen :: "bytes \<Rightarrow> nat \<Rightarrow> db \<Rightarrow> bool" where
  "event_seen tx_hash log_index s =
     list_ex (\<lambda>e. ev_tx_hash e = tx_hash \<and> ev_log_index e = log_index) (settlement_events s)"

definition event_audit :: "env \<Rightarrow> string \<Rightarrow> uuid \<Rightarrow> json \<Rightarrow> audit_entry" where
  "event_audit E name t row =
     \<lparr>ae_actor = None, ae_role = None, ae_action = audit_action name, ae_entity_type = ''transfer'',
      ae_entity = uuid_str E t, ae_before = None, ae_after = Some row\<rparr>"

definition audit_unmoved :: "env \<Rightarrow> string \<Rightarrow> uuid \<Rightarrow> onchain_outcome option \<Rightarrow> json \<Rightarrow> unit tx" where
  "audit_unmoved E name t outcome row =
     (if outcome = None then write_audit E (event_audit E name t row) else return_tx ())"

text \<open>
  The transaction for an event of a known transfer, after its target is known: the effect on the
  transfer, the event's row (nothing is written when a concurrent listener was first) and, when there
  is no effect, an audit entry.
\<close>

definition record_event ::
  "env \<Rightarrow> node \<Rightarrow> listener_config \<Rightarrow> vault_event \<Rightarrow> bytes \<Rightarrow> nat \<Rightarrow> nat \<Rightarrow> bytes \<Rightarrow> uuid \<Rightarrow>
   onchain_target option \<Rightarrow> unit option tx" where
  "record_event E N cfg ev tx_hash log_index block_number bh t target =
     (let (name, rf, payload) = describe N ev;
          chain = JObj [(''event'', JStr name), (''txHash'', JStr (hex N tx_hash)),
            (''blockNumber'', JInt (int block_number))]
      in bind_tx (case target of None \<Rightarrow> return_tx None
           | Some tg \<Rightarrow> bind_tx (apply_onchain E t tg chain) (\<lambda>x. return_tx (Some x))) (\<lambda>outcome.
         let row = json_insert ''outcome'' (JStr (outcome_text outcome)) (JObj payload) in
         bind_tx (gets (event_seen tx_hash log_index)) (\<lambda>conflict.
         if conflict then return_tx None
         else
           bind_tx (modify (\<lambda>s. s\<lparr>settlement_events := settlement_events s @
             [new_event cfg tx_hash log_index block_number bh name rf t row]\<rparr>)) (\<lambda>_.
           bind_tx (audit_unmoved E name t outcome row) (\<lambda>_.
             return_tx (Some ()))))))"

definition find_ref :: "bytes \<Rightarrow> db \<Rightarrow> uuid option" where
  "find_ref rf s = map_option tr_id (find (\<lambda>r. tr_settlement_ref r = Some rf) (transfers s))"

text \<open>\<open>handle\<close>: an event already recorded, or of a transfer that is not ours, changes nothing.\<close>

definition handle_log ::
  "env \<Rightarrow> node \<Rightarrow> listener_config \<Rightarrow> chain_log \<Rightarrow> db \<Rightarrow> unit listened \<times> db" where
  "handle_log E N cfg l s =
     (case lg_event l of None \<Rightarrow> (Inr (), s) | Some ev \<Rightarrow>
      case (lg_tx_hash l, lg_log_index l, lg_block_number l, lg_block_hash l) of
        (Some tx_hash, Some log_index, Some block_number, Some bh) \<Rightarrow>
          if event_seen tx_hash log_index s then (Inr (), s)
          else (case find_ref (fst (snd (describe N ev))) s of
            None \<Rightarrow> (Inr (), s)
          | Some t \<Rightarrow>
            (case event_target N ev t block_number s of
               Inl e \<Rightarrow> (Inl e, s)
             | Inr target \<Rightarrow>
                 (case commit_or_rollback
                     (record_event E N cfg ev tx_hash log_index block_number bh t target) s of
                    (Inl e, s') \<Rightarrow> (Inl (Api e), s')
                  | (Inr _, s') \<Rightarrow> (Inr (), s'))))
      | _ \<Rightarrow> (Inl Rpc, s))"

fun handle_logs ::
  "env \<Rightarrow> node \<Rightarrow> listener_config \<Rightarrow> chain_log list \<Rightarrow> db \<Rightarrow> unit listened \<times> db" where
  "handle_logs E N cfg [] s = (Inr (), s)"
| "handle_logs E N cfg (l # ls) s =
     (case handle_log E N cfg l s of (Inl e, s') \<Rightarrow> (Inl e, s') | (Inr _, s') \<Rightarrow> handle_logs E N cfg ls s')"

section \<open>One pass\<close>

definition cursor :: "bytes \<Rightarrow> db \<Rightarrow> (nat \<times> bytes) option" where
  "cursor vault s = map_of (settlement_cursor s) vault"

definition save_cursor :: "bytes \<Rightarrow> nat \<Rightarrow> bytes \<Rightarrow> db \<Rightarrow> db" where
  "save_cursor vault n h s = s\<lparr>settlement_cursor := AList.update vault (n, h) (settlement_cursor s)\<rparr>"

text \<open>\<open>u64\<close> sums of a release build; \<open>None\<close> sorts before any position, as in Rust's \<open>Option\<close>.\<close>

definition add_u64 :: "nat \<Rightarrow> nat \<Rightarrow> nat" where
  "add_u64 a b = (a + b) mod 2 ^ 64"

definition position_key :: "chain_log \<Rightarrow> nat \<times> nat" where
  "position_key l = (let k = (\<lambda>x. case x of None \<Rightarrow> 0 | Some n \<Rightarrow> Suc n) in (k (lg_block_number l), k (lg_log_index l)))"

definition sorted_logs :: "chain_log list \<Rightarrow> chain_log list" where
  "sorted_logs ls = sort_key (\<lambda>l. fst (position_key l)) (sort_key (\<lambda>l. snd (position_key l)) ls)"

text \<open>
  The loop over block ranges, with fuel: \<open>None\<close> would be a pass that does not end. Each range ends at
  most \<open>max_range\<close> blocks on; its logs are applied in order before the cursor moves past it.
\<close>

definition range_end :: "listener_config \<Rightarrow> nat \<Rightarrow> nat \<Rightarrow> nat" where
  "range_end cfg confirmed start =
     min confirmed (add_u64 start (max (lc_max_range cfg) 1 - 1))"

definition one_range ::
  "env \<Rightarrow> node \<Rightarrow> listener_config \<Rightarrow> nat \<Rightarrow> nat \<Rightarrow> db \<Rightarrow> unit listened \<times> db" where
  "one_range E N cfg start stop s =
     (case nd_logs N start stop of None \<Rightarrow> (Inl Rpc, s)
      | Some ls \<Rightarrow>
        (case handle_logs E N cfg (sorted_logs ls) s of
           (Inl e, s') \<Rightarrow> (Inl e, s')
         | (Inr _, s') \<Rightarrow>
             (case block_hash N stop of Inl e \<Rightarrow> (Inl e, s')
              | Inr h \<Rightarrow> (Inr (), save_cursor (lc_vault cfg) stop h s'))))"

fun ranges ::
  "nat \<Rightarrow> env \<Rightarrow> node \<Rightarrow> listener_config \<Rightarrow> nat \<Rightarrow> nat \<Rightarrow> db \<Rightarrow> (unit listened \<times> db) option" where
  "ranges 0 E N cfg confirmed start s = None"
| "ranges (Suc fuel) E N cfg confirmed start s =
     (if confirmed < start then Some (Inr (), s)
      else let stop = range_end cfg confirmed start in
        case one_range E N cfg start stop s of
          (Inl e, s') \<Rightarrow> Some (Inl e, s')
        | (Inr _, s') \<Rightarrow> ranges fuel E N cfg confirmed (add_u64 stop 1) s')"

definition resume_from :: "node \<Rightarrow> listener_config \<Rightarrow> db \<Rightarrow> nat listened" where
  "resume_from N cfg s =
     (case cursor (lc_vault cfg) s of
        None \<Rightarrow> Inr (lc_start_block cfg)
      | Some (last_block, hash) \<Rightarrow>
          (case block_hash N last_block of Inl e \<Rightarrow> Inl e
           | Inr h \<Rightarrow> if h \<noteq> hash then Inl (ReorgBeyondConfirmations last_block)
               else Inr (add_u64 last_block 1)))"

definition run_once ::
  "nat \<Rightarrow> env \<Rightarrow> node \<Rightarrow> listener_config \<Rightarrow> db \<Rightarrow> (nat option listened \<times> db) option" where
  "run_once fuel E N cfg s =
     (case nd_head N of None \<Rightarrow> Some (Inl Rpc, s) | Some head \<Rightarrow>
      if head < lc_confirmations cfg then Some (Inr None, s)
      else let confirmed = head - lc_confirmations cfg in
        case resume_from N cfg s of
          Inl e \<Rightarrow> Some (Inl e, s)
        | Inr start \<Rightarrow>
            if confirmed < start then Some (Inr None, s)
            else map_option (\<lambda>(r, s'). (map_sum id (\<lambda>_. Some confirmed) r, s'))
              (ranges fuel E N cfg confirmed start s))"

text \<open>
  \<open>run\<close>, over what the node answers in each poll: it stops for good at a deep reorg and otherwise
  polls again; \<open>True\<close> tells that it stopped.
\<close>

fun run_listener ::
  "nat \<Rightarrow> (env \<times> node) list \<Rightarrow> listener_config \<Rightarrow> db \<Rightarrow> (bool \<times> db) option" where
  "run_listener fuel [] cfg s = Some (False, s)"
| "run_listener fuel ((E, N) # polls) cfg s =
     (case run_once fuel E N cfg s of None \<Rightarrow> None
      | Some (Inl (ReorgBeyondConfirmations b), s') \<Rightarrow> Some (True, s')
      | Some (_, s') \<Rightarrow> run_listener fuel polls cfg s')"

end
