(* ===== verification/Listener_Properties.thy ===== *)
theory Listener_Properties
  imports Listener Engine_Properties
begin

text \<open>
  What the listener promises: every confirmed event of a known transfer is applied once, none is
  missed, a pass ends, an interrupted pass resumes where it stopped, a deep reorganisation stops it.
\<close>

section \<open>One event\<close>

definition event_ref :: "vault_event \<Rightarrow> bytes" where
  "event_ref ev = (case ev of
       QuoteLocked rf _ _ _ _ _ _ _ \<Rightarrow> rf | QuoteCancelled rf _ \<Rightarrow> rf | SettlementInitiated rf _ _ \<Rightarrow> rf
     | SettlementReturned rf _ _ \<Rightarrow> rf | SettlementRefunded rf _ _ \<Rightarrow> rf | RateDivergence rf _ _ _ _ \<Rightarrow> rf
     | ReferenceRateStale rf _ _ \<Rightarrow> rf | OtherEvent \<Rightarrow> replicate 32 0)"

lemma describe_ref [simp]: "fst (snd (describe N ev)) = event_ref ev"
  by (simp add: describe_def event_ref_def Let_def split: vault_event.split)

definition event_key :: "event_row \<Rightarrow> bytes \<times> nat" where
  "event_key e = (ev_tx_hash e, ev_log_index e)"

lemma event_seen_iff: "event_seen h i s \<longleftrightarrow> (h, i) \<in> event_key ` set (settlement_events s)"
proof -
  have "list_ex (\<lambda>e. ev_tx_hash e = h \<and> ev_log_index e = i) es \<longleftrightarrow> (h, i) \<in> event_key ` set es" for es
    by (induction es) (auto simp: event_key_def)
  then show ?thesis by (simp add: event_seen_def)
qed

text \<open>What recording an event leaves of the rest: everything, but for what the engine does.\<close>

definition listened_frame :: "db \<Rightarrow> db \<Rightarrow> bool" where
  "listened_frame s s' \<longleftrightarrow> append_only s s' \<and> map deal (transfers s') = map deal (transfers s) \<and>
     prefix (transfer_history s) (transfer_history s') \<and>
     collections s' = collections s \<and> inbound_payments s' = inbound_payments s \<and>
     virtual_accounts s' = virtual_accounts s \<and>
     next_id s \<le> next_id s' \<and> (engine_ok s \<longrightarrow> engine_ok s')"

interpretation listened: tx_frame listened_frame
  by unfold_locales (auto simp: listened_frame_def intro: append.refl append.trans prefix_order.trans)

lemma apply_onchain_listened: "upholds listened_frame (apply_onchain E t tg chain)"
proof (rule upholdsI)
  fix s x s' assume run: "apply_onchain E t tg chain s = Inr (x, s')"
  have "engine_frame s s'" by (rule upholdsD [OF apply_onchain_frame run])
  moreover have "engine_ok s \<Longrightarrow> engine_ok s'" by (rule apply_onchain_ok [OF _ run])
  ultimately show "listened_frame s s'"
    by (simp add: listened_frame_def engine_frame_append_only) (simp add: engine_frame_def other_tables_def)
qed

lemma audit_listened: "upholds listened_frame (write_audit E e)"
proof (rule upholdsI)
  fix s u s' assume run: "write_audit E e s = Inr (u, s')"
  have "engine_ok s \<Longrightarrow> engine_ok s'" by (rule foreign_engine_ok [OF upholdsD [OF audit_foreign run]])
  then show "listened_frame s s'"
    using upholdsD [OF write_audit_append run] by (simp add: listened_frame_def write_audit_frame [OF run])
qed

lemma note_event_listened: "listened_frame s (s\<lparr>settlement_events := settlement_events s @ es\<rparr>)"
proof -
  have "foreign s (s\<lparr>settlement_events := settlement_events s @ es\<rparr>)" by (rule foreign_cong) simp_all
  then show ?thesis
    using foreign_engine_ok by (auto simp: listened_frame_def append_only_def)
qed

lemma engine_events: "apply_onchain E t tg chain s = Inr (x, s') \<Longrightarrow> settlement_events s' = settlement_events s"
  using upholdsD [OF apply_onchain_frame] by (auto simp: engine_frame_def other_tables_def)

lemma record_event_Some:
  assumes run: "record_event E N cfg ev h i n bh t target s = Inr (Some (), s')"
  shows "listened_frame s s'"
    and "\<exists>row. settlement_events s' = settlement_events s @
      [new_event cfg h i n bh (fst (describe N ev)) (event_ref ev) t row]"
    and "\<not> event_seen h i s"
proof -
  obtain name rf payload where d: "describe N ev = (name, rf, payload)" by (metis prod_cases3)
  have rf: "rf = event_ref ev" using describe_ref [of N ev] by (simp add: d)
  let ?chain = "JObj [(''event'', JStr name), (''txHash'', JStr (hex N h)), (''blockNumber'', JInt (int n))]"
  let ?eff = "case target of None \<Rightarrow> return_tx None
           | Some tg \<Rightarrow> bind_tx (apply_onchain E t tg ?chain) (\<lambda>x. return_tx (Some x))"
  from run obtain outcome s1 where eff: "?eff s = Inr (outcome, s1)" and new: "\<not> event_seen h i s1"
    and fin: "audit_unmoved E name t outcome (json_insert ''outcome'' (JStr (outcome_text outcome)) (JObj payload))
        (s1\<lparr>settlement_events := settlement_events s1 @ [new_event cfg h i n bh name rf t
          (json_insert ''outcome'' (JStr (outcome_text outcome)) (JObj payload))]\<rparr>) = Inr ((), s')"
    unfolding record_event_def d Let_def split bind_tx_Inr primitive_tx
    by (auto simp: bind_tx_Inr primitive_tx split: if_splits)
  have f1: "listened_frame s s1"
    using eff by (cases target) (auto simp: primitive_tx bind_tx_Inr listened.refl dest: upholdsD [OF apply_onchain_listened])
  have e1: "settlement_events s1 = settlement_events s"
    using eff by (cases target) (auto simp: primitive_tx bind_tx_Inr engine_events)
  let ?row = "json_insert ''outcome'' (JStr (outcome_text outcome)) (JObj payload)"
  let ?s2 = "s1\<lparr>settlement_events := settlement_events s1 @ [new_event cfg h i n bh name rf t ?row]\<rparr>"
  have "listened_frame ?s2 s' \<and> settlement_events s' = settlement_events ?s2"
    using fin by (cases "outcome = None") (auto simp: audit_unmoved_def primitive_tx listened.refl
        dest: upholdsD [OF audit_listened] write_audit_frame(10))
  then have last: "listened_frame ?s2 s'" "settlement_events s' = settlement_events ?s2" by auto
  show "listened_frame s s'" by (rule listened.trans [OF f1 listened.trans [OF note_event_listened last(1)]])
  show "\<exists>row. settlement_events s' = settlement_events s @
      [new_event cfg h i n bh (fst (describe N ev)) (event_ref ev) t row]"
    using last(2) by (auto simp: e1 d rf)
  show "\<not> event_seen h i s" using new by (simp add: event_seen_def e1)
qed

lemma record_event_None:
  assumes "record_event E N cfg ev h i n bh t target s = Inr (None, s')" shows "event_seen h i s"
  using assms unfolding record_event_def Let_def split_beta bind_tx_Inr primitive_tx
  by (cases target) (auto simp: bind_tx_Inr primitive_tx event_seen_def engine_events split: if_splits)

definition position :: "chain_log \<Rightarrow> (bytes \<times> nat \<times> nat \<times> bytes) option" where
  "position l =
     (case (lg_tx_hash l, lg_log_index l, lg_block_number l, lg_block_hash l) of
        (Some h, Some i, Some n, Some bh) \<Rightarrow> Some (h, i, n, bh) | _ \<Rightarrow> None)"

text \<open>An event the listener is done with: not the vault's, recorded, or of no transfer of ours.\<close>

definition handled :: "chain_log \<Rightarrow> db \<Rightarrow> bool" where
  "handled l s \<longleftrightarrow> (case lg_event l of None \<Rightarrow> True | Some ev \<Rightarrow>
     (case position l of None \<Rightarrow> False | Some (h, i, _) \<Rightarrow> event_seen h i s \<or> find_ref (event_ref ev) s = None))"

lemma handle_log_position:
  "handle_log E N cfg l s =
     (case lg_event l of None \<Rightarrow> (Inr (), s) | Some ev \<Rightarrow>
      case position l of None \<Rightarrow> (Inl Rpc, s)
      | Some (h, i, n, bh) \<Rightarrow>
          if event_seen h i s then (Inr (), s)
          else (case find_ref (event_ref ev) s of None \<Rightarrow> (Inr (), s)
          | Some t \<Rightarrow>
            (case event_target N ev t n s of Inl e \<Rightarrow> (Inl e, s)
             | Inr target \<Rightarrow>
                 (case commit_or_rollback (record_event E N cfg ev h i n bh t target) s of
                    (Inl e, s') \<Rightarrow> (Inl (Api e), s')
                  | (Inr _, s') \<Rightarrow> (Inr (), s')))))"
  unfolding handle_log_def position_def describe_ref by (simp split: option.split)

lemma handled_replay: "handled l s \<Longrightarrow> handle_log E N cfg l s = (Inr (), s)"
  unfolding handle_log_position handled_def by (auto split: option.splits)

lemma handle_log_cases:
  assumes run: "handle_log E N cfg l s = (r, s')"
  obtains (same) "r = Inr ()" "s' = s" "handled l s"
  | (failed) err where "r = Inl err" "s' = s" "\<not> handled l s"
  | (recorded) ev h i n bh t target where "r = Inr ()" "lg_event l = Some ev" "position l = Some (h, i, n, bh)"
      "find_ref (event_ref ev) s = Some t" "event_target N ev t n s = Inr target"
      "record_event E N cfg ev h i n bh t target s = Inr (Some (), s')" "\<not> handled l s"
proof (cases "handled l s")
  case True
  with run handled_replay [OF True, of E N cfg] show thesis by (intro same) auto
next
  case False
  then obtain ev where ev: "lg_event l = Some ev" by (auto simp: handled_def split: option.splits)
  show thesis
  proof (cases "position l")
    case None
    with ev False run show thesis by (intro failed) (auto simp: handle_log_position)
  next
    case (Some p)
    obtain h i n bh where p: "p = (h, i, n, bh)" by (metis prod_cases4)
    with Some ev False obtain t where new: "\<not> event_seen h i s" and t: "find_ref (event_ref ev) s = Some t"
      by (auto simp: handled_def)
    show thesis
    proof (cases "event_target N ev t n s")
      case (Inl e)
      with Some p ev new t False run show thesis by (intro failed) (auto simp: handle_log_position)
    next
      case (Inr target)
      obtain x u where x: "commit_or_rollback (record_event E N cfg ev h i n bh t target) s = (x, u)" by fastforce
      then consider (e) e where "x = Inl e" "u = s"
        | (ok) "x = Inr (Some ())" "record_event E N cfg ev h i n bh t target s = Inr (Some (), u)"
        using new record_event_None by (auto simp: commit_or_rollback_cases)
      then show thesis
      proof cases
        case e
        with Some p ev new t Inr x False run show thesis by (intro failed) (auto simp: handle_log_position)
      next
        case ok
        with Some p ev new t Inr x False run show thesis by (intro recorded) (auto simp: handle_log_position)
      qed
    qed
  qed
qed

lemma find_ref_deal: "find_ref rf s = map_option tr_id (find (\<lambda>r. tr_settlement_ref r = Some rf) (map deal (transfers s)))"
proof -
  have "map_option tr_id (find (\<lambda>r. tr_settlement_ref r = Some rf) (map deal rs)) =
      map_option tr_id (find (\<lambda>r. tr_settlement_ref r = Some rf) rs)" for rs
    by (induction rs) (simp_all add: deal_def)
  then show ?thesis by (simp add: find_ref_def)
qed

lemma handled_later: "handled l s \<Longrightarrow> listened_frame s s' \<Longrightarrow> handled l s'"
  by (auto simp: handled_def event_seen_iff listened_frame_def append_only_def find_ref_deal prefix_def
      split: option.splits)

lemma handle_log_frame: "handle_log E N cfg l s = (r, s') \<Longrightarrow> listened_frame s s'"
  by (erule handle_log_cases) (auto simp: listened.refl intro: record_event_Some(1))

lemma handle_log_handled: "handle_log E N cfg l s = (Inr (), s') \<Longrightarrow> handled l s'"
proof (erule handle_log_cases)
  fix ev h i n bh t target
  assume ev: "lg_event l = Some ev" "position l = Some (h, i, n, bh)"
    and r: "record_event E N cfg ev h i n bh t target s = Inr (Some (), s')"
  from record_event_Some(2) [OF r] have "event_seen h i s'" by (auto simp: event_seen_iff event_key_def new_event_def)
  with ev show "handled l s'" by (simp add: handled_def)
qed simp_all

section \<open>A run over logs\<close>

lemma handle_logs_frame: "handle_logs E N cfg ls s = (r, s') \<Longrightarrow> listened_frame s s'"
proof (induction ls arbitrary: s)
  case (Cons l ls)
  obtain x u where x: "handle_log E N cfg l s = (x, u)" by fastforce
  note f = handle_log_frame [OF x]
  show ?case
  proof (cases x)
    case (Inl e)
    with Cons.prems x f show ?thesis by simp
  next
    case (Inr y)
    with Cons.prems x have "handle_logs E N cfg ls u = (r, s')" by simp
    from listened.trans [OF f Cons.IH [OF this]] show ?thesis .
  qed
qed (simp add: listened.refl)

lemma handle_logs_handled: "handle_logs E N cfg ls s = (Inr (), s') \<Longrightarrow> \<forall>l\<in>set ls. handled l s'"
proof (induction ls arbitrary: s)
  case (Cons l ls)
  obtain x u where x: "handle_log E N cfg l s = (x, u)" by fastforce
  with Cons.prems have "x = Inr ()" and rest: "handle_logs E N cfg ls u = (Inr (), s')"
    by (cases x; simp)+
  with x have "handled l u" by (auto intro: handle_log_handled)
  with handled_later handle_logs_frame [OF rest] Cons.IH [OF rest] show ?case by auto
qed simp

lemma handle_logs_replay: "\<forall>l\<in>set ls. handled l s \<Longrightarrow> handle_logs E N cfg (ls @ ls') s = handle_logs E N cfg ls' s"
  by (induction ls) (simp_all add: handled_replay)

lemma handle_logs_append: "handle_logs E N cfg (ls @ ls') s =
    (case handle_logs E N cfg ls s of (Inl e, s') \<Rightarrow> (Inl e, s') | (Inr _, s') \<Rightarrow> handle_logs E N cfg ls' s')"
  by (induction ls arbitrary: s) (auto split: prod.splits sum.splits)

lemma handle_logs_stopped:
  assumes "handle_logs E N cfg ls s = (Inl e, s')"
  shows "\<exists>before l after. ls = before @ l # after \<and> handle_logs E N cfg before s = (Inr (), s') \<and>
    handle_log E N cfg l s' = (Inl e, s')"
  using assms
proof (induction ls arbitrary: s)
  case (Cons l ls)
  obtain x u where x: "handle_log E N cfg l s = (x, u)" by fastforce
  show ?case
  proof (cases x)
    case (Inl e')
    with Cons.prems x have "e' = e" "u = s'" by simp_all
    moreover from x Inl have "u = s" by (auto elim: handle_log_cases)
    ultimately show ?thesis using x Inl by (intro exI [of _ "[]"] exI [of _ l] exI [of _ ls]) simp
  next
    case (Inr y)
    with Cons.prems x have "handle_logs E N cfg ls u = (Inl e, s')" by simp
    from Cons.IH [OF this] obtain before l' after where
      b: "ls = before @ l' # after" "handle_logs E N cfg before u = (Inr (), s')" "handle_log E N cfg l' s' = (Inl e, s')"
      by blast
    with x Inr show ?thesis by (intro exI [of _ "l # before"] exI [of _ l'] exI [of _ after]) simp
  qed
qed simp

text \<open>
  C25: a pass that stops in the middle of its logs is safe to repeat: on the state it left, whatever
  the node and the clock now are, the logs before the one that failed are skipped, and the pass
  goes on exactly where it stopped.
\<close>

theorem interrupted_pass_resumes:
  assumes "handle_logs E N cfg ls s = (Inl e, s')"
  shows "\<exists>before l after. ls = before @ l # after \<and> \<not> handled l s' \<and>
    (\<forall>E2 N2. handle_logs E2 N2 cfg ls s' = handle_logs E2 N2 cfg (l # after) s')"
proof -
  from handle_logs_stopped [OF assms] obtain before l after where
    b: "ls = before @ l # after" "handle_logs E N cfg before s = (Inr (), s')" "handle_log E N cfg l s' = (Inl e, s')"
    by blast
  have "\<not> handled l s'" using b(3) by (auto elim: handle_log_cases)
  with b(1) handle_logs_replay [OF handle_logs_handled [OF b(2)]] show ?thesis by blast
qed

section \<open>Each event once\<close>

definition events_ok :: "db \<Rightarrow> bool" where
  "events_ok s \<longleftrightarrow> distinct (map event_key (settlement_events s))"

lemma record_event_ok:
  assumes "events_ok s" and run: "record_event E N cfg ev h i n bh t target s = Inr (Some (), s')"
  shows "events_ok s'"
proof -
  from record_event_Some(2,3) [OF run] obtain row where
    "settlement_events s' = settlement_events s @ [new_event cfg h i n bh (fst (describe N ev)) (event_ref ev) t row]"
    "(h, i) \<notin> event_key ` set (settlement_events s)"
    by (auto simp: event_seen_iff)
  with assms(1) show ?thesis by (simp add: events_ok_def event_key_def new_event_def)
qed

lemma handle_log_ok: "events_ok s \<Longrightarrow> handle_log E N cfg l s = (r, s') \<Longrightarrow> events_ok s'"
  by (erule handle_log_cases) (auto intro: record_event_ok)

lemma handle_logs_ok: "events_ok s \<Longrightarrow> handle_logs E N cfg ls s = (r, s') \<Longrightarrow> events_ok s'"
proof (induction ls arbitrary: s)
  case (Cons l ls)
  obtain x u where x: "handle_log E N cfg l s = (x, u)" by fastforce
  have "events_ok u" by (rule handle_log_ok [OF Cons.prems(1) x])
  with Cons x show ?case by (cases x) auto
qed simp

lemma handle_logs_new:
  assumes "handle_logs E N cfg ls s = (r, s')" and "e \<in> set (settlement_events s')" and "e \<notin> set (settlement_events s)"
  shows "\<exists>l\<in>set ls. lg_block_number l = Some (ev_block_number e)"
  using assms
proof (induction ls arbitrary: s)
  case (Cons l ls)
  obtain x u where x: "handle_log E N cfg l s = (x, u)" by fastforce
  have new: "lg_block_number l = Some (ev_block_number e)" if "e \<in> set (settlement_events u)"
    using x
  proof (cases rule: handle_log_cases)
    case (recorded ev h i n bh t target)
    from record_event_Some(2) [OF recorded(6)] that Cons.prems(3) recorded(3) show ?thesis
      by (auto simp: new_event_def position_def split: option.splits)
  qed (use that Cons.prems(3) in simp_all)
  show ?case
  proof (cases "e \<in> set (settlement_events u)")
    case True
    with new show ?thesis by simp
  next
    case False
    with Cons x show ?thesis by (cases x) auto
  qed
qed simp

section \<open>A pass\<close>

lemma keeps_cursor:
  "upholds (keeps settlement_cursor) (record_event E N cfg ev h i n bh t target)"
proof -
  have e: "upholds (keeps settlement_cursor) (apply_onchain E t tg chain)" for tg chain
    by (rule upholdsI) (auto simp: keeps_def engine_frame_def other_tables_def dest: upholdsD [OF apply_onchain_frame])
  have w: "upholds (keeps settlement_cursor) (write_audit E x)" for x
    by (rule upholdsI) (simp add: keeps_def write_audit_frame)
  have m: "upholds (keeps settlement_cursor) (modify (\<lambda>s. s\<lparr>settlement_events := f s\<rparr>))" for f
    by (rule upholdsI) (auto simp: keeps_def primitive_tx)
  show ?thesis unfolding record_event_def Let_def split_beta audit_unmoved_def
    by (intro keeps.upholds_rules e w m)
qed

lemma handle_logs_cursor: "handle_logs E N cfg ls s = (r, s') \<Longrightarrow> settlement_cursor s' = settlement_cursor s"
proof (induction ls arbitrary: s)
  case (Cons l ls)
  obtain x u where x: "handle_log E N cfg l s = (x, u)" by fastforce
  then have "settlement_cursor u = settlement_cursor s"
    by (cases rule: handle_log_cases) (auto dest: upholdsD [OF keeps_cursor] simp: keeps_def)
  with Cons x show ?case by (cases x) auto
qed simp

lemma save_cursor_frame: "listened_frame s (save_cursor v n h s)"
proof -
  have "foreign s (save_cursor v n h s)" by (rule foreign_cong) (simp_all add: save_cursor_def)
  then show ?thesis
    using foreign_engine_ok by (auto simp: listened_frame_def append_only_def save_cursor_def)
qed

lemma cursor_save [simp]: "cursor v (save_cursor v n h s) = Some (n, h)"
  by (simp add: cursor_def save_cursor_def update_conv)

lemma one_range_frame: "one_range E N cfg a b s = (r, s') \<Longrightarrow> listened_frame s s'"
  unfolding one_range_def
  by (auto split: option.splits prod.splits sum.splits simp: listened.refl
      intro: listened.trans [OF _ save_cursor_frame] handle_logs_frame)

lemma set_sorted_logs [simp]: "set (sorted_logs ls) = set ls"
  by (simp add: sorted_logs_def)

lemma one_range_done:
  assumes "one_range E N cfg a b s = (Inr (), s')"
  shows "\<exists>ls h. nd_logs N a b = Some ls \<and> (\<forall>l\<in>set ls. handled l s') \<and> block_hash N b = Inr h \<and>
    cursor (lc_vault cfg) s' = Some (b, h)"
proof -
  from assms obtain ls u h where ls: "nd_logs N a b = Some ls"
    and u: "handle_logs E N cfg (sorted_logs ls) s = (Inr (), u)" and h: "block_hash N b = Inr h"
    and s': "s' = save_cursor (lc_vault cfg) b h u"
    by (auto simp: one_range_def split: option.splits prod.splits sum.splits)
  have "handled l s'" if "l \<in> set ls" for l
    using handle_logs_handled [OF u] that handled_later save_cursor_frame by (auto simp: s')
  with ls h s' show ?thesis by auto
qed

lemma one_range_failed: "one_range E N cfg a b s = (Inl e, s') \<Longrightarrow> settlement_cursor s' = settlement_cursor s"
  unfolding one_range_def
  by (auto split: option.splits prod.splits sum.splits dest: handle_logs_cursor)

lemma sorted_logs_new: "handle_logs E N cfg (sorted_logs ls) s = (r, s') \<Longrightarrow>
    e \<in> set (settlement_events s') \<Longrightarrow> e \<notin> set (settlement_events s) \<Longrightarrow>
    \<exists>l\<in>set ls. lg_block_number l = Some (ev_block_number e)"
  by (drule (2) handle_logs_new) simp

lemma one_range_new:
  assumes "one_range E N cfg a b s = (r, s')" and "e \<in> set (settlement_events s')" and "e \<notin> set (settlement_events s)"
  shows "\<exists>ls. nd_logs N a b = Some ls \<and> (\<exists>l\<in>set ls. lg_block_number l = Some (ev_block_number e))"
  using assms unfolding one_range_def
  by (auto split: option.splits prod.splits sum.splits simp: save_cursor_def dest: sorted_logs_new)

lemma one_range_ok: "events_ok s \<Longrightarrow> one_range E N cfg a b s = (r, s') \<Longrightarrow> events_ok s'"
  unfolding one_range_def
  by (auto split: option.splits prod.splits sum.splits simp: save_cursor_def events_ok_def
      dest: handle_logs_ok [unfolded events_ok_def, rotated])

text \<open>No \<open>u64\<close> sum of the pass wraps.\<close>

definition small :: "listener_config \<Rightarrow> nat \<Rightarrow> bool" where
  "small cfg n \<longleftrightarrow> n + max 1 (lc_max_range cfg) < 2 ^ 64"

lemma range_end_bounds:
  assumes "small cfg confirmed" and "start \<le> confirmed"
  shows "start \<le> range_end cfg confirmed start" "range_end cfg confirmed start \<le> confirmed"
    "add_u64 (range_end cfg confirmed start) 1 = Suc (range_end cfg confirmed start)"
proof -
  have e: "range_end cfg confirmed start = min confirmed (start + (max (lc_max_range cfg) 1 - 1))"
    using assms by (simp add: range_end_def add_u64_def small_def max.commute)
  then show "start \<le> range_end cfg confirmed start" "range_end cfg confirmed start \<le> confirmed"
    using assms(2) by simp_all
  then show "add_u64 (range_end cfg confirmed start) 1 = Suc (range_end cfg confirmed start)"
    using assms(1) by (simp add: add_u64_def small_def)
qed

lemma ranges_returns:
  "small cfg confirmed \<Longrightarrow> confirmed < start + fuel \<Longrightarrow> \<exists>r s'. ranges (Suc fuel) E N cfg confirmed start s = Some (r, s')"
proof (induction fuel arbitrary: start s)
  case (Suc fuel)
  show ?case
  proof (cases "confirmed < start")
    case False
    then have le: "start \<le> confirmed" by simp
    let ?stop = "range_end cfg confirmed start"
    note b = range_end_bounds [OF Suc.prems(1) le]
    obtain x u where x: "one_range E N cfg start ?stop s = (x, u)" by fastforce
    have "confirmed < Suc ?stop + fuel" using b(1) Suc.prems(2) by simp
    from Suc.IH [OF Suc.prems(1) this, of u] x b(3) False show ?thesis
      by (cases x) (simp_all add: Let_def del: ranges.simps add: ranges.simps(2) [of "Suc fuel"])
  qed simp
qed simp

text \<open>What a run over the ranges does, in one induction.\<close>

lemma ranges_spec:
  assumes "ranges fuel E N cfg confirmed start s = Some (r, s')" and "small cfg confirmed"
  shows "listened_frame s s' \<and> (events_ok s \<longrightarrow> events_ok s') \<and>
    (cursor (lc_vault cfg) s' = cursor (lc_vault cfg) s \<or>
     (\<exists>n h. cursor (lc_vault cfg) s' = Some (n, h) \<and> start \<le> n \<and> n \<le> confirmed \<and> block_hash N n = Inr h)) \<and>
    (\<forall>e. e \<in> set (settlement_events s') \<and> e \<notin> set (settlement_events s) \<longrightarrow>
      (\<exists>a b ls. start \<le> a \<and> b \<le> confirmed \<and> nd_logs N a b = Some ls \<and>
        (\<exists>l\<in>set ls. lg_block_number l = Some (ev_block_number e)))) \<and>
    (r = Inr () \<longrightarrow> start \<le> confirmed \<longrightarrow>
      (\<exists>h. cursor (lc_vault cfg) s' = Some (confirmed, h) \<and> block_hash N confirmed = Inr h))"
  using assms(1)
proof (induction fuel arbitrary: start s)
  case (Suc fuel)
  show ?case
  proof (cases "confirmed < start")
    case True
    with Suc.prems show ?thesis by (auto simp: listened.refl)
  next
    case False
    then have le: "start \<le> confirmed" by simp
    let ?stop = "range_end cfg confirmed start"
    note b = range_end_bounds [OF assms(2) le]
    obtain x u where x: "one_range E N cfg start ?stop s = (x, u)" by fastforce
    note f = one_range_frame [OF x] and n = one_range_new [OF x]
    have ok: "events_ok s \<longrightarrow> events_ok u" using one_range_ok x by blast
    have new: "\<exists>a b ls. start \<le> a \<and> b \<le> confirmed \<and> nd_logs N a b = Some ls \<and>
        (\<exists>l\<in>set ls. lg_block_number l = Some (ev_block_number e))"
      if "e \<in> set (settlement_events u)" "e \<notin> set (settlement_events s)" for e
      using n [OF that] b(2) by (intro exI [of _ start] exI [of _ ?stop]) auto
    show ?thesis
    proof (cases x)
      case (Inl e)
      with x one_range_failed have "cursor (lc_vault cfg) u = cursor (lc_vault cfg) s" by (simp add: cursor_def)
      with Suc.prems False x Inl f new ok show ?thesis by (auto simp: Let_def)
    next
      case (Inr y)
      then have "x = Inr ()" by simp
      with x obtain h where h: "block_hash N ?stop = Inr h" "cursor (lc_vault cfg) u = Some (?stop, h)"
        using one_range_done by blast
      from Suc.prems False x Inr b(3) have rest: "ranges fuel E N cfg confirmed (Suc ?stop) u = Some (r, s')"
        by (simp add: Let_def)
      note IH = Suc.IH [OF rest]
      have "listened_frame s s'" using f IH listened.trans by blast
      moreover have "events_ok s \<longrightarrow> events_ok s'" using ok IH by blast
      moreover have "cursor (lc_vault cfg) s' = cursor (lc_vault cfg) s \<or>
          (\<exists>n h. cursor (lc_vault cfg) s' = Some (n, h) \<and> start \<le> n \<and> n \<le> confirmed \<and> block_hash N n = Inr h)"
        using IH h b by (metis Suc_leD le_trans)
      moreover have "\<exists>a b ls. start \<le> a \<and> b \<le> confirmed \<and> nd_logs N a b = Some ls \<and>
          (\<exists>l\<in>set ls. lg_block_number l = Some (ev_block_number e))"
        if e: "e \<in> set (settlement_events s')" "e \<notin> set (settlement_events s)" for e
      proof (cases "e \<in> set (settlement_events u)")
        case True
        from new [OF this e(2)] show ?thesis .
      next
        case False
        with IH e(1) obtain a c ls where "Suc ?stop \<le> a" "c \<le> confirmed" "nd_logs N a c = Some ls"
          "\<exists>l\<in>set ls. lg_block_number l = Some (ev_block_number e)" by blast
        with b(1) show ?thesis by (intro exI [of _ a] exI [of _ c] exI [of _ ls]) simp
      qed
      moreover have "\<exists>h. cursor (lc_vault cfg) s' = Some (confirmed, h) \<and> block_hash N confirmed = Inr h" if "r = Inr ()"
      proof (cases "Suc ?stop \<le> confirmed")
        case True
        with IH that show ?thesis by blast
      next
        case over: False
        with b(2) have "?stop = confirmed" by simp
        with rest over h show ?thesis by (cases fuel) auto
      qed
      ultimately show ?thesis by blast
    qed
  qed
qed simp

text \<open>\<open>serves N chain\<close>: the node answers a range with the logs of the chain in it, and no others.\<close>

definition in_blocks :: "nat \<Rightarrow> nat \<Rightarrow> chain_log \<Rightarrow> bool" where
  "in_blocks a b l \<longleftrightarrow> (case lg_block_number l of None \<Rightarrow> False | Some n \<Rightarrow> a \<le> n \<and> n \<le> b)"

definition serves :: "node \<Rightarrow> chain_log list \<Rightarrow> bool" where
  "serves N chain \<longleftrightarrow> (\<forall>a b ls. nd_logs N a b = Some ls \<longrightarrow> set ls = {l \<in> set chain. in_blocks a b l})"

lemma ranges_complete:
  assumes "ranges fuel E N cfg confirmed start s = Some (Inr (), s')" and "small cfg confirmed" and sv: "serves N chain"
  shows "\<forall>l\<in>set chain. in_blocks start confirmed l \<longrightarrow> handled l s'"
  using assms(1)
proof (induction fuel arbitrary: start s)
  case (Suc fuel)
  show ?case
  proof (cases "confirmed < start")
    case True
    then show ?thesis by (auto simp: in_blocks_def split: option.splits)
  next
    case False
    then have le: "start \<le> confirmed" by simp
    let ?stop = "range_end cfg confirmed start"
    note b = range_end_bounds [OF assms(2) le]
    from Suc.prems False b(3) obtain u where x: "one_range E N cfg start ?stop s = (Inr (), u)"
      and rest: "ranges fuel E N cfg confirmed (Suc ?stop) u = Some (Inr (), s')"
      by (auto simp: Let_def split: prod.splits sum.splits)
    have fr: "listened_frame u s'" using ranges_spec [OF rest assms(2)] by blast
    from one_range_done [OF x] sv have "\<forall>l\<in>set chain. in_blocks start ?stop l \<longrightarrow> handled l u"
      by (auto simp: serves_def)
    with fr have first: "\<forall>l\<in>set chain. in_blocks start ?stop l \<longrightarrow> handled l s'" by (blast intro: handled_later)
    show ?thesis
    proof (intro ballI impI)
      fix l assume l: "l \<in> set chain" "in_blocks start confirmed l"
      then have "in_blocks start ?stop l \<or> in_blocks (Suc ?stop) confirmed l"
        by (auto simp: in_blocks_def split: option.splits)
      with l(1) first Suc.IH [OF rest] show "handled l s'" by blast
    qed
  qed
qed simp

lemma resume_unchanged: "resume_from N cfg s = Inr start \<Longrightarrow>
    case cursor (lc_vault cfg) s of None \<Rightarrow> start = lc_start_block cfg
    | Some (b, h) \<Rightarrow> block_hash N b = Inr h \<and> start = add_u64 b 1"
  by (auto simp: resume_from_def split: option.splits sum.splits if_splits)

lemma run_once_cases:
  assumes run: "run_once fuel E N cfg s = Some (r, s')"
  obtains (idle) "s' = s" "\<And>c. r = Inr c \<Longrightarrow> c = None"
  | (ran) head confirmed start x where "nd_head N = Some head" "lc_confirmations cfg \<le> head"
      "confirmed = head - lc_confirmations cfg" "resume_from N cfg s = Inr start" "start \<le> confirmed"
      "ranges fuel E N cfg confirmed start s = Some (x, s')" "r = map_sum id (\<lambda>_. Some confirmed) x"
proof (cases "nd_head N")
  case None
  with run show thesis by (intro idle) (auto simp: run_once_def)
next
  case (Some head)
  show thesis
  proof (cases "lc_confirmations cfg \<le> head \<and>
      (\<exists>start. resume_from N cfg s = Inr start \<and> start \<le> head - lc_confirmations cfg)")
    case False
    with run Some show thesis
      by (intro idle) (auto simp: run_once_def Let_def not_le not_less split: if_splits sum.splits)
  next
    case True
    then obtain start where st: "lc_confirmations cfg \<le> head" "resume_from N cfg s = Inr start"
      "start \<le> head - lc_confirmations cfg" by blast
    with run Some obtain x where "ranges fuel E N cfg (head - lc_confirmations cfg) start s = Some (x, s')"
      "r = map_sum id (\<lambda>_. Some (head - lc_confirmations cfg)) x"
      by (auto simp: run_once_def Let_def)
    from ran [OF Some st(1) HOL.refl st(2,3) this] show thesis .
  qed
qed


text \<open>
  C27: a pass ends: with one unit of fuel more than the head, whatever the node answers, unless block
  numbers come within a range of the end of \<open>u64\<close>.
\<close>

theorem pass_returns:
  assumes "\<And>head. nd_head N = Some head \<Longrightarrow> small cfg head \<and> head < fuel"
  shows "\<exists>r s'. run_once (Suc fuel) E N cfg s = Some (r, s')"
proof (cases "nd_head N")
  case None
  then show ?thesis by (simp add: run_once_def)
next
  case (Some head)
  let ?c = "head - lc_confirmations cfg"
  from assms [OF Some] have "small cfg ?c" "?c < start + fuel" for start by (auto simp: small_def)
  from ranges_returns [OF this] have ret: "\<exists>x u. ranges (Suc fuel) E N cfg ?c start s = Some (x, u)" for start by blast
  show ?thesis
  proof (cases "resume_from N cfg s")
    case (Inl e)
    with Some show ?thesis by (simp add: run_once_def Let_def)
  next
    case (Inr start)
    obtain x u where "ranges (Suc fuel) E N cfg ?c start s = Some (x, u)" using ret by blast
    with Some Inr show ?thesis by (simp add: run_once_def Let_def del: ranges.simps)
  qed
qed

lemma run_once_frame:
  assumes run: "run_once fuel E N cfg s = Some (r, s')" and head: "\<And>head. nd_head N = Some head \<Longrightarrow> small cfg head"
  shows "listened_frame s s' \<and> (events_ok s \<longrightarrow> events_ok s')"
  using run
proof (cases rule: run_once_cases)
  case idle
  then show ?thesis by (simp add: listened.refl)
next
  case (ran head' confirmed start x)
  have "small cfg confirmed" using head [OF ran(1)] ran(3) by (simp add: small_def)
  from ranges_spec [OF ran(6) this] show ?thesis by blast
qed

text \<open>
  a pass, wherever it ends, keeps the invariant of the engine, records no log twice, rewrites no
  posting, audit entry or recorded event, changes no transfer but in its status, and moves the cursor
  only forward, to a block whose hash the node just gave.
\<close>

theorem pass_keeps_books:
  assumes run: "run_once fuel E N cfg s = Some (r, s')" and ok: "engine_ok s" "events_ok s"
    and head: "\<And>head. nd_head N = Some head \<Longrightarrow> small cfg head"
    and old: "cursor (lc_vault cfg) s = Some (b, h)" "b + 1 < 2 ^ 64"
  shows "engine_ok s' \<and> events_ok s' \<and> append_only s s' \<and> map deal (transfers s') = map deal (transfers s) \<and>
    (\<exists>b' h'. cursor (lc_vault cfg) s' = Some (b', h') \<and> b \<le> b' \<and> (b' \<noteq> b \<longrightarrow> block_hash N b' = Inr h'))"
  using run
proof (cases rule: run_once_cases)
  case idle
  with ok old show ?thesis by (simp add: append.refl)
next
  case (ran head' confirmed start x)
  have sm: "small cfg confirmed" using head [OF ran(1)] ran(3) by (simp add: small_def)
  have "start = Suc b" using resume_unchanged [OF ran(4)] old by (simp add: add_u64_def)
  with ranges_spec [OF ran(6) sm] ok old show ?thesis by (auto simp: listened_frame_def)
qed

text \<open>
  when the block of the cursor has another hash than the one stored, the listener stops for good
  at once, and the database is as it was.
\<close>

theorem deep_reorg_stops:
  assumes "nd_head N = Some head" and "lc_confirmations cfg \<le> head"
    and "cursor (lc_vault cfg) s = Some (b, h)" and "block_hash N b = Inr h'" and "h' \<noteq> h"
  shows "run_listener fuel ((E, N) # polls) cfg s = Some (True, s)"
  using assms by (simp add: run_once_def resume_from_def)

end
