(* ===== verification/Interleaving.thy ===== *)
theory Interleaving
  imports Webhook_Properties Transfer_Creation Listener_Properties
begin

text \<open>
  The whole system. Every request handler, the background progression and the listener is a sequence
  of committed transactions and reads; \<open>commit\<close> has a rule per transaction of the code. The database
  runs concurrent requests as some interleaving of their transactions, so what holds of every
  sequence of commits from a fresh installation holds however requests overlap.
\<close>

section \<open>Committed transactions\<close>

inductive commit :: "db \<Rightarrow> db \<Rightarrow> bool" where
  id_drawn: "commit s (snd (draw_id s))"
| rates: "fx_only s s' \<Longrightarrow> commit s s'"
| recipient: "save_recipient E sess body s = (r, s') \<Longrightarrow> commit s s'"
| quoted: "transaction (insert_quote E cfg c send receive rate x y) s = (q, s') \<Longrightarrow> commit s s'"
| limited: "transaction (set_transfer_limit c limit) s = (u, s') \<Longrightarrow> commit s s'"
| created: "transaction (create_tx E cfg sess key q rcpt) s = (r, s') \<Longrightarrow> commit s s'"
| advanced: "advance_once E cfg t a s = (r, s') \<Longrightarrow> commit s s'"
| expired: "expire_transfer E t a s = (r, s') \<Longrightarrow> commit s s'"
| reversed: "reverse_transfer E t reason a s = (r', s') \<Longrightarrow> commit s s'"
| resolved: "resolve_screening_hold E t d reason' a s = (r, s') \<Longrightarrow> commit s s'"
| recorded: "commit_or_rollback (record_event E N cfg' ev h i n bh t target) s = (x, s') \<Longrightarrow> commit s s'"
| cursor_saved: "commit s (save_cursor v n h s)"
| traded: "commit_or_rollback (trade_tx E sess input rt u l) s = (tr, s') \<Longrightarrow> commit s s'"
| requested: "i < next_id s \<Longrightarrow>
    commit_or_rollback (insert_collection E sess (new_collection E sess cinput i rf payer memo opn)) s = (v, s') \<Longrightarrow>
    commit s s'"
| cancelled: "cancel_collection P E web pt sess ci s = (r'', s') \<Longrightarrow> commit s s'"
| credited: "apply_inbound E p s = (b, s') \<Longrightarrow> commit s s'"
| linked: "transaction (link_bridge_tx E c bc account) s = (ra, s') \<Longrightarrow> commit s s'"

text \<open>What the migrations and the sign-up of customers leave: no money and no orders yet.\<close>

definition fresh_install :: "db \<Rightarrow> bool" where
  "fresh_install s \<longleftrightarrow> accounts s = [] \<and> ledger_entries s = [] \<and> transfers s = [] \<and> transfer_history s = [] \<and>
     collections s = [] \<and> inbound_payments s = [] \<and> settlement_events s = []"

inductive reachable :: "db \<Rightarrow> bool" where
  start: "fresh_install s \<Longrightarrow> reachable s"
| step: "reachable s \<Longrightarrow> commit s s' \<Longrightarrow> reachable s'"

lemma reachable_rtranclp: "commit\<^sup>*\<^sup>* s s' \<Longrightarrow> reachable s \<Longrightarrow> reachable s'"
  by (induction rule: rtranclp_induct) (auto intro: reachable.step)

section \<open>What a commit may change\<close>

text \<open>Of a request everything but its status; the order of statuses.\<close>

definition terms :: "collection_row \<Rightarrow> collection_row" where
  "terms c = c\<lparr>co_status := [], co_paid_at := None, co_cancelled_at := None\<rparr>"

definition status_le :: "string \<Rightarrow> string \<Rightarrow> bool" where
  "status_le a b \<longleftrightarrow> a = b \<or> (a = ''PENDING'' \<and> b \<in> {''PAID'', ''CANCELLED''}) \<or> (a = ''CANCELLED'' \<and> b = ''PAID'')"

definition evolves :: "db \<Rightarrow> db \<Rightarrow> bool" where
  "evolves s s' \<longleftrightarrow> append_only s s' \<and> prefix (map deal (transfers s)) (map deal (transfers s')) \<and>
     prefix (transfer_history s) (transfer_history s') \<and> prefix (virtual_accounts s) (virtual_accounts s') \<and>
     prefix (map terms (collections s)) (map terms (collections s')) \<and> next_id s \<le> next_id s'"

interpretation evolves: tx_frame evolves
  by unfold_locales (auto simp: evolves_def intro: append.refl append.trans prefix_order.trans)

lemma evolves_same:
  "ledger_entries s' = ledger_entries s \<Longrightarrow> audit_log s' = audit_log s \<Longrightarrow>
   settlement_trades s' = settlement_trades s \<Longrightarrow> inbound_payments s' = inbound_payments s \<Longrightarrow>
   settlement_events s' = settlement_events s \<Longrightarrow> transfers s' = transfers s \<Longrightarrow>
   transfer_history s' = transfer_history s \<Longrightarrow> virtual_accounts s' = virtual_accounts s \<Longrightarrow>
   collections s' = collections s \<Longrightarrow> next_id s \<le> next_id s' \<Longrightarrow> evolves s s'"
  by (simp add: evolves_def append_only_def)

lemma evolves_engine: "engine_frame s s' \<Longrightarrow> evolves s s'"
  by (simp add: evolves_def engine_frame_append_only) (simp add: engine_frame_def other_tables_def)

lemma evolves_listened: "listened_frame s s' \<Longrightarrow> evolves s s'"
  by (simp add: evolves_def listened_frame_def)

section \<open>Commits that leave the requests alone\<close>

definition aside :: "db \<Rightarrow> db \<Rightarrow> bool" where
  "aside s s' \<longleftrightarrow> evolves s s' \<and> collections s' = collections s \<and> inbound_payments s' = inbound_payments s \<and>
     settlement_events s' = settlement_events s"

interpretation aside: tx_frame aside
  by unfold_locales (auto simp: aside_def intro: evolves.refl evolves.trans)

lemma aside_same:
  "ledger_entries s' = ledger_entries s \<Longrightarrow> audit_log s' = audit_log s \<Longrightarrow>
   settlement_trades s' = settlement_trades s \<Longrightarrow> inbound_payments s' = inbound_payments s \<Longrightarrow>
   settlement_events s' = settlement_events s \<Longrightarrow> transfers s' = transfers s \<Longrightarrow>
   transfer_history s' = transfer_history s \<Longrightarrow> virtual_accounts s' = virtual_accounts s \<Longrightarrow>
   collections s' = collections s \<Longrightarrow> next_id s \<le> next_id s' \<Longrightarrow> aside s s'"
  by (simp add: aside_def evolves_same)

lemma aside_engine: "engine_frame s s' \<Longrightarrow> aside s s'"
  by (simp add: aside_def evolves_engine) (simp add: engine_frame_def other_tables_def)

lemma aside_open_account:
  "upholds aside (get_or_create_account_by_code c k)" "upholds aside (get_or_create_account c y)"
proof -
  show one: "upholds aside (get_or_create_account_by_code c k)" for k
    by (rule upholdsI) (rule aside_same; simp add: get_or_create_frame)
  show "upholds aside (get_or_create_account c y)" unfolding get_or_create_account_def by (rule one)
qed

lemma aside_append_entry: "upholds aside (append_entry E a x k d src rv)"
  by (rule upholdsI) (auto simp: aside_def evolves_def append_entry_frame
      intro: upholdsD [OF append_entry_append_only])

lemma aside_audit: "upholds aside (write_audit E e)"
  by (rule upholdsI) (auto simp: aside_def evolves_def write_audit_frame intro: upholdsD [OF write_audit_append])

lemma aside_modify:
  "upholds aside fresh_id"
  "upholds aside (modify (\<lambda>s. s\<lparr>settlement_trades := settlement_trades s @ ts\<rparr>))"
  "upholds aside (modify (\<lambda>s. s\<lparr>virtual_accounts := virtual_accounts s @ vs\<rparr>))"
  "upholds aside (modify (\<lambda>s. s\<lparr>quotes := f s\<rparr>))" "upholds aside (modify (\<lambda>s. s\<lparr>recipients := g s\<rparr>))"
  "upholds aside (modify (\<lambda>s. s\<lparr>customers := h s\<rparr>))"
  by (rule upholdsI; auto simp: primitive_tx aside_def evolves_def append_only_def)+

lemma aside_balance: "upholds aside (account_balance_minor a)"
  by (rule upholdsI) (auto simp: account_balance_minor_tx aside.refl)

lemmas aside_rules = aside.upholds_rules aside_open_account aside_append_entry aside_audit aside_modify aside_balance

lemma trade_tx_aside: "upholds aside (trade_tx E sess input rt u l)"
  unfolding trade_tx_def insert_trade_def post_settlement_entry_def Let_def
  by (intro aside_rules)

lemma save_recipient_aside: "aside s (snd (save_recipient E sess body s))"
  unfolding save_recipient_def Let_def by (intro aside.transaction_upholds aside_rules)

lemma insert_quote_aside: "upholds aside (insert_quote E cfg c send receive rate x y)"
  unfolding insert_quote_def Let_def by (intro aside_rules)

lemma set_transfer_limit_aside: "upholds aside (set_transfer_limit c limit)"
  unfolding set_transfer_limit_def by (rule aside_modify)

lemma link_bridge_tx_aside: "upholds aside (link_bridge_tx E c bc account)"
  unfolding link_bridge_tx_def by (intro aside_rules)

lemma fx_only_aside: "fx_only s s' \<Longrightarrow> aside s s'"
proof (rule aside_same)
  assume "fx_only s s'"
  then show "inbound_payments s' = inbound_payments s" "settlement_events s' = settlement_events s"
    "virtual_accounts s' = virtual_accounts s" "collections s' = collections s"
    unfolding fx_only_def by (auto dest: arg_cong [where f = inbound_payments] arg_cong [where f = settlement_events]
      arg_cong [where f = virtual_accounts] arg_cong [where f = collections])
qed (simp_all add: fx_only_tables)

text \<open>The invariants together, and what keeps them.\<close>

definition sound :: "db \<Rightarrow> bool" where
  "sound s \<longleftrightarrow> engine_ok s \<and> collections_ok s \<and> events_ok s"

definition statuses_move :: "db \<Rightarrow> db \<Rightarrow> bool" where
  "statuses_move s s' \<longleftrightarrow> (\<forall>i < length (collections s).
     status_le (co_status (collections s ! i)) (co_status (collections s' ! i)))"

definition good :: "db \<Rightarrow> db \<Rightarrow> bool" where
  "good s s' \<longleftrightarrow> sound s' \<and> evolves s s' \<and> statuses_move s s'"

lemma aside_good: "aside s s' \<Longrightarrow> engine_ok s' \<Longrightarrow> sound s \<Longrightarrow> good s s'"
  by (auto simp: good_def sound_def aside_def evolves_def statuses_move_def status_le_def events_ok_def
      intro: collections_ok_cong)

lemma quiet_good: "aside s s' \<Longrightarrow> foreign s s' \<Longrightarrow> sound s \<Longrightarrow> good s s'"
  by (rule aside_good) (auto simp: sound_def intro: foreign_engine_ok)

section \<open>Commits on requests\<close>

lemma terms_eq [simp]:
  "terms (c\<lparr>co_status := a\<rparr>) = terms c" "terms (c\<lparr>co_paid_at := b\<rparr>) = terms c"
  "terms (c\<lparr>co_cancelled_at := b\<rparr>) = terms c"
  by (simp_all add: terms_def)

lemma evolves_requests:
  "same_money s s' \<Longrightarrow> prefix (map terms (collections s)) (map terms (collections s')) \<Longrightarrow> evolves s s'"
  by (simp add: evolves_def append_only_def same_money_def)

lemma settle_map: "settle E x cs = map (\<lambda>c. if x \<noteq> None \<and> co_id c = co_id (the x)
    then c\<lparr>co_status := ''PAID'', co_paid_at := Some (now E)\<rparr> else c) cs"
  by (cases x) (simp_all add: settle_def update_where_def)

lemma credit_good:
  assumes ok: "sound s" and run: "apply_inbound E p s = (b, s')"
  shows "good s s'"
  using run
proof (cases rule: apply_inbound_cases)
  case credited
  have lok: "ledger_ok s" using ok by (simp add: sound_def engine_ok_def)
  note t = inbound_tx_Some [OF lok credited(2)]
  from t(1) obtain settles i where
    pay: "inbound_payments s' = inbound_payments s @ [new_inbound p (map_option co_id settles) i]" and
    col: "collections s' = settle E settles (collections s)" by blast
  have "events_ok s'" using ok t(9) by (simp add: sound_def events_ok_def)
  then have "sound s'"
    using ok foreign_engine_ok [OF t(5)] inbound_tx_collections_ok [OF _ lok credited(2)] by (simp add: sound_def)
  moreover have "evolves s s'"
    using t(5,6,8) by (auto simp: evolves_def foreign_def col settle_map comp_def if_distrib cong: if_cong)
  moreover have "statuses_move s s'"
    using ok by (auto simp: statuses_move_def col settle_map status_le_def sound_def collections_ok_def list_all_length
        request_ok_def)
  ultimately show ?thesis by (simp add: good_def)
qed (use ok in \<open>simp_all add: good_def evolves.refl statuses_move_def status_le_def\<close>)

lemma cancel_good:
  assumes ok: "sound s" and run: "cancel_collection P E web pt sess ci s = (r, s')"
  shows "good s s'"
proof -
  note k = cancel_collection_ok [of s P E web pt sess ci, unfolded run snd_conv]
  from run show ?thesis
  proof (cases rule: cancel_collection_cases)
    case same
    with ok show ?thesis by (simp add: good_def evolves.refl statuses_move_def status_le_def)
  next
    case (cancelled c)
    have "evolves s s'"
      by (rule evolves_requests [OF cancelled(6)]) (simp add: cancelled(5) cancel_row_def update_where_def comp_def if_distrib cong: if_cong)
    moreover have "events_ok s'" using ok cancelled(6) by (simp add: sound_def events_ok_def same_money_def)
    moreover have "statuses_move s s'"
    proof -
      have "status_le (co_status d) (co_status (if co_id d = co_id c
          then d\<lparr>co_status := ''CANCELLED'', co_cancelled_at := Some (now E)\<rparr> else d))"
        if "d \<in> set (collections s)" for d
      proof (cases "co_id d = co_id c")
        case True
        with that cancelled(1) ok have "d = c"
          by (auto simp: sound_def collections_ok_def distinct_map dest: inj_onD)
        with cancelled(3) show ?thesis by (simp add: status_le_def)
      qed (simp add: status_le_def)
      then show ?thesis by (simp add: statuses_move_def cancelled(5) cancel_row_def update_where_def)
    qed
    ultimately show ?thesis using ok k foreign_engine_ok by (auto simp: good_def sound_def)
  qed
qed

lemma request_good:
  assumes ok: "sound s" and i: "i < next_id s"
    and run: "commit_or_rollback (insert_collection E sess (new_collection E sess input i rf payer memo opn)) s = (v, s')"
  shows "good s s'"
proof -
  let ?row = "new_collection E sess input i rf payer memo opn"
  from run consider "s' = s" | w where "insert_collection E sess ?row s = Inr (Some w, s')"
    by (auto simp: commit_or_rollback_cases)
  then show ?thesis
  proof cases
    case 1
    with ok show ?thesis by (simp add: good_def evolves.refl statuses_move_def status_le_def)
  next
    case 2
    note n = insert_collection_Some [OF 2]
    have "evolves s s'" by (rule evolves_requests [OF n(4)]) (simp add: n(2))
    moreover have "events_ok s'" using ok n(4) by (simp add: sound_def events_ok_def same_money_def)
    moreover have "collections_ok s'"
      using ok by (intro insert_collection_ok [OF _ i 2]) (simp add: sound_def)
    moreover have "statuses_move s s'" by (simp add: statuses_move_def n(2) nth_append status_le_def)
    ultimately show ?thesis
      using ok foreign_engine_ok [OF same_money_foreign [OF n(4)]] by (simp add: good_def sound_def)
  qed
qed

text \<open>Every commit keeps the invariants and rewrites nothing.\<close>

lemma engine_good: "engine_frame s s' \<Longrightarrow> engine_ok s' \<Longrightarrow> sound s \<Longrightarrow> good s s'"
  by (rule aside_good [OF aside_engine])

lemma transaction_quiet:
  assumes "transaction m s = (r, s')" and "upholds aside m" and "upholds foreign m" and "sound s"
  shows "good s s'"
  using aside.transaction_upholds [OF assms(2), of s] foreign.transaction_upholds [OF assms(3), of s] assms(1,4)
  by (auto intro: quiet_good)

lemma good_refl: "sound s \<Longrightarrow> good s s"
  by (simp add: good_def evolves.refl statuses_move_def status_le_def)

lemma foreign_modify:
  "upholds foreign (modify (\<lambda>s. s\<lparr>quotes := f s\<rparr>))" "upholds foreign (modify (\<lambda>s. s\<lparr>recipients := g s\<rparr>))"
  "upholds foreign (modify (\<lambda>s. s\<lparr>customers := h s\<rparr>))" "upholds foreign (modify (\<lambda>s. s\<lparr>virtual_accounts := v s\<rparr>))"
  by (rule upholdsI; rule foreign_cong; auto simp: primitive_tx)+

lemmas foreign_rules = foreign.upholds_rules foreign_modify fresh_foreign audit_foreign open_account_foreign

definition other_requests :: "db \<Rightarrow> db \<Rightarrow> bool" where
  "other_requests s s' \<longleftrightarrow> collections s' = collections s \<and> inbound_payments s' = inbound_payments s \<and>
     virtual_accounts s' = virtual_accounts s \<and> settlement_events s' = settlement_events s"

interpretation other_requests: tx_frame other_requests
  by unfold_locales (simp_all add: other_requests_def)

lemma other_modify:
  "(\<And>s. other_requests s (f s)) \<Longrightarrow> upholds other_requests (modify f)"
  by (rule upholdsI) (simp add: primitive_tx)

lemma create_tx_requests: "upholds other_requests (create_tx E cfg sess key q rcpt)"
proof -
  have "upholds other_requests (find_by_idempotency_key c k)" for c k
    by (rule upholdsI) (auto simp: find_by_idempotency_key_def other_requests.refl dest: read_optional_state)
  moreover have "upholds other_requests (lock_customer_limits c)" for c
    by (rule upholdsI) (auto simp: lock_customer_limits_Inr other_requests.refl)
  moreover have "upholds other_requests (check_exposure_limits cfg c l fq)" for c l fq
    by (rule upholdsI) (auto simp: other_requests.refl dest: check_exposure_limits_Inr(1))
  moreover have "upholds other_requests (write_audit E x)" for x
    by (rule upholdsI) (simp add: other_requests_def write_audit_frame)
  moreover have "upholds other_requests fresh_id"
    by (rule upholdsI) (auto simp: primitive_tx other_requests_def)
  ultimately show ?thesis
    unfolding create_tx_def insert_transfer_row_def try_consume_def set_settlement_ref_def append_history_def Let_def
    by (intro other_requests.upholds_rules other_modify) (simp_all add: other_requests_def)
qed

lemma create_tx_good:
  assumes ok: "sound s" and run: "create_tx E cfg sess key q rcpt s = Inr (x, s')"
  shows "good s s'"
proof (cases "\<exists>t. x = Inserted t")
  case False
  with create_tx_other [OF run] ok show ?thesis by (auto intro: good_refl)
next
  case True
  then obtain t where x: "x = Inserted t" by blast
  have fresh: "\<forall>r\<in>set (transfers s). tr_id r < next_id s" using ok by (simp add: sound_def engine_ok_def)
  note c = create_tx_Inserted [OF run [unfolded x] fresh]
  have f: "other_requests s s'" by (rule upholdsD [OF create_tx_requests run])
  have "evolves s s'" using c f by (simp add: evolves_def other_requests_def)
  with f have "aside s s'" by (simp add: aside_def other_requests_def)
  then show ?thesis
    by (rule aside_good) (use ok run x in \<open>auto simp: sound_def intro: created_engine_ok\<close>)
qed

lemma trade_good:
  assumes ok: "sound s" and run: "commit_or_rollback (trade_tx E sess input rt u l) s = (tr, s')"
  shows "good s s'"
proof -
  from run consider "s' = s" | w where "trade_tx E sess input rt u l s = Inr (Some w, s')"
    by (auto simp: commit_or_rollback_cases)
  then show ?thesis
  proof cases
    case 1
    with ok show ?thesis by (simp add: good_refl)
  next
    case 2
    have "ledger_ok s" using ok by (simp add: sound_def engine_ok_def)
    from trade_tx_Some(4) [OF this 2] upholdsD [OF trade_tx_aside 2] ok show ?thesis by (intro quiet_good)
  qed
qed

lemma event_good:
  assumes ok: "sound s" and run: "commit_or_rollback (record_event E N cfg ev h i n bh t target) s = (x, s')"
  shows "good s s'"
proof -
  from run consider "s' = s" | "record_event E N cfg ev h i n bh t target s = Inr (Some (), s')"
    by (auto simp: commit_or_rollback_cases)
  then show ?thesis
  proof cases
    case 1
    with ok show ?thesis by (simp add: good_refl)
  next
    case 2
    note f = record_event_Some(1) [OF 2]
    have "collections_ok s'" using f ok by (auto simp: listened_frame_def sound_def intro: collections_ok_cong)
    with f ok record_event_ok [OF _ 2] show ?thesis
      by (auto simp: good_def sound_def listened_frame_def statuses_move_def status_le_def intro: evolves_listened)
  qed
qed

lemma save_recipient_quiet: "foreign s (snd (save_recipient E sess body s))"
  unfolding save_recipient_def Let_def by (intro foreign.transaction_upholds foreign_rules)

lemma cursor_good: "sound s \<Longrightarrow> good s (save_cursor v n h s)"
proof (rule quiet_good)
  show "aside s (save_cursor v n h s)" by (rule aside_same) (simp_all add: save_cursor_def)
  show "foreign s (save_cursor v n h s)" by (rule foreign_cong) (simp_all add: save_cursor_def)
qed

lemma draw_good: "sound s \<Longrightarrow> good s (snd (draw_id s))"
proof (rule quiet_good)
  show "aside s (snd (draw_id s))" by (rule aside_same) (simp_all add: draw_id_def)
  show "foreign s (snd (draw_id s))" by (rule foreign_cong) (simp_all add: draw_id_def)
qed

lemma commit_good: "commit s s' \<Longrightarrow> sound s \<Longrightarrow> good s s'"
proof (induction rule: commit.induct)
  case (id_drawn s)
  then show ?case by (rule draw_good)
next
  case (rates s s')
  then show ?case by (intro quiet_good fx_only_aside fx_only_foreign)
next
  case (recipient E sess body s r s')
  then show ?case
    using save_recipient_aside [of s E sess body] save_recipient_quiet [of s E sess body] by (auto intro: quiet_good)
next
  case (quoted E cfg c send receive rate x y s q s')
  have "upholds foreign (insert_quote E cfg c send receive rate x y)"
    unfolding insert_quote_def Let_def by (intro foreign_rules)
  with quoted insert_quote_aside show ?case by (blast intro: transaction_quiet)
next
  case (limited c limit s u s')
  have "upholds foreign (set_transfer_limit c limit)"
    unfolding set_transfer_limit_def by (rule foreign_modify)
  with limited set_transfer_limit_aside show ?case by (blast intro: transaction_quiet)
next
  case (created E cfg sess key q rcpt s r s')
  then show ?case by (cases r) (auto simp: transaction_Inr transaction_Inl intro: good_refl create_tx_good)
next
  case (advanced E cfg t a s r s')
  with advance_once_frame [of s E cfg t a] advance_once_ok [of s E cfg t a] show ?case
    by (auto simp: sound_def intro: engine_good)
next
  case (expired E t a s r s')
  with expire_transfer_frame [of s E t a] expire_transfer_ok [of s E t a] show ?case
    by (auto simp: sound_def intro: engine_good)
next
  case (reversed E t reason a s r' s')
  with reverse_transfer_frame [of s E t reason a] reverse_transfer_ok [of s E t reason a] show ?case
    by (auto simp: sound_def intro: engine_good)
next
  case (resolved E t d reason' a s r s')
  with resolve_screening_hold_frame [of s E t d reason' a] resolve_screening_hold_ok [of s E t d reason' a] show ?case
    by (auto simp: sound_def intro: engine_good)
next
  case recorded
  then show ?case by (blast intro: event_good)
next
  case cursor_saved
  then show ?case by (rule cursor_good)
next
  case traded
  then show ?case by (blast intro: trade_good)
next
  case requested
  then show ?case by (blast intro: request_good)
next
  case cancelled
  then show ?case by (blast intro: cancel_good)
next
  case credited
  then show ?case by (blast intro: credit_good)
next
  case (linked E c bc account s ra s')
  have "upholds foreign (link_bridge_tx E c bc account)"
    unfolding link_bridge_tx_def by (intro foreign_rules)
  with linked link_bridge_tx_aside show ?case by (blast intro: transaction_quiet)
qed

lemma fresh_sound: "fresh_install s \<Longrightarrow> sound s"
  by (simp add: fresh_install_def sound_def engine_ok_def ledger_ok_def running_ok_def collections_ok_def events_ok_def)

lemma reachable_sound: "reachable s \<Longrightarrow> sound s"
  by (induction rule: reachable.induct) (auto intro: fresh_sound dest: commit_good simp: good_def)

text \<open>
  in every state the system can reach, through whatever interleaving of the transactions of
  concurrent requests, the background progression, webhooks and the listener: the postings of every
  transfer are what its history calls for and every running balance is the sum of its account
  (\<open>engine_ok\<close>), a request is paid exactly if one recorded payment paid it (\<open>collections_ok\<close>), and no
  vault event is recorded twice (\<open>events_ok\<close>).
\<close>

theorem reachable_states_are_sound:
  assumes "reachable s"
  shows "engine_ok s \<and> collections_ok s \<and> events_ok s"
  using reachable_sound [OF assms] by (simp add: sound_def)

lemma status_le_trans: "status_le a b \<Longrightarrow> status_le b c \<Longrightarrow> status_le a c"
  by (auto simp: status_le_def)

lemma commits_evolve: "commit\<^sup>*\<^sup>* s s' \<Longrightarrow> sound s \<Longrightarrow> sound s' \<and> evolves s s' \<and> statuses_move s s'"
proof (induction rule: rtranclp_induct)
  case base
  then show ?case by (simp add: evolves.refl statuses_move_def status_le_def)
next
  case (step t u)
  then have t: "sound t" "evolves s t" "statuses_move s t" by auto
  from commit_good [OF step.hyps(2) t(1)] have u: "sound u" "evolves t u" "statuses_move t u" by (auto simp: good_def)
  have "length (collections s) \<le> length (collections t)"
    using t(2) by (auto simp: evolves_def dest: prefix_length_le)
  then have "statuses_move s u"
    using t(3) u(3) unfolding statuses_move_def by (meson less_le_trans status_le_trans)
  with u t evolves.trans show ?case by blast
qed

text \<open>
  time only adds: between any two points of the system's life no posting, audit entry, trade,
  payment or vault event is changed or removed, what a transfer was agreed on stays as it was and its
  history only grows, no payment request loses a term, and a request's status moves only from
  pending to paid or cancelled, or from cancelled to paid.
\<close>

theorem nothing_is_rewritten:
  assumes "reachable s" and "commit\<^sup>*\<^sup>* s s'"
  shows "append_only s s' \<and> prefix (map deal (transfers s)) (map deal (transfers s')) \<and>
    prefix (transfer_history s) (transfer_history s') \<and>
    prefix (map terms (collections s)) (map terms (collections s')) \<and>
    (\<forall>i < length (collections s). status_le (co_status (collections s ! i)) (co_status (collections s' ! i)))"
  using commits_evolve [OF assms(2) reachable_sound [OF assms(1)]] by (simp add: evolves_def statuses_move_def)

end
