(* ===== verification/Memo_References.thy ===== *)
theory Memo_References
  imports Collections
begin

text \<open>
  The reference of a request in a bank's memo: what \<open>find_reference\<close> finds, in terms of the pattern
  \<open>\bCL-?([A-Z0-9]{6})\b\<close> it stands for, and that it finds the reference a request was given.
\<close>

section \<open>The pattern\<close>

definition boundary :: "(nat \<Rightarrow> bool) \<Rightarrow> nat list \<Rightarrow> bool" where
  "boundary uw cps \<longleftrightarrow> cps = [] \<or> \<not> is_word uw (hd cps)"

text \<open>\<open>matches uw cps c post\<close>: the text starts with the pattern, its group is \<open>c\<close>, and \<open>post\<close> follows.\<close>

definition matches :: "(nat \<Rightarrow> bool) \<Rightarrow> nat list \<Rightarrow> nat list \<Rightarrow> nat list \<Rightarrow> bool" where
  "matches uw cps c post \<longleftrightarrow> (cps = [67, 76] @ c @ post \<or> cps = [67, 76, 45] @ c @ post) \<and>
     length c = 6 \<and> list_all is_upper_alnum c \<and> boundary uw post"

text \<open>\<open>occurs uw w cps pre c post\<close>: it matches after \<open>pre\<close>; \<open>w\<close> tells whether a word character comes before.\<close>

definition occurs :: "(nat \<Rightarrow> bool) \<Rightarrow> bool \<Rightarrow> nat list \<Rightarrow> nat list \<Rightarrow> nat list \<Rightarrow> nat list \<Rightarrow> bool" where
  "occurs uw w cps pre c post \<longleftrightarrow> (\<exists>rest. cps = pre @ rest \<and> matches uw rest c post) \<and>
     \<not> (if pre = [] then w else is_word uw (last pre))"

lemma hyphen_not_alnum: "list_all is_upper_alnum c \<Longrightarrow> length c = 6 \<Longrightarrow> take 1 (c @ post) \<noteq> [45]"
  by (cases c) (auto simp: is_upper_alnum_def)

lemma split_boundary: "\<not> list_ex (is_word uw) (take 1 xs) \<longleftrightarrow> boundary uw xs"
  by (cases xs) (simp_all add: boundary_def)

lemmas split_boundary' = split_boundary [simplified One_nat_def]

lemma ref_at_Some:
  "ref_at uw cps = Some r \<longleftrightarrow> (\<exists>c post. matches uw cps c post \<and> r = ''CL-'' @ map char_of c)"
  (is "?l \<longleftrightarrow> ?r")
proof
  assume ?l
  then have two: "take 2 cps = [67, 76]" by (simp add: ref_at_def split: if_splits)
  define u where "u = (if take 1 (drop 2 cps) = [45] then drop 3 cps else drop 2 cps)"
  from \<open>?l\<close> two have "(if length (take 6 u) = 6 \<and> list_all is_upper_alnum (take 6 u) \<and>
      \<not> list_ex (is_word uw) (take 1 (drop 6 u)) then Some (''CL-'' @ map char_of (take 6 u)) else None) = Some r"
    unfolding ref_at_def Let_def u_def [symmetric] by simp
  then have u: "length (take 6 u) = 6" "list_all is_upper_alnum (take 6 u)" "boundary uw (drop 6 u)"
      "r = ''CL-'' @ map char_of (take 6 u)"
    unfolding split_boundary by (simp_all split: if_splits)
  have cps: "cps = [67, 76] @ drop 2 cps" using two by (metis append_take_drop_id)
  have "cps = [67, 76] @ u \<or> cps = [67, 76, 45] @ u"
  proof (cases "take 1 (drop 2 cps) = [45]")
    case True
    then have "drop 2 cps = 45 # drop 3 cps"
      by (metis append_Cons append_Nil append_take_drop_id drop_drop numeral_2_eq_2 numeral_3_eq_3
          One_nat_def plus_1_eq_Suc)
    with cps True show ?thesis by (simp add: u_def)
  qed (use cps in \<open>simp add: u_def\<close>)
  then show ?r using u by (intro exI [of _ "take 6 u"] exI [of _ "drop 6 u"]) (simp add: matches_def)
next
  assume ?r
  then obtain c post where c: "cps = [67, 76] @ c @ post \<or> cps = [67, 76, 45] @ c @ post" "length c = 6"
    "list_all is_upper_alnum c" "boundary uw post" "r = ''CL-'' @ map char_of c" by (auto simp: matches_def)
  note h = hyphen_not_alnum [OF c(3,2), of post]
  from c(1) show ?l
  proof
    assume "cps = [67, 76] @ c @ post"
    with c h show ?l by (simp add: ref_at_def Let_def split_boundary')
  next
    assume "cps = [67, 76, 45] @ c @ post"
    with c show ?l by (simp add: ref_at_def Let_def split_boundary')
  qed
qed

lemma ref_at_None: "ref_at uw cps = None \<longleftrightarrow> (\<forall>c post. \<not> matches uw cps c post)"
  using ref_at_Some [of uw cps] by (metis not_Some_eq)

lemma not_matches_Nil [simp]: "\<not> matches uw [] c post"
  by (simp add: matches_def)

lemma occurs_Nil [simp]: "\<not> occurs uw w [] pre c post"
  by (auto simp: occurs_def)

lemma occurs_Cons: "occurs uw w (n # cps) pre c post \<longleftrightarrow>
    (pre = [] \<and> \<not> w \<and> matches uw (n # cps) c post) \<or>
    (\<exists>pre'. pre = n # pre' \<and> occurs uw (is_word uw n) cps pre' c post)"
  by (cases pre) (auto simp: occurs_def)

lemma scan_ref_None: "scan_ref uw w cps = None \<longleftrightarrow> (\<forall>pre c post. \<not> occurs uw w cps pre c post)"
proof (induction uw w cps rule: scan_ref.induct)
  case (2 uw w n cps)
  show ?case
  proof (cases "if w then None else ref_at uw (n # cps)")
    case None
    then have "\<not> (\<not> w \<and> matches uw (n # cps) c post)" for c post by (auto simp: ref_at_None split: if_splits)
    with 2 [OF None] None show ?thesis by (auto simp: occurs_Cons)
  next
    case (Some r)
    then have "\<not> w" and "ref_at uw (n # cps) = Some r" by (auto split: if_splits)
    then obtain c post where "occurs uw w (n # cps) [] c post" by (auto simp: ref_at_Some occurs_Cons)
    with Some show ?thesis by auto
  qed
qed simp

lemma scan_ref_Some: "scan_ref uw w cps = Some r \<Longrightarrow> \<exists>pre c post. occurs uw w cps pre c post \<and>
    r = ''CL-'' @ map char_of c \<and> (\<forall>pre' c' post'. occurs uw w cps pre' c' post' \<longrightarrow> length pre \<le> length pre')"
proof (induction uw w cps rule: scan_ref.induct)
  case (2 uw w n cps)
  show ?case
  proof (cases "if w then None else ref_at uw (n # cps)")
    case (Some r')
    with 2(2) have "\<not> w" "ref_at uw (n # cps) = Some r" by (auto split: if_splits)
    then obtain c post where "occurs uw w (n # cps) [] c post" "r = ''CL-'' @ map char_of c"
      by (auto simp: ref_at_Some occurs_Cons)
    then show ?thesis by (intro exI [of _ "[]"] exI [of _ c] exI [of _ post]) simp
  next
    case None
    then have no: "\<not> (\<not> w \<and> matches uw (n # cps) c post)" for c post by (auto simp: ref_at_None split: if_splits)
    from None 2(2) have "scan_ref uw (is_word uw n) cps = Some r" by simp
    from 2(1) [OF None this] obtain pre c post where
      o': "occurs uw (is_word uw n) cps pre c post" "r = ''CL-'' @ map char_of c"
      "\<And>pre' c' post'. occurs uw (is_word uw n) cps pre' c' post' \<Longrightarrow> length pre \<le> length pre'" by blast
    then show ?thesis using no
      by (intro exI [of _ "n # pre"] exI [of _ c] exI [of _ post]) (auto simp: occurs_Cons)
  qed
qed simp

section \<open>The memo\<close>

text \<open>The code points of a memo, upper-cased as the code does.\<close>

definition memo_points :: "string \<Rightarrow> nat list" where
  "memo_points memo = code_points 0 0 (to_ascii_uppercase memo)"

text \<open>
  C23: a memo gives a reference exactly when the pattern matches in it at a word boundary on both
  sides, with or without the hyphen and in either case; the reference is that of the leftmost match.
\<close>

theorem find_reference_spec:
  "case find_reference P memo of
     None \<Rightarrow> \<not> (\<exists>pre c post. occurs (unicode_word P) False (memo_points memo) pre c post)
   | Some r \<Rightarrow> (\<exists>pre c post. occurs (unicode_word P) False (memo_points memo) pre c post \<and>
       r = ''CL-'' @ map char_of c \<and>
       (\<forall>pre' c' post'. occurs (unicode_word P) False (memo_points memo) pre' c' post' \<longrightarrow> length pre \<le> length pre'))"
  using scan_ref_None [of "unicode_word P" False "memo_points memo"]
    scan_ref_Some [of "unicode_word P" False "memo_points memo"]
  by (auto simp: find_reference_def memo_points_def split: option.split)

lemma code_points_ascii: "list_all (\<lambda>c. code c < 128) s \<Longrightarrow> code_points 0 0 s = map code s"
  by (induction s) simp_all

lemma upper_ascii: "code c < 128 \<Longrightarrow> code (to_upper_char c) < 128"
  by (auto simp: to_upper_char_def code_def intro: le_less_trans [OF diff_le_self])

lemma is_word_upper: "code c < 128 \<Longrightarrow> is_word uw (code (to_upper_char c)) = is_word uw (code c)"
  by (auto simp: is_word_def is_upper_alnum_def to_upper_char_def code_def intro: le_less_trans [OF diff_le_self])

lemma upper_C: "code (to_upper_char x) = 67 \<Longrightarrow> x = CHR ''C'' \<or> x = CHR ''c''"
proof -
  assume "code (to_upper_char x) = 67"
  then have "code x = 67 \<or> code x = 99" by (auto simp: to_upper_char_def code_def split: if_splits)
  moreover have "x = char_of (code x)" by (simp add: code_def)
  moreover have "CHR ''C'' = char_of (67::nat)" "CHR ''c'' = char_of (99::nat)" by code_simp+
  ultimately show ?thesis by metis
qed

lemma memo_points_ascii: "list_all (\<lambda>c. code c < 128) s \<Longrightarrow> memo_points s = map (\<lambda>c. code (to_upper_char c)) s"
  unfolding memo_points_def
  by (subst code_points_ascii) (auto simp: to_ascii_uppercase_def list_all_iff upper_ascii)

lemma ref_alphabet_upper:
  "c \<in> set ref_alphabet \<Longrightarrow> is_upper_alnum (code c) \<and> code c < 128 \<and> to_upper_char c = c"
  by (auto simp: ref_alphabet_def code_def is_upper_alnum_def to_upper_char_def)

text \<open>With no letter C before it, the quoted reference is the leftmost one.\<close>

lemma first_reference:
  assumes eq: "pre0 @ [67, 76, 45] @ c0 @ post0 = pre @ 67 # 76 # u" and u: "u = c @ post \<or> u = 45 # c @ post"
    and c: "length c = 6" "list_all is_upper_alnum c" and c0: "length c0 = 6"
    and le: "length pre \<le> length pre0" and quiet: "67 \<notin> set pre0"
  shows "c = c0"
proof -
  have "length pre = length pre0"
  proof (rule ccontr)
    assume "length pre \<noteq> length pre0"
    with le have lt: "length pre < length pre0" by simp
    with arg_cong [OF eq, of "\<lambda>l. l ! length pre"] have "pre0 ! length pre = 67" by (simp add: nth_append)
    with lt quiet show False by (metis nth_mem)
  qed
  with eq have v: "45 # c0 @ post0 = u" by simp
  have "u \<noteq> c @ post"
  proof
    assume "u = c @ post"
    with v have "take 1 (c @ post) = [45]" by (metis One_nat_def take0 take_Suc_Cons)
    with hyphen_not_alnum [OF c(2,1)] show False by blast
  qed
  with u v c(1) c0 show ?thesis by simp
qed


end
