(* ===== verification/Collection_Scenarios.thy ===== *)
theory Collection_Scenarios
  imports Interleaving Scenarios Memo_References
begin

text \<open>
  A customer with a linked Bridge account and two open requests, one signed deposit and one signed
  receive: the inhabited cases of \<open>Collection_Properties\<close>, \<open>Webhook_Properties\<close>, \<open>Memo_References\<close> and
  \<open>Interleaving\<close>.
\<close>

section \<open>Partners and deliveries\<close>

text \<open>
  A crypto record small enough to compute with: the digest of everything is \<open>X\<close>, a signature is the
  key followed by the digest, and four bodies are JSON.
\<close>

definition sample_read :: "string \<Rightarrow> json option" where
  "sample_read body =
     (if body = ''deposit'' then Some (JObj [(''event_id'', JStr ''e1''),
          (''event_category'', JStr ''virtual_account.activity''),
          (''event_object'', JObj [(''id'', JStr ''a1''), (''type'', JStr ''payment_processed''),
             (''virtual_account_id'', JStr ''va1''), (''amount'', JStr ''12.5''), (''deposit_id'', JStr ''d1''),
             (''source'', JObj [(''description'', JStr ''for cl-abc234'')])])])
      else if body = ''notice'' then Some (JObj [(''id'', JStr ''r1''), (''event'', JStr ''receive.complete'')])
      else if body = ''reply'' then Some (JObj [(''id'', JStr ''r1''), (''status'', JStr ''complete''),
          (''currency'', JStr ''NGN''), (''convertedAmount'', JInt 7)])
      else None)"

definition sample_crypto :: crypto where
  "sample_crypto = \<lparr>sha256 = (\<lambda>_. [88]), b64_encode = map (\<lambda>b. char_of (unat b)), b64_decode = (\<lambda>x. Some (as_bytes x)),
     rsa_verify = (\<lambda>key digest sg. sg = key @ digest), from_pem = (\<lambda>_. None), from_pkcs1_pem = (\<lambda>_. None),
     read_json = sample_read, write_json = (\<lambda>_. ''{}''), unicode_word = (\<lambda>_. False)\<rparr>"

definition sample_partners :: partners where
  "sample_partners = \<lparr>pt_yellowcard = Some \<lparr>yc_base_url = ''u'', yc_api_key = ''k'', yc_api_secret = ''s'',
       yc_channel_id = None, yc_source_account = None\<rparr>,
     pt_bridge = None, pt_webhook_key = Some [75]\<rparr>"

definition sample_web :: http where
  "sample_web _ = Replied 200 ''reply''"

definition sample_request :: "uuid \<Rightarrow> string \<Rightarrow> string \<Rightarrow> string \<Rightarrow> string option \<Rightarrow> collection_row" where
  "sample_request i rf ccy provider pr =
     \<lparr>co_id = i, co_reference = rf, co_customer = 1, co_key = rf, co_amount = 1000, co_currency = ccy,
      co_payer_name = None, co_note = None, co_status = ''PENDING'', co_provider = provider, co_provider_ref = pr,
      co_pay_in = \<lparr>pi_method = ''US_BANK_TRANSFER'', pi_bank_name = None, pi_bank_address = None,
        pi_account_name = None, pi_account_number = None, pi_routing_number = None,
        pi_beneficiary_address = None, pi_payment_rails = [], pi_payment_link = None, pi_memo = Some rf\<rparr>,
      co_expires_at = 5000, co_paid_at = None, co_cancelled_at = None, co_created_by = 2, co_created_at = 0\<rparr>"

definition collecting_db :: db where
  "collecting_db = sample_db\<lparr>collections := [sample_request 40 ''CL-ABC234'' ''USD'' bridge_name None,
       sample_request 41 ''CL-DEF567'' ''NGN'' yellowcard_name (Some ''r1'')],
     virtual_accounts := [\<lparr>va_customer = 1, va_bridge_customer = ''b1'', va_virtual_account = ''va1'',
       va_instructions = \<lparr>di_currency = None, di_payment_rails = [], di_bank_name = None, di_bank_address = None,
         di_bank_beneficiary_name = None, di_bank_beneficiary_address = None, di_bank_account_number = None,
         di_bank_routing_number = None\<rparr>\<rparr>]\<rparr>"

lemma collecting_engine_ok: "engine_ok collecting_db"
proof (rule foreign_engine_ok [OF _ sample_engine_ok])
  have "ledger_ok collecting_db"
    by (rule ledger_ok_cong [OF _ _ _ sample_ledger_ok]) (simp_all add: collecting_db_def)
  then show "foreign sample_db collecting_db" by (simp add: foreign_def collecting_db_def)
qed

lemma collecting_collections_ok: "collections_ok collecting_db"
  by (simp add: collections_ok_def request_ok_def paid_ids_def collecting_db_def sample_request_def sample_db_def)

lemmas collecting_eval = apply_inbound_def inbound_tx_def settled_request_def collection_view_by_id_def
  select_view_def view_status_def read_status_def parse_collection_status_def payment_of_def insert_inbound_def
  post_inbound_entry_def mark_settled_def inbound_audit_def commit_or_rollback_def update_where_def
  collecting_db_def sample_request_def sample_env_def ack_of_def bind_io_def return_io_def bridge_name_def
  yellowcard_name_def received_at_def parse_time_def

lemmas field_eval = req_field_def opt_field_def is_null_def
lemmas text_eval = trim_def trim_start_def is_whitespace_def code_def

section \<open>A deposit\<close>

definition deposit_header :: string where "deposit_header = ''t=900,v0=KX''"

definition sample_activity :: activity where
  "sample_activity = \<lparr>av_id = ''a1'', av_kind = ''payment_processed'', av_virtual_account = ''va1'',
     av_amount = ''12.5'', av_currency = None, av_deposit_id = Some ''d1'', av_created_at = None,
     av_source = Some \<lparr>as_sender_name = None, as_description = Some ''for cl-abc234''\<rparr>\<rparr>"

lemma sample_deposit_event: "deposit_event sample_crypto ''deposit'' = Some sample_activity"
  by (simp add: deposit_event_def sample_crypto_def sample_read_def decode_bridge_event_def decode_activity_def
      decode_activity_source_def field_eval sample_activity_def)

lemma twelve_fifty: "dollars_to_cents ''12.5'' = Some 1250"
  by code_simp

lemma sample_memo: "find_reference sample_crypto ''for cl-abc234'' = Some ''CL-ABC234''"
  by code_simp

lemma deposit_is_valid:
  "verify_bridge_webhook sample_crypto [75] (or_empty (header_to_str (Some deposit_header))) ''deposit'' 1000 = Valid"
  by code_simp

lemma deposit_is_credited:
  "credit_deposit sample_crypto sample_env sample_activity raw collecting_db =
     ack_of (apply_inbound sample_env \<lparr>in_customer = 1, in_collection = Some 40, in_settles_closed = False,
       in_provider = bridge_name, in_payment_id = ''d1'', in_amount = 1250, in_currency = Usd,
       in_payer_name = None, in_description = Some ''for cl-abc234'', in_received_at = 1000, in_raw = raw\<rparr>) collecting_db"
  by (simp add: credit_deposit_def sample_activity_def sample_memo twelve_fifty bind_io_def transaction_def gets_def
      collecting_db_def sample_request_def received_at_def parse_time_def sample_env_def yellowcard_name_def
      bridge_name_def)

definition sample_deposit :: "json \<Rightarrow> inbound" where
  "sample_deposit raw = \<lparr>in_customer = 1, in_collection = Some 40, in_settles_closed = False,
     in_provider = bridge_name, in_payment_id = ''d1'', in_amount = 1250, in_currency = Usd,
     in_payer_name = None, in_description = Some ''for cl-abc234'', in_received_at = 1000, in_raw = raw\<rparr>"

lemma sample_deposit_applies:
  "\<exists>s'. apply_inbound sample_env (sample_deposit raw) collecting_db = (Inr True, s')"
  by (simp add: collecting_eval sample_eval engine_eval sample_deposit_def)

lemma payment_recorded: "apply_inbound E p s = (Inr True, s') \<Longrightarrow> ledger_ok s \<Longrightarrow> s' \<noteq> s"
  by (erule apply_inbound_cases) (auto dest!: inbound_tx_Some(1))

lemma deposit_runs:
  obtains s' where "receive_bridge sample_crypto sample_env sample_partners (Some deposit_header) ''deposit'' collecting_db =
     (Inr \<lparr>wa_applied = True, wa_duplicate = False\<rparr>, s')" "s' \<noteq> collecting_db"
proof -
  obtain raw where raw: "read_json sample_crypto ''deposit'' = Some raw" by (simp add: sample_crypto_def sample_read_def)
  obtain s' where s': "apply_inbound sample_env (sample_deposit raw) collecting_db = (Inr True, s')"
    using sample_deposit_applies by blast
  have "receive_bridge sample_crypto sample_env sample_partners (Some deposit_header) ''deposit'' collecting_db =
     credit_deposit sample_crypto sample_env sample_activity raw collecting_db"
    using raw sample_deposit_event deposit_is_valid
    by (simp add: receive_bridge_def sample_partners_def sample_env_def deposit_event_def split: bind_splits if_splits)
  with s' have run: "receive_bridge sample_crypto sample_env sample_partners (Some deposit_header) ''deposit'' collecting_db =
     (Inr \<lparr>wa_applied = True, wa_duplicate = False\<rparr>, s')"
    by (simp add: deposit_is_credited ack_of_def bind_io_def return_io_def sample_deposit_def)
  from payment_recorded [OF s'] collecting_engine_ok have "s' \<noteq> collecting_db" by (simp add: engine_ok_def)
  with run show thesis by (rule that)
qed

theorem deposit_is_authentic_witness:
  "\<exists>s'. snd (receive_bridge sample_crypto sample_env sample_partners (Some deposit_header) ''deposit'' collecting_db) = s' \<and>
     balance 1 ''USD'' s' = 1250 \<and> balance 1 ''NGN'' s' = 1000"
proof -
  from deposit_runs obtain s' where run: "receive_bridge sample_crypto sample_env sample_partners (Some deposit_header)
      ''deposit'' collecting_db = (Inr \<lparr>wa_applied = True, wa_duplicate = False\<rparr>, s')" "s' \<noteq> collecting_db" by blast
  have "0 \<le> now sample_env" "in_i64 (now sample_env)" by (simp_all add: sample_env_def in_i64_def)
  from deposit_is_authentic [OF collecting_engine_ok collecting_collections_ok this run]
  obtain va where "va \<in> set (virtual_accounts collecting_db)"
    "\<forall>c k. balance c k s' = balance c k collecting_db + (if c = va_customer va \<and> k = ''USD'' then 1250 else 0)"
    using sample_deposit_event by (auto simp: sample_activity_def twelve_fifty)
  moreover have "balance 1 ''USD'' collecting_db = 0" "balance 1 ''NGN'' collecting_db = 1000"
    by (simp_all add: balance_def collecting_db_def sample_db_def find_account_def account_sum_def)
  ultimately show ?thesis using run by (simp add: collecting_db_def)
qed

theorem deposit_is_credited_once_witness:
  "\<exists>s'. snd (receive_bridge sample_crypto sample_env sample_partners (Some deposit_header) ''deposit'' collecting_db) = s' \<and>
     snd (receive_bridge sample_crypto sample_env sample_partners (Some deposit_header) ''deposit'' s') = s'"
proof -
  from deposit_runs obtain s' where run: "receive_bridge sample_crypto sample_env sample_partners (Some deposit_header)
      ''deposit'' collecting_db = (Inr \<lparr>wa_applied = True, wa_duplicate = False\<rparr>, s')" by blast
  have lok: "ledger_ok collecting_db" using collecting_engine_ok by (simp add: engine_ok_def)
  from deposit_is_credited_once [OF lok run _ sample_deposit_event sample_deposit_event refl append.refl, of sample_env
      sample_partners "Some deposit_header"]
  show ?thesis using run by simp
qed

theorem payment_is_credited_once_witness:
  "\<exists>s'. apply_inbound sample_env (sample_deposit JNull) collecting_db = (Inr True, s') \<and>
     balance 1 ''USD'' s' = 1250 \<and> snd (apply_inbound sample_env (sample_deposit JNull) s') = s'"
proof -
  obtain s' where run: "apply_inbound sample_env (sample_deposit JNull) collecting_db = (Inr True, s')"
    using sample_deposit_applies by blast
  have "balance 1 ''USD'' collecting_db = 0"
    by (simp add: balance_def collecting_db_def sample_db_def find_account_def account_sum_def)
  with payment_is_credited_once [OF collecting_engine_ok collecting_collections_ok run append.refl refl refl, of sample_env]
  have "balance 1 ''USD'' s' = 1250 \<and> snd (apply_inbound sample_env (sample_deposit JNull) s') = s'"
    by (simp add: sample_deposit_def)
  with run show ?thesis by blast
qed
section \<open>A receive\<close>

definition sample_receive :: receive where
  "sample_receive = \<lparr>re_id = ''r1'', re_sequence_id = None, re_status = ''complete'', re_currency = Some ''NGN'',
     re_amount = None, re_converted_amount = Some (int_to_f64 7), re_expires_at = None, re_updated_at = None,
     re_bank_info = None, re_source_account_name = None, re_error_code = None\<rparr>"

lemma i64_max_above: "f64_less (Fin 700) (int_to_f64 i64_max)"
proof -
  let ?x = "rat_of_int i64_max" and ?k = "max (ilog2 \<bar>rat_of_int i64_max\<bar> - 52) (- 1074)"
  have b1: "bitlen 1 = 1" using bitlen_pow2 [of 1 0] by (simp add: bitlen_def floorlog_def)
  have "ilog2 \<bar>?x\<bar> \<le> bitlen i64_max - 1" by (simp add: ilog2_def Let_def b1 i64_max_def)
  moreover have "bitlen i64_max \<le> 63" by (simp add: bitlen_le_iff_power i64_max_def)
  ultimately have k: "?k \<le> 10" by simp
  have "pow2 ?k \<le> 2 ^ 10"
  proof (cases "0 \<le> ?k")
    case True
    with k have "(2::rat) ^ nat ?k \<le> 2 ^ 10" by (intro power_increasing) auto
    with True show ?thesis by (simp only: pow2_def if_True)
  next
    case False
    then have "pow2 ?k = 1 / 2 ^ nat (- ?k)" by (simp only: pow2_def if_False)
    also have "\<dots> \<le> 1" by simp
    finally show ?thesis by simp
  qed
  then have near: "round_f64 ?x = Fin r \<Longrightarrow> 700 < r" for r
    using round_f64_error [of ?x r] by (simp add: i64_max_def abs_le_iff abs_if split: if_splits)
  have "round_f64 ?x = Infinite True \<or> (\<exists>r. round_f64 ?x = Fin r)"
    by (auto simp: round_f64_def Let_def i64_max_def)
  with near show ?thesis by (auto simp: int_to_f64_def)
qed

lemma seven_naira: "major_to_minor (int_to_f64 7) = Some 700"
proof -
  have "int_to_f64 7 = Fin 7" "f64_mul (Fin 7) hundred = Fin 700" "f64_round (Fin 700) = Fin 700"
    using round_f64_int [of 7] round_f64_int [of 700] round_half_away_of_int [of 700]
    by (simp_all add: int_to_f64_def hundred_def)
  moreover have "f64_to_int (Fin 700) = 700" using f64_to_int_of_int [of 700] by (simp add: i128_max_def)
  ultimately show ?thesis using i64_max_above by (simp add: major_to_minor_def)
qed

lemma sample_receive_event:
  "receive_event sample_crypto ''notice'' = Some \<lparr>ye_id = ''r1'', ye_event = Some ''receive.complete''\<rparr>"
  by (simp add: receive_event_def sample_crypto_def sample_read_def decode_yellowcard_event_def field_eval)
    code_simp

lemma sample_reply:
  "\<exists>raw. get_receive sample_crypto sample_env sample_web yc i = Inr (sample_receive, raw)"
  by (simp add: get_receive_def yc_call_def Let_def read_reply_def sample_web_def sample_crypto_def sample_read_def
      decode_receive_def field_eval sample_receive_def)
definition sample_payment :: "json \<Rightarrow> inbound" where
  "sample_payment raw = \<lparr>in_customer = 1, in_collection = Some 41, in_settles_closed = True,
     in_provider = yellowcard_name, in_payment_id = ''r1'', in_amount = 700, in_currency = Ngn,
     in_payer_name = None, in_description = None, in_received_at = 1000, in_raw = raw\<rparr>"

lemma sample_payment_applies:
  "\<exists>s'. apply_inbound sample_env (sample_payment raw) collecting_db = (Inr True, s')"
  by (simp add: collecting_eval sample_eval engine_eval sample_payment_def)

lemma receive_is_credited:
  "credit_receive sample_env sample_receive raw collecting_db =
     ack_of (apply_inbound sample_env (sample_payment raw)) collecting_db"
  by (simp add: credit_receive_def sample_receive_def seven_naira bind_io_def transaction_def gets_def
      collecting_db_def sample_request_def received_at_def parse_time_def sample_env_def yellowcard_name_def
      bridge_name_def sample_payment_def)

lemma notice_is_tagged:
  "verify_webhook sample_crypto ''s'' (or_empty (header_to_str (Some ''X''))) ''notice''"
  by code_simp

lemma receive_runs:
  obtains r s' where "receive_yellowcard sample_crypto sample_env sample_web sample_partners (Some ''X'') ''notice''
     collecting_db = (r, s')" "s' \<noteq> collecting_db"
proof -
  obtain yc where yc: "pt_yellowcard sample_partners = Some yc" "yc_api_secret yc = ''s''"
    by (simp add: sample_partners_def)
  obtain raw where reply: "get_receive sample_crypto sample_env sample_web yc ''r1'' = Inr (sample_receive, raw)"
    using sample_reply by blast
  obtain s' where s': "apply_inbound sample_env (sample_payment raw) collecting_db = (Inr True, s')"
    using sample_payment_applies by blast
  obtain j ev where j: "read_json sample_crypto ''notice'' = Some j" "decode_yellowcard_event j = Some ev"
    "ye_id ev = ''r1''" "case ye_event ev of None \<Rightarrow> False | Some e \<Rightarrow> is_receive_event e"
    using sample_receive_event by (auto simp: receive_event_def split: option.splits if_splits bind_splits)
  have "receive_yellowcard sample_crypto sample_env sample_web sample_partners (Some ''X'') ''notice'' collecting_db =
     credit_receive sample_env sample_receive raw collecting_db"
    using yc notice_is_tagged j reply by (simp add: receive_yellowcard_def sample_receive_def)
  with s' have run: "receive_yellowcard sample_crypto sample_env sample_web sample_partners (Some ''X'') ''notice''
      collecting_db = (Inr \<lparr>wa_applied = True, wa_duplicate = False\<rparr>, s')"
    by (simp add: receive_is_credited ack_of_def bind_io_def return_io_def)
  from payment_recorded [OF s'] collecting_engine_ok have "s' \<noteq> collecting_db" by (simp add: engine_ok_def)
  with run show thesis by (rule that)
qed

theorem receive_is_authentic_witness:
  "\<exists>s'. snd (receive_yellowcard sample_crypto sample_env sample_web sample_partners (Some ''X'') ''notice''
      collecting_db) = s' \<and> balance 1 ''NGN'' s' = 1700 \<and>
     filter (\<lambda>d. co_id d = 41 \<and> co_status d \<noteq> ''PAID'') (collections s') = []"
proof -
  from receive_runs obtain r s' where run: "receive_yellowcard sample_crypto sample_env sample_web sample_partners
      (Some ''X'') ''notice'' collecting_db = (r, s')" "s' \<noteq> collecting_db" by blast
  have *: "naira_amount sample_receive = Some 700" by (simp add: naira_amount_def sample_receive_def seven_naira)
  from receive_is_authentic [OF collecting_engine_ok collecting_collections_ok run]
  obtain yc rcv raw c amount and ev :: yellowcard_event where "pt_yellowcard sample_partners = Some yc"
    "get_receive sample_crypto sample_env sample_web yc (ye_id ev) = Inr (rcv, raw)" "naira_amount rcv = Some amount"
    and c: "c \<in> set (collections collecting_db)" "co_provider_ref c = Some (re_id rcv)"
    and paid: "\<forall>d \<in> set (collections s'). co_id d = co_id c \<longrightarrow> co_status d = ''PAID''"
    and b: "\<forall>k y. balance k y s' = balance k y collecting_db + (if k = co_customer c \<and> y = ''NGN'' then amount else 0)"
    by blast
  with sample_reply [of yc "ye_id ev"] * have amount: "amount = 700" and "rcv = sample_receive" by auto
  with c have "co_id c = 41" "co_customer c = 1"
    by (auto simp: collecting_db_def sample_request_def)
  moreover have "balance 1 ''NGN'' collecting_db = 1000"
    by (simp add: balance_def collecting_db_def sample_db_def find_account_def account_sum_def)
  ultimately show ?thesis using run b paid amount by (auto simp: filter_empty_conv)
qed

section \<open>A memo\<close>

definition drawing_env :: env where
  "drawing_env = sample_env\<lparr>draws := (\<lambda>_. [0, 1, 2, 3, 4, 5])\<rparr>"

theorem find_reference_spec_witness:
  "find_reference sample_crypto ''for cl-abc234'' = Some ''CL-ABC234'' \<and>
   (\<exists>pre c post. occurs (unicode_word sample_crypto) False (memo_points ''for cl-abc234'') pre c post \<and>
     ''CL-ABC234'' = ''CL-'' @ map char_of c)"
  using find_reference_spec [of sample_crypto "''for cl-abc234''", unfolded sample_memo option.case]
  by (elim exE conjE) (intro conjI exI sample_memo; assumption)


section \<open>A history of commits\<close>

definition empty_db :: db where
  "empty_db = sample_db\<lparr>accounts := [], ledger_entries := [], transfers := [], transfer_history := []\<rparr>"

lemma empty_reachable: "reachable empty_db"
  by (rule reachable.start) (simp add: fresh_install_def empty_db_def sample_db_def)

definition busy_db :: db where
  "busy_db = snd (apply_inbound sample_env (sample_deposit JNull) (snd (draw_id empty_db)))"

lemma busy_commits: "commit\<^sup>*\<^sup>* empty_db busy_db"
proof -
  have "commit empty_db (snd (draw_id empty_db))" by (rule commit.id_drawn)
  moreover have "commit (snd (draw_id empty_db)) busy_db"
    unfolding busy_db_def by (rule commit.credited) (rule prod.collapse [symmetric])
  ultimately show ?thesis by (meson converse_rtranclp_into_rtranclp r_into_rtranclp)
qed

theorem reachable_states_are_sound_witness: "engine_ok busy_db \<and> collections_ok busy_db \<and> events_ok busy_db"
  by (rule reachable_states_are_sound [OF reachable_rtranclp [OF busy_commits empty_reachable]])

theorem nothing_is_rewritten_witness: "append_only empty_db busy_db \<and> prefix (transfer_history empty_db) (transfer_history busy_db)"
  using nothing_is_rewritten [OF empty_reachable busy_commits] by blast

end
