(* ===== verification/Listener_Scenarios.thy ===== *)
theory Listener_Scenarios
  imports Listener_Properties Scenarios
begin

text \<open>A small chain and two passes over it: the inhabited cases of \<open>Listener_Properties\<close>.\<close>

section \<open>A chain of twelve blocks\<close>

definition sample_listener :: listener_config where
  "sample_listener = \<lparr>lc_vault = [7], lc_confirmations = 2, lc_start_block = 5, lc_poll_ms = 2000,
     lc_max_range = 3\<rparr>"

definition chain_event :: "vault_event \<Rightarrow> nat \<Rightarrow> nat \<Rightarrow> chain_log" where
  "chain_event ev n i = \<lparr>lg_event = Some ev, lg_tx_hash = Some [of_nat n], lg_log_index = Some i,
     lg_block_number = Some n, lg_block_hash = Some [of_nat n]\<rparr>"

definition sample_chain :: "chain_log list" where
  "sample_chain = [chain_event (RateDivergence [20] [75, 69, 83] 130 120 800) 9 1,
     chain_event (SettlementInitiated [20] [1] 5) 6 0,
     chain_event (SettlementInitiated [99] [1] 5) 6 1,
     chain_event (SettlementInitiated [20] [1] 5) 11 0]"

definition sample_node :: node where
  "sample_node = \<lparr>nd_head = Some 12, nd_block = (\<lambda>n. Some (Some \<lparr>bk_hash = [of_nat n], bk_timestamp = n\<rparr>)),
     nd_logs = (\<lambda>a b. Some (filter (in_blocks a b) sample_chain)), hex = (\<lambda>_. ''0x''), address_str = (\<lambda>_. ''0x'')\<rparr>"

text \<open>The transfers of \<open>sample_db\<close> with their keys on the vault.\<close>

definition onchain_db :: db where
  "onchain_db = sample_db\<lparr>transfers := map (\<lambda>r. r\<lparr>tr_settlement_ref := Some [of_nat (tr_id r)]\<rparr>) (transfers sample_db)\<rparr>"

lemma onchain_engine_ok: "engine_ok onchain_db"
proof -
  have "transfer_ok onchain_db r" if "r \<in> set (transfers onchain_db)" for r
    unfolding transfer_ok_def
    by (rule exI [of _ "[Created, Quoted, Screened, AwaitingFunds]"])
      (use that in \<open>auto simp: onchain_db_def sample_db_def sample_transfer_def sample_history_def history_of_def
        postings_of_def step_postings_def upt_rec\<close>)
  moreover have "ledger_ok onchain_db"
    by (rule ledger_ok_cong [OF _ _ _ sample_ledger_ok]) (simp_all add: onchain_db_def)
  ultimately show ?thesis
    by (auto simp: engine_ok_def onchain_db_def sample_db_def sample_transfer_def sample_history_def
        transfer_ids_def upt_rec)
qed

lemma serves_sample: "serves sample_node sample_chain"
  by (auto simp: serves_def sample_node_def)

lemmas listener_eval = run_once_def resume_from_def cursor_def one_range_def range_end_def add_u64_def
  handle_log_def event_seen_def find_ref_def event_target_def record_event_def commit_or_rollback_def
  describe_def audit_unmoved_def event_audit_def audit_action_def new_event_def outcome_text_def
  block_hash_def block_at_def save_cursor_def sorted_logs_def position_key_def sample_node_def
  sample_listener_def sample_chain_def chain_event_def in_blocks_def onchain_db_def
  apply_onchain_def onchain_path_def currency_text_def sample_env_def

definition passed_db :: db where
  "passed_db = snd (the (run_once (Suc (Suc (Suc 0))) sample_env sample_node sample_listener onchain_db))"

lemma sample_pass:
  "run_once (Suc (Suc (Suc 0))) sample_env sample_node sample_listener onchain_db = Some (Inr (Some 10), passed_db)"
  "map ev_event (settlement_events passed_db) = [''SettlementInitiated'', ''RateDivergence'']"
  "cursor [7] passed_db = Some (10, [10])"
proof -
  have run: "\<exists>s'. run_once (Suc (Suc (Suc 0))) sample_env sample_node sample_listener onchain_db = Some (Inr (Some 10), s') \<and>
     map ev_event (settlement_events s') = [''SettlementInitiated'', ''RateDivergence''] \<and>
     cursor [7] s' = Some (10, [10])"
    by (simp add: listener_eval sample_eval engine_eval)
  then show "run_once (Suc (Suc (Suc 0))) sample_env sample_node sample_listener onchain_db = Some (Inr (Some 10), passed_db)"
    "map ev_event (settlement_events passed_db) = [''SettlementInitiated'', ''RateDivergence'']"
    "cursor [7] passed_db = Some (10, [10])"
    by (auto simp: passed_db_def)
qed

lemma sample_small: "nd_head sample_node = Some head \<Longrightarrow> small sample_listener head"
  by (simp add: sample_node_def small_def sample_listener_def)

section \<open>Witnesses\<close>


theorem pass_returns_witness:
  "\<exists>r s'. run_once (Suc 13) sample_env sample_node sample_listener onchain_db = Some (r, s')"
  by (rule pass_returns) (simp add: sample_node_def small_def sample_listener_def)

theorem pass_keeps_books_witness:
  "\<exists>r s'. run_once (Suc 14) sample_env (sample_node\<lparr>nd_head := Some 13\<rparr>) sample_listener passed_db = Some (r, s') \<and>
     engine_ok s' \<and> events_ok s' \<and> append_only passed_db s'"
proof -
  have fr: "listened_frame onchain_db passed_db \<and> (events_ok onchain_db \<longrightarrow> events_ok passed_db)"
    by (rule run_once_frame [OF sample_pass(1) sample_small])
  have ok: "engine_ok passed_db" "events_ok passed_db"
    using fr onchain_engine_ok by (auto simp: listened_frame_def events_ok_def onchain_db_def sample_db_def)
  let ?N = "sample_node\<lparr>nd_head := Some 13\<rparr>"
  have sm: "nd_head ?N = Some head \<Longrightarrow> small sample_listener head" for head
    by (auto simp: small_def sample_listener_def)
  have "\<exists>r s'. ranges (Suc 14) sample_env ?N sample_listener 11 11 passed_db = Some (r, s')"
    by (rule ranges_returns) (simp_all add: small_def sample_listener_def)
  moreover have "resume_from ?N sample_listener passed_db = Inr 11"
    using sample_pass(3) by (simp add: resume_from_def sample_listener_def block_hash_def block_at_def
        sample_node_def add_u64_def)
  ultimately obtain r s' where run: "run_once (Suc 14) sample_env ?N sample_listener passed_db = Some (r, s')"
    by (auto simp: run_once_def sample_listener_def simp del: ranges.simps)
  have "cursor (lc_vault sample_listener) passed_db = Some (10, [10])"
    using sample_pass(3) by (simp add: sample_listener_def)
  from pass_keeps_books [OF run ok sm this] run show ?thesis by auto
qed

definition broken_log :: chain_log where
  "broken_log = \<lparr>lg_event = Some (QuoteCancelled [20] [1]), lg_tx_hash = None, lg_log_index = None,
     lg_block_number = Some 6, lg_block_hash = None\<rparr>"

theorem interrupted_pass_resumes_witness:
  "\<exists>s'. handle_logs sample_env sample_node sample_listener [chain_event (RateDivergence [20] [75, 69, 83] 130 120 800) 9 1,
       broken_log] onchain_db = (Inl Rpc, s') \<and>
     (\<exists>l after. handle_logs sample_env sample_node sample_listener
         [chain_event (RateDivergence [20] [75, 69, 83] 130 120 800) 9 1, broken_log] s' =
       handle_logs sample_env sample_node sample_listener (l # after) s' \<and> \<not> handled l s')"
proof -
  have "\<exists>s'. handle_logs sample_env sample_node sample_listener
      [chain_event (RateDivergence [20] [75, 69, 83] 130 120 800) 9 1, broken_log] onchain_db = (Inl Rpc, s')"
    by (simp add: listener_eval sample_eval engine_eval broken_log_def)
  then obtain s' where run: "handle_logs sample_env sample_node sample_listener
      [chain_event (RateDivergence [20] [75, 69, 83] 130 120 800) 9 1, broken_log] onchain_db = (Inl Rpc, s')" ..
  from interrupted_pass_resumes [OF run] run show ?thesis by blast
qed

theorem deep_reorg_stops_witness:
  "run_listener 3 [(sample_env, sample_node)] sample_listener (onchain_db\<lparr>settlement_cursor := [([7], 8, [99])]\<rparr>) =
     Some (True, onchain_db\<lparr>settlement_cursor := [([7], 8, [99])]\<rparr>)"
  by (rule deep_reorg_stops [where head = 12 and b = 8 and h = "[99]" and h' = "[8]"])
    (simp_all add: sample_node_def sample_listener_def cursor_def block_hash_def block_at_def)

end
