(* ===== verification/Auth.thy ===== *)
theory Auth
  imports Partners
begin

text \<open>
  \<open>src/domain/auth\<close> and \<open>src/http/auth.rs\<close>: accounts of users, password login and the sessions that
  authenticate every other request. Password hashing (Argon2), the digest and the hex printer are
  third-party code: fields of \<open>vault\<close> and \<open>crypto\<close>. \<open>lower\<close> is the ASCII part of the database's function.
\<close>

section \<open>Hashes and tokens\<close>

record vault =
  argon2_hash :: "string \<Rightarrow> string option"
  argon2_verify :: "string \<Rightarrow> string \<Rightarrow> bool"
  hex_encode :: "bytes \<Rightarrow> string"

text \<open>\<open>argon2_hash\<close> has its salt; the random bytes of a token are drawn from the environment.\<close>

definition hash_password :: "vault \<Rightarrow> string \<Rightarrow> string api_result" where
  "hash_password V password = (case argon2_hash V password of None \<Rightarrow> Inl (Err server_error) | Some h \<Rightarrow> Inr h)"

definition verify_password :: "vault \<Rightarrow> string \<Rightarrow> string \<Rightarrow> bool" where
  "verify_password V password hash = argon2_verify V password hash"

definition generate_session_token :: "vault \<Rightarrow> env \<Rightarrow> string" where
  "generate_session_token V E = hex_encode V (map of_nat (take 32 (draws E ''session'')))"

definition hash_token :: "crypto \<Rightarrow> vault \<Rightarrow> string \<Rightarrow> string" where
  "hash_token P V token = hex_encode V (sha256 P (as_bytes token))"

section \<open>Validation\<close>

text \<open>
  The pattern \<open>^[^\s@]+@[^\s@]+\.[^\s@]+$\<close>: one \<open>@\<close> with text before it, and after it a dot with text on
  both sides, none of it a space.
\<close>

definition plain_text :: "string \<Rightarrow> bool" where
  "plain_text s \<longleftrightarrow> s \<noteq> [] \<and> list_all (\<lambda>c. \<not> is_whitespace c \<and> c \<noteq> CHR ''@'') s"

fun dotted :: "string \<Rightarrow> string \<Rightarrow> bool" where
  "dotted before [] = False"
| "dotted before (c # s) = ((c = CHR ''.'' \<and> plain_text before \<and> plain_text s) \<or> dotted (before @ [c]) s)"

definition email_matches :: "string \<Rightarrow> bool" where
  "email_matches s = (case split_once (CHR ''@'') s of None \<Rightarrow> False | Some (a, b) \<Rightarrow> plain_text a \<and> dotted [] b)"

definition validate_register :: "string \<Rightarrow> string \<Rightarrow> string \<Rightarrow> string \<Rightarrow> unit api_result" where
  "validate_register email password name' legal =
     (if \<not> email_matches (trim email) then Inl (Err (validation ''Enter a valid email address.''))
      else if length password < 8 then Inl (Err (validation ''Password must be at least 8 characters.''))
      else if char_count (trim name') < 2 then Inl (Err (validation ''Enter your full name.''))
      else if char_count (trim legal) < 2 then Inl (Err (validation ''Enter your registered business name.''))
      else Inr ())"

section \<open>Rows\<close>

definition lower :: "string \<Rightarrow> string" where
  "lower s = to_ascii_lowercase s"

definition has_email :: "string \<Rightarrow> user_row \<Rightarrow> bool" where
  "has_email email u \<longleftrightarrow> map_option lower (us_email u) = Some (lower email)"

definition find_user_by_email :: "string \<Rightarrow> user_row option tx" where
  "find_user_by_email email = gets (\<lambda>s. find (has_email email) (users s))"

definition insert_user :: "uuid \<Rightarrow> string \<Rightarrow> string \<Rightarrow> string \<Rightarrow> unit tx" where
  "insert_user i name' email hash =
     bind_tx (gets (\<lambda>s. list_ex (\<lambda>u. us_id u = i \<or> has_email email u) (users s))) (\<lambda>clash.
     bind_tx (ensure (\<not> clash) from_sqlx_error) (\<lambda>_.
       modify (\<lambda>s. s\<lparr>users := users s @ [\<lparr>us_id = i, us_role = ''customer'', us_display_name = name',
         us_permissions = [], us_email = Some email, us_password_hash = Some hash\<rparr>]\<rparr>)))"

text \<open>
  The account number is the column's default (migration 013): nine random digits, the first not 0, and
  their Luhn check digit, redrawn while the number is taken. The drawn bodies are \<open>draws E ''account''\<close>;
  running out of them is reported as a failure of the insert.
\<close>

fun luhn_sum :: "bool \<Rightarrow> nat list \<Rightarrow> nat" where
  "luhn_sum dbl [] = 0"
| "luhn_sum dbl (d # ds) =
     (if dbl then (if 9 < d * 2 then d * 2 - 9 else d * 2) else d) + luhn_sum (\<not> dbl) ds"

definition check_digit :: "string \<Rightarrow> char" where
  "check_digit body = digit_char ((10 - luhn_sum True (map digit_value (rev body)) mod 10) mod 10)"

definition account_number_of :: "nat \<Rightarrow> string" where
  "account_number_of n = (let body = nat_to_string n in body @ [check_digit body])"

definition generate_account_number :: "env \<Rightarrow> db \<Rightarrow> string option" where
  "generate_account_number E s =
     find (\<lambda>a. \<not> list_ex (\<lambda>c. cu_account_number c = a) (customers s)) (map account_number_of (draws E ''account''))"

definition insert_customer :: "env \<Rightarrow> uuid \<Rightarrow> string \<Rightarrow> uuid \<Rightarrow> string tx" where
  "insert_customer E i legal user =
     bind_tx (gets (\<lambda>s. list_ex (\<lambda>c. cu_id c = i) (customers s))) (\<lambda>clash.
     bind_tx (ensure (\<not> clash) from_sqlx_error) (\<lambda>_.
     bind_tx (gets (generate_account_number E)) (\<lambda>drawn.
     bind_tx (ok_or from_sqlx_error drawn) (\<lambda>a.
     bind_tx (modify (\<lambda>s. s\<lparr>customers := customers s @ [\<lparr>cu_id = i, cu_legal_name = legal,
       cu_primary_user = user, cu_max_transfer = None, cu_max_aggregate = None, cu_account_number = a\<rparr>]\<rparr>)) (\<lambda>_.
       return_tx a)))))"

definition insert_draft_application :: "uuid \<Rightarrow> uuid \<Rightarrow> unit tx" where
  "insert_draft_application i c =
     bind_tx (gets (\<lambda>s. list_ex (\<lambda>a. ap_id a = i \<or> ap_customer a = c) (applications s))) (\<lambda>clash.
     bind_tx (ensure (\<not> clash) from_sqlx_error) (\<lambda>_.
       modify (\<lambda>s. s\<lparr>applications := applications s @ [\<lparr>ap_id = i, ap_customer = c, ap_status = ''draft'',
         ap_business = None, ap_rejection_reasons = None, ap_approved_summary = None,
         ap_submitted_at = None, ap_reviewed_at = None\<rparr>]\<rparr>)))"

text \<open>The join of a user with the customer it is the primary user of.\<close>

definition session_of :: "user_row \<Rightarrow> customer_row \<Rightarrow> session" where
  "session_of u c = \<lparr>user_id = us_id u, role = us_role u, display_name = us_display_name u,
     operator_permissions = us_permissions u, customer_id = cu_id c, account_number = cu_account_number c\<rparr>"

definition session_context :: "uuid \<Rightarrow> db \<Rightarrow> session option" where
  "session_context i s =
     Option.bind (find (\<lambda>u. us_id u = i) (users s)) (\<lambda>u.
       map_option (session_of u) (find (\<lambda>c. cu_primary_user c = i) (customers s)))"

definition insert_session :: "uuid \<Rightarrow> uuid \<Rightarrow> string \<Rightarrow> instant \<Rightarrow> unit tx" where
  "insert_session i user token_hash expires =
     bind_tx (gets (\<lambda>s. list_ex (\<lambda>x. se_id x = i \<or> se_token_hash x = token_hash) (sessions s))) (\<lambda>clash.
     bind_tx (ensure (\<not> clash) from_sqlx_error) (\<lambda>_.
       modify (\<lambda>s. s\<lparr>sessions := sessions s @ [\<lparr>se_id = i, se_user = user, se_token_hash = token_hash,
         se_expires_at = expires, se_revoked_at = None\<rparr>]\<rparr>)))"

definition revoke_session :: "env \<Rightarrow> string \<Rightarrow> unit tx" where
  "revoke_session E token_hash =
     modify (\<lambda>s. s\<lparr>sessions := update_where (\<lambda>x. se_token_hash x = token_hash \<and> se_revoked_at x = None)
       (\<lambda>x. x\<lparr>se_revoked_at := Some (now E)\<rparr>) (sessions s)\<rparr>)"

section \<open>Register, log in, log out\<close>

definition session_ttl_days :: int where "session_ttl_days = 30"

definition session_expiry :: "env \<Rightarrow> instant" where
  "session_expiry E = now E + session_ttl_days * 86400000"

record register_input =
  ri_email :: string
  ri_password :: string
  ri_display_name :: string
  ri_legal_name :: string

record authenticated =
  au_session :: session
  au_token :: string

definition register_audit :: "env \<Rightarrow> uuid \<Rightarrow> register_input \<Rightarrow> string \<Rightarrow> audit_entry" where
  "register_audit E i input number =
     \<lparr>ae_actor = Some i, ae_role = Some ''customer'', ae_action = ''auth.user_registered'',
      ae_entity_type = ''user'', ae_entity = uuid_str E i, ae_before = None,
      ae_after = Some (JObj [(''email'', JStr (ri_email input)), (''displayName'', JStr (ri_display_name input)),
        (''legalName'', JStr (ri_legal_name input)), (''accountNumber'', JStr number)])\<rparr>"

text \<open>The transaction of a registration, on identifiers drawn before it.\<close>

definition register_tx ::
  "crypto \<Rightarrow> vault \<Rightarrow> env \<Rightarrow> register_input \<Rightarrow> string \<Rightarrow> uuid \<Rightarrow> uuid \<Rightarrow> uuid \<Rightarrow> authenticated tx" where
  "register_tx P V E input hash user customer application =
     bind_tx (insert_user user (ri_display_name input) (ri_email input) hash) (\<lambda>_.
     bind_tx (insert_customer E customer (ri_legal_name input) user) (\<lambda>number.
     bind_tx (insert_draft_application application customer) (\<lambda>_.
     bind_tx (write_audit E (register_audit E user input number)) (\<lambda>_.
     bind_tx fresh_id (\<lambda>sid.
     bind_tx (insert_session sid user (hash_token P V (generate_session_token V E)) (session_expiry E)) (\<lambda>_.
       return_tx \<lparr>au_session = \<lparr>user_id = user, role = ''customer'', display_name = ri_display_name input,
           operator_permissions = [], customer_id = customer, account_number = number\<rparr>,
         au_token = generate_session_token V E\<rparr>))))))"

definition register :: "crypto \<Rightarrow> vault \<Rightarrow> env \<Rightarrow> register_input \<Rightarrow> authenticated io" where
  "register P V E input s =
     (case validate_register (ri_email input) (ri_password input) (ri_display_name input) (ri_legal_name input) of
        Inl e \<Rightarrow> (Inl e, s)
      | Inr _ \<Rightarrow> bind_io (transaction (find_user_by_email (ri_email input))) (\<lambda>found.
          if found \<noteq> None then fail_io (conflict ''An account with that email already exists.'')
          else case hash_password V (ri_password input) of
            Inl e \<Rightarrow> (\<lambda>s. (Inl e, s))
          | Inr hash \<Rightarrow> (\<lambda>s.
              let (user, s1) = draw_id s; (customer, s2) = draw_id s1; (application, s3) = draw_id s2
              in transaction (register_tx P V E input hash user customer application) s3)) s)"

definition invalid_login :: api_error where
  "invalid_login = unauthorized ''Invalid email or password.''"

definition login_check :: "vault \<Rightarrow> string \<Rightarrow> string \<Rightarrow> (uuid \<times> session) tx" where
  "login_check V email password =
     bind_tx (find_user_by_email email) (\<lambda>found.
     bind_tx (ok_or invalid_login found) (\<lambda>u.
     bind_tx (ok_or invalid_login (us_password_hash u)) (\<lambda>hash.
     bind_tx (ensure (verify_password V password hash) invalid_login) (\<lambda>_.
     bind_tx (gets (session_context (us_id u))) (\<lambda>ctx.
     bind_tx (ok_or invalid_login ctx) (\<lambda>sess. return_tx (us_id u, sess)))))))"

definition login_tx :: "crypto \<Rightarrow> vault \<Rightarrow> env \<Rightarrow> uuid \<Rightarrow> unit tx" where
  "login_tx P V E user =
     bind_tx fresh_id (\<lambda>sid.
       insert_session sid user (hash_token P V (generate_session_token V E)) (session_expiry E))"

definition login :: "crypto \<Rightarrow> vault \<Rightarrow> env \<Rightarrow> string \<Rightarrow> string \<Rightarrow> authenticated io" where
  "login P V E email password =
     bind_io (transaction (login_check V email password)) (\<lambda>(user, sess).
     bind_io (transaction (login_tx P V E user)) (\<lambda>_.
       return_io \<lparr>au_session = sess, au_token = generate_session_token V E\<rparr>))"

definition logout :: "crypto \<Rightarrow> vault \<Rightarrow> env \<Rightarrow> string \<Rightarrow> unit io" where
  "logout P V E token = transaction (revoke_session E (hash_token P V token))"

section \<open>Authenticating a request\<close>

text \<open>The \<open>Session\<close> extractor: the cookie's token must have a live row.\<close>

definition live :: "instant \<Rightarrow> string \<Rightarrow> session_row \<Rightarrow> bool" where
  "live t token_hash x \<longleftrightarrow> se_token_hash x = token_hash \<and> se_revoked_at x = None \<and> t < se_expires_at x"

definition not_signed_in :: api_error where
  "not_signed_in = unauthorized ''Sign in to continue.''"

definition authenticate :: "crypto \<Rightarrow> vault \<Rightarrow> env \<Rightarrow> string option \<Rightarrow> session tx" where
  "authenticate P V E cookie =
     bind_tx (ok_or not_signed_in cookie) (\<lambda>token.
     bind_tx (gets (\<lambda>s. Option.bind (find (live (now E) (hash_token P V token)) (sessions s))
         (\<lambda>x. session_context (se_user x) s))) (\<lambda>row.
       ok_or not_signed_in row))"

section \<open>Routes\<close>

datatype same_site = SameSiteNone | SameSiteLax

record cookie =
  ck_name :: string
  ck_value :: string
  ck_http_only :: bool
  ck_path :: string
  ck_same_site :: same_site
  ck_secure :: bool
  ck_max_age_days :: int

definition session_cookie_name :: string where "session_cookie_name = ''kimana_session''"

definition session_cookie :: "config \<Rightarrow> string \<Rightarrow> cookie" where
  "session_cookie cfg token = \<lparr>ck_name = session_cookie_name, ck_value = token, ck_http_only = True,
     ck_path = ''/'', ck_same_site = (if cookie_secure cfg then SameSiteNone else SameSiteLax),
     ck_secure = cookie_secure cfg, ck_max_age_days = session_ttl_days\<rparr>"

record session_response =
  sr_user_id :: string
  sr_role :: string
  sr_display_name :: string
  sr_account_number :: string
  sr_operator_permissions :: "string list option"

definition to_response :: "env \<Rightarrow> session \<Rightarrow> session_response" where
  "to_response E sess = \<lparr>sr_user_id = uuid_str E (user_id sess), sr_role = role sess,
     sr_display_name = display_name sess, sr_account_number = account_number sess,
     sr_operator_permissions =
       (if operator_permissions sess = [] then None else Some (operator_permissions sess))\<rparr>"

definition signed_in :: "env \<Rightarrow> config \<Rightarrow> nat \<Rightarrow> authenticated \<Rightarrow> nat \<times> cookie \<times> session_response" where
  "signed_in E cfg st a = (st, session_cookie cfg (au_token a), to_response E (au_session a))"

definition register_route ::
  "crypto \<Rightarrow> vault \<Rightarrow> env \<Rightarrow> config \<Rightarrow> register_input \<Rightarrow> (nat \<times> cookie \<times> session_response) io" where
  "register_route P V E cfg body = bind_io (register P V E body) (\<lambda>a. return_io (signed_in E cfg 201 a))"

definition login_route ::
  "crypto \<Rightarrow> vault \<Rightarrow> env \<Rightarrow> config \<Rightarrow> string \<Rightarrow> string \<Rightarrow> (nat \<times> cookie \<times> session_response) io" where
  "login_route P V E cfg email password =
     bind_io (login P V E email password) (\<lambda>a. return_io (signed_in E cfg 200 a))"

text \<open>The reply of a logout: 204, and the cookie is removed whether or not there was one.\<close>

definition logout_route :: "crypto \<Rightarrow> vault \<Rightarrow> env \<Rightarrow> string option \<Rightarrow> nat io" where
  "logout_route P V E cookie' =
     (case cookie' of None \<Rightarrow> return_io 204
      | Some token \<Rightarrow> bind_io (logout P V E token) (\<lambda>_. return_io 204))"

end
