(* ===== verification/Auth_Properties.thy ===== *)
theory Auth_Properties
  imports Auth
begin

text \<open>
  What registration, login and logout promise: the identity tables stay consistent, a session
  authenticates its user until it expires or is logged out, and a logged-out token never works again.
\<close>

section \<open>The identity tables\<close>

definition emails :: "db \<Rightarrow> string list" where
  "emails s = List.map_filter (\<lambda>u. map_option lower (us_email u)) (users s)"

definition identity_ok :: "db \<Rightarrow> bool" where
  "identity_ok s \<longleftrightarrow> distinct (map us_id (users s)) \<and> distinct (emails s) \<and>
     distinct (map cu_id (customers s)) \<and> distinct (map cu_primary_user (customers s)) \<and>
     distinct (map cu_account_number (customers s)) \<and>
     distinct (map se_id (sessions s)) \<and> distinct (map se_token_hash (sessions s)) \<and>
     distinct (map ap_id (applications s)) \<and> distinct (map ap_customer (applications s)) \<and>
     cu_primary_user ` set (customers s) \<subseteq> us_id ` set (users s) \<and>
     se_user ` set (sessions s) \<subseteq> us_id ` set (users s) \<and>
     ap_customer ` set (applications s) \<subseteq> cu_id ` set (customers s) \<and>
     (\<forall>u \<in> set (users s). us_id u < next_id s)"

text \<open>What the identity tables hold apart from a customer's limits.\<close>

definition account_of :: "customer_row \<Rightarrow> uuid \<times> uuid \<times> string" where
  "account_of c = (cu_id c, cu_primary_user c, cu_account_number c)"

text \<open>How accounts may change: users and customers are only added, sessions only added or revoked.\<close>

definition session_le :: "session_row \<Rightarrow> session_row \<Rightarrow> bool" where
  "session_le x y \<longleftrightarrow> y = x \<or> (se_revoked_at x = None \<and> (\<exists>t. y = x\<lparr>se_revoked_at := Some t\<rparr>))"

definition accounts_grow :: "db \<Rightarrow> db \<Rightarrow> bool" where
  "accounts_grow s s' \<longleftrightarrow> prefix (users s) (users s') \<and>
     prefix (map account_of (customers s)) (map account_of (customers s')) \<and>
     (\<exists>old new. sessions s' = old @ new \<and> list_all2 session_le (sessions s) old)"

lemma session_le_refl [simp]: "session_le x x"
  by (simp add: session_le_def)

lemma session_le_trans: "session_le x y \<Longrightarrow> session_le y z \<Longrightarrow> session_le x z"
  by (auto simp: session_le_def)

lemma accounts_growI:
  "prefix (users s) (users s') \<Longrightarrow> prefix (map account_of (customers s)) (map account_of (customers s')) \<Longrightarrow>
   sessions s' = sessions s @ new \<Longrightarrow> accounts_grow s s'"
  unfolding accounts_grow_def by (blast intro: list_all2_refl session_le_refl)

interpretation grow: tx_frame accounts_grow
proof
  show "accounts_grow s s" for s by (rule accounts_growI [of _ _ "[]"]) simp_all
  fix s t u assume st: "accounts_grow s t" and tu: "accounts_grow t u"
  from st obtain o1 n1 where 1: "sessions t = o1 @ n1" "list_all2 session_le (sessions s) o1"
    by (auto simp: accounts_grow_def)
  from tu obtain o2 n2 where 2: "sessions u = o2 @ n2" "list_all2 session_le (o1 @ n1) o2"
    unfolding accounts_grow_def 1(1) by blast
  from 2(2) obtain o3 n3 where 3: "o2 = o3 @ n3" "list_all2 session_le o1 o3"
    by (auto simp: list_all2_append1)
  from 1(2) 3(2) have "list_all2 session_le (sessions s) o3"
    by (auto simp: list_all2_conv_all_nth) (metis session_le_trans)
  with 2(1) 3(1) have "\<exists>old new. sessions u = old @ new \<and> list_all2 session_le (sessions s) old" by auto
  with st tu show "accounts_grow s u"
    unfolding accounts_grow_def by (auto intro: prefix_order.trans)
qed

section \<open>The operations\<close>

lemma insert_user_Inr:
  "insert_user i n email h s = Inr (u, s') \<longleftrightarrow>
     \<not> list_ex (\<lambda>u. us_id u = i \<or> has_email email u) (users s) \<and>
     s' = s\<lparr>users := users s @ [\<lparr>us_id = i, us_role = ''customer'', us_display_name = n,
         us_permissions = [], us_email = Some email, us_password_hash = Some h\<rparr>]\<rparr>"
  by (auto simp: insert_user_def tx_simps)

lemma insert_customer_Inr:
  "insert_customer E i legal user s = Inr (a, s') \<longleftrightarrow>
     \<not> list_ex (\<lambda>c. cu_id c = i) (customers s) \<and> generate_account_number E s = Some a \<and>
     s' = s\<lparr>customers := customers s @ [\<lparr>cu_id = i, cu_legal_name = legal,
       cu_primary_user = user, cu_max_transfer = None, cu_max_aggregate = None, cu_account_number = a\<rparr>]\<rparr>"
  by (auto simp: insert_customer_def tx_simps)

lemma insert_draft_Inr:
  "insert_draft_application i c s = Inr (u, s') \<longleftrightarrow>
     \<not> list_ex (\<lambda>a. ap_id a = i \<or> ap_customer a = c) (applications s) \<and>
     s' = s\<lparr>applications := applications s @ [\<lparr>ap_id = i, ap_customer = c, ap_status = ''draft'',
         ap_business = None, ap_rejection_reasons = None, ap_approved_summary = None,
         ap_submitted_at = None, ap_reviewed_at = None\<rparr>]\<rparr>"
  by (auto simp: insert_draft_application_def tx_simps)

lemma insert_session_Inr:
  "insert_session i user h x s = Inr (u, s') \<longleftrightarrow>
     \<not> list_ex (\<lambda>x. se_id x = i \<or> se_token_hash x = h) (sessions s) \<and>
     s' = s\<lparr>sessions := sessions s @ [\<lparr>se_id = i, se_user = user, se_token_hash = h,
         se_expires_at = x, se_revoked_at = None\<rparr>]\<rparr>"
  by (auto simp: insert_session_def tx_simps)
text \<open>What a registration adds.\<close>

definition new_user :: "uuid \<Rightarrow> register_input \<Rightarrow> string \<Rightarrow> user_row" where
  "new_user i input h = \<lparr>us_id = i, us_role = ''customer'', us_display_name = ri_display_name input,
     us_permissions = [], us_email = Some (ri_email input), us_password_hash = Some h\<rparr>"

definition new_customer :: "uuid \<Rightarrow> register_input \<Rightarrow> uuid \<Rightarrow> string \<Rightarrow> customer_row" where
  "new_customer i input user number = \<lparr>cu_id = i, cu_legal_name = ri_legal_name input, cu_primary_user = user,
     cu_max_transfer = None, cu_max_aggregate = None, cu_account_number = number\<rparr>"

definition new_session :: "uuid \<Rightarrow> uuid \<Rightarrow> string \<Rightarrow> instant \<Rightarrow> session_row" where
  "new_session i user h x = \<lparr>se_id = i, se_user = user, se_token_hash = h, se_expires_at = x, se_revoked_at = None\<rparr>"

definition draft :: "uuid \<Rightarrow> uuid \<Rightarrow> application_row" where
  "draft i c = \<lparr>ap_id = i, ap_customer = c, ap_status = ''draft'', ap_business = None,
     ap_rejection_reasons = None, ap_approved_summary = None, ap_submitted_at = None, ap_reviewed_at = None\<rparr>"

lemmas insert_Inr = insert_user_Inr [folded new_user_def] insert_customer_Inr insert_draft_Inr [folded draft_def]
  insert_session_Inr [folded new_session_def]

lemma register_tx_Inr:
  assumes "register_tx P V E input h u c ap s = Inr (a, s')"
  obtains number where
    "\<not> list_ex (\<lambda>x. us_id x = u \<or> has_email (ri_email input) x) (users s)"
    "\<not> list_ex (\<lambda>x. cu_id x = c) (customers s)" "generate_account_number E s = Some number"
    "\<not> list_ex (\<lambda>x. ap_id x = ap \<or> ap_customer x = c) (applications s)"
    "\<not> list_ex (\<lambda>x. se_id x = next_id s \<or> se_token_hash x = hash_token P V (generate_session_token V E)) (sessions s)"
    "users s' = users s @ [new_user u input h]" "customers s' = customers s @ [new_customer c input u number]"
    "applications s' = applications s @ [draft ap c]"
    "sessions s' = sessions s @ [new_session (next_id s) u (hash_token P V (generate_session_token V E)) (session_expiry E)]"
    "next_id s' = Suc (next_id s)" "au_token a = generate_session_token V E"
    "au_session a = session_of (new_user u input h) (new_customer c input u number)"
  using assms
  by (auto simp: register_tx_def tx_simps insert_user_Inr insert_customer_Inr insert_draft_Inr insert_session_Inr
      write_audit_def generate_account_number_def new_user_def new_customer_def draft_def new_session_def session_of_def)

lemma login_tx_Inr:
  "login_tx P V E user s = Inr (x, s') \<longleftrightarrow>
     \<not> list_ex (\<lambda>x. se_id x = next_id s \<or> se_token_hash x = hash_token P V (generate_session_token V E)) (sessions s) \<and>
     s' = s\<lparr>next_id := Suc (next_id s), sessions := sessions s @
       [new_session (next_id s) user (hash_token P V (generate_session_token V E)) (session_expiry E)]\<rparr>"
  by (auto simp: login_tx_def tx_simps insert_session_Inr new_session_def)

lemma login_check_Inr:
  "login_check V email password s = Inr ((i, sess), s') \<longleftrightarrow> s' = s \<and>
     (\<exists>u h. find (has_email email) (users s) = Some u \<and> i = us_id u \<and> us_password_hash u = Some h \<and>
        argon2_verify V password h \<and> session_context i s = Some sess)"
  by (auto simp: login_check_def find_user_by_email_def verify_password_def tx_simps)

lemma register_cases:
  assumes "register P V E input s = (r, s')"
  obtains (refused) e where "r = Inl e" "s' = s"
  | (failed) e where "r = Inl e" "s' = s\<lparr>next_id := next_id s + 3\<rparr>"
  | (registered) h a where "r = Inr a" "argon2_hash V (ri_password input) = Some h"
      "validate_register (ri_email input) (ri_password input) (ri_display_name input) (ri_legal_name input) = Inr ()"
      "register_tx P V E input h (next_id s) (next_id s + 1) (next_id s + 2) (s\<lparr>next_id := next_id s + 3\<rparr>) = Inr (a, s')"
proof (cases "validate_register (ri_email input) (ri_password input) (ri_display_name input) (ri_legal_name input)")
  case (Inl e)
  with assms show thesis by (intro refused) (auto simp: register_def)
next
  case (Inr v)
  show thesis
  proof (cases "find (has_email (ri_email input)) (users s) = None \<and> argon2_hash V (ri_password input) \<noteq> None")
    case False
    with assms Inr have "\<exists>e. r = Inl e \<and> s' = s"
      by (auto simp: register_def find_user_by_email_def bind_io_def transaction_def gets_def fail_io_def hash_password_def
          split: option.splits if_splits)
    then show thesis by (auto intro: refused)
  next
    case True
    then obtain h where h: "argon2_hash V (ri_password input) = Some h" by blast
    let ?m = "register_tx P V E input h (next_id s) (next_id s + 1) (next_id s + 2)"
    have run: "(r, s') = transaction ?m (s\<lparr>next_id := next_id s + 3\<rparr>)"
      using assms Inr True h
      by (simp add: register_def find_user_by_email_def bind_io_def transaction_def gets_def hash_password_def draw_id_def
          eval_nat_numeral cong: sum.case_cong)
    then show thesis
    proof (cases "?m (s\<lparr>next_id := next_id s + 3\<rparr>)")
      case (Inl e)
      with run show thesis by (intro failed) (simp_all add: transaction_def)
    next
      case (Inr p)
      with run h \<open>validate_register _ _ _ _ = Inr v\<close> show thesis
        by (cases p) (auto simp: transaction_def intro: registered)
    qed
  qed
qed

lemma login_cases:
  assumes "login P V E email password s = (r, s')"
  obtains (refused) "r = Inl (Err invalid_login)" "s' = s" "\<And>p. login_check V email password s \<noteq> Inr p"
  | (failed) "r = Inl (Err from_sqlx_error)" "s' = s"
  | (entered) u h sess where "find (has_email email) (users s) = Some u" "us_password_hash u = Some h"
      "argon2_verify V password h" "session_context (us_id u) s = Some sess" "login_tx P V E (us_id u) s = Inr ((), s')"
      "r = Inr \<lparr>au_session = sess, au_token = generate_session_token V E\<rparr>"
proof (cases "login_check V email password s")
  case (Inl e)
  then have "e = Err invalid_login"
    by (auto simp: login_check_def find_user_by_email_def tx_simps)
  with Inl assms show thesis by (intro refused) (auto simp: login_def bind_io_def transaction_def)
next
  case (Inr p)
  then obtain i sess t where p: "login_check V email password s = Inr ((i, sess), t)" by (cases p) auto
  from p [unfolded login_check_Inr] obtain u h where u: "t = s" "find (has_email email) (users s) = Some u" "i = us_id u"
    "us_password_hash u = Some h" "argon2_verify V password h" "session_context i s = Some sess" by blast
  show thesis
  proof (cases "login_tx P V E i s")
    case (Inl e)
    then have "e = Err from_sqlx_error" by (auto simp: login_tx_def insert_session_def tx_simps)
    with Inl p u assms show thesis by (intro failed) (auto simp: login_def bind_io_def transaction_def)
  next
    case (Inr q)
    with p u assms show thesis
      by (cases q) (auto simp: login_def bind_io_def transaction_def return_io_def intro: entered)
  qed
qed
section \<open>The tables stay consistent\<close>

lemma emails_snoc: "emails (s\<lparr>users := users s @ [u]\<rparr>) = emails s @ (case us_email u of None \<Rightarrow> [] | Some e \<Rightarrow> [lower e])"
  by (simp add: emails_def List.map_filter_def split: option.split)

lemma emails_cong: "users s' = users s @ [u] \<Longrightarrow> us_email u = Some e \<Longrightarrow> emails s' = emails s @ [lower e]"
  by (simp add: emails_def List.map_filter_def)

lemma email_taken: "lower e \<in> set (emails s) \<longleftrightarrow> list_ex (has_email e) (users s)"
  by (force simp: emails_def List.map_filter_def has_email_def list_ex_iff image_iff)

lemma register_identity:
  assumes ok: "identity_ok s" and run: "register_tx P V E input h (next_id s) (next_id s + 1) (next_id s + 2)
      (s\<lparr>next_id := next_id s + 3\<rparr>) = Inr (a, s')"
  shows "identity_ok s' \<and> accounts_grow s s'"
proof -
  from run obtain number where r:
    "\<not> list_ex (\<lambda>x. us_id x = next_id s \<or> has_email (ri_email input) x) (users s)"
    "\<not> list_ex (\<lambda>x. cu_id x = next_id s + 1) (customers s)"
    "generate_account_number E (s\<lparr>next_id := next_id s + 3\<rparr>) = Some number"
    "\<not> list_ex (\<lambda>x. ap_id x = next_id s + 2 \<or> ap_customer x = next_id s + 1) (applications s)"
    "\<not> list_ex (\<lambda>x. se_id x = next_id s + 3 \<or> se_token_hash x = hash_token P V (generate_session_token V E)) (sessions s)"
    "users s' = users s @ [new_user (next_id s) input h]"
    "customers s' = customers s @ [new_customer (next_id s + 1) input (next_id s) number]"
    "applications s' = applications s @ [draft (next_id s + 2) (next_id s + 1)]"
    "sessions s' = sessions s @ [new_session (next_id s + 3) (next_id s) (hash_token P V (generate_session_token V E)) (session_expiry E)]"
    "next_id s' = next_id s + 4"
    by (cases rule: register_tx_Inr) simp
  have em: "emails s' = emails s @ [lower (ri_email input)]"
    by (rule emails_cong [OF r(6)]) (simp add: new_user_def)
  have "lower (ri_email input) \<notin> set (emails s)" using r(1) by (auto simp: email_taken list_ex_iff)
  moreover have "number \<notin> cu_account_number ` set (customers s)"
    using find_Some_set [OF r(3) [unfolded generate_account_number_def]] by (auto simp: list_ex_iff)
  moreover have "next_id s \<notin> cu_primary_user ` set (customers s)"
  proof
    assume "next_id s \<in> cu_primary_user ` set (customers s)"
    with ok have "next_id s \<in> us_id ` set (users s)" by (auto simp: identity_ok_def)
    with r(1) show False by (auto simp: list_ex_iff)
  qed
  ultimately have "identity_ok s'"
    using ok r(1,2,4,5) unfolding identity_ok_def em r(6-10)
    by (auto simp: list_ex_iff new_user_def new_customer_def draft_def new_session_def)
  moreover have "accounts_grow s s'" by (rule accounts_growI [OF _ _ r(9)]) (simp_all add: r(6,7))
  ultimately show ?thesis by blast
qed

lemma has_email_find: "find (has_email e) us = Some u \<Longrightarrow> u \<in> set us \<and> has_email e u"
  by (rule find_Some_set)

lemma login_tx_identity:
  assumes ok: "identity_ok s" and run: "login_tx P V E (us_id u) s = Inr ((), s')" and u: "u \<in> set (users s)"
  shows "identity_ok s' \<and> accounts_grow s s'"
proof -
  note r = run [unfolded login_tx_Inr]
  have "emails s' = emails s" using r by (simp add: emails_def)
  with ok r u have "identity_ok s'"
    by (auto simp: identity_ok_def list_ex_iff new_session_def less_SucI)
  moreover have "accounts_grow s s'"
    using r by (intro accounts_growI) auto
  ultimately show ?thesis by blast
qed

lemma revoke_identity:
  assumes "identity_ok s" and "logout P V E token s = (r, s')"
  shows "identity_ok s' \<and> accounts_grow s s'"
proof -
  define xs where "xs = update_where (\<lambda>x. se_token_hash x = hash_token P V token \<and> se_revoked_at x = None)
       (\<lambda>x. x\<lparr>se_revoked_at := Some (now E)\<rparr>) (sessions s)"
  have s': "s' = s\<lparr>sessions := xs\<rparr>"
    using assms(2) by (auto simp: logout_def revoke_session_def transaction_def modify_def xs_def)
  have m: "map se_id xs = map se_id (sessions s)" "map se_token_hash xs = map se_token_hash (sessions s)"
    "map se_user xs = map se_user (sessions s)"
    by (simp_all add: map_update_where_frame xs_def)
  from m(3) have "se_user ` set xs = se_user ` set (sessions s)" by (metis list.set_map)
  with m assms(1) have "identity_ok s'" by (simp add: identity_ok_def emails_def s')
  moreover have "list_all2 session_le (sessions s) xs"
    by (auto simp: xs_def update_where_def session_le_def list_all2_map2 intro!: list_all2_refl)
  then have "accounts_grow s s'" by (auto simp: accounts_grow_def s')
  ultimately show ?thesis by blast
qed

text \<open>One request: a registration, a login, a logout, or anything else that leaves identities alone.\<close>

definition identities :: "db \<Rightarrow> user_row list \<times> (uuid \<times> uuid \<times> string) list \<times> session_row list" where
  "identities s = (users s, map account_of (customers s), sessions s)"

inductive request :: "crypto \<Rightarrow> vault \<Rightarrow> db \<Rightarrow> db \<Rightarrow> bool" for P V where
  registered: "register P V E input s = (r, s') \<Longrightarrow> request P V s s'"
| entered: "login P V E email password s = (r, s') \<Longrightarrow> request P V s s'"
| left: "logout P V E token s = (r', s') \<Longrightarrow> request P V s s'"
| other: "identities s' = identities s \<Longrightarrow> map ap_id (applications s') = map ap_id (applications s) \<Longrightarrow>
    map ap_customer (applications s') = map ap_customer (applications s) \<Longrightarrow> next_id s \<le> next_id s' \<Longrightarrow> request P V s s'"

lemma identity_cong:
  assumes "identities s' = identities s" and "map ap_id (applications s') = map ap_id (applications s)"
    and "map ap_customer (applications s') = map ap_customer (applications s)" and "next_id s \<le> next_id s'"
    and "identity_ok s"
  shows "identity_ok s' \<and> accounts_grow s s'"
proof -
  have u: "users s' = users s" "sessions s' = sessions s" and c: "map account_of (customers s') = map account_of (customers s)"
    using assms(1) by (simp_all add: identities_def)
  from arg_cong [OF c, of "map fst"] arg_cong [OF c, of "map (fst \<circ> snd)"] arg_cong [OF c, of "map (snd \<circ> snd)"]
  have m: "map cu_id (customers s') = map cu_id (customers s)"
    "map cu_primary_user (customers s') = map cu_primary_user (customers s)"
    "map cu_account_number (customers s') = map cu_account_number (customers s)"
    by (simp_all add: comp_def account_of_def)
  then have "cu_primary_user ` set (customers s') = cu_primary_user ` set (customers s)"
    "cu_id ` set (customers s') = cu_id ` set (customers s)"
    "ap_customer ` set (applications s') = ap_customer ` set (applications s)"
    using assms(3) by (metis list.set_map)+
  with assms(2-5) u m have "identity_ok s'"
    by (auto simp: identity_ok_def emails_def intro: less_le_trans)
  moreover have "accounts_grow s s'"
    by (rule accounts_growI [of _ _ "[]"]) (simp_all add: u c)
  ultimately show ?thesis by blast
qed

lemma request_identity: "request P V s s' \<Longrightarrow> identity_ok s \<Longrightarrow> identity_ok s' \<and> accounts_grow s s'"
proof (induction rule: request.induct)
  case (registered E input s r s')
  from registered(1) show ?case
  proof (cases rule: register_cases)
    case refused
    with registered show ?thesis by (simp add: grow.refl)
  next
    case failed
    with registered show ?thesis by (intro identity_cong) (simp_all add: identities_def)
  next
    case registered': (registered h a)
    with registered register_identity show ?thesis by blast
  qed
next
  case (entered E email password s r s')
  from entered(1) show ?case
  proof (cases rule: login_cases)
    case entered': (entered u h sess)
    with entered(2) login_tx_identity [of s P V E u s'] find_Some_set [OF entered'(1)] show ?thesis by blast
  qed (use entered(2) in \<open>simp_all add: grow.refl\<close>)
next
  case (left E token s r' s')
  then show ?case by (intro revoke_identity)
next
  case (other s' s)
  then show ?case by (intro identity_cong)
qed

lemma requests_identity:
  "(request P V)\<^sup>*\<^sup>* s s' \<Longrightarrow> identity_ok s \<Longrightarrow> identity_ok s' \<and> accounts_grow s s'"
  by (induction rule: rtranclp_induct) (auto dest: request_identity intro: grow.refl grow.trans)
section \<open>Sessions\<close>

lemma find_live:
  assumes "distinct (map se_token_hash xs)" and "x \<in> set xs" and "se_token_hash x = h"
  shows "find (live t h) xs = (if live t h x then Some x else None)"
  using assms
proof (induction xs)
  case (Cons y ys)
  show ?case
  proof (cases "y = x")
    case True
    with Cons.prems have "h \<notin> se_token_hash ` set ys" by auto
    then have "find (live t h) ys = None" by (auto simp: find_None_iff live_def)
    with True show ?thesis by simp
  next
    case False
    with Cons show ?thesis by (auto simp: live_def)
  qed
qed simp

lemma context_kept:
  assumes ok: "identity_ok s" "identity_ok s'" and grow: "accounts_grow s s'" and ctx: "session_context i s = Some sess"
  shows "session_context i s' = Some sess"
proof -
  from ctx obtain u c where u: "find (\<lambda>u. us_id u = i) (users s) = Some u"
    and c: "find (\<lambda>c. cu_primary_user c = i) (customers s) = Some c" and sess: "sess = session_of u c"
    by (auto simp: session_context_def split: bind_splits)
  from grow u have u': "find (\<lambda>u. us_id u = i) (users s') = Some u"
    by (auto simp: accounts_grow_def prefix_def find_append)
  from find_Some_set [OF c] have c1: "c \<in> set (customers s)" "cu_primary_user c = i" by auto
  from grow obtain zs where zs: "map account_of (customers s') = map account_of (customers s) @ zs"
    by (auto simp: accounts_grow_def prefix_def)
  from c1(1) have "account_of c \<in> set (map account_of (customers s'))" by (auto simp: zs)
  then obtain c' where c': "c' \<in> set (customers s')" "account_of c' = account_of c" by auto
  then have "find (\<lambda>x. cu_primary_user x = cu_primary_user c') (customers s') = Some c'"
    using ok(2) by (intro find_distinct_key) (simp add: identity_ok_def)
  with c' c1 have "find (\<lambda>c. cu_primary_user c = i) (customers s') = Some c'" by (simp add: account_of_def)
  with u' c'(2) show ?thesis by (simp add: session_context_def sess session_of_def account_of_def)
qed

lemma session_kept:
  assumes "accounts_grow s s'" and "x \<in> set (sessions s)"
  obtains y where "y \<in> set (sessions s')" "session_le x y"
proof -
  from assms obtain old new where "sessions s' = old @ new" "list_all2 session_le (sessions s) old"
    by (auto simp: accounts_grow_def)
  with assms(2) obtain i where "sessions s' = old @ new" "i < length old" "session_le x (old ! i)"
    by (auto simp: in_set_conv_nth list_all2_conv_all_nth)
  then show thesis by (intro that [of "old ! i"]) auto
qed

lemma session_le_fields:
  "session_le x y \<Longrightarrow> se_token_hash y = se_token_hash x \<and> se_user y = se_user x \<and> se_expires_at y = se_expires_at x \<and>
     (se_revoked_at x \<noteq> None \<longrightarrow> y = x)"
  by (auto simp: session_le_def)

text \<open>The token of a request signs it in exactly while its row is unrevoked and unexpired.\<close>

lemma authenticate_row:
  assumes "identity_ok s" and "x \<in> set (sessions s)" and "se_token_hash x = hash_token P V token"
  shows "authenticate P V E (Some token) s =
    (case (if se_revoked_at x = None \<and> now E < se_expires_at x then session_context (se_user x) s else None) of
       None \<Rightarrow> Inl (Err not_signed_in) | Some sess \<Rightarrow> Inr (sess, s))"
proof -
  have "find (live (now E) (hash_token P V token)) (sessions s) =
      (if live (now E) (hash_token P V token) x then Some x else None)"
    using assms by (intro find_live) (auto simp: identity_ok_def)
  with assms(3) show ?thesis
    by (auto simp: authenticate_def bind_tx_def ok_or_def gets_def return_tx_def throw_def live_def split: option.split)
qed

text \<open>Only a logout of the token revokes its row.\<close>

lemma request_keeps_session:
  assumes "request P V s s'" and "\<And>E token r. logout P V E token s = (r, s') \<Longrightarrow> hash_token P V token \<noteq> h"
    and "x \<in> set (sessions s)" and "se_token_hash x = h"
  shows "x \<in> set (sessions s')"
  using assms
proof cases
  case (registered E input r)
  from registered(1) show ?thesis
  proof (cases rule: register_cases)
    case registered': (registered h' a)
    from registered'(4) show ?thesis by (cases rule: register_tx_Inr) (use assms(3) in simp)
  qed (use assms(3) in simp_all)
next
  case (entered E email password r)
  from entered(1) show ?thesis
    by (cases rule: login_cases) (use assms(3) in \<open>auto simp: login_tx_Inr\<close>)
next
  case (left E token r')
  with assms(2) [OF left(1)] assms(3,4) show ?thesis
    by (force simp: logout_def revoke_session_def transaction_def modify_def set_update_where)
next
  case other
  with assms(3) show ?thesis by (simp add: identities_def)
qed
text \<open>A chain of requests none of which logs the token out.\<close>

definition stays_signed_in :: "crypto \<Rightarrow> vault \<Rightarrow> string \<Rightarrow> db \<Rightarrow> db \<Rightarrow> bool" where
  "stays_signed_in P V token s s' \<longleftrightarrow> request P V s s' \<and>
     (\<forall>E token' r. logout P V E token' s = (r, s') \<longrightarrow> hash_token P V token' \<noteq> hash_token P V token)"

lemma stays_request: "(stays_signed_in P V token)\<^sup>*\<^sup>* s s' \<Longrightarrow> (request P V)\<^sup>*\<^sup>* s s'"
  by (rule rtranclp_mono [THEN predicate2D]) (auto simp: stays_signed_in_def)

lemma stays_keeps_session:
  "(stays_signed_in P V token)\<^sup>*\<^sup>* s s' \<Longrightarrow> x \<in> set (sessions s) \<Longrightarrow> se_token_hash x = hash_token P V token \<Longrightarrow>
   x \<in> set (sessions s')"
proof (induction rule: rtranclp_induct)
  case (step t u)
  then have x: "x \<in> set (sessions t)" by blast
  show ?case
    by (rule request_keeps_session [OF _ _ x step.prems(2)]) (use step.hyps(2) in \<open>auto simp: stays_signed_in_def\<close>)
qed

lemma register_context:
  assumes ok: "identity_ok s" and run: "register P V E input s = (Inr a, s')"
  obtains h where "argon2_hash V (ri_password input) = Some h" "identity_ok s'"
    "new_user (next_id s) input h \<in> set (users s')" "session_context (next_id s) s' = Some (au_session a)"
    "new_session (next_id s + 3) (next_id s) (hash_token P V (au_token a)) (session_expiry E) \<in> set (sessions s')"
  using run
proof (cases rule: register_cases)
  case (registered h b)
  then have ab: "b = a" by simp
  have ok': "identity_ok s'" using request_identity [OF request.registered [OF run] ok] by blast
  from registered(4) [unfolded ab] obtain number where
    f: "users s' = users s @ [new_user (next_id s) input h]"
    "customers s' = customers s @ [new_customer (next_id s + 1) input (next_id s) number]"
    "sessions s' = sessions s @ [new_session (next_id s + 3) (next_id s) (hash_token P V (generate_session_token V E)) (session_expiry E)]"
    "au_token a = generate_session_token V E"
    "au_session a = session_of (new_user (next_id s) input h) (new_customer (next_id s + 1) input (next_id s) number)"
    by (cases rule: register_tx_Inr) simp
  have "find (\<lambda>u. us_id u = us_id (new_user (next_id s) input h)) (users s') = Some (new_user (next_id s) input h)"
    using ok' by (intro find_distinct_key) (simp_all add: identity_ok_def f(1))
  moreover have "find (\<lambda>c. cu_primary_user c = cu_primary_user (new_customer (next_id s + 1) input (next_id s) number)) (customers s') =
      Some (new_customer (next_id s + 1) input (next_id s) number)"
    using ok' by (intro find_distinct_key) (simp_all add: identity_ok_def f(2))
  ultimately have "session_context (next_id s) s' = Some (au_session a)"
    by (simp add: session_context_def f(5) new_user_def new_customer_def)
  with registered(2) ok' show thesis by (intro that [of h]) (auto simp: f(1,3,4))
qed simp_all

lemma sign_in_row:
  assumes ok: "identity_ok s"
    and run: "register P V E input s = (Inr a, s') \<or> login P V E email password s = (Inr a, s')"
  shows "identity_ok s' \<and> (\<exists>x \<in> set (sessions s'). se_token_hash x = hash_token P V (au_token a) \<and>
    se_revoked_at x = None \<and> se_expires_at x = session_expiry E \<and> session_context (se_user x) s' = Some (au_session a))"
  using run
proof
  assume r: "register P V E input s = (Inr a, s')"
  from register_context [OF ok r] obtain h where "identity_ok s'" "session_context (next_id s) s' = Some (au_session a)"
    "new_session (next_id s + 3) (next_id s) (hash_token P V (au_token a)) (session_expiry E) \<in> set (sessions s')" by blast
  then show ?thesis
    by (intro conjI bexI [of _ "new_session (next_id s + 3) (next_id s) (hash_token P V (au_token a)) (session_expiry E)"])
      (simp_all add: new_session_def)
next
  assume r: "login P V E email password s = (Inr a, s')"
  then have ok': "identity_ok s' \<and> accounts_grow s s'" using request_identity [OF request.entered] ok by blast
  from r show ?thesis
  proof (cases rule: login_cases)
    case (entered u h sess)
    then have "session_context (us_id u) s' = Some sess"
      using context_kept [OF ok _ _ entered(4)] ok' by blast
    with entered ok' show ?thesis by (auto simp: login_tx_Inr new_session_def)
  qed simp_all
qed

text \<open>
  C28: the token a registration or a login hands out signs in exactly its user, with the same session,
  in every later state that requests lead to, until it expires after thirty days, as long as it is
  not itself logged out; after its expiry it is refused.
\<close>

theorem token_signs_in:
  assumes ok: "identity_ok s"
    and run: "register P V E input s = (Inr a, s1) \<or> login P V E email password s = (Inr a, s1)"
    and later: "(stays_signed_in P V (au_token a))\<^sup>*\<^sup>* s1 s2"
  shows "authenticate P V E2 (Some (au_token a)) s2 =
    (if now E2 < now E + 30 * 86400000 then Inr (au_session a, s2) else Inl (Err not_signed_in))"
proof -
  from sign_in_row [OF ok run] obtain x where ok1: "identity_ok s1" and x: "x \<in> set (sessions s1)"
    "se_token_hash x = hash_token P V (au_token a)" "se_revoked_at x = None" "se_expires_at x = session_expiry E"
    "session_context (se_user x) s1 = Some (au_session a)" by blast
  have s2: "identity_ok s2" "accounts_grow s1 s2"
    using requests_identity [OF stays_request [OF later] ok1] by blast+
  have "x \<in> set (sessions s2)" by (rule stays_keeps_session [OF later x(1,2)])
  from authenticate_row [OF s2(1) this x(2), of E2] context_kept [OF ok1 s2 x(5)] x(3,4)
  show ?thesis by (simp add: session_expiry_def session_ttl_days_def)
qed

text \<open>
  C29: a logout is final: once a token that had been handed out is logged out, it is refused in every
  later state, whatever else happens, for no session with its hash can be opened again.
\<close>

theorem logout_is_final:
  assumes ok: "identity_ok s" and known: "hash_token P V token \<in> se_token_hash ` set (sessions s)"
    and run: "logout P V E token s = (r, s1)" and later: "(request P V)\<^sup>*\<^sup>* s1 s2"
  shows "authenticate P V E2 (Some token) s2 = Inl (Err not_signed_in)"
proof -
  have s1: "identity_ok s1" using revoke_identity [OF ok run] by blast
  from known obtain x where x: "x \<in> set (sessions s)" "se_token_hash x = hash_token P V token" by force
  then have "\<exists>y \<in> set (sessions s1). se_token_hash y = hash_token P V token \<and> se_revoked_at y \<noteq> None"
    using run
    by (intro bexI [of _ "if se_revoked_at x = None then x\<lparr>se_revoked_at := Some (now E)\<rparr> else x"])
      (auto simp: logout_def revoke_session_def transaction_def modify_def set_update_where image_iff)
  then obtain y where y: "y \<in> set (sessions s1)" "se_token_hash y = hash_token P V token" "se_revoked_at y \<noteq> None"
    by blast
  from requests_identity [OF later s1] have s2: "identity_ok s2" "accounts_grow s1 s2" by blast+
  from session_kept [OF s2(2) y(1)] obtain z where "z \<in> set (sessions s2)" "session_le y z" by blast
  with session_le_fields [OF this(2)] y(3) have "y \<in> set (sessions s2)" by auto
  from authenticate_row [OF s2(1) this y(2)] y(3) show ?thesis by simp
qed
section \<open>Who may sign in\<close>

lemma find_by_email:
  assumes "distinct (emails s)" and "u \<in> set (users s)" and "has_email e u"
  shows "find (has_email e) (users s) = Some u"
proof -
  have "distinct (List.map_filter (\<lambda>u. map_option lower (us_email u)) us) \<Longrightarrow> u \<in> set us \<Longrightarrow>
      find (has_email e) us = Some u" for us
  proof (induction us)
    case (Cons v us)
    show ?case
    proof (cases "v = u")
      case False
      with Cons.prems have u: "u \<in> set us" by simp
      from assms(3) obtain x where x: "us_email u = Some x" "lower x = lower e" by (auto simp: has_email_def)
      have "\<not> has_email e v"
      proof
        assume "has_email e v"
        then obtain y where y: "us_email v = Some y" "lower y = lower e" by (auto simp: has_email_def)
        from u x have "lower e \<in> set (List.map_filter (\<lambda>u. map_option lower (us_email u)) us)"
          by (force simp: List.map_filter_def)
        with Cons.prems(1) y show False by (simp add: List.map_filter_def)
      qed
      with Cons u show ?thesis by (auto simp: List.map_filter_def split: option.splits if_splits)
    qed (use assms(3) in simp)
  qed simp
  with assms show ?thesis by (simp add: emails_def)
qed

text \<open>
  C30: a login succeeds only with the password of the account: it needs a user with that email, in any
  case, whose stored hash the password verifies against, it opens the session of that user and no
  other, and a refused login changes nothing and does not tell which of the two was wrong.
\<close>

theorem login_needs_the_password:
  assumes ok: "identity_ok s" and run: "login P V E email password s = (r, s')"
  shows "case r of
     Inl e \<Rightarrow> s' = s \<and> e \<in> {Err invalid_login, Err from_sqlx_error}
   | Inr a \<Rightarrow> \<exists>u h. u \<in> set (users s) \<and> has_email email u \<and> us_password_hash u = Some h \<and> argon2_verify V password h \<and>
       user_id (au_session a) = us_id u \<and> role (au_session a) = us_role u \<and> users s' = users s \<and>
       (\<forall>v \<in> set (users s). has_email email v \<longrightarrow> v = u)"
  using run
proof (cases rule: login_cases)
  case (entered u h sess)
  from find_Some_set [OF entered(1)] have u: "u \<in> set (users s)" "has_email email u" by auto
  have "v = u" if "v \<in> set (users s)" "has_email email v" for v
    using find_by_email [OF _ that] ok entered(1) by (simp add: identity_ok_def)
  moreover have "find (\<lambda>x. us_id x = us_id u) (users s) = Some u"
    using ok u(1) by (intro find_distinct_key) (simp add: identity_ok_def)
  then have "user_id sess = us_id u \<and> role sess = us_role u"
    using entered(4) by (auto simp: session_context_def session_of_def)
  moreover have "users s' = users s" using entered(5) by (simp add: login_tx_Inr)
  ultimately have "u \<in> set (users s) \<and> has_email email u \<and> us_password_hash u = Some h \<and> argon2_verify V password h \<and>
       user_id sess = us_id u \<and> role sess = us_role u \<and> users s' = users s \<and>
       (\<forall>v \<in> set (users s). has_email email v \<longrightarrow> v = u)"
    using entered(2,3) u by blast
  with entered(6) show ?thesis by auto
qed simp_all

text \<open>
  The address is validated with its spaces trimmed and stored with them: a padded copy of a taken
  address is as valid, and is another address to the database.
\<close>

lemma padded_email_is_another:
  "validate_register (CHR '' '' # email) password name' legal = validate_register email password name' legal \<and>
   (has_email email u \<longrightarrow> \<not> has_email (CHR '' '' # email) u)"
proof -
  have "trim (CHR '' '' # email) = trim email"
    by (simp add: trim_def trim_start_def is_whitespace_def code_def)
  moreover have "lower (CHR '' '' # email) \<noteq> lower email"
  proof
    assume "lower (CHR '' '' # email) = lower email"
    from arg_cong [OF this, of length] show False by (simp add: lower_def to_ascii_lowercase_def)
  qed
  ultimately show ?thesis by (auto simp: validate_register_def has_email_def)
qed

end
