(* ===== verification/Auth_Scenarios.thy ===== *)
theory Auth_Scenarios
  imports Auth_Properties Scenarios
begin

text \<open>One customer registers, signs in and out: the inhabited cases of \<open>Auth_Properties\<close>.\<close>

definition sample_vault :: vault where
  "sample_vault = \<lparr>argon2_hash = (\<lambda>p. Some (''h'' @ p)), argon2_verify = (\<lambda>p h. h = ''h'' @ p),
     hex_encode = map (\<lambda>b. char_of (unat b))\<rparr>"

definition plain_crypto :: crypto where
  "plain_crypto = \<lparr>sha256 = (\<lambda>b. b), b64_encode = map (\<lambda>b. char_of (unat b)), b64_decode = (\<lambda>x. Some (as_bytes x)),
     rsa_verify = (\<lambda>key digest sg. sg = key @ digest), from_pem = (\<lambda>_. None), from_pkcs1_pem = (\<lambda>_. None),
     read_json = (\<lambda>_. None), write_json = (\<lambda>_. ''{}''), unicode_word = (\<lambda>_. False)\<rparr>"

definition visit :: "nat \<Rightarrow> instant \<Rightarrow> env" where
  "visit n t = sample_env\<lparr>now := t, draws := (\<lambda>k. if k = ''account'' then [100000000 + n] else [n])\<rparr>"

definition ada :: register_input where
  "ada = \<lparr>ri_email = ''ada@x.ng'', ri_password = ''secret-1'', ri_display_name = ''Ada'', ri_legal_name = ''Ada Ltd''\<rparr>"

definition nobody_db :: db where
  "nobody_db = sample_db\<lparr>customers := []\<rparr>"

lemma nobody_identity: "identity_ok nobody_db"
  by (simp add: identity_ok_def emails_def nobody_db_def sample_db_def List.map_filter_def)

lemma ada_valid: "validate_register (ri_email ada) (ri_password ada) (ri_display_name ada) (ri_legal_name ada) = Inr ()"
  by (simp add: validate_register_def ada_def email_matches_def plain_text_def trim_def trim_start_def is_whitespace_def
      code_def char_count_def)

lemma ada_in_capitals: "lower ''ADA@x.ng'' = lower (ri_email ada)"
  by (simp add: ada_def lower_def to_ascii_lowercase_def to_lower_char_def code_def char_of_def bit_iff_odd)

lemmas auth_eval = register_def find_user_by_email_def bind_io_def transaction_def gets_def hash_password_def
  draw_id_def register_tx_def bind_tx_def insert_user_def insert_customer_def insert_draft_application_def
  insert_session_def generate_account_number_def ensure_def ok_or_def return_tx_def modify_def fresh_id_def
  write_audit_def Let_def

lemma ada_registers:
  obtains a s1 where "register plain_crypto sample_vault (visit 7 1000) ada nobody_db = (Inr a, s1)"
    "au_token a = [char_of (7::nat)]" "sessions s1 \<noteq> []"
proof -
  have "\<exists>a s1. register plain_crypto sample_vault (visit 7 1000) ada nobody_db = (Inr a, s1) \<and>
      au_token a = [char_of (7::nat)] \<and> sessions s1 \<noteq> []"
    using ada_valid
    by (simp add: auth_eval nobody_db_def sample_db_def sample_vault_def visit_def generate_session_token_def)
  then show thesis using that by blast
qed
theorem token_signs_in_witness:
  "\<exists>a s1. register plain_crypto sample_vault (visit 7 1000) ada nobody_db = (Inr a, s1) \<and>
     authenticate plain_crypto sample_vault (visit 0 2000) (Some (au_token a)) s1 = Inr (au_session a, s1) \<and>
     authenticate plain_crypto sample_vault (visit 0 3000000000) (Some (au_token a)) s1 = Inl (Err not_signed_in)"
proof -
  obtain a s1 where run: "register plain_crypto sample_vault (visit 7 1000) ada nobody_db = (Inr a, s1)"
    by (rule ada_registers)
  from token_signs_in [OF nobody_identity disjI1 [OF run] rtranclp.rtrancl_refl, of "visit 0 2000"]
    token_signs_in [OF nobody_identity disjI1 [OF run] rtranclp.rtrancl_refl, of "visit 0 3000000000"]
  show ?thesis using run by (simp add: visit_def)
qed

theorem logout_is_final_witness:
  "\<exists>a s1 s2. register plain_crypto sample_vault (visit 7 1000) ada nobody_db = (Inr a, s1) \<and>
     snd (logout plain_crypto sample_vault (visit 0 2000) (au_token a) s1) = s2 \<and>
     authenticate plain_crypto sample_vault (visit 0 2500) (Some (au_token a)) s2 = Inl (Err not_signed_in)"
proof -
  obtain a s1 where run: "register plain_crypto sample_vault (visit 7 1000) ada nobody_db = (Inr a, s1)"
    by (rule ada_registers)
  from sign_in_row [OF nobody_identity disjI1 [OF run]] have ok: "identity_ok s1"
    and known: "hash_token plain_crypto sample_vault (au_token a) \<in> se_token_hash ` set (sessions s1)" by force+
  obtain r s2 where out: "logout plain_crypto sample_vault (visit 0 2000) (au_token a) s1 = (r, s2)" by fastforce
  from logout_is_final [OF ok known out rtranclp.rtrancl_refl] run out show ?thesis by auto
qed

theorem login_needs_the_password_witness:
  "\<exists>s1 e. snd (register plain_crypto sample_vault (visit 7 1000) ada nobody_db) = s1 \<and>
     login plain_crypto sample_vault (visit 8 2000) ''ADA@x.ng'' ''wrong'' s1 = (Inl e, s1)"
proof -
  obtain a' s1 where run: "register plain_crypto sample_vault (visit 7 1000) ada nobody_db = (Inr a', s1)"
    by (rule ada_registers)
  from register_context [OF nobody_identity run] obtain h where h: "argon2_hash sample_vault (ri_password ada) = Some h"
    and ok: "identity_ok s1" and u: "new_user (next_id nobody_db) ada h \<in> set (users s1)" by blast
  have mail: "has_email ''ADA@x.ng'' (new_user (next_id nobody_db) ada h)"
    by (simp add: has_email_def new_user_def ada_in_capitals)
  obtain r s2 where login: "login plain_crypto sample_vault (visit 8 2000) ''ADA@x.ng'' ''wrong'' s1 = (r, s2)"
    by (meson surj_pair)
  from login_needs_the_password [OF ok login] u mail h obtain e where "r = Inl e" "s2 = s1"
    by (cases r) (auto simp: new_user_def sample_vault_def ada_def)
  with run login show ?thesis by auto
qed


end
