(* ===== verification/Account_Numbers.thy ===== *)
theory Account_Numbers
  imports Auth_Properties
begin

text \<open>
  The account numbers of migration 013: the shape the column's constraint asks for, and what the check
  digit catches.
\<close>

section \<open>The check digit\<close>

definition luhn_valid :: "string \<Rightarrow> bool" where
  "luhn_valid s \<longleftrightarrow> luhn_sum False (map digit_value (rev s)) mod 10 = 0"

text \<open>The pattern \<open>^[1-9][0-9]{9}$\<close> of the constraint, and a correct check digit.\<close>

definition account_format :: "string \<Rightarrow> bool" where
  "account_format s \<longleftrightarrow> length s = 10 \<and> all_digits s \<and> s ! 0 \<noteq> CHR ''0'' \<and> luhn_valid s"

text \<open>What one digit adds, doubled or not.\<close>

definition luhn_term :: "bool \<Rightarrow> nat \<Rightarrow> nat" where
  "luhn_term dbl d = (if dbl then (if 9 < d * 2 then d * 2 - 9 else d * 2) else d)"

lemma luhn_sum_Cons: "luhn_sum dbl (d # ds) = luhn_term dbl d + luhn_sum (\<not> dbl) ds"
  by (simp add: luhn_term_def)

lemma luhn_sum_append:
  "luhn_sum dbl (xs @ ys) = luhn_sum dbl xs + luhn_sum (dbl = even (length xs)) ys"
proof (induction xs arbitrary: dbl)
  case (Cons x xs)
  have "((\<not> dbl) = even (length xs)) = (dbl = even (length (x # xs)))" by auto
  then show ?case unfolding append_Cons luhn_sum_Cons Cons.IH by simp
qed simp

lemma odd_gap: "9 < x * 2 \<Longrightarrow> x * 2 - 9 \<noteq> y * (2 :: nat)"
proof
  assume "9 < x * 2" and "x * 2 - 9 = y * 2"
  then have "x * 2 = y * 2 + 9" by linarith
  then have "even (y * 2 + 9)" by (metis dvd_triv_right)
  then show False by simp
qed

lemma luhn_term_inj:
  assumes "d < 10" "e < 10" and "luhn_term dbl d mod 10 = luhn_term dbl e mod 10"
  shows "d = e"
proof -
  have "luhn_term dbl x < 10" if "x < 10" for x
    using that by (auto simp: luhn_term_def)
  with assms have eq: "luhn_term dbl d = luhn_term dbl e" by simp
  show ?thesis
  proof (cases dbl)
    case False
    with eq show ?thesis by (simp add: luhn_term_def)
  next
    case True
    note eq = eq [unfolded luhn_term_def if_P [OF True]]
    consider "9 < d * 2" "9 < e * 2" | "9 < d * 2" "\<not> 9 < e * 2" | "\<not> 9 < d * 2" "9 < e * 2"
      | "\<not> 9 < d * 2" "\<not> 9 < e * 2" by blast
    then show ?thesis
    proof cases
      case 1
      with eq have "d * 2 - 9 = e * 2 - 9" by (simp only: if_True)
      with 1 show ?thesis by linarith
    next
      case 2
      with eq have "d * 2 - 9 = e * 2" by (simp only: if_True if_False)
      with odd_gap 2 show ?thesis by blast
    next
      case 3
      with eq have "e * 2 - 9 = d * 2" by (simp only: if_True if_False)
      with odd_gap 3 show ?thesis by blast
    next
      case 4
      with eq have "d * 2 = e * 2" by (simp only: if_False)
      then show ?thesis by linarith
    qed
  qed
qed

lemma mod10_cancel: "(a + c) mod (10::nat) = (b + c) mod 10 \<Longrightarrow> a mod 10 = b mod 10"
  by (auto simp: nat_mod_eq_iff)

lemma one_digit_matters:
  assumes "luhn_sum dbl (xs @ d # ys) mod 10 = luhn_sum dbl (xs @ e # ys) mod 10" and "d < 10" "e < 10"
  shows "d = e"
proof -
  let ?b = "dbl = even (length xs)"
  have "(luhn_term ?b d + (luhn_sum dbl xs + luhn_sum (\<not> ?b) ys)) mod 10 =
      (luhn_term ?b e + (luhn_sum dbl xs + luhn_sum (\<not> ?b) ys)) mod 10"
    using assms(1) unfolding luhn_sum_append luhn_sum_Cons by (simp add: ac_simps)
  then have "luhn_term ?b d mod 10 = luhn_term ?b e mod 10"
    by (rule mod10_cancel)
  then show ?thesis by (rule luhn_term_inj [OF assms(2,3)])
qed

lemma typo_invalid:
  assumes "luhn_valid s" "all_digits s" "i < length s" "is_ascii_digit c" "c \<noteq> s ! i"
  shows "\<not> luhn_valid (s[i := c])"
proof
  assume bad: "luhn_valid (s[i := c])"
  let ?f = "\<lambda>x. map digit_value (rev x)"
  have s: "s = take i s @ s ! i # drop (Suc i) s" using assms(3) by (simp add: id_take_nth_drop)
  have t: "s[i := c] = take i s @ c # drop (Suc i) s" using assms(3) by (simp add: upd_conv_take_nth_drop)
  have "luhn_sum False (?f (drop (Suc i) s) @ digit_value (s ! i) # ?f (take i s)) mod 10 = 0"
    using assms(1) unfolding luhn_valid_def by (subst (asm) s) simp
  moreover have "luhn_sum False (?f (drop (Suc i) s) @ digit_value c # ?f (take i s)) mod 10 = 0"
    using bad unfolding luhn_valid_def t by simp
  moreover have "is_ascii_digit (s ! i)" using assms(2,3) by (simp add: all_digits_def list_all_length)
  ultimately have "digit_value (s ! i) = digit_value c"
    using one_digit_matters [of False "?f (drop (Suc i) s)" "digit_value (s ! i)" "?f (take i s)" "digit_value c"]
      assms(4) by (simp add: digit_value_less)
  then have "s ! i = c" using assms(4) \<open>is_ascii_digit (s ! i)\<close> by (metis digit_char_digit_value)
  with assms(5) show False by simp
qed

text \<open>
  The migration's comment says that a swapped pair is caught too: the pair 0 and 9 is not.
\<close>

lemma swapped_pair_passes: "luhn_sum dbl (xs @ 0 # 9 # ys) = luhn_sum dbl (xs @ 9 # 0 # ys)"
  unfolding luhn_sum_append luhn_sum_Cons by (simp add: luhn_term_def)

section \<open>The numbers handed out\<close>

lemma check_digit_valid: "all_digits body \<Longrightarrow> luhn_valid (body @ [check_digit body])"
proof -
  let ?n = "luhn_sum True (map digit_value (rev body))"
  have "digit_value (check_digit body) = (10 - ?n mod 10) mod 10" by (simp add: check_digit_def)
  moreover have "(10 - ?n mod 10) + ?n = 10 + 10 * (?n div 10)"
    using div_mult_mod_eq [of ?n 10] mod_less_divisor [of 10 ?n] by linarith
  then have "((10 - ?n mod 10) mod 10 + ?n) mod 10 = 0" by (metis mod_add_left_eq mod_add_self1 mod_mult_self1_is_0)
  ultimately show ?thesis by (simp add: luhn_valid_def)
qed

lemma nine_digits:
  assumes "10 ^ 8 \<le> n" "n < (10 ^ 9 :: nat)"
  shows "length (nat_to_string n) = 9" "nat_to_string n ! 0 \<noteq> CHR ''0''"
proof -
  let ?s = "nat_to_string n"
  have "length ?s \<le> 9" using length_nat_to_string [of n 8] assms(2) by simp
  moreover have "n < 10 ^ length ?s" using digits_value_bound [of ?s] by simp
  with assms(1) have "(10::nat) ^ 8 < 10 ^ length ?s" by linarith
  then have "8 < length ?s" by (simp only: power_strict_increasing_iff)
  ultimately show "length ?s = 9" by simp
  show "?s ! 0 \<noteq> CHR ''0''"
  proof
    assume "?s ! 0 = CHR ''0''"
    then obtain t where t: "?s = [CHR ''0''] @ t" by (cases ?s) auto
    with \<open>length ?s = 9\<close> have "length t = 8" by simp
    moreover have "all_digits t" using all_digits_nat_to_string [of n] by (simp add: t all_digits_def)
    ultimately have "digits_value t < 10 ^ 8" using digits_value_bound by metis
    moreover have "digits_value ?s = digits_value t" unfolding t by (simp add: digits_value_append digits_value_def digit_value_def code_def)
    ultimately show False using assms(1) by simp
  qed
qed

lemma account_number_format: "10 ^ 8 \<le> n \<Longrightarrow> n < 10 ^ 9 \<Longrightarrow> account_format (account_number_of n)"
  using nine_digits [of n] check_digit_valid [OF all_digits_nat_to_string [of n]] all_digits_nat_to_string [of n]
  by (auto simp: account_format_def account_number_of_def Let_def nth_append all_digits_def check_digit_def
      simp del: all_digits_nat_to_string)

text \<open>Every customer has a number of the right shape, and no two share one.\<close>

definition numbers_ok :: "db \<Rightarrow> bool" where
  "numbers_ok s \<longleftrightarrow> distinct (map cu_account_number (customers s)) \<and>
     list_all (\<lambda>c. account_format (cu_account_number c)) (customers s)"

lemma typo_unknown:
  assumes "numbers_ok s" and "account_format number" "i < 10" "is_ascii_digit c" "c \<noteq> number ! i"
  shows "number[i := c] \<notin> cu_account_number ` set (customers s)"
  using assms typo_invalid [of number i c] by (auto simp: numbers_ok_def account_format_def list_all_iff)

text \<open>
  C32: an account number identifies its customer even when one digit of it is mistyped: whatever a
  registration does, every customer has a number of ten digits with a correct check digit that no other
  customer has, and the number handed to a new customer, with any one digit replaced by another, is
  nobody's number. (Hypothesis: the random bodies have nine digits, the first not 0, as the migration
  draws them.)
\<close>

theorem account_numbers_survive_a_typo:
  assumes run: "register P V E input s = (r, s')" and ok: "numbers_ok s"
    and drawn: "\<And>n. n \<in> set (draws E ''account'') \<Longrightarrow> 10 ^ 8 \<le> n \<and> n < 10 ^ 9"
  shows "numbers_ok s' \<and> (case r of Inl e \<Rightarrow> True | Inr a \<Rightarrow>
    account_number (au_session a) \<in> cu_account_number ` set (customers s') \<and>
    (i < 10 \<and> is_ascii_digit c \<and> c \<noteq> account_number (au_session a) ! i \<longrightarrow>
      (account_number (au_session a))[i := c] \<notin> cu_account_number ` set (customers s')))"
  using run
proof (cases rule: register_cases)
  case (registered h a)
  from registered(4) obtain number where number: "generate_account_number E (s\<lparr>next_id := next_id s + 3\<rparr>) = Some number"
    "customers s' = customers s @ [new_customer (next_id s + 1) input (next_id s) number]"
    "account_number (au_session a) = number"
    by (rule register_tx_Inr) (auto simp: session_of_def new_customer_def)
  from find_Some_set [OF number(1) [unfolded generate_account_number_def]] drawn
  have "account_format number" "number \<notin> cu_account_number ` set (customers s)"
    by (auto simp: account_number_format list_ex_iff)
  with ok have ok': "numbers_ok s'" by (simp add: numbers_ok_def number(2) new_customer_def)
  show ?thesis
    using ok' typo_unknown [OF ok' \<open>account_format number\<close>] by (simp add: registered(1) number(2,3) new_customer_def)
qed (use ok in \<open>simp_all add: numbers_ok_def\<close>)

end
