(* ===== verification/Account_Scenarios.thy ===== *)
theory Account_Scenarios
  imports Account_Numbers Auth_Scenarios
begin

text \<open>A registration with a drawn account number: the inhabited case of \<open>Account_Numbers\<close>.\<close>

theorem account_numbers_survive_a_typo_witness:
  "\<exists>a s1 c. register plain_crypto sample_vault (visit 7 1000) ada nobody_db = (Inr a, s1) \<and> numbers_ok s1 \<and>
     c \<noteq> account_number (au_session a) ! 3 \<and> is_ascii_digit c \<and>
     (account_number (au_session a))[3 := c] \<notin> cu_account_number ` set (customers s1)"
proof -
  obtain a s1 where run: "register plain_crypto sample_vault (visit 7 1000) ada nobody_db = (Inr a, s1)"
    by (rule ada_registers)
  define c where "c = (if account_number (au_session a) ! 3 = CHR ''5'' then CHR ''6'' else CHR ''5'')"
  have c: "c \<noteq> account_number (au_session a) ! 3" "is_ascii_digit c"
    by (simp_all add: c_def is_ascii_digit_def code_def)
  have ok: "numbers_ok nobody_db" by (simp add: numbers_ok_def nobody_db_def)
  have drawn: "10 ^ 8 \<le> n \<and> n < 10 ^ 9" if "n \<in> set (draws (visit 7 1000) ''account'')" for n
    using that by (simp add: visit_def)
  from account_numbers_survive_a_typo [OF run ok drawn, of 3 c] run c show ?thesis by auto
qed

end
