(* ===== verification/Kyb.thy ===== *)
theory Kyb
  imports Onboarding_Contract Util
begin

text \<open>
  \<open>src/domain/onboarding/kyb.rs\<close> and \<open>schema.rs\<close>: what an application must look like, the checks that
  decide it and the rating that limits the approved customer. The delay between checks has no effect
  on the outcome and is left out.
\<close>

section \<open>Validation\<close>

text \<open>
  Regular expressions over code points. \<open>\d\<close> is the Unicode class: \<open>ud\<close> tells which code points beyond
  ASCII are decimal digits.
\<close>

definition is_digit_point :: "(nat \<Rightarrow> bool) \<Rightarrow> nat \<Rightarrow> bool" where
  "is_digit_point ud n \<longleftrightarrow> (if n < 128 then 48 \<le> n \<and> n \<le> 57 else ud n)"

definition points :: "string \<Rightarrow> nat list" where
  "points s = code_points 0 0 s"

text \<open>\<open>(?i)^RC-?\d{4,8}$\<close>, \<open>^\d{11}$\<close> and \<open>^\d{4}-\d{2}-\d{2}$\<close>.\<close>

definition rc_matches :: "(nat \<Rightarrow> bool) \<Rightarrow> string \<Rightarrow> bool" where
  "rc_matches ud s =
     (case points s of r # c # rest \<Rightarrow>
        r \<in> {82, 114} \<and> c \<in> {67, 99} \<and>
        (let ds = (case rest of [] \<Rightarrow> [] | d # ds \<Rightarrow> if d = 45 then ds else rest)
         in 4 \<le> length ds \<and> length ds \<le> 8 \<and> list_all (is_digit_point ud) ds)
      | _ \<Rightarrow> False)"

definition digits11_matches :: "(nat \<Rightarrow> bool) \<Rightarrow> string \<Rightarrow> bool" where
  "digits11_matches ud s \<longleftrightarrow> length (points s) = 11 \<and> list_all (is_digit_point ud) (points s)"

definition iso_date_matches :: "(nat \<Rightarrow> bool) \<Rightarrow> string \<Rightarrow> bool" where
  "iso_date_matches ud s \<longleftrightarrow>
     (let p = points s in length p = 10 \<and> p ! 4 = 45 \<and> p ! 7 = 45 \<and>
        list_all (is_digit_point ud) (take 4 p) \<and> list_all (is_digit_point ud) (take 2 (drop 5 p)) \<and>
        list_all (is_digit_point ud) (drop 8 p))"

definition invalid :: "string \<Rightarrow> 'a api_result" where
  "invalid m = Inl (Err (validation m))"

definition validate_business :: "(nat \<Rightarrow> bool) \<Rightarrow> business_details \<Rightarrow> unit api_result" where
  "validate_business ud b =
     (if char_count (trim (bd_legal_name b)) < 2 then invalid ''Enter your registered business name.''
      else if \<not> rc_matches ud (trim (bd_cac_number b)) then invalid ''Enter a valid RC number, e.g. RC-1234567.''
      else if trim (ad_state (bd_trading_address b)) = [] then invalid ''Select your primary state of operation.''
      else if length (trim (ad_country (bd_trading_address b))) \<noteq> 2 \<or>
              length (trim (bd_country_of_incorporation b)) \<noteq> 2
      then invalid ''Use a 2-letter ISO country code.''
      else Inr ())"

text \<open>\<open>(0.0..=100.0).contains\<close>: false on NaN.\<close>

definition in_percent_range :: "f64 \<Rightarrow> bool" where
  "in_percent_range x \<longleftrightarrow> (case x of Fin q \<Rightarrow> 0 \<le> q \<and> q \<le> 100 | _ \<Rightarrow> False)"

definition validate_principal :: "(nat \<Rightarrow> bool) \<Rightarrow> principal \<Rightarrow> unit api_result" where
  "validate_principal ud p =
     (if char_count (trim (pp_full_name p)) < 2 then invalid ''Enter the full name.''
      else if (case pp_bvn p of None \<Rightarrow> False | Some v \<Rightarrow> \<not> digits11_matches ud v)
      then invalid ''BVN must be 11 digits.''
      else if (case pp_nin p of None \<Rightarrow> False | Some v \<Rightarrow> \<not> digits11_matches ud v)
      then invalid ''NIN must be 11 digits.''
      else if (case pp_date_of_birth p of None \<Rightarrow> False | Some v \<Rightarrow> \<not> iso_date_matches ud v)
      then invalid ''Date of birth must be an ISO date (YYYY-MM-DD).''
      else if (case pp_ownership_percentage p of None \<Rightarrow> False | Some x \<Rightarrow> \<not> in_percent_range x)
      then invalid (''Ownership percentage must be 0'' @ map char_of [226::nat, 128, 147] @ ''100.'')
      else Inr ())"

fun validate_principals :: "(nat \<Rightarrow> bool) \<Rightarrow> principal list \<Rightarrow> unit api_result" where
  "validate_principals ud [] = Inr ()"
| "validate_principals ud (p # ps) =
     (case validate_principal ud p of Inl e \<Rightarrow> Inl e | Inr _ \<Rightarrow> validate_principals ud ps)"

section \<open>Checks and rating\<close>

record check_result =
  cr_key :: string
  cr_passed :: bool
  cr_detail :: string

datatype risk_rating = Low | Medium | High

definition rating_label :: "risk_rating \<Rightarrow> string" where
  "rating_label r = (case r of Low \<Rightarrow> ''Low'' | Medium \<Rightarrow> ''Medium'' | High \<Rightarrow> ''High'')"

definition transaction_limit_minor :: "risk_rating \<Rightarrow> int option" where
  "transaction_limit_minor r = (case r of Low \<Rightarrow> None | Medium \<Rightarrow> Some 5000000 | High \<Rightarrow> Some 1000000)"

definition high_risk_industry :: "industry_sector \<Rightarrow> bool" where
  "high_risk_industry i \<longleftrightarrow> i = OilGasServices \<or> i = SolidMinerals \<or> i = TradingCommodities"

definition assess_risk_rating :: "onboarding_application \<Rightarrow> risk_rating" where
  "assess_risk_rating app =
     (case oa_business app of None \<Rightarrow> Low
      | Some b \<Rightarrow>
          let name' = to_ascii_lowercase (bd_legal_name b)
          in if contains name' ''highrisk'' then High
             else if contains name' ''mediumrisk'' then Medium
             else case (high_risk_industry (bd_industry b),
                        \<not> eq_ignore_ascii_case (bd_country_of_incorporation b) ''NG'') of
               (True, True) \<Rightarrow> High | (True, False) \<Rightarrow> Medium | (False, True) \<Rightarrow> Medium | (False, False) \<Rightarrow> Low)"

record kyb_outcome =
  ko_approved :: bool
  ko_checks :: "check_result list"
  ko_rejection_reasons :: "rejection_detail list"
  ko_risk_rating :: risk_rating

text \<open>The four triggers.\<close>

definition cac_fails :: "onboarding_application \<Rightarrow> bool" where
  "cac_fails app \<longleftrightarrow>
     contains (case oa_business app of None \<Rightarrow> [] | Some b \<Rightarrow> to_ascii_lowercase (bd_legal_name b)) ''reject''"

definition bvn_fails :: "onboarding_application \<Rightarrow> bool" where
  "bvn_fails app \<longleftrightarrow> list_ex (\<lambda>p. pp_bvn p = Some ''00000000000'') (oa_principals app)"

definition sanctions_or_pep_fails :: "onboarding_application \<Rightarrow> bool" where
  "sanctions_or_pep_fails app \<longleftrightarrow> list_ex (\<lambda>p.
     let name' = to_ascii_lowercase (pp_full_name p) in contains name' ''sanction'' \<or> contains name' ''pep'')
     (oa_principals app)"

definition adverse_media_fails :: "onboarding_application \<Rightarrow> bool" where
  "adverse_media_fails app \<longleftrightarrow>
     contains (case oa_business app of None \<Rightarrow> [] | Some b \<Rightarrow> to_ascii_lowercase (bd_legal_name b)) ''adverse''"

definition check :: "string \<Rightarrow> bool \<Rightarrow> string \<Rightarrow> string \<Rightarrow> check_result" where
  "check key fails bad good = \<lparr>cr_key = key, cr_passed = \<not> fails, cr_detail = (if fails then bad else good)\<rparr>"

definition kyb_checks_of :: "onboarding_application \<Rightarrow> check_result list" where
  "kyb_checks_of app =
     [check ''cac_lookup'' (cac_fails app)
        ''RC number could not be verified with the Corporate Affairs Commission.''
        ''RC number verified with the Corporate Affairs Commission.'',
      check ''director_identity'' (bvn_fails app) ''A director's BVN did not resolve at NIBSS.''
        ''Director identities cross-referenced with NIBSS.'',
      check ''sanctions_pep'' (sanctions_or_pep_fails app)
        ''A principal matched a sanctions list or PEP screening entry.''
        ''No matches on OFAC SDN, EU Consolidated, UN sanctions lists, or PEP databases.'',
      check ''adverse_media'' (adverse_media_fails app) ''Adverse media coverage found for the business name.''
        ''No adverse media or enforcement records found.'',
      \<lparr>cr_key = ''risk_rating'', cr_passed = True,
        cr_detail = ''Segment, corridor, and volume risk model applied.''\<rparr>]"

definition reason_if :: "bool \<Rightarrow> string \<Rightarrow> check_result \<Rightarrow> rejection_detail list" where
  "reason_if fails field c = (if fails then [\<lparr>rd_field = field, rd_reason = cr_detail c\<rparr>] else [])"

definition run_checks :: "onboarding_application \<Rightarrow> kyb_outcome" where
  "run_checks app =
     (let checks = kyb_checks_of app;
          reasons = reason_if (cac_fails app) ''business.cacNumber'' (checks ! 0) @
            reason_if (bvn_fails app) ''principals[].bvn'' (checks ! 1) @
            reason_if (sanctions_or_pep_fails app) ''principals[].fullName'' (checks ! 2) @
            reason_if (adverse_media_fails app) ''business.legalName'' (checks ! 3)
      in \<lparr>ko_approved = (reasons = []), ko_checks = checks, ko_rejection_reasons = reasons,
          ko_risk_rating = assess_risk_rating app\<rparr>)"

section \<open>What the checks mean\<close>

lemma check_simps [simp]: "cr_passed (check k f b g) \<longleftrightarrow> \<not> f" "cr_detail (check k f b g) = (if f then b else g)"
    "cr_key (check k f b g) = k"
  by (simp_all add: check_def)

lemma run_checks_simps [simp]:
  "ko_checks (run_checks app) = kyb_checks_of app"
  "ko_risk_rating (run_checks app) = assess_risk_rating app"
  "ko_approved (run_checks app) \<longleftrightarrow> ko_rejection_reasons (run_checks app) = []"
  by (simp_all add: run_checks_def Let_def)

lemma approved_iff:
  "ko_approved (run_checks app) \<longleftrightarrow>
     \<not> cac_fails app \<and> \<not> bvn_fails app \<and> \<not> sanctions_or_pep_fails app \<and> \<not> adverse_media_fails app"
  by (simp add: run_checks_def Let_def reason_if_def)

text \<open>
  the checks decide the application: it is approved exactly when every check passed; otherwise
  there is one reason per failed check, with the text of that check.
\<close>

theorem reasons_are_the_failed_checks:
  "(ko_approved (run_checks app) \<longleftrightarrow> list_all cr_passed (ko_checks (run_checks app))) \<and>
   map rd_reason (ko_rejection_reasons (run_checks app)) =
     map cr_detail (filter (\<lambda>c. \<not> cr_passed c) (ko_checks (run_checks app))) \<and>
   distinct (map cr_key (ko_checks (run_checks app)))"
  by (simp add: run_checks_def Let_def reason_if_def kyb_checks_of_def)

text \<open>Each risk factor can only raise the rating, and a higher rating only lowers the limit.\<close>

definition risk_level :: "risk_rating \<Rightarrow> nat" where
  "risk_level r = (case r of Low \<Rightarrow> 0 | Medium \<Rightarrow> 1 | High \<Rightarrow> 2)"

instantiation risk_rating :: linorder
begin

definition less_eq_risk_rating :: "risk_rating \<Rightarrow> risk_rating \<Rightarrow> bool" where
  "less_eq_risk_rating a b \<longleftrightarrow> risk_level a \<le> risk_level b"

definition less_risk_rating :: "risk_rating \<Rightarrow> risk_rating \<Rightarrow> bool" where
  "less_risk_rating a b \<longleftrightarrow> risk_level a < risk_level b"

instance
  by standard (auto simp: less_eq_risk_rating_def less_risk_rating_def risk_level_def split: risk_rating.splits)

end

text \<open>\<open>None\<close> is the platform's own limit.\<close>

definition effective_limit :: "int \<Rightarrow> int option \<Rightarrow> int" where
  "effective_limit platform l = (case l of None \<Rightarrow> platform | Some x \<Rightarrow> x)"

lemma limit_antimono:
  "5000000 \<le> platform \<Longrightarrow> a \<le> b \<Longrightarrow>
   effective_limit platform (transaction_limit_minor b) \<le> effective_limit platform (transaction_limit_minor a)"
  by (cases a; cases b)
    (auto simp: effective_limit_def transaction_limit_minor_def less_eq_risk_rating_def risk_level_def)

lemma rating_by_factors:
  assumes "oa_business app = Some b" and "\<not> contains (to_ascii_lowercase (bd_legal_name b)) ''highrisk''"
    and "\<not> contains (to_ascii_lowercase (bd_legal_name b)) ''mediumrisk''"
  shows "risk_level (assess_risk_rating app) = of_bool (high_risk_industry (bd_industry b)) +
    of_bool (\<not> eq_ignore_ascii_case (bd_country_of_incorporation b) ''NG'')"
  using assms by (simp add: assess_risk_rating_def risk_level_def)

text \<open>
  The country is validated with spaces trimmed but rated as it was sent: a padded \<open>NG\<close> passes the
  validation and counts as foreign.
\<close>

lemma padded_country_is_foreign:
  assumes "oa_business app = Some b" and "\<not> contains (to_ascii_lowercase (bd_legal_name b)) ''highrisk''"
    and "\<not> contains (to_ascii_lowercase (bd_legal_name b)) ''mediumrisk''"
    and "bd_country_of_incorporation b = ''NG ''"
  shows "assess_risk_rating app \<noteq> Low \<and> length (trim (bd_country_of_incorporation b)) = 2"
proof -
  have "\<not> eq_ignore_ascii_case ''NG '' ''NG''" by (simp add: eq_ignore_ascii_case_def to_ascii_lowercase_def)
  with assms have "assess_risk_rating app \<noteq> Low" by (simp add: assess_risk_rating_def split: bool.split)
  moreover have "length (trim ''NG '') = 2"
    by (simp add: trim_def trim_start_def is_whitespace_def code_def)
  ultimately show ?thesis using assms by simp
qed

section \<open>What validation accepts\<close>

lemma validate_principals_Inr: "validate_principals ud ps = Inr () \<longleftrightarrow> (\<forall>p\<in>set ps. validate_principal ud p = Inr ())"
  by (induction ps) (auto split: sum.splits)

lemma validate_principal_Inr:
  "validate_principal ud p = Inr () \<longleftrightarrow> 2 \<le> char_count (trim (pp_full_name p)) \<and>
     (\<forall>v. pp_bvn p = Some v \<longrightarrow> digits11_matches ud v) \<and> (\<forall>v. pp_nin p = Some v \<longrightarrow> digits11_matches ud v) \<and>
     (\<forall>v. pp_date_of_birth p = Some v \<longrightarrow> iso_date_matches ud v) \<and>
     (\<forall>x. pp_ownership_percentage p = Some x \<longrightarrow> in_percent_range x)"
  by (auto simp: validate_principal_def invalid_def split: option.split)

end
