(* ===== verification/Onboarding.thy ===== *)
theory Onboarding
  imports Kyb Ledger
begin

text \<open>
  \<open>src/domain/onboarding\<close> (\<open>repo.rs\<close>, \<open>service.rs\<close>) and \<open>src/storage.rs\<close>: the application of a customer,
  its documents and the review that ends in approval or rejection. \<open>platform\<close> holds what is not the
  program's: the database's cast of a text to a date and back, the digits beyond ASCII, and which file
  writes succeed.
\<close>

record platform =
  date_cast :: "string \<Rightarrow> string option"
  unicode_digit :: "nat \<Rightarrow> bool"
  writable :: "string \<Rightarrow> bool"

section \<open>Stored files\<close>

type_synonym files = "string \<rightharpoonup> bytes"

definition is_absolute :: "string \<Rightarrow> bool" where
  "is_absolute p \<longleftrightarrow> take 1 p = ''/''"

fun path_components :: "string \<Rightarrow> string \<Rightarrow> string list" where
  "path_components w [] = (if w \<in> {[], ''.''} then [] else [w])"
| "path_components w (c # s) =
     (if c = CHR ''/'' then (if w \<in> {[], ''.''} then path_components [] s else w # path_components [] s)
      else path_components (w @ [c]) s)"

text \<open>\<open>Path::join\<close> replaces the root by an absolute key; a relative key never leaves it but by \<open>..\<close>.\<close>

definition join_path :: "string \<Rightarrow> string \<Rightarrow> string" where
  "join_path base key =
     (if is_absolute key then key
      else if base = [] then key
      else if last base = CHR ''/'' then base @ key else base @ ''/'' @ key)"

definition under_root :: "string \<Rightarrow> string \<Rightarrow> bool" where
  "under_root base key \<longleftrightarrow>
     \<not> is_absolute key \<or> base = [] \<or>
     (is_absolute base \<and> prefix (path_components [] base) (path_components [] key))"

definition path_for :: "string \<Rightarrow> string \<Rightarrow> string api_result" where
  "path_for base key =
     (if \<not> under_root base key \<or> contains key ''..'' then Inl (Err (validation ''Invalid storage key.''))
      else Inr (join_path base key))"

definition storage_put :: "platform \<Rightarrow> string \<Rightarrow> string \<Rightarrow> bytes \<Rightarrow> files \<Rightarrow> unit api_result \<times> files" where
  "storage_put F base key data fs =
     (case path_for base key of Inl e \<Rightarrow> (Inl e, fs)
      | Inr p \<Rightarrow> if writable F p then (Inr (), fs(p \<mapsto> data)) else (Inl (Err server_error), fs))"

text \<open>A refused removal is not reported.\<close>

definition storage_delete :: "platform \<Rightarrow> string \<Rightarrow> string \<Rightarrow> files \<Rightarrow> unit api_result \<times> files" where
  "storage_delete F base key fs =
     (case path_for base key of Inl e \<Rightarrow> (Inl e, fs)
      | Inr p \<Rightarrow> (Inr (), if writable F p then fs(p := None) else fs))"

section \<open>Reading an application\<close>

definition document_of :: "document_row \<Rightarrow> uploaded_document" where
  "document_of d = \<lparr>ud_id = od_id d, ud_type = od_type d, ud_file_name = od_file_name d,
     ud_mime_type = od_mime_type d, ud_size_bytes = od_size_bytes d, ud_status = od_status d,
     ud_upload_progress_percent = od_upload_progress_percent d, ud_uploaded_at = od_uploaded_at d,
     ud_error_message = od_error_message d\<rparr>"

definition principal_of :: "principal_row \<Rightarrow> principal" where
  "principal_of p = \<lparr>pp_id = Some (pr_id p), pp_full_name = pr_full_name p,
     pp_role = (case parse_principal_role (pr_role p) of None \<Rightarrow> Director | Some r \<Rightarrow> r),
     pp_ownership_percentage = pr_ownership_percentage p, pp_date_of_birth = pr_date_of_birth p,
     pp_bvn = pr_bvn p, pp_nin = pr_nin p\<rparr>"

definition assemble :: "db \<Rightarrow> application_row \<Rightarrow> onboarding_application" where
  "assemble s a = \<lparr>oa_id = ap_id a, oa_customer = ap_customer a, oa_status = ap_status a,
     oa_business = ap_business a,
     oa_principals = map principal_of
       (sort_key pr_position (filter (\<lambda>p. pr_application p = ap_id a) (principals s))),
     oa_documents = map document_of (filter (\<lambda>d. od_application d = ap_id a) (documents s)),
     oa_rejection_reasons = ap_rejection_reasons a, oa_approved_summary = ap_approved_summary a,
     oa_submitted_at = ap_submitted_at a, oa_reviewed_at = ap_reviewed_at a\<rparr>"

definition find_by_customer :: "uuid \<Rightarrow> onboarding_application option tx" where
  "find_by_customer c =
     gets (\<lambda>s. map_option (assemble s) (find (\<lambda>a. ap_customer a = c) (applications s)))"

definition list_approved :: "onboarding_application list tx" where
  "list_approved = gets (\<lambda>s. map (assemble s) (filter (\<lambda>a. ap_status a = ''approved'') (applications s)))"

section \<open>Writing\<close>

definition update_application :: "uuid \<Rightarrow> (application_row \<Rightarrow> application_row) \<Rightarrow> unit tx" where
  "update_application i f = modify (\<lambda>s. s\<lparr>applications := update_where (\<lambda>a. ap_id a = i) f (applications s)\<rparr>)"

definition save_business :: "uuid \<Rightarrow> business_details \<Rightarrow> unit tx" where
  "save_business i b = update_application i (\<lambda>a. a\<lparr>ap_business := Some b\<rparr>)"

definition insert_principal :: "platform \<Rightarrow> uuid \<Rightarrow> nat \<Rightarrow> principal \<Rightarrow> unit tx" where
  "insert_principal F i n p =
     bind_tx (ok_or from_sqlx_error (case pp_date_of_birth p of None \<Rightarrow> Some None
       | Some d \<Rightarrow> map_option Some (date_cast F d))) (\<lambda>dob.
     bind_tx fresh_id (\<lambda>pid.
       modify (\<lambda>s. s\<lparr>principals := principals s @ [\<lparr>pr_id = pid, pr_application = i, pr_position = int n,
         pr_full_name = pp_full_name p, pr_role = principal_role_str (pp_role p),
         pr_ownership_percentage = pp_ownership_percentage p, pr_date_of_birth = dob,
         pr_bvn = pp_bvn p, pr_nin = pp_nin p\<rparr>]\<rparr>)))"

fun insert_principals :: "platform \<Rightarrow> uuid \<Rightarrow> nat \<Rightarrow> principal list \<Rightarrow> unit tx" where
  "insert_principals F i n [] = return_tx ()"
| "insert_principals F i n (p # ps) =
     bind_tx (insert_principal F i n p) (\<lambda>_. insert_principals F i (Suc n) ps)"

definition replace_principals :: "platform \<Rightarrow> uuid \<Rightarrow> principal list \<Rightarrow> unit tx" where
  "replace_principals F i ps =
     bind_tx (modify (\<lambda>s. s\<lparr>principals := filter (\<lambda>p. pr_application p \<noteq> i) (principals s)\<rparr>)) (\<lambda>_.
       insert_principals F i 0 ps)"

record doc_input =
  di_doc_type :: string
  di_file_name :: string
  di_mime_type :: string
  di_size_bytes :: int
  di_storage_key :: string

definition fill_document :: "env \<Rightarrow> doc_input \<Rightarrow> document_row \<Rightarrow> document_row" where
  "fill_document E x d = d\<lparr>od_file_name := di_file_name x, od_mime_type := di_mime_type x,
     od_size_bytes := di_size_bytes x, od_status := ''uploaded'', od_upload_progress_percent := 100,
     od_storage_key := Some (di_storage_key x), od_uploaded_at := Some (now E), od_error_message := None\<rparr>"

definition same_slot :: "uuid \<Rightarrow> string \<Rightarrow> document_row \<Rightarrow> bool" where
  "same_slot i ty d \<longleftrightarrow> od_application d = i \<and> od_type d = ty"

definition empty_document :: "uuid \<Rightarrow> uuid \<Rightarrow> string \<Rightarrow> document_row" where
  "empty_document did i ty = \<lparr>od_id = did, od_application = i, od_type = ty, od_file_name = [],
     od_mime_type = [], od_size_bytes = 0, od_status = ''pending'', od_upload_progress_percent = 0,
     od_uploaded_at = None, od_error_message = None, od_storage_key = None\<rparr>"

definition upsert_document :: "env \<Rightarrow> uuid \<Rightarrow> doc_input \<Rightarrow> uploaded_document tx" where
  "upsert_document E i x =
     bind_tx (gets (\<lambda>s. find (same_slot i (di_doc_type x)) (documents s))) (\<lambda>old.
     case old of
       Some d \<Rightarrow> bind_tx (modify (\<lambda>s. s\<lparr>documents :=
           update_where (same_slot i (di_doc_type x)) (fill_document E x) (documents s)\<rparr>)) (\<lambda>_.
         return_tx (document_of (fill_document E x d)))
     | None \<Rightarrow> bind_tx fresh_id (\<lambda>did.
         let d = fill_document E x (empty_document did i (di_doc_type x))
         in bind_tx (modify (\<lambda>s. s\<lparr>documents := documents s @ [d]\<rparr>)) (\<lambda>_. return_tx (document_of d))))"

text \<open>A document with its application and storage key: the row itself.\<close>

definition find_document :: "uuid \<Rightarrow> document_row option tx" where
  "find_document i = gets (\<lambda>s. find (\<lambda>d. od_id d = i) (documents s))"

definition mark_uploaded :: "env \<Rightarrow> document_row \<Rightarrow> document_row" where
  "mark_uploaded E d = d\<lparr>od_status := ''uploaded'', od_upload_progress_percent := 100,
     od_error_message := None, od_uploaded_at := Some (now E)\<rparr>"

definition mark_document_uploaded :: "env \<Rightarrow> uuid \<Rightarrow> uploaded_document tx" where
  "mark_document_uploaded E i =
     bind_tx (find_document i) (\<lambda>row. bind_tx (ok_or from_sqlx_error row) (\<lambda>d.
     bind_tx (modify (\<lambda>s. s\<lparr>documents := update_where (\<lambda>d. od_id d = i) (mark_uploaded E) (documents s)\<rparr>)) (\<lambda>_.
       return_tx (document_of (mark_uploaded E d)))))"

definition delete_document :: "uuid \<Rightarrow> unit tx" where
  "delete_document i = modify (\<lambda>s. s\<lparr>documents := filter (\<lambda>d. od_id d \<noteq> i) (documents s)\<rparr>)"

record status_patch =
  sp_status :: string
  sp_mark_submitted :: bool
  sp_mark_reviewed :: bool
  sp_approved_summary :: "approved_summary option"
  sp_rejection_reasons :: "rejection_detail list option"

definition plain_patch :: "string \<Rightarrow> status_patch" where
  "plain_patch st = \<lparr>sp_status = st, sp_mark_submitted = False, sp_mark_reviewed = False,
     sp_approved_summary = None, sp_rejection_reasons = None\<rparr>"

definition apply_patch :: "env \<Rightarrow> status_patch \<Rightarrow> application_row \<Rightarrow> application_row" where
  "apply_patch E p a = a\<lparr>ap_status := sp_status p,
     ap_submitted_at := (if sp_mark_submitted p then Some (now E) else ap_submitted_at a),
     ap_reviewed_at := (if sp_mark_reviewed p then Some (now E) else ap_reviewed_at a),
     ap_approved_summary := sp_approved_summary p,
     ap_rejection_reasons := (case sp_rejection_reasons p of Some [] \<Rightarrow> None | r \<Rightarrow> r)\<rparr>"

definition patch_status :: "env \<Rightarrow> uuid \<Rightarrow> status_patch \<Rightarrow> unit tx" where
  "patch_status E i p = update_application i (apply_patch E p)"

fun insert_kyb_checks :: "uuid \<Rightarrow> check_result list \<Rightarrow> unit tx" where
  "insert_kyb_checks i [] = return_tx ()"
| "insert_kyb_checks i (c # cs) =
     bind_tx (gets (\<lambda>s. list_ex (\<lambda>k. kc_application k = i \<and> kc_key k = cr_key c) (kyb_checks s))) (\<lambda>clash.
     bind_tx (ensure (\<not> clash) from_sqlx_error) (\<lambda>_.
     bind_tx (modify (\<lambda>s. s\<lparr>kyb_checks := kyb_checks s @ [\<lparr>kc_application = i, kc_key = cr_key c,
       kc_passed = cr_passed c, kc_detail = cr_detail c\<rparr>]\<rparr>)) (\<lambda>_. insert_kyb_checks i cs)))"

definition replace_kyb_checks :: "uuid \<Rightarrow> check_result list \<Rightarrow> unit tx" where
  "replace_kyb_checks i cs =
     bind_tx (modify (\<lambda>s. s\<lparr>kyb_checks := filter (\<lambda>k. kc_application k \<noteq> i) (kyb_checks s)\<rparr>)) (\<lambda>_.
       insert_kyb_checks i cs)"
section \<open>The customer's operations\<close>

definition application_not_found :: api_error where
  "application_not_found = not_found ''Application not found.''"

definition load_owned :: "env \<Rightarrow> session \<Rightarrow> string option \<Rightarrow> onboarding_application tx" where
  "load_owned E sess application =
     bind_tx (find_by_customer (customer_id sess)) (\<lambda>found.
     bind_tx (ok_or (not_found ''No onboarding application for this customer.'') found) (\<lambda>app.
       case application of None \<Rightarrow> return_tx app
       | Some i \<Rightarrow> if i \<noteq> uuid_str E (oa_id app) then throw application_not_found else return_tx app))"

definition get_application :: "env \<Rightarrow> session \<Rightarrow> onboarding_application io" where
  "get_application E sess = transaction (load_owned E sess None)"

definition onboarding_audit ::
  "env \<Rightarrow> session \<Rightarrow> string \<Rightarrow> string \<Rightarrow> string \<Rightarrow> json option \<Rightarrow> json option \<Rightarrow> unit tx" where
  "onboarding_audit E sess action entity_type entity before after =
     write_audit E \<lparr>ae_actor = Some (user_id sess), ae_role = Some (role sess), ae_action = action,
       ae_entity_type = entity_type, ae_entity = entity, ae_before = before, ae_after = after\<rparr>"

definition save_business_details ::
  "platform \<Rightarrow> env \<Rightarrow> session \<Rightarrow> business_details \<Rightarrow> string option \<Rightarrow> onboarding_application io" where
  "save_business_details F E sess b application =
     (case validate_business (unicode_digit F) b of Inl e \<Rightarrow> (\<lambda>s. (Inl e, s)) | Inr _ \<Rightarrow>
      bind_io (transaction (load_owned E sess application)) (\<lambda>app.
      bind_io (transaction (
        bind_tx (save_business (oa_id app) b) (\<lambda>_.
          onboarding_audit E sess ''onboarding.business_saved'' ''onboarding_application'' (uuid_str E (oa_id app))
            (map_option business_json (oa_business app)) (Some (business_json b))))) (\<lambda>_.
        transaction (load_owned E sess None))))"

definition principals_json :: "env \<Rightarrow> principal list \<Rightarrow> json" where
  "principals_json E ps = JArr (map (principal_json (uuid_str E)) ps)"

definition save_principals ::
  "platform \<Rightarrow> env \<Rightarrow> session \<Rightarrow> principal list \<Rightarrow> string option \<Rightarrow> onboarding_application io" where
  "save_principals F E sess ps application =
     (case validate_principals (unicode_digit F) ps of Inl e \<Rightarrow> (\<lambda>s. (Inl e, s)) | Inr _ \<Rightarrow>
      bind_io (transaction (load_owned E sess application)) (\<lambda>app.
      bind_io (transaction (
        bind_tx (replace_principals F (oa_id app) ps) (\<lambda>_.
          onboarding_audit E sess ''onboarding.principals_saved'' ''onboarding_application'' (uuid_str E (oa_id app))
            (Some (principals_json E (oa_principals app))) (Some (principals_json E ps))))) (\<lambda>_.
        transaction (load_owned E sess None))))"

section \<open>Documents\<close>

record document_upload =
  du_doc_type :: document_type
  du_file_name :: string
  du_mime_type :: string
  du_bytes :: bytes

definition allowed_mime :: "string list" where
  "allowed_mime = [''application/pdf'', ''image/jpeg'', ''image/png'']"

definition max_file_bytes :: nat where
  "max_file_bytes = 10 * 1024 * 1024"

definition storage_key_for :: "env \<Rightarrow> onboarding_application \<Rightarrow> document_upload \<Rightarrow> string" where
  "storage_key_for E app u = ''onboarding/'' @ uuid_str E (oa_id app) @ ''/'' @
     document_type_str (du_doc_type u) @ ''/'' @ int_to_string (now E) @ ''-'' @ du_file_name u"

text \<open>The handlers that touch the files too: they return the result, the database and the files.\<close>

type_synonym 'a io_files = "db \<times> files \<Rightarrow> 'a api_result \<times> db \<times> files"

definition doc_json :: "env \<Rightarrow> uploaded_document \<Rightarrow> json" where
  "doc_json E d = document_json (uuid_str E) (iso E) d"

definition upload_tx ::
  "env \<Rightarrow> session \<Rightarrow> onboarding_application \<Rightarrow> document_upload \<Rightarrow> string \<Rightarrow> uploaded_document tx" where
  "upload_tx E sess app u key =
     (let ty = document_type_str (du_doc_type u);
          previous = find (\<lambda>d. ud_type d = ty) (oa_documents app)
      in bind_tx (upsert_document E (oa_id app) \<lparr>di_doc_type = ty, di_file_name = du_file_name u,
           di_mime_type = du_mime_type u, di_size_bytes = int (length (du_bytes u)), di_storage_key = key\<rparr>) (\<lambda>saved.
         bind_tx (onboarding_audit E sess
           (if previous \<noteq> None then ''onboarding.document_replaced'' else ''onboarding.document_uploaded'')
           ''onboarding_document'' (uuid_str E (ud_id saved)) (map_option (doc_json E) previous)
           (Some (doc_json E saved))) (\<lambda>_. return_tx saved)))"

definition upload_document ::
  "platform \<Rightarrow> config \<Rightarrow> env \<Rightarrow> session \<Rightarrow> document_upload \<Rightarrow> string option \<Rightarrow> uploaded_document io_files" where
  "upload_document F cfg E sess u application = (\<lambda>(s, fs).
     case transaction (load_owned E sess application) s of (Inl e, s1) \<Rightarrow> (Inl e, s1, fs) | (Inr app, s1) \<Rightarrow>
     if du_mime_type u \<notin> set allowed_mime
     then (Inl (Err (validation ''That file type isn't supported. Upload a PDF, JPG, or PNG.'')), s1, fs)
     else if max_file_bytes < length (du_bytes u)
     then (Inl (Err (validation ''That file is larger than 10 MB. Compress it or choose a smaller copy.'')), s1, fs)
     else let key = storage_key_for E app u in
       case storage_put F (cfg_storage_dir cfg) key (du_bytes u) fs of (Inl e, fs1) \<Rightarrow> (Inl e, s1, fs1) | (Inr _, fs1) \<Rightarrow>
       (case transaction (upload_tx E sess app u key) s1 of (r, s2) \<Rightarrow> (r, s2, fs1)))"

definition parse_uuid_or_not_found :: "env \<Rightarrow> string \<Rightarrow> uuid tx" where
  "parse_uuid_or_not_found E value = ok_or (not_found ''Document not found.'') (parse_uuid E value)"

text \<open>The document a path names, if it is one of the customer's.\<close>

definition owned_document :: "env \<Rightarrow> session \<Rightarrow> string \<Rightarrow> document_row tx" where
  "owned_document E sess document_id =
     bind_tx (load_owned E sess None) (\<lambda>app.
     bind_tx (parse_uuid_or_not_found E document_id) (\<lambda>i.
     bind_tx (find_document i) (\<lambda>found.
       ok_or (not_found ''Document not found.'')
         (case found of None \<Rightarrow> None | Some d \<Rightarrow> if od_application d = oa_id app then Some d else None))))"

definition retry_document_upload :: "env \<Rightarrow> session \<Rightarrow> string \<Rightarrow> uploaded_document io" where
  "retry_document_upload E sess document_id =
     bind_io (transaction (owned_document E sess document_id)) (\<lambda>found.
       transaction (bind_tx (mark_document_uploaded E (od_id found)) (\<lambda>updated.
         bind_tx (onboarding_audit E sess ''onboarding.document_retried'' ''onboarding_document'' document_id
           (Some (doc_json E (document_of found))) (Some (doc_json E updated))) (\<lambda>_. return_tx updated))))"

definition remove_document :: "platform \<Rightarrow> config \<Rightarrow> env \<Rightarrow> session \<Rightarrow> string \<Rightarrow> unit io_files" where
  "remove_document F cfg E sess document_id = (\<lambda>(s, fs).
     case transaction (owned_document E sess document_id) s of (Inl e, s1) \<Rightarrow> (Inl e, s1, fs) | (Inr found, s1) \<Rightarrow>
     case transaction (bind_tx (delete_document (od_id found)) (\<lambda>_.
         onboarding_audit E sess ''onboarding.document_removed'' ''onboarding_document'' document_id
           (Some (doc_json E (document_of found))) None)) s1 of
       (Inl e, s2) \<Rightarrow> (Inl e, s2, fs)
     | (Inr _, s2) \<Rightarrow> (Inr (), s2,
         case od_storage_key found of None \<Rightarrow> fs | Some key \<Rightarrow> snd (storage_delete F (cfg_storage_dir cfg) key fs)))"

section \<open>The review\<close>

definition audit_transition :: "env \<Rightarrow> session \<Rightarrow> string \<Rightarrow> string \<Rightarrow> string \<Rightarrow> unit tx" where
  "audit_transition E sess app from to =
     onboarding_audit E sess ''onboarding.state_change'' ''onboarding_application'' app
       (Some (JObj [(''status'', JStr from)])) (Some (JObj [(''status'', JStr to)]))"

definition account_serial :: "env \<Rightarrow> nat" where
  "account_serial E = (case draws E ''serial'' of [] \<Rightarrow> 10000 | d # _ \<Rightarrow> d)"

definition corridor :: string where
  "corridor = ''NGN '' @ map char_of [226::nat, 134, 146] @ '' USD / EUR''"

definition new_summary :: "env \<Rightarrow> business_details \<Rightarrow> string \<Rightarrow> approved_summary" where
  "new_summary E b label = \<lparr>as_account_id = generate_account_id (bd_legal_name b) (account_serial E),
     as_risk_rating_label = label, as_segment = segment_label (bd_industry b), as_corridor = corridor,
     as_monthly_limit = money_new 10000000 Usd\<rparr>"

definition open_review_tx :: "env \<Rightarrow> session \<Rightarrow> onboarding_application \<Rightarrow> unit tx" where
  "open_review_tx E sess app =
     (let i = oa_id app; name' = uuid_str E i in
      bind_tx (patch_status E i ((plain_patch ''submitted'')\<lparr>sp_mark_submitted := True\<rparr>)) (\<lambda>_.
      bind_tx (audit_transition E sess name' (oa_status app) ''submitted'') (\<lambda>_.
      bind_tx (patch_status E i (plain_patch ''in_review'')) (\<lambda>_.
        audit_transition E sess name' ''submitted'' ''in_review''))))"

definition approve_tx :: "env \<Rightarrow> session \<Rightarrow> onboarding_application \<Rightarrow> business_details \<Rightarrow> risk_rating \<Rightarrow> unit tx" where
  "approve_tx E sess app b rating =
     (let i = oa_id app in
      bind_tx (patch_status E i ((plain_patch ''approved'')\<lparr>sp_mark_reviewed := True,
        sp_approved_summary := Some (new_summary E b (rating_label rating))\<rparr>)) (\<lambda>_.
      bind_tx (set_transfer_limit (customer_id sess) (transaction_limit_minor rating)) (\<lambda>_.
      bind_tx (audit_transition E sess (uuid_str E i) ''in_review'' ''approved'') (\<lambda>_.
        onboarding_audit E sess ''customer.risk_rating_assigned'' ''customer'' (uuid_str E (customer_id sess)) None
          (Some (JObj [(''riskRating'', JStr (rating_label rating)),
            (''maxTransferAmountMinor'', json_opt_int (transaction_limit_minor rating))]))))))"

definition reject_tx :: "env \<Rightarrow> session \<Rightarrow> onboarding_application \<Rightarrow> rejection_detail list \<Rightarrow> unit tx" where
  "reject_tx E sess app reasons =
     bind_tx (patch_status E (oa_id app) ((plain_patch ''rejected'')\<lparr>sp_mark_reviewed := True,
       sp_rejection_reasons := Some reasons\<rparr>)) (\<lambda>_.
       audit_transition E sess (uuid_str E (oa_id app)) ''in_review'' ''rejected'')"

definition close_review_tx :: "env \<Rightarrow> session \<Rightarrow> onboarding_application \<Rightarrow> business_details \<Rightarrow> unit tx" where
  "close_review_tx E sess app b =
     (let outcome = run_checks app in
      bind_tx (replace_kyb_checks (oa_id app) (ko_checks outcome)) (\<lambda>_.
        if ko_approved outcome then approve_tx E sess app b (ko_risk_rating outcome)
        else reject_tx E sess app (ko_rejection_reasons outcome)))"

definition submit :: "env \<Rightarrow> session \<Rightarrow> string option \<Rightarrow> onboarding_application io" where
  "submit E sess application =
     bind_io (transaction (load_owned E sess application)) (\<lambda>app.
     case oa_business app of
       None \<Rightarrow> fail_io (validation ''Add your business details before submitting.'')
     | Some b \<Rightarrow>
       if oa_status app = ''submitted'' \<or> oa_status app = ''in_review''
       then fail_io (conflict ''This application is already being reviewed.'')
       else bind_io (transaction (open_review_tx E sess app)) (\<lambda>_.
            bind_io (transaction (close_review_tx E sess app b)) (\<lambda>_.
              transaction (load_owned E sess None))))"

section \<open>Rescreening\<close>

record rescreen_outcome =
  ro_customer :: string
  ro_application :: string
  ro_risk_rating :: string
  ro_transaction_limit_minor :: "int option"

definition rescreen_summary :: "env \<Rightarrow> onboarding_application \<Rightarrow> business_details \<Rightarrow> string \<Rightarrow> approved_summary" where
  "rescreen_summary E app b label =
     (case oa_approved_summary app of None \<Rightarrow> new_summary E b label
      | Some x \<Rightarrow> x\<lparr>as_risk_rating_label := label\<rparr>)"

definition rescreen_tx :: "env \<Rightarrow> onboarding_application \<Rightarrow> business_details \<Rightarrow> rescreen_outcome tx" where
  "rescreen_tx E app b =
     (let outcome = run_checks app; label = rating_label (ko_risk_rating outcome);
          limit = transaction_limit_minor (ko_risk_rating outcome); i = oa_id app
      in bind_tx (replace_kyb_checks i (ko_checks outcome)) (\<lambda>_.
         bind_tx (patch_status E i ((plain_patch (oa_status app))\<lparr>sp_approved_summary :=
           Some (rescreen_summary E app b label)\<rparr>)) (\<lambda>_.
         bind_tx (set_transfer_limit (oa_customer app) limit) (\<lambda>_.
         bind_tx (write_audit E \<lparr>ae_actor = None, ae_role = Some ''system'', ae_action = ''onboarding.rescreened'',
           ae_entity_type = ''onboarding_application'', ae_entity = uuid_str E i,
           ae_before = Some (JObj [(''riskRating'',
             json_opt_str (map_option as_risk_rating_label (oa_approved_summary app)))]),
           ae_after = Some (JObj [(''riskRating'', JStr label), (''maxTransferAmountMinor'', json_opt_int limit)])\<rparr>) (\<lambda>_.
           return_tx \<lparr>ro_customer = uuid_str E (oa_customer app), ro_application = uuid_str E i,
             ro_risk_rating = label, ro_transaction_limit_minor = limit\<rparr>)))))"

text \<open>The loop over the applications read at its start; an error keeps what was committed before.\<close>

fun rescreen_all :: "env \<Rightarrow> onboarding_application list \<Rightarrow> rescreen_outcome list io" where
  "rescreen_all E [] = return_io []"
| "rescreen_all E (app # apps) =
     (case oa_business app of None \<Rightarrow> rescreen_all E apps
      | Some b \<Rightarrow> bind_io (transaction (rescreen_tx E app b)) (\<lambda>x.
          bind_io (rescreen_all E apps) (\<lambda>xs. return_io (x # xs))))"

definition rescreen_approved_customers :: "env \<Rightarrow> rescreen_outcome list io" where
  "rescreen_approved_customers E = bind_io (transaction list_approved) (rescreen_all E)"

section \<open>The upload form\<close>

text \<open>A field as the multipart parser hands it over; reading its bytes or its text may fail.\<close>

record form_field =
  ff_name :: "string option"
  ff_file_name :: "string option"
  ff_content_type :: "string option"
  ff_bytes :: "api_error + bytes"
  ff_text :: "api_error + string"

record form =
  fm_bytes :: "bytes option"
  fm_file_name :: string
  fm_mime_type :: string
  fm_doc_type :: "string option"
  fm_application :: "string option"

definition or_default :: "string \<Rightarrow> string option \<Rightarrow> string" where
  "or_default d x = (case x of None \<Rightarrow> d | Some v \<Rightarrow> v)"

fun read_form :: "(api_error + form_field) list \<Rightarrow> form \<Rightarrow> form api_result" where
  "read_form [] fm = Inr fm"
| "read_form (Inl e # parts) fm = Inl (Err e)"
| "read_form (Inr f # parts) fm =
     (if ff_name f = Some ''file'' then
        (case ff_bytes f of Inl e \<Rightarrow> Inl (Err e)
         | Inr data \<Rightarrow> read_form parts (fm\<lparr>fm_file_name := or_default ''upload'' (ff_file_name f),
             fm_mime_type := or_default [] (ff_content_type f), fm_bytes := Some data\<rparr>))
      else if ff_name f = Some ''type'' then
        (case ff_text f of Inl e \<Rightarrow> Inl (Err e) | Inr v \<Rightarrow> read_form parts (fm\<lparr>fm_doc_type := Some v\<rparr>))
      else if ff_name f = Some ''applicationId'' then
        (case ff_text f of Inl e \<Rightarrow> Inl (Err e) | Inr v \<Rightarrow> read_form parts (fm\<lparr>fm_application := Some v\<rparr>))
      else read_form parts fm)"

definition upload_route ::
  "platform \<Rightarrow> config \<Rightarrow> env \<Rightarrow> session \<Rightarrow> (api_error + form_field) list \<Rightarrow> uploaded_document io_files" where
  "upload_route F cfg E sess parts = (\<lambda>(s, fs).
     case read_form parts \<lparr>fm_bytes = None, fm_file_name = [], fm_mime_type = [], fm_doc_type = None,
         fm_application = None\<rparr> of
       Inl e \<Rightarrow> (Inl e, s, fs)
     | Inr fm \<Rightarrow>
       (case Option.bind (fm_doc_type fm) parse_document_type of
          None \<Rightarrow> (Inl (Err (validation ''Provide a valid document `type`.'')), s, fs)
        | Some ty \<Rightarrow>
          (case fm_bytes fm of None \<Rightarrow> (Inl (Err (validation ''No file was included in the upload.'')), s, fs)
           | Some data \<Rightarrow> upload_document F cfg E sess \<lparr>du_doc_type = ty, du_file_name = fm_file_name fm,
               du_mime_type = fm_mime_type fm, du_bytes = data\<rparr> (fm_application fm) (s, fs))))"

end
