(* ===== verification/Onboarding_Properties.thy ===== *)
theory Onboarding_Properties
  imports Onboarding Engine_Facts Auth
begin

text \<open>
  What the review of an application promises: the life cycle of its status, what approval and
  rejection leave behind, and that no operation reaches another customer's application.
\<close>

section \<open>The life cycle of an application\<close>

text \<open>
  An application carries a summary exactly when approved and reasons exactly when rejected; past the
  draft it was submitted and has its business details, and with a decision it was reviewed.
\<close>

definition application_ok :: "application_row \<Rightarrow> bool" where
  "application_ok a \<longleftrightarrow>
     ap_status a \<in> {''draft'', ''submitted'', ''in_review'', ''approved'', ''rejected''} \<and>
     (ap_status a = ''approved'' \<longleftrightarrow> ap_approved_summary a \<noteq> None) \<and>
     (ap_status a = ''rejected'' \<longleftrightarrow> ap_rejection_reasons a \<noteq> None) \<and>
     ap_rejection_reasons a \<noteq> Some [] \<and>
     (ap_status a \<noteq> ''draft'' \<longrightarrow> ap_business a \<noteq> None \<and> ap_submitted_at a \<noteq> None) \<and>
     (ap_status a \<in> {''approved'', ''rejected''} \<longrightarrow> ap_reviewed_at a \<noteq> None)"

definition applications_ok :: "db \<Rightarrow> bool" where
  "applications_ok s \<longleftrightarrow> distinct (map ap_id (applications s)) \<and> distinct (map ap_customer (applications s)) \<and>
     list_all application_ok (applications s)"

lemma apply_patch_simps [simp]:
  "ap_id (apply_patch E p a) = ap_id a" "ap_customer (apply_patch E p a) = ap_customer a"
  "ap_business (apply_patch E p a) = ap_business a" "ap_status (apply_patch E p a) = sp_status p"
  by (simp_all add: apply_patch_def)

lemma update_application_Inr:
  "update_application i f s = Inr (u, s') \<longleftrightarrow> s' = s\<lparr>applications := update_where (\<lambda>a. ap_id a = i) f (applications s)\<rparr>"
  by (auto simp: update_application_def tx_simps)

section \<open>Frames\<close>

text \<open>What the review leaves alone: everything but applications, checks, limits and the audit log.\<close>

definition review_frame :: "db \<Rightarrow> db \<Rightarrow> bool" where
  "review_frame s s' \<longleftrightarrow> users s' = users s \<and> sessions s' = sessions s \<and> principals s' = principals s \<and>
     documents s' = documents s \<and> ledger_entries s' = ledger_entries s \<and> accounts s' = accounts s \<and>
     transfers s' = transfers s \<and> transfer_history s' = transfer_history s \<and> collections s' = collections s \<and>
     inbound_payments s' = inbound_payments s \<and> quotes s' = quotes s \<and> next_id s' = next_id s"

interpretation review: tx_frame review_frame
  by unfold_locales (auto simp: review_frame_def)

lemma modify_upholds: "(\<And>s. R s (f s)) \<Longrightarrow> upholds R (modify f)"
  by (auto simp: upholds_def tx_simps)

lemma insert_kyb_review: "upholds review_frame (insert_kyb_checks i cs)"
proof (induction cs)
  case (Cons c cs)
  then show ?case
    by (simp, intro review.upholds_rules modify_upholds) (simp add: review_frame_def)
qed (simp add: review.upholds_pure)

lemma replace_kyb_review: "upholds review_frame (replace_kyb_checks i cs)"
  unfolding replace_kyb_checks_def
  by (intro review.upholds_bind insert_kyb_review modify_upholds) (simp add: review_frame_def)

lemma insert_kyb_keeps:
  "insert_kyb_checks i cs s = Inr (u, s') \<Longrightarrow> applications s' = applications s \<and> customers s' = customers s \<and>
     kyb_checks s' = kyb_checks s @ map (\<lambda>c. \<lparr>kc_application = i, kc_key = cr_key c, kc_passed = cr_passed c,
       kc_detail = cr_detail c\<rparr>) cs"
  by (induction cs arbitrary: s) (auto simp: tx_simps)

lemma insert_kyb_returns:
  "distinct (map cr_key cs) \<Longrightarrow> (\<And>k. k \<in> set (kyb_checks s) \<Longrightarrow> kc_application k = i \<Longrightarrow> kc_key k \<notin> cr_key ` set cs) \<Longrightarrow>
   \<exists>s'. insert_kyb_checks i cs s = Inr ((), s')"
proof (induction cs arbitrary: s)
  case (Cons c cs)
  let ?t = "s\<lparr>kyb_checks := kyb_checks s @ [\<lparr>kc_application = i, kc_key = cr_key c, kc_passed = cr_passed c,
    kc_detail = cr_detail c\<rparr>]\<rparr>"
  have "kc_key k \<notin> cr_key ` set cs" if "k \<in> set (kyb_checks ?t)" "kc_application k = i" for k
    using that Cons.prems by (cases "k \<in> set (kyb_checks s)") simp_all
  then have "\<exists>s'. insert_kyb_checks i cs ?t = Inr ((), s')"
    using Cons.prems(1) by (intro Cons.IH) simp_all
  moreover have "\<not> list_ex (\<lambda>k. kc_application k = i \<and> kc_key k = cr_key c) (kyb_checks s)"
    using Cons.prems(2) by (auto simp: list_ex_iff)
  ultimately show ?case by (auto simp: tx_simps)
qed (simp add: tx_simps)

lemma replace_kyb_returns:
  assumes "distinct (map cr_key cs)"
  obtains s' where "replace_kyb_checks i cs s = Inr ((), s')" "applications s' = applications s"
    "customers s' = customers s" "filter (\<lambda>k. kc_application k = i) (kyb_checks s') =
      map (\<lambda>c. \<lparr>kc_application = i, kc_key = cr_key c, kc_passed = cr_passed c, kc_detail = cr_detail c\<rparr>) cs"
proof -
  let ?t = "s\<lparr>kyb_checks := filter (\<lambda>k. kc_application k \<noteq> i) (kyb_checks s)\<rparr>"
  from insert_kyb_returns [OF assms, of ?t i] obtain s' where s': "insert_kyb_checks i cs ?t = Inr ((), s')" by auto
  from insert_kyb_keeps [OF s'] have "applications s' = applications s" "customers s' = customers s"
    "filter (\<lambda>k. kc_application k = i) (kyb_checks s') =
      map (\<lambda>c. \<lparr>kc_application = i, kc_key = cr_key c, kc_passed = cr_passed c, kc_detail = cr_detail c\<rparr>) cs"
    by (auto simp: filter_map comp_def)
  with s' show thesis by (intro that) (auto simp: replace_kyb_checks_def tx_simps)
qed
lemma checks_distinct: "distinct (map cr_key (kyb_checks_of app))"
  by (simp add: kyb_checks_of_def)

section \<open>What the transactions of a review do\<close>

abbreviation patched :: "env \<Rightarrow> uuid \<Rightarrow> status_patch \<Rightarrow> application_row list \<Rightarrow> application_row list" where
  "patched E i p \<equiv> update_where (\<lambda>a. ap_id a = i) (apply_patch E p)"

definition opened_by :: "env \<Rightarrow> uuid \<Rightarrow> application_row list \<Rightarrow> application_row list" where
  "opened_by E i as = patched E i (plain_patch ''in_review'')
     (patched E i ((plain_patch ''submitted'')\<lparr>sp_mark_submitted := True\<rparr>) as)"

definition verdict :: "env \<Rightarrow> onboarding_application \<Rightarrow> business_details \<Rightarrow> status_patch" where
  "verdict E app b =
     (if ko_approved (run_checks app)
      then (plain_patch ''approved'')\<lparr>sp_mark_reviewed := True,
        sp_approved_summary := Some (new_summary E b (rating_label (assess_risk_rating app)))\<rparr>
      else (plain_patch ''rejected'')\<lparr>sp_mark_reviewed := True,
        sp_rejection_reasons := Some (ko_rejection_reasons (run_checks app))\<rparr>)"

definition limited :: "uuid \<Rightarrow> int option \<Rightarrow> customer_row list \<Rightarrow> customer_row list" where
  "limited c l = update_where (\<lambda>r. cu_id r = c) (\<lambda>r. r\<lparr>cu_max_transfer := l\<rparr>)"

lemma audit_simps [simp]:
  "onboarding_audit E sess a et e b c s = Inr ((), s\<lparr>audit_log := audit_log s @
     [\<lparr>au_actor = Some (user_id sess), au_role = Some (role sess), au_action = a, au_entity_type = et, au_entity = e,
       au_before = b, au_after = c, au_occurred_at = now E\<rparr>]\<rparr>)"
  by (simp add: onboarding_audit_def write_audit_def modify_def)

lemma open_review_run:
  obtains s' where "open_review_tx E sess app s = Inr ((), s')" "applications s' = opened_by E (oa_id app) (applications s)"
    "customers s' = customers s" "review_frame s s'"
proof -
  have "\<exists>s'. open_review_tx E sess app s = Inr ((), s') \<and> applications s' = opened_by E (oa_id app) (applications s) \<and>
      customers s' = customers s \<and> review_frame s s'"
    by (simp add: open_review_tx_def patch_status_def update_application_def audit_transition_def bind_tx_def modify_def
        opened_by_def review_frame_def Let_def)
  with that show thesis by blast
qed

lemma close_review_run:
  obtains s' where "close_review_tx E sess app b s = Inr ((), s')"
    "applications s' = patched E (oa_id app) (verdict E app b) (applications s)"
    "customers s' = (if ko_approved (run_checks app)
       then limited (customer_id sess) (transaction_limit_minor (assess_risk_rating app)) (customers s) else customers s)"
    "filter (\<lambda>k. kc_application k = oa_id app) (kyb_checks s') = map (\<lambda>c. \<lparr>kc_application = oa_id app, kc_key = cr_key c,
       kc_passed = cr_passed c, kc_detail = cr_detail c\<rparr>) (kyb_checks_of app)" "review_frame s s'"
proof -
  obtain t where t: "replace_kyb_checks (oa_id app) (kyb_checks_of app) s = Inr ((), t)" "applications t = applications s"
    "customers t = customers s" "filter (\<lambda>k. kc_application k = oa_id app) (kyb_checks t) =
      map (\<lambda>c. \<lparr>kc_application = oa_id app, kc_key = cr_key c, kc_passed = cr_passed c, kc_detail = cr_detail c\<rparr>)
        (kyb_checks_of app)"
    by (rule replace_kyb_returns [OF checks_distinct])
  have fr: "review_frame s t" using replace_kyb_review t(1) by (auto dest: upholdsD)
  show thesis
  proof (cases "ko_approved (run_checks app)")
    case True
    with t have "\<exists>s'. close_review_tx E sess app b s = Inr ((), s') \<and>
        applications s' = patched E (oa_id app) (verdict E app b) (applications s) \<and>
        customers s' = limited (customer_id sess) (transaction_limit_minor (assess_risk_rating app)) (customers s) \<and>
        kyb_checks s' = kyb_checks t \<and> review_frame t s'"
      by (simp add: close_review_tx_def approve_tx_def patch_status_def update_application_def audit_transition_def
          bind_tx_def modify_def set_transfer_limit_def limited_def verdict_def review_frame_def Let_def del: run_checks_simps(3))
    with True t fr that review.trans show thesis by metis
  next
    case False
    with t have "\<exists>s'. close_review_tx E sess app b s = Inr ((), s') \<and>
        applications s' = patched E (oa_id app) (verdict E app b) (applications s) \<and> customers s' = customers s \<and>
        kyb_checks s' = kyb_checks t \<and> review_frame t s'"
      by (simp add: close_review_tx_def reject_tx_def patch_status_def update_application_def audit_transition_def
          bind_tx_def modify_def verdict_def review_frame_def Let_def del: run_checks_simps(3))
    with False t fr that review.trans show thesis by metis
  qed
qed
section \<open>A submission decides the application\<close>

lemma find_update_where_any:
  "(\<And>r. P (f r) = P r) \<Longrightarrow> find P (update_where Q f rs) = map_option (\<lambda>r. if Q r then f r else r) (find P rs)"
  by (induction rs) auto

lemma update_where_twice:
  "(\<And>r. Q (g r) = Q r) \<Longrightarrow> update_where Q f (update_where Q g rs) = update_where Q (\<lambda>r. f (g r)) rs"
  by (simp add: update_where_def)

definition decided :: "env \<Rightarrow> onboarding_application \<Rightarrow> business_details \<Rightarrow> application_row \<Rightarrow> application_row" where
  "decided E app b a = apply_patch E (verdict E app b) (apply_patch E (plain_patch ''in_review'')
     (apply_patch E ((plain_patch ''submitted'')\<lparr>sp_mark_submitted := True\<rparr>) a))"

lemma decided_simps [simp]:
  "ap_id (decided E app b a) = ap_id a" "ap_customer (decided E app b a) = ap_customer a"
  "ap_business (decided E app b a) = ap_business a"
  "ap_status (decided E app b a) = (if ko_approved (run_checks app) then ''approved'' else ''rejected'')"
  by (simp_all add: decided_def verdict_def plain_patch_def del: run_checks_simps(3))

lemma decided_ok: "ap_business a \<noteq> None \<Longrightarrow> application_ok (decided E app b a)"
  by (auto simp: application_ok_def decided_def verdict_def apply_patch_def plain_patch_def split: list.split option.split)

lemma decided_reasons:
  "ap_rejection_reasons (decided E app b a) =
     (if ko_approved (run_checks app) then None else Some (ko_rejection_reasons (run_checks app)))"
  by (auto simp: decided_def verdict_def apply_patch_def plain_patch_def split: list.split option.split)

lemma applications_update_ok:
  assumes ok: "applications_ok s" and f: "\<And>a. ap_id (f a) = ap_id a" "\<And>a. ap_customer (f a) = ap_customer a"
    and new: "\<And>a. a \<in> set (applications s) \<Longrightarrow> ap_id a = i \<Longrightarrow> application_ok (f a)"
    and s': "applications s' = update_where (\<lambda>a. ap_id a = i) f (applications s)"
  shows "applications_ok s'"
  using ok new unfolding applications_ok_def s'
  by (auto simp: map_update_where_frame f list_all_iff set_update_where)

lemma assemble_simps [simp]:
  "oa_id (assemble s a) = ap_id a" "oa_customer (assemble s a) = ap_customer a" "oa_status (assemble s a) = ap_status a"
  "oa_business (assemble s a) = ap_business a" "oa_rejection_reasons (assemble s a) = ap_rejection_reasons a"
  "oa_approved_summary (assemble s a) = ap_approved_summary a"
  by (simp_all add: assemble_def)

lemma load_owned_Inr:
  "load_owned E sess application s = Inr (app, s') \<longleftrightarrow> s' = s \<and>
     (\<exists>a. find (\<lambda>a. ap_customer a = customer_id sess) (applications s) = Some a \<and> app = assemble s a \<and>
        (case application of None \<Rightarrow> True | Some i \<Rightarrow> i = uuid_str E (ap_id a)))"
  by (cases application) (auto simp: load_owned_def find_by_customer_def tx_simps, metis assemble_simps(1))

lemma load_owned_Inl: "load_owned E sess application s = Inl e \<Longrightarrow>
    e \<in> {Err (not_found ''No onboarding application for this customer.''), Err application_not_found}"
  by (auto simp: load_owned_def find_by_customer_def tx_simps split: option.splits if_splits)

lemma same_key: "distinct (map k xs) \<Longrightarrow> x \<in> set xs \<Longrightarrow> y \<in> set xs \<Longrightarrow> k x = k y \<Longrightarrow> x = y"
  by (auto simp: distinct_map dest: inj_onD)

lemma filter_update_where: "(\<And>r. Q (f r) = Q r) \<Longrightarrow>
    filter (\<lambda>r. \<not> Q r) (update_where Q f rs) = filter (\<lambda>r. \<not> Q r) rs"
  by (induction rs) auto

lemma submit_run:
  assumes "find (\<lambda>a. ap_customer a = customer_id sess) (applications s) = Some a" and "ap_business a = Some b"
    and "ap_status a \<noteq> ''submitted''" "ap_status a \<noteq> ''in_review''"
    and "case application of None \<Rightarrow> True | Some i \<Rightarrow> i = uuid_str E (ap_id a)"
  obtains s' where "submit E sess application s = (Inr (assemble s' (decided E (assemble s a) b a)), s')"
    "applications s' = update_where (\<lambda>x. ap_id x = ap_id a) (decided E (assemble s a) b) (applications s)"
    "customers s' = (if ko_approved (run_checks (assemble s a))
       then limited (customer_id sess) (transaction_limit_minor (assess_risk_rating (assemble s a))) (customers s)
       else customers s)"
    "review_frame s s'"
proof -
  let ?app = "assemble s a"
  obtain s1 where 1: "open_review_tx E sess ?app s = Inr ((), s1)" "applications s1 = opened_by E (ap_id a) (applications s)"
    "customers s1 = customers s" "review_frame s s1" by (rule open_review_run [of E sess ?app s]) simp
  obtain s2 where 2: "close_review_tx E sess ?app b s1 = Inr ((), s2)"
    "applications s2 = patched E (ap_id a) (verdict E ?app b) (applications s1)"
    "customers s2 = (if ko_approved (run_checks ?app)
       then limited (customer_id sess) (transaction_limit_minor (assess_risk_rating ?app)) (customers s1) else customers s1)"
    "review_frame s1 s2" by (rule close_review_run [of E sess ?app b s1]) simp
  have ap: "applications s2 = update_where (\<lambda>x. ap_id x = ap_id a) (decided E ?app b) (applications s)"
    by (simp add: 2(2) 1(2) opened_by_def update_where_twice decided_def [abs_def])
  then have "find (\<lambda>x. ap_customer x = customer_id sess) (applications s2) = Some (decided E ?app b a)"
    using assms(1) by (simp add: find_update_where_any)
  then have "load_owned E sess None s2 = Inr (assemble s2 (decided E ?app b a), s2)"
    by (simp add: load_owned_Inr)
  moreover have "load_owned E sess application s = Inr (?app, s)"
    using assms(1,5) by (simp add: load_owned_Inr)
  ultimately have "submit E sess application s = (Inr (assemble s2 (decided E ?app b a)), s2)"
    using 1(1) 2(1) assms(2-4) by (simp add: submit_def bind_io_def transaction_def)
  then show thesis by (rule that) (simp_all add: ap 2(3) 1(3) review.trans [OF 1(4) 2(4)])
qed

text \<open>An accepted submission of application \<open>a\<close>.\<close>

lemma submit_accepted:
  assumes ok: "applications_ok s" and a: "find (\<lambda>a. ap_customer a = customer_id sess) (applications s) = Some a"
    and named: "case application of None \<Rightarrow> True | Some i \<Rightarrow> i = uuid_str E (ap_id a)"
    and b: "ap_business a = Some b" and st: "ap_status a \<notin> {''submitted'', ''in_review''}"
  obtains t app' where "submit E sess application s = (Inr app', t)" "applications_ok t" "review_frame s t"
    "oa_status app' = (if list_all cr_passed (kyb_checks_of (assemble s a)) then ''approved'' else ''rejected'')"
    "oa_status app' = ''rejected'' \<longrightarrow> oa_rejection_reasons app' =
       Some (ko_rejection_reasons (run_checks (assemble s a))) \<and> customers t = customers s"
    "oa_status app' = ''approved'' \<longrightarrow> oa_rejection_reasons app' = None \<and> customers t =
       limited (customer_id sess) (transaction_limit_minor (assess_risk_rating (assemble s a))) (customers s)"
    "filter (\<lambda>x. ap_id x \<noteq> ap_id a) (applications t) = filter (\<lambda>x. ap_id x \<noteq> ap_id a) (applications s)"
proof -
  let ?app = "assemble s a"
  obtain t where t: "submit E sess application s = (Inr (assemble t (decided E ?app b a)), t)"
    "applications t = update_where (\<lambda>x. ap_id x = ap_id a) (decided E ?app b) (applications s)"
    "customers t = (if ko_approved (run_checks ?app)
       then limited (customer_id sess) (transaction_limit_minor (assess_risk_rating ?app)) (customers s) else customers s)"
    "review_frame s t"
    using submit_run [OF a b _ _ named] st by auto
  have "ap_business x \<noteq> None" if "x \<in> set (applications s)" "ap_id x = ap_id a" for x
  proof -
    have "distinct (map ap_id (applications s))" using ok by (simp add: applications_ok_def)
    from same_key [OF this that(1) conjunct1 [OF find_Some_set [OF a]] that(2)] have "x = a" .
    with b show ?thesis by simp
  qed
  then have ok': "applications_ok t" by (intro applications_update_ok [OF ok _ _ _ t(2)]) (simp_all add: decided_ok)
  have others: "filter (\<lambda>x. ap_id x \<noteq> ap_id a) (applications t) = filter (\<lambda>x. ap_id x \<noteq> ap_id a) (applications s)"
    unfolding t(2) by (rule filter_update_where) simp
  have ap: "ko_approved (run_checks ?app) \<longleftrightarrow> list_all cr_passed (kyb_checks_of ?app)"
    unfolding approved_iff by (simp add: kyb_checks_of_def)
  let ?x = "assemble t (decided E ?app b a)"
  have st': "oa_status ?x = (if list_all cr_passed (kyb_checks_of ?app) then ''approved'' else ''rejected'')"
    by (simp only: assemble_simps decided_simps ap)
  show thesis
    by (rule that [OF t(1) ok' t(4) st' _ _ others])
      (unfold st' t(3) ap assemble_simps decided_reasons, simp_all add: ap del: run_checks_simps(3))
qed


section \<open>Interleaved reviews\<close>

text \<open>
  Requests and the rescreening job overlap: each works on an application it read earlier. The machine
  keeps the applications read so far and those whose review some request has opened; a transaction
  may use any of them, however stale.
\<close>

type_synonym review_state = "db \<times> onboarding_application set \<times> onboarding_application set"

inductive review_step :: "review_state \<Rightarrow> review_state \<Rightarrow> bool" where
  was_read: "a \<in> set (applications s) \<Longrightarrow> review_step (s, K, R) (s, insert (assemble s a) K, R)"
| opened: "app \<in> K \<Longrightarrow> oa_business app \<noteq> None \<Longrightarrow> open_review_tx E sess app s = Inr (u, s') \<Longrightarrow>
    review_step (s, K, R) (s', K, insert app R)"
| closed: "app \<in> R \<Longrightarrow> oa_business app = Some b \<Longrightarrow> close_review_tx E sess app b s = Inr (u, s') \<Longrightarrow>
    review_step (s, K, R) (s', K, R)"
| rescreened: "app \<in> K \<Longrightarrow> oa_business app = Some b \<Longrightarrow> oa_status app = ''approved'' \<Longrightarrow>
    rescreen_tx E app b s = Inr (x, s') \<Longrightarrow> review_step (s, K, R) (s', K, R)"
| business_saved: "app \<in> K \<Longrightarrow> save_business (oa_id app) b s = Inr (u, s') \<Longrightarrow> review_step (s, K, R) (s', K, R)"
| drafted: "insert_draft_application i c s = Inr (u, s') \<Longrightarrow> review_step (s, K, R) (s', K, R)"
| elsewhere: "applications s' = applications s \<Longrightarrow> review_step (s, K, R) (s', K, R)"

text \<open>What a read application still says: its row exists, details stay, decisions were reviewed.\<close>

definition known :: "application_row list \<Rightarrow> onboarding_application \<Rightarrow> bool" where
  "known as app \<longleftrightarrow> oa_id app \<in> ap_id ` set as \<and> (\<forall>a \<in> set as. ap_id a = oa_id app \<longrightarrow>
     (oa_business app \<noteq> None \<longrightarrow> ap_business a \<noteq> None) \<and>
     (oa_status app = ''approved'' \<longrightarrow> ap_submitted_at a \<noteq> None \<and> ap_reviewed_at a \<noteq> None))"

definition under_way :: "application_row list \<Rightarrow> onboarding_application \<Rightarrow> bool" where
  "under_way as app \<longleftrightarrow> known as app \<and> (\<forall>a \<in> set as. ap_id a = oa_id app \<longrightarrow> ap_submitted_at a \<noteq> None)"

definition review_ok :: "review_state \<Rightarrow> bool" where
  "review_ok = (\<lambda>(s, K, R). applications_ok s \<and> (\<forall>app \<in> K. known (applications s) app) \<and>
     (\<forall>app \<in> R. under_way (applications s) app))"

text \<open>An update that keeps the keys and forgets nothing keeps what is known.\<close>

definition forgets_nothing :: "(application_row \<Rightarrow> application_row) \<Rightarrow> bool" where
  "forgets_nothing f \<longleftrightarrow> (\<forall>a. ap_id (f a) = ap_id a \<and> ap_customer (f a) = ap_customer a \<and>
     (ap_business a \<noteq> None \<longrightarrow> ap_business (f a) \<noteq> None) \<and>
     (ap_submitted_at a \<noteq> None \<longrightarrow> ap_submitted_at (f a) \<noteq> None) \<and>
     (ap_reviewed_at a \<noteq> None \<longrightarrow> ap_reviewed_at (f a) \<noteq> None))"

lemma forgets_nothing_patch: "forgets_nothing (apply_patch E p)"
  by (simp add: forgets_nothing_def) (simp add: apply_patch_def)

lemma forgets_nothing_comp: "forgets_nothing f \<Longrightarrow> forgets_nothing g \<Longrightarrow> forgets_nothing (\<lambda>a. f (g a))"
  by (simp add: forgets_nothing_def)

lemma known_update:
  assumes f: "forgets_nothing f"
  shows "known as app \<Longrightarrow> known (update_where Q f as) app" "under_way as app \<Longrightarrow> under_way (update_where Q f as) app"
proof -
  have k: "known (update_where Q f as) app" if k: "known as app" for app
  proof -
    have "ap_id (f a) = ap_id a" for a using f by (simp add: forgets_nothing_def)
    then have "map ap_id (update_where Q f as) = map ap_id as" by (intro map_update_where_frame) simp
    then have "ap_id ` set (update_where Q f as) = ap_id ` set as" by (metis list.set_map)
    with k f show ?thesis by (auto simp: known_def set_update_where forgets_nothing_def)
  qed
  then show "known as app \<Longrightarrow> known (update_where Q f as) app" .
  show "under_way as app \<Longrightarrow> under_way (update_where Q f as) app"
    using k f by (auto simp: under_way_def set_update_where forgets_nothing_def)
qed

lemma review_update:
  assumes ok: "review_ok (s, K, R)" and f: "forgets_nothing f"
    and s': "applications s' = update_where (\<lambda>a. ap_id a = i) f (applications s)"
    and new: "\<And>a. a \<in> set (applications s) \<Longrightarrow> ap_id a = i \<Longrightarrow> application_ok (f a)"
  shows "review_ok (s', K, R)"
proof -
  have "applications_ok s'"
    using ok f by (intro applications_update_ok [OF _ _ _ new s']) (auto simp: review_ok_def forgets_nothing_def)
  with ok known_update [OF f] show ?thesis by (auto simp: review_ok_def s')
qed
lemma verdict_ok:
  "ap_business a \<noteq> None \<Longrightarrow> ap_submitted_at a \<noteq> None \<Longrightarrow> application_ok (apply_patch E (verdict E app b) a)"
  by (auto simp: application_ok_def verdict_def apply_patch_def plain_patch_def split: list.split option.split)

lemma rescreen_run:
  obtains x s' where "rescreen_tx E app b s = Inr (x, s')"
    "applications s' = patched E (oa_id app) ((plain_patch (oa_status app))\<lparr>sp_approved_summary :=
       Some (rescreen_summary E app b (rating_label (assess_risk_rating app)))\<rparr>) (applications s)"
    "customers s' = limited (oa_customer app) (transaction_limit_minor (assess_risk_rating app)) (customers s)"
    "review_frame s s'"
proof -
  obtain t where t: "replace_kyb_checks (oa_id app) (kyb_checks_of app) s = Inr ((), t)" "applications t = applications s"
    "customers t = customers s"
    by (rule replace_kyb_returns [OF checks_distinct])
  have fr: "review_frame s t" using replace_kyb_review t(1) by (auto dest: upholdsD)
  from t have "\<exists>x s'. rescreen_tx E app b s = Inr (x, s') \<and>
     applications s' = patched E (oa_id app) ((plain_patch (oa_status app))\<lparr>sp_approved_summary :=
       Some (rescreen_summary E app b (rating_label (assess_risk_rating app)))\<rparr>) (applications s) \<and>
     customers s' = limited (oa_customer app) (transaction_limit_minor (assess_risk_rating app)) (customers s) \<and>
     review_frame t s'"
    by (simp add: rescreen_tx_def patch_status_def update_application_def bind_tx_def modify_def return_tx_def
        set_transfer_limit_def limited_def write_audit_def review_frame_def Let_def)
  with fr that review.trans show thesis by metis
qed

lemma known_read:
  assumes ok: "applications_ok s" and a: "a \<in> set (applications s)"
  shows "known (applications s) (assemble s a)"
proof -
  have d: "distinct (map ap_id (applications s))" and row: "application_ok a"
    using assms by (auto simp: applications_ok_def list_all_iff)
  have "x = a" if "x \<in> set (applications s)" "ap_id x = ap_id a" for x by (rule same_key [OF d that(1) a that(2)])
  with row a show ?thesis by (auto simp: known_def application_ok_def)
qed

lemma review_step_ok: "review_step z z' \<Longrightarrow> review_ok z \<Longrightarrow> review_ok z'"
proof (induction rule: review_step.induct)
  case (was_read a s K R)
  then show ?case by (auto simp: review_ok_def intro: known_read)
next
  case (opened app K E sess s u s' R)
  let ?f = "\<lambda>a. apply_patch E (plain_patch ''in_review'') (apply_patch E ((plain_patch ''submitted'')\<lparr>sp_mark_submitted := True\<rparr>) a)"
  obtain t where t: "open_review_tx E sess app s = Inr ((), t)" "applications t = opened_by E (oa_id app) (applications s)"
    by (rule open_review_run)
  with opened(3) have s': "applications s' = update_where (\<lambda>a. ap_id a = oa_id app) ?f (applications s)"
    by (simp add: opened_by_def update_where_twice)
  have k: "known (applications s) app" using opened by (simp add: review_ok_def)
  have "review_ok (s', K, R)"
  proof (rule review_update [OF opened(4) _ s'])
    show "application_ok (?f a)" if "a \<in> set (applications s)" "ap_id a = oa_id app" for a
      using k opened(2) that by (auto simp: known_def application_ok_def apply_patch_def plain_patch_def)
  qed (rule forgets_nothing_comp [OF forgets_nothing_patch forgets_nothing_patch])
  moreover have "known (applications s') app"
    unfolding s' by (rule known_update(1) [OF forgets_nothing_comp [OF forgets_nothing_patch forgets_nothing_patch] k])
  then have "under_way (applications s') app"
    by (auto simp: under_way_def s' set_update_where apply_patch_def plain_patch_def)
  ultimately show ?case by (simp add: review_ok_def)
next
  case (closed app R b E sess s u s' K)
  obtain t where t: "close_review_tx E sess app b s = Inr ((), t)"
    "applications t = patched E (oa_id app) (verdict E app b) (applications s)" by (rule close_review_run)
  with closed(3) have s': "applications s' = patched E (oa_id app) (verdict E app b) (applications s)" by simp
  have "under_way (applications s) app" using closed by (simp add: review_ok_def)
  with closed(2) show ?case
    by (intro review_update [OF closed(4) forgets_nothing_patch s'] verdict_ok) (auto simp: under_way_def known_def)
next
  case (rescreened app K b E s x s' R)
  obtain y t where t: "rescreen_tx E app b s = Inr (y, t)"
    "applications t = patched E (oa_id app) ((plain_patch (oa_status app))\<lparr>sp_approved_summary :=
       Some (rescreen_summary E app b (rating_label (assess_risk_rating app)))\<rparr>) (applications s)" by (rule rescreen_run)
  have k: "known (applications s) app" using rescreened by (simp add: review_ok_def)
  show ?case
  proof (rule review_update [OF rescreened(5) forgets_nothing_patch])
    show "applications s' = patched E (oa_id app) ((plain_patch (oa_status app))\<lparr>sp_approved_summary :=
       Some (rescreen_summary E app b (rating_label (assess_risk_rating app)))\<rparr>) (applications s)"
      using t rescreened(4) by simp
    show "application_ok (apply_patch E ((plain_patch (oa_status app))\<lparr>sp_approved_summary :=
       Some (rescreen_summary E app b (rating_label (assess_risk_rating app)))\<rparr>) a)"
      if "a \<in> set (applications s)" "ap_id a = oa_id app" for a
      using k rescreened(2,3) that by (auto simp: known_def application_ok_def apply_patch_def plain_patch_def)
  qed
next
  case (business_saved app K b s u s' R)
  then have s': "applications s' = update_where (\<lambda>a. ap_id a = oa_id app) (\<lambda>a. a\<lparr>ap_business := Some b\<rparr>) (applications s)"
    by (simp add: save_business_def update_application_Inr)
  have rows: "\<forall>a \<in> set (applications s). application_ok a"
    using business_saved(3) by (auto simp: review_ok_def applications_ok_def list_all_iff)
  show ?case
    by (rule review_update [OF business_saved(3) _ s']) (use rows in \<open>auto simp: forgets_nothing_def application_ok_def\<close>)
next
  case (drafted i c s u s' K R)
  from drafted(1) have new: "\<not> list_ex (\<lambda>a. ap_id a = i \<or> ap_customer a = c) (applications s)"
    and s': "applications s' = applications s @ [\<lparr>ap_id = i, ap_customer = c, ap_status = ''draft'',
         ap_business = None, ap_rejection_reasons = None, ap_approved_summary = None,
         ap_submitted_at = None, ap_reviewed_at = None\<rparr>]"
    by (auto simp: insert_draft_application_def tx_simps)
  have "known (applications s') app" if "known (applications s) app" for app
    using that new by (auto simp: known_def s' list_ex_iff)
  moreover have "under_way (applications s') app" if "under_way (applications s) app" for app
    using that new by (auto simp: under_way_def known_def s' list_ex_iff)
  moreover have "applications_ok s'"
    using drafted(2) new by (auto simp: review_ok_def applications_ok_def application_ok_def s' list_ex_iff)
  ultimately show ?case using drafted(2) by (auto simp: review_ok_def)
next
  case (elsewhere s' s K R)
  then show ?case by (simp add: review_ok_def applications_ok_def)
qed

text \<open>
  C34: however submissions, edits and the rescreening job overlap, each working on an application it
  read at any earlier time, every application stays consistent: its status is one of the five, it has
  a summary exactly when approved and reasons, at least one, exactly when rejected, and past the draft
  it has its business details and the times of its submission and decision.
\<close>

theorem reviews_stay_consistent:
  assumes "review_step\<^sup>*\<^sup>* (s, {}, {}) (s', K, R)" and "applications_ok s"
  shows "applications_ok s'"
proof -
  have "review_ok z'" if "review_step\<^sup>*\<^sup>* z z'" "review_ok z" for z z'
    using that by (induction rule: rtranclp_induct) (auto intro: review_step_ok)
  from this [OF assms(1)] assms(2) show ?thesis by (simp add: review_ok_def)
qed

text \<open>
  The rescreening job writes back the status it read: an application rejected since then, by a
  submission of the customer, is approved again.
\<close>

lemma stale_rescreening_approves:
  assumes "oa_status app = ''approved''" and "rescreen_tx E app b s = Inr (x, s')"
    and "a \<in> set (applications s)" "ap_id a = oa_id app" "ap_status a = ''rejected''"
  shows "\<exists>a' \<in> set (applications s'). ap_id a' = ap_id a \<and> ap_status a' = ''approved'' \<and> ap_rejection_reasons a' = None"
proof -
  obtain y t where "rescreen_tx E app b s = Inr (y, t)"
    "applications t = patched E (oa_id app) ((plain_patch (oa_status app))\<lparr>sp_approved_summary :=
       Some (rescreen_summary E app b (rating_label (assess_risk_rating app)))\<rparr>) (applications s)" by (rule rescreen_run)
  with assms(2) have "applications s' = patched E (oa_id app) ((plain_patch (oa_status app))\<lparr>sp_approved_summary :=
       Some (rescreen_summary E app b (rating_label (assess_risk_rating app)))\<rparr>) (applications s)" by simp
  with assms(1,3,4) show ?thesis
    by (intro bexI [of _ "apply_patch E ((plain_patch (oa_status app))\<lparr>sp_approved_summary :=
       Some (rescreen_summary E app b (rating_label (assess_risk_rating app)))\<rparr>) a"])
      (auto simp: set_update_where apply_patch_def plain_patch_def image_iff)
qed

end
