(* ===== verification/Document_Properties.thy ===== *)
theory Document_Properties
  imports Onboarding_Properties
begin

text \<open>
  What the customer's edits promise: the principals saved are the principals read, each document slot
  holds one document, stored files stay under their directory, and no request reaches the documents of
  another application.
\<close>

section \<open>Principals\<close>

text \<open>A principal as it is read back: a stored identifier, and the date as the database prints it.\<close>

definition stored_as :: "platform \<Rightarrow> principal \<Rightarrow> principal \<Rightarrow> bool" where
  "stored_as F p q \<longleftrightarrow> (\<exists>i. q = p\<lparr>pp_id := Some i, pp_date_of_birth := Option.bind (pp_date_of_birth p) (date_cast F)\<rparr>) \<and>
     (pp_date_of_birth p \<noteq> None \<longrightarrow> pp_date_of_birth q \<noteq> None)"

lemma parse_role [simp]: "parse_principal_role (principal_role_str r) = Some r"
  by (cases r) (simp_all add: parse_principal_role_def principal_role_str_def)

lemma insert_principals_Inr:
  assumes "insert_principals F i n ps s = Inr (u, s')"
  shows "\<exists>rows. principals s' = principals s @ rows \<and> (\<forall>r \<in> set rows. pr_application r = i) \<and>
    map pr_position rows = map int [n..<n + length ps] \<and> list_all2 (stored_as F) ps (map principal_of rows) \<and>
    applications s' = applications s \<and> documents s' = documents s \<and> customers s' = customers s"
  using assms
proof (induction ps arbitrary: n s)
  case Nil
  then show ?case by (simp add: tx_simps)
next
  case (Cons p ps)
  from Cons.prems obtain t where t: "insert_principal F i n p s = Inr ((), t)" "insert_principals F i (Suc n) ps t = Inr (u, s')"
    by (auto simp: tx_simps)
  from t(1) obtain dob where dob: "(case pp_date_of_birth p of None \<Rightarrow> Some None
       | Some d \<Rightarrow> map_option Some (date_cast F d)) = Some dob"
    and tt: "t = s\<lparr>next_id := Suc (next_id s), principals := principals s @ [\<lparr>pr_id = next_id s, pr_application = i,
         pr_position = int n, pr_full_name = pp_full_name p, pr_role = principal_role_str (pp_role p),
         pr_ownership_percentage = pp_ownership_percentage p, pr_date_of_birth = dob,
         pr_bvn = pp_bvn p, pr_nin = pp_nin p\<rparr>]\<rparr>"
    by (auto simp: insert_principal_def tx_simps)
  let ?row = "\<lparr>pr_id = next_id s, pr_application = i,
         pr_position = int n, pr_full_name = pp_full_name p, pr_role = principal_role_str (pp_role p),
         pr_ownership_percentage = pp_ownership_percentage p, pr_date_of_birth = dob,
         pr_bvn = pp_bvn p, pr_nin = pp_nin p\<rparr>"
  from Cons.IH [OF t(2)] obtain rows where rows: "principals s' = principals t @ rows" "\<forall>r \<in> set rows. pr_application r = i"
    "map pr_position rows = map int [Suc n..<Suc n + length ps]" "list_all2 (stored_as F) ps (map principal_of rows)"
    "applications s' = applications t" "documents s' = documents t" "customers s' = customers t" by blast
  have "stored_as F p (principal_of ?row)"
    using dob by (cases p) (auto simp: stored_as_def principal_of_def split: option.splits)
  then show ?case
    using rows by (intro exI [of _ "?row # rows"]) (simp add: tt upt_conv_Cons del: upt_Suc)
qed

lemma sort_positions: "map f rows = map int [n..<m] \<Longrightarrow> sort_key f rows = rows"
proof -
  assume a: "map f rows = map int [n..<m]"
  have "sorted (map int [n..<m])" by (simp add: sorted_map_mono [of _ int] mono_on_def sorted_wrt_map)
  with a have "sorted (map f rows)" by simp
  then show ?thesis by (rule sort_key_id_if_sorted)
qed
text \<open>
  C35: the principals saved are the principals read: after a successful save the application shows
  exactly the given principals in the given order, each with an identifier of its own and its date as
  the database prints it, and no principal of another application, nor any other field of this one,
  has changed.
\<close>

theorem principals_round_trip:
  assumes run: "save_principals F E sess ps application s = (Inr app, s')"
  shows "\<exists>a. find (\<lambda>a. ap_customer a = customer_id sess) (applications s) = Some a \<and>
    list_all2 (stored_as F) ps (oa_principals app) \<and> oa_documents app = oa_documents (assemble s a) \<and>
    oa_status app = ap_status a \<and> oa_business app = ap_business a \<and> applications s' = applications s \<and>
    filter (\<lambda>p. pr_application p \<noteq> ap_id a) (principals s') = filter (\<lambda>p. pr_application p \<noteq> ap_id a) (principals s)"
proof -
  from run obtain a t where a: "find (\<lambda>a. ap_customer a = customer_id sess) (applications s) = Some a"
    and tx: "replace_principals F (ap_id a) ps s = Inr ((), t)"
    and s': "applications s' = applications t" "principals s' = principals t" "documents s' = documents t"
    and app: "load_owned E sess None s' = Inr (app, s')"
    by (auto simp: save_principals_def bind_io_def transaction_def bind_tx_def load_owned_Inr
        split: sum.splits prod.splits)
  let ?t = "s\<lparr>principals := filter (\<lambda>p. pr_application p \<noteq> ap_id a) (principals s)\<rparr>"
  from tx have "insert_principals F (ap_id a) 0 ps ?t = Inr ((), t)"
    by (auto simp: replace_principals_def tx_simps)
  from insert_principals_Inr [OF this] obtain rows where rows:
    "principals t = filter (\<lambda>p. pr_application p \<noteq> ap_id a) (principals s) @ rows" "\<forall>r \<in> set rows. pr_application r = ap_id a"
    "map pr_position rows = map int [0..<0 + length ps]" "list_all2 (stored_as F) ps (map principal_of rows)"
    "applications t = applications s" "documents t = documents s" by auto
  have own: "filter (\<lambda>p. pr_application p = ap_id a) (principals s') = rows"
    using rows(2) by (simp add: s'(2) rows(1))
  from app a have "app = assemble s' a" by (simp add: load_owned_Inr s'(1) rows(5))
  then have "oa_principals app = map principal_of rows"
    by (simp add: assemble_def own sort_positions [OF rows(3)])
  moreover have "filter (\<lambda>p. pr_application p \<noteq> ap_id a) (principals s') = filter (\<lambda>p. pr_application p \<noteq> ap_id a) (principals s)"
    using rows(2) by (simp add: s'(2) rows(1))
  ultimately show ?thesis
    using a rows(4) s' rows(5,6) \<open>app = assemble s' a\<close> by (simp add: assemble_def)
qed

text \<open>
  A date that has the shape of one but is none, such as the 31st of February, passes the validation,
  and the database's refusal is reported as a fault of the server.
\<close>

lemma impossible_date_is_our_fault:
  assumes "validate_principals (unicode_digit F) [p] = Inr ()" and "pp_date_of_birth p = Some d" "date_cast F d = None"
    and "find (\<lambda>a. ap_customer a = customer_id sess) (applications s) = Some a"
  shows "save_principals F E sess [p] None s = (Inl (Err server_error), s)"
proof -
  have "load_owned E sess None s = Inr (assemble s a, s)" using assms(4) by (simp add: load_owned_Inr)
  with assms(1-3) show ?thesis
    by (simp add: save_principals_def bind_io_def transaction_def replace_principals_def insert_principal_def bind_tx_def
        modify_def ok_or_def throw_def from_sqlx_error_def)
qed

section \<open>Documents\<close>

text \<open>One document per slot, and identifiers of their own.\<close>

definition documents_ok :: "db \<Rightarrow> bool" where
  "documents_ok s \<longleftrightarrow> distinct (map (\<lambda>d. (od_application d, od_type d)) (documents s)) \<and>
     distinct (map od_id (documents s)) \<and> list_all (\<lambda>d. od_id d < next_id s) (documents s)"

text \<open>The applications a session speaks for.\<close>

definition owns :: "session \<Rightarrow> db \<Rightarrow> uuid \<Rightarrow> bool" where
  "owns sess s i \<longleftrightarrow> map_option ap_id (find (\<lambda>a. ap_customer a = customer_id sess) (applications s)) = Some i"

lemma owned_document_Inr:
  "owned_document E sess i s = Inr (d, s') \<Longrightarrow> s' = s \<and> d \<in> set (documents s) \<and>
     (\<exists>a. find (\<lambda>a. ap_customer a = customer_id sess) (applications s) = Some a \<and> od_application d = ap_id a)"
  by (auto simp: owned_document_def parse_uuid_or_not_found_def find_document_def tx_simps load_owned_Inr
      split: option.splits if_splits dest: find_Some_set)

lemma filter_update_outside:
  "(\<And>r. r \<in> set rs \<Longrightarrow> Q r \<Longrightarrow> \<not> P r \<and> \<not> P (f r)) \<Longrightarrow> filter P (update_where Q f rs) = filter P rs"
  by (induction rs) auto

lemma filter_filter_out: "(\<And>r. r \<in> set rs \<Longrightarrow> P r \<Longrightarrow> Q r) \<Longrightarrow> filter P (filter Q rs) = filter P rs"
  by (induction rs) auto

lemma upsert_run:
  assumes "upsert_document E i x s = Inr (d, s')"
  shows "applications s' = applications s \<and> customers s' = customers s \<and> next_id s \<le> next_id s' \<and>
    ud_type d = di_doc_type x \<and> ud_file_name d = di_file_name x \<and> ud_status d = ''uploaded'' \<and>
    ((\<exists>r. find (same_slot i (di_doc_type x)) (documents s) = Some r \<and> d = document_of (fill_document E x r) \<and>
        documents s' = update_where (same_slot i (di_doc_type x)) (fill_document E x) (documents s)) \<or>
     (find (same_slot i (di_doc_type x)) (documents s) = None \<and> next_id s' = Suc (next_id s) \<and>
        d = document_of (fill_document E x (empty_document (next_id s) i (di_doc_type x))) \<and>
        documents s' = documents s @ [fill_document E x (empty_document (next_id s) i (di_doc_type x))]))"
  using assms
  by (auto simp: upsert_document_def tx_simps document_of_def fill_document_def empty_document_def same_slot_def Let_def
      split: option.splits dest: find_Some_set)

lemma upload_tx_Inr:
  "upload_tx E sess app u key s = Inr (saved, s') \<Longrightarrow> \<exists>t. upsert_document E (oa_id app) \<lparr>di_doc_type = document_type_str (du_doc_type u),
     di_file_name = du_file_name u, di_mime_type = du_mime_type u, di_size_bytes = int (length (du_bytes u)), di_storage_key = key\<rparr> s =
     Inr (saved, t) \<and> documents s' = documents t \<and> applications s' = applications t \<and> customers s' = customers t \<and>
     next_id s' = next_id t"
  by (auto simp: upload_tx_def tx_simps Let_def)

lemma fill_simps [simp]:
  "od_id (fill_document E x d) = od_id d" "od_application (fill_document E x d) = od_application d"
  "od_type (fill_document E x d) = od_type d"
  "od_id (empty_document k i ty) = k" "od_application (empty_document k i ty) = i" "od_type (empty_document k i ty) = ty"
  by (simp_all add: fill_document_def empty_document_def)

lemma upsert_ok:
  assumes "documents_ok s" and "upsert_document E i x s = Inr (d, s')"
  shows "documents_ok s'"
proof -
  note run = upsert_run [OF assms(2)]
  from run consider (old) "documents s' = update_where (same_slot i (di_doc_type x)) (fill_document E x) (documents s)"
      "next_id s \<le> next_id s'"
    | (new) "find (same_slot i (di_doc_type x)) (documents s) = None" "next_id s' = Suc (next_id s)"
      "documents s' = documents s @ [fill_document E x (empty_document (next_id s) i (di_doc_type x))]" by auto
  then show ?thesis
  proof cases
    case old
    have m: "map (\<lambda>d. (od_application d, od_type d)) (documents s') = map (\<lambda>d. (od_application d, od_type d)) (documents s)"
      "map od_id (documents s') = map od_id (documents s)"
      unfolding old(1) by (simp_all add: map_update_where_frame)
    from m(2) have "od_id ` set (documents s') = od_id ` set (documents s)" by (metis list.set_map)
    have "od_id d < next_id s'" if "d \<in> set (documents s')" for d
    proof -
      from that \<open>od_id ` set (documents s') = od_id ` set (documents s)\<close> obtain d0
        where "d0 \<in> set (documents s)" "od_id d = od_id d0" by (metis imageE imageI)
      with assms(1) old(2) show ?thesis by (auto simp: documents_ok_def list_all_iff intro: less_le_trans)
    qed
    with assms(1) m show ?thesis by (simp add: documents_ok_def list_all_iff)
  next
    case new
    with assms(1) show ?thesis
      by (auto simp: documents_ok_def find_None_iff same_slot_def list_all_iff less_SucI)
  qed
qed

lemma upsert_own_only:
  assumes "upsert_document E i x s = Inr (d, s')" and "j \<noteq> i"
  shows "filter (\<lambda>d. od_application d = j) (documents s') = filter (\<lambda>d. od_application d = j) (documents s)"
  using upsert_run [OF assms(1)] assms(2) by (auto simp: same_slot_def intro!: filter_update_outside)

lemma storage_put_cases:
  obtains (bad) e where "storage_put F base key data fs = (Inl e, fs)"
  | (put) "path_for base key = Inr (join_path base key)"
      "storage_put F base key data fs = (Inr (), fs(join_path base key \<mapsto> data))"
proof (cases "path_for base key")
  case (Inl e)
  with bad show thesis by (simp add: storage_put_def)
next
  case (Inr p)
  then have "p = join_path base key" by (auto simp: path_for_def split: if_splits)
  with Inr bad put show thesis by (cases "writable F p") (auto simp: storage_put_def)
qed

lemma upload_cases:
  assumes "upload_document F cfg E sess u application (s, fs) = (r, s', fs')"
  obtains (refused) e where "r = Inl e" "s' = s" "fs' = fs"
    | (unsaved) e a where "r = Inl e" "s' = s" "find (\<lambda>a. ap_customer a = customer_id sess) (applications s) = Some a"
      "fs' = fs(join_path (cfg_storage_dir cfg) (storage_key_for E (assemble s a) u) \<mapsto> du_bytes u)"
  | (stored) a saved t where "find (\<lambda>a. ap_customer a = customer_id sess) (applications s) = Some a" "r = Inr saved"
      "du_mime_type u \<in> set allowed_mime" "length (du_bytes u) \<le> max_file_bytes"
      "upsert_document E (ap_id a) \<lparr>di_doc_type = document_type_str (du_doc_type u),
         di_file_name = du_file_name u, di_mime_type = du_mime_type u, di_size_bytes = int (length (du_bytes u)),
         di_storage_key = storage_key_for E (assemble s a) u\<rparr> s = Inr (saved, t)"
      "documents s' = documents t" "applications s' = applications t" "customers s' = customers t" "next_id s' = next_id t"
      "path_for (cfg_storage_dir cfg) (storage_key_for E (assemble s a) u) =
         Inr (join_path (cfg_storage_dir cfg) (storage_key_for E (assemble s a) u))"
      "fs' = fs(join_path (cfg_storage_dir cfg) (storage_key_for E (assemble s a) u) \<mapsto> du_bytes u)"
proof (cases "load_owned E sess application s")
  case (Inl e)
  with assms show thesis by (intro refused) (auto simp: upload_document_def transaction_def)
next
  case (Inr p)
  then obtain a where a: "p = (assemble s a, s)" "find (\<lambda>a. ap_customer a = customer_id sess) (applications s) = Some a"
    by (cases p) (auto simp: load_owned_Inr)
  let ?key = "storage_key_for E (assemble s a) u"
  consider (bad) "du_mime_type u \<notin> set allowed_mime \<or> max_file_bytes < length (du_bytes u)"
    | (path) e where "du_mime_type u \<in> set allowed_mime" "length (du_bytes u) \<le> max_file_bytes"
        "storage_put F (cfg_storage_dir cfg) ?key (du_bytes u) fs = (Inl e, fs)"
    | (put) "du_mime_type u \<in> set allowed_mime" "length (du_bytes u) \<le> max_file_bytes"
        "path_for (cfg_storage_dir cfg) ?key = Inr (join_path (cfg_storage_dir cfg) ?key)"
        "storage_put F (cfg_storage_dir cfg) ?key (du_bytes u) fs =
           (Inr (), fs(join_path (cfg_storage_dir cfg) ?key \<mapsto> du_bytes u))"
    by (rule storage_put_cases [of F "cfg_storage_dir cfg" ?key "du_bytes u" fs]) (metis not_le)+
  then show thesis
  proof cases
    case bad
    with Inr a assms have "\<exists>e. r = Inl e \<and> s' = s \<and> fs' = fs"
      by (cases "du_mime_type u \<in> set allowed_mime") (auto simp: upload_document_def transaction_def)
    then obtain e where "r = Inl e" "s' = s" "fs' = fs" by blast
    then show thesis by (rule refused)
  next
    case path
    with Inr a assms show thesis by (intro refused) (auto simp: upload_document_def transaction_def Let_def)
  next
    case put
    have run: "(r, s', fs') = (case transaction (upload_tx E sess (assemble s a) u ?key) s of (r, s2) \<Rightarrow>
        (r, s2, fs(join_path (cfg_storage_dir cfg) ?key \<mapsto> du_bytes u)))"
      using assms Inr a put by (simp add: upload_document_def transaction_def Let_def)
    show thesis
    proof (cases "upload_tx E sess (assemble s a) u ?key s")
      case (Inl e)
      with run a show thesis by (intro unsaved) (simp_all add: transaction_def)
    next
      case (Inr q)
      then obtain saved t where q: "upload_tx E sess (assemble s a) u ?key s = Inr (saved, s')" "r = Inr saved"
        "fs' = fs(join_path (cfg_storage_dir cfg) ?key \<mapsto> du_bytes u)" using run by (cases q) (simp add: transaction_def)
      from upload_tx_Inr [OF q(1)] a put q show thesis by (auto intro: stored)
    qed
  qed
qed


text \<open>Stored keys name their application.\<close>

definition keys_ok :: "(uuid \<Rightarrow> string) \<Rightarrow> db \<Rightarrow> bool" where
  "keys_ok name' s \<longleftrightarrow> list_all (\<lambda>d. case od_storage_key d of None \<Rightarrow> True
     | Some k \<Rightarrow> prefix (''onboarding/'' @ name' (od_application d) @ ''/'') k) (documents s)"

lemma keys_okI: "(\<And>d k. d \<in> set (documents s) \<Longrightarrow> od_storage_key d = Some k \<Longrightarrow>
    prefix (''onboarding/'' @ name' (od_application d) @ ''/'') k) \<Longrightarrow> keys_ok name' s"
  by (auto simp: keys_ok_def list_all_iff split: option.splits)

lemma keys_okD: "keys_ok name' s \<Longrightarrow> d \<in> set (documents s) \<Longrightarrow> od_storage_key d = Some k \<Longrightarrow>
    prefix (''onboarding/'' @ name' (od_application d) @ ''/'') k"
  by (auto simp: keys_ok_def list_all_iff)

lemma key_of_upload: "prefix (''onboarding/'' @ uuid_str E (oa_id app) @ ''/'') (storage_key_for E app u)"
  by (simp add: storage_key_for_def)

lemma upsert_keys:
  assumes "keys_ok name' s" and "upsert_document E i x s = Inr (d, s')"
    and "prefix (''onboarding/'' @ name' i @ ''/'') (di_storage_key x)"
  shows "keys_ok name' s'"
proof (rule keys_okI)
  fix d k
  assume d: "d \<in> set (documents s')" "od_storage_key d = Some k"
  from upsert_run [OF assms(2)] d(1) have "d \<in> set (documents s) \<or>
      (od_application d = i \<and> od_storage_key d = Some (di_storage_key x))"
    by (auto simp: set_update_where fill_document_def empty_document_def same_slot_def split: if_splits)
  with d(2) assms(1,3) show "prefix (''onboarding/'' @ name' (od_application d) @ ''/'') k" by (auto dest: keys_okD)
qed

text \<open>Paths of different applications are different.\<close>

lemma join_path_inj: "\<not> is_absolute k \<Longrightarrow> \<not> is_absolute k' \<Longrightarrow> join_path base k = join_path base k' \<longleftrightarrow> k = k'"
  by (auto simp: join_path_def)

lemma first_slash: "CHR ''/'' \<notin> set a \<Longrightarrow> CHR ''/'' \<notin> set b \<Longrightarrow> a @ CHR ''/'' # x = b @ CHR ''/'' # y \<Longrightarrow> a = b"
proof (induction a arbitrary: b)
  case (Cons c a)
  then show ?case by (cases b) auto
qed (auto simp: append_eq_Cons_conv Cons_eq_append_conv)

lemma onboarding_relative: "prefix (''onboarding/'' @ w) k \<Longrightarrow> \<not> is_absolute k"
  by (auto simp: is_absolute_def prefix_def)

definition names_ok :: "(uuid \<Rightarrow> string) \<Rightarrow> bool" where
  "names_ok name' \<longleftrightarrow> inj name' \<and> (\<forall>i. CHR ''/'' \<notin> set (name' i))"

lemma paths_apart:
  assumes "names_ok name'" and "i \<noteq> j" and "prefix (''onboarding/'' @ name' i @ ''/'') k"
    and "prefix (''onboarding/'' @ name' j @ ''/'') k'"
  shows "join_path base k \<noteq> join_path base k'"
proof
  assume "join_path base k = join_path base k'"
  with assms(3,4) have "k = k'" by (metis join_path_inj onboarding_relative)
  with assms(3,4) obtain x y where "name' i @ CHR ''/'' # x = name' j @ CHR ''/'' # y" by (auto simp: prefix_def)
  with assms(1) have "name' i = name' j" by (metis first_slash names_ok_def)
  with assms(1,2) show False by (auto simp: names_ok_def dest: injD)
qed

section \<open>The requests on documents\<close>

inductive document_request :: "platform \<Rightarrow> config \<Rightarrow> (uuid \<Rightarrow> string) \<Rightarrow> session \<Rightarrow> db \<times> files \<Rightarrow> db \<times> files \<Rightarrow> bool"
  for F cfg name' sess where
  uploaded: "uuid_str E = name' \<Longrightarrow> upload_route F cfg E sess parts (s, fs) = (r, s', fs') \<Longrightarrow>
    document_request F cfg name' sess (s, fs) (s', fs')"
| retried: "uuid_str E = name' \<Longrightarrow> retry_document_upload E sess document_id s = (r, s') \<Longrightarrow>
    document_request F cfg name' sess (s, fs) (s', fs)"
| removed: "uuid_str E = name' \<Longrightarrow> remove_document F cfg E sess document_id (s, fs) = (r', s', fs') \<Longrightarrow>
    document_request F cfg name' sess (s, fs) (s', fs')"

definition file_of :: "config \<Rightarrow> (uuid \<Rightarrow> string) \<Rightarrow> uuid \<Rightarrow> string \<Rightarrow> string" where
  "file_of cfg name' j rest = join_path (cfg_storage_dir cfg) (''onboarding/'' @ name' j @ ''/'' @ rest)"

definition isolated :: "config \<Rightarrow> (uuid \<Rightarrow> string) \<Rightarrow> session \<Rightarrow> db \<times> files \<Rightarrow> db \<times> files \<Rightarrow> bool" where
  "isolated cfg name' sess z z' \<longleftrightarrow> applications (fst z') = applications (fst z) \<and>
     documents_ok (fst z') \<and> keys_ok name' (fst z') \<and>
     (\<forall>j. \<not> owns sess (fst z) j \<longrightarrow>
        filter (\<lambda>d. od_application d = j) (documents (fst z')) = filter (\<lambda>d. od_application d = j) (documents (fst z)) \<and>
        (\<forall>rest. snd z' (file_of cfg name' j rest) = snd z (file_of cfg name' j rest)))"

lemma isolated_refl: "documents_ok s \<Longrightarrow> keys_ok name' s \<Longrightarrow> isolated cfg name' sess (s, fs) (s, fs)"
  by (simp add: isolated_def)

lemma isolated_trans: "isolated cfg name' sess x y \<Longrightarrow> isolated cfg name' sess y z \<Longrightarrow> isolated cfg name' sess x z"
  by (simp add: isolated_def owns_def)

lemma own_file:
  assumes "names_ok name'" and "i \<noteq> j" and "prefix (''onboarding/'' @ name' i @ ''/'') k"
  shows "file_of cfg name' j rest \<noteq> join_path (cfg_storage_dir cfg) k"
  using paths_apart [OF assms, of "''onboarding/'' @ name' j @ ''/'' @ rest" "cfg_storage_dir cfg"]
  by (auto simp: file_of_def prefix_def)

lemma upload_isolated:
  assumes "names_ok (uuid_str E)" "documents_ok s" "keys_ok (uuid_str E) s"
    and run: "upload_document F cfg E sess u application (s, fs) = (r, s', fs')"
  shows "isolated cfg (uuid_str E) sess (s, fs) (s', fs')"
proof (rule upload_cases [OF run])
  show "isolated cfg (uuid_str E) sess (s, fs) (s', fs')" if "s' = s" "fs' = fs"
    using that assms by (simp add: isolated_refl)
next
  fix e a
  assume "s' = s" and a: "find (\<lambda>a. ap_customer a = customer_id sess) (applications s) = Some a"
    and fs': "fs' = fs(join_path (cfg_storage_dir cfg) (storage_key_for E (assemble s a) u) \<mapsto> du_bytes u)"
  have "fs' (file_of cfg (uuid_str E) j rest) = fs (file_of cfg (uuid_str E) j rest)" if "ap_id a \<noteq> j" for j rest
    using own_file [OF assms(1) that] key_of_upload [of E "assemble s a" u] by (simp add: fs')
  then show "isolated cfg (uuid_str E) sess (s, fs) (s', fs')"
    using a assms(2,3) \<open>s' = s\<close> by (auto simp: isolated_def owns_def)
next
  fix a saved t
  let ?x = "\<lparr>di_doc_type = document_type_str (du_doc_type u),
         di_file_name = du_file_name u, di_mime_type = du_mime_type u, di_size_bytes = int (length (du_bytes u)),
         di_storage_key = storage_key_for E (assemble s a) u\<rparr>"
  assume a: "find (\<lambda>a. ap_customer a = customer_id sess) (applications s) = Some a"
    and t: "upsert_document E (ap_id a) ?x s = Inr (saved, t)"
    and s': "documents s' = documents t" "applications s' = applications t" "next_id s' = next_id t"
    and fs': "fs' = fs(join_path (cfg_storage_dir cfg) (storage_key_for E (assemble s a) u) \<mapsto> du_bytes u)"
  have "fs' (file_of cfg (uuid_str E) j rest) = fs (file_of cfg (uuid_str E) j rest)" if "ap_id a \<noteq> j" for j rest
    using own_file [OF assms(1) that] key_of_upload [of E "assemble s a" u] by (simp add: fs')
  moreover have "documents_ok s'" using upsert_ok [OF assms(2) t] by (simp add: documents_ok_def s')
  moreover have "keys_ok (uuid_str E) s'"
    using upsert_keys [OF assms(3) t] key_of_upload [of E "assemble s a" u] by (simp add: keys_ok_def s')
  moreover have "filter (\<lambda>d. od_application d = j) (documents s') = filter (\<lambda>d. od_application d = j) (documents s)"
    if "ap_id a \<noteq> j" for j
    using upsert_own_only [OF t, of j] that by (auto simp: s')
  ultimately show "isolated cfg (uuid_str E) sess (s, fs) (s', fs')"
    using a upsert_run [OF t] by (auto simp: isolated_def owns_def s')
qed

lemma owned_row:
  assumes "documents_ok s" and "owned_document E sess i s = Inr (d, t)"
  shows "t = s" "d \<in> set (documents s)" "owns sess s (od_application d)"
    "r \<in> set (documents s) \<Longrightarrow> od_id r = od_id d \<Longrightarrow> r = d"
proof -
  from owned_document_Inr [OF assms(2)] show "t = s" and d: "d \<in> set (documents s)" and "owns sess s (od_application d)"
    by (auto simp: owns_def)
  have "distinct (map od_id (documents s))" using assms(1) by (simp add: documents_ok_def)
  then show "r \<in> set (documents s) \<Longrightarrow> od_id r = od_id d \<Longrightarrow> r = d" using d by (auto intro: same_key)
qed

lemma mark_simps [simp]:
  "od_id (mark_uploaded E d) = od_id d" "od_application (mark_uploaded E d) = od_application d"
  "od_type (mark_uploaded E d) = od_type d" "od_storage_key (mark_uploaded E d) = od_storage_key d"
  by (simp_all add: mark_uploaded_def)

lemma retry_isolated:
  assumes "documents_ok s" "keys_ok (uuid_str E) s"
    and run: "retry_document_upload E sess document_id s = (r, s')"
  shows "isolated cfg (uuid_str E) sess (s, fs) (s', fs)"
proof (cases "owned_document E sess document_id s")
  case (Inl e)
  with run assms show ?thesis by (simp add: retry_document_upload_def bind_io_def transaction_def isolated_refl)
next
  case (Inr p)
  obtain d t where "p = (d, t)" by (cases p)
  with Inr have d: "owned_document E sess document_id s = Inr (d, t)" by simp
  note row = owned_row [OF assms(1) d]
  have dist: "distinct (map od_id (documents s))" using assms(1) by (simp add: documents_ok_def)
  from d row(1,2) run have s': "documents s' = update_where (\<lambda>r. od_id r = od_id d) (mark_uploaded E) (documents s)"
    "applications s' = applications s" "next_id s' = next_id s"
    by (auto simp: retry_document_upload_def bind_io_def transaction_def mark_document_uploaded_def find_document_def
        bind_tx_def gets_def ok_or_def modify_def return_tx_def throw_def find_None_iff
        split: sum.splits prod.splits option.splits)
  have "documents_ok s'"
    using assms(1) unfolding documents_ok_def s'
    by (auto simp: map_update_where_frame list_all_iff set_update_where)
  moreover have "keys_ok (uuid_str E) s'"
    using assms(2) by (fastforce simp: keys_ok_def list_all_iff s' set_update_where split: option.splits)
  moreover have "filter (\<lambda>d. od_application d = j) (documents s') = filter (\<lambda>d. od_application d = j) (documents s)"
    if "\<not> owns sess s j" for j
    unfolding s' by (rule filter_update_outside) (use that row in auto)
  ultimately show ?thesis by (simp add: isolated_def s')
qed

lemma remove_isolated:
  assumes "names_ok (uuid_str E)" "documents_ok s" "keys_ok (uuid_str E) s"
    and run: "remove_document F cfg E sess document_id (s, fs) = (r, s', fs')"
  shows "isolated cfg (uuid_str E) sess (s, fs) (s', fs')"
proof (cases "owned_document E sess document_id s")
  case (Inl e)
  with run assms show ?thesis by (simp add: remove_document_def transaction_def isolated_refl)
next
  case (Inr p)
  obtain d t where "p = (d, t)" by (cases p)
  with Inr have d: "owned_document E sess document_id s = Inr (d, t)" by simp
  note row = owned_row [OF assms(2) d]
  from d row(1) run have s': "documents s' = filter (\<lambda>r. od_id r \<noteq> od_id d) (documents s)"
    "applications s' = applications s" "next_id s' = next_id s"
    "fs' = (case od_storage_key d of None \<Rightarrow> fs | Some key \<Rightarrow> snd (storage_delete F (cfg_storage_dir cfg) key fs))"
    by (auto simp: remove_document_def transaction_def delete_document_def bind_tx_def modify_def)
  have "documents_ok s'"
    using assms(2) unfolding documents_ok_def s' by (auto simp: distinct_map_filter list_all_iff)
  moreover have "keys_ok (uuid_str E) s'" using assms(3) by (auto simp: keys_ok_def list_all_iff s')
  moreover have "filter (\<lambda>d. od_application d = j) (documents s') = filter (\<lambda>d. od_application d = j) (documents s)"
    if "\<not> owns sess s j" for j
    unfolding s' by (rule filter_filter_out) (use that row in auto)
  moreover have "fs' (file_of cfg (uuid_str E) j rest) = fs (file_of cfg (uuid_str E) j rest)" if "\<not> owns sess s j" for j rest
  proof (cases "od_storage_key d")
    case (Some k)
    have "prefix (''onboarding/'' @ uuid_str E (od_application d) @ ''/'') k"
      using keys_okD [OF assms(3) row(2) Some] .
    moreover have "od_application d \<noteq> j" using that row(3) by auto
    ultimately have "file_of cfg (uuid_str E) j rest \<noteq> join_path (cfg_storage_dir cfg) k" by (intro own_file assms(1))
    then show ?thesis by (auto simp: s' Some storage_delete_def path_for_def split: sum.splits)
  qed (simp add: s')
  ultimately show ?thesis by (simp add: isolated_def s')
qed

lemma request_isolated:
  assumes "document_request F cfg name' sess z z'" and "names_ok name'" "documents_ok (fst z)" "keys_ok name' (fst z)"
  shows "isolated cfg name' sess z z'"
  using assms
proof cases
  case (uploaded E parts s fs r s' fs')
  then show ?thesis
    using assms(2-4) upload_isolated [of E s F cfg sess _ _ fs r s' fs'] isolated_refl [of s name' cfg sess fs]
    by (auto simp: upload_route_def split: sum.splits option.splits)
qed (use assms in \<open>auto intro: retry_isolated remove_isolated\<close>)

text \<open>
  C36: whatever a customer uploads, retries or removes, in any number and whatever document identifiers,
  file names and form fields the requests carry, every application that is not its own keeps its
  documents, and every file stored for such an application keeps its content; each slot still holds one
  document at most.
\<close>

theorem documents_are_isolated:
  assumes "(document_request F cfg name' sess)\<^sup>*\<^sup>* (s, fs) (s', fs')"
    and "names_ok name'" "documents_ok s" "keys_ok name' s" and "\<not> owns sess s j"
  shows "filter (\<lambda>d. od_application d = j) (documents s') = filter (\<lambda>d. od_application d = j) (documents s) \<and>
    fs' (file_of cfg name' j rest) = fs (file_of cfg name' j rest) \<and> documents_ok s'"
proof -
  have "isolated cfg name' sess z z'" if "(document_request F cfg name' sess)\<^sup>*\<^sup>* z z'"
    "documents_ok (fst z)" "keys_ok name' (fst z)" for z z'
    using that(1)
  proof (induction rule: rtranclp_induct)
    case base
    show ?case using isolated_refl [of "fst z" name' cfg sess "snd z"] that(2,3) by simp
  next
    case (step y z')
    from step.IH have "documents_ok (fst y)" "keys_ok name' (fst y)" by (auto simp: isolated_def)
    from request_isolated [OF step(2) assms(2) this] step.IH show ?case by (rule isolated_trans [rotated])
  qed
  from this [OF assms(1)] assms(3-5) show ?thesis by (simp add: isolated_def)
qed

end
