(* ===== verification/Onboarding_Scenarios.thy ===== *)
theory Onboarding_Scenarios
  imports Document_Properties Scenarios
begin

text \<open>Two customers with an application each: the inhabited cases of the onboarding properties.\<close>

definition marks :: "uuid \<Rightarrow> string" where
  "marks i = replicate i (CHR ''x'')"

lemma marks_ok: "names_ok marks"
  by (auto simp: names_ok_def marks_def inj_def)

definition desk_env :: env where
  "desk_env = sample_env\<lparr>uuid_str := marks, parse_uuid := (\<lambda>v. if v = ''own'' then Some 61 else None)\<rparr>"

definition plain_platform :: platform where
  "plain_platform = \<lparr>date_cast = (\<lambda>d. if d = ''2001-02-31'' then None else Some d), unicode_digit = (\<lambda>_. False), writable = (\<lambda>_. True)\<rparr>"

definition ada_session :: session where
  "ada_session = \<lparr>user_id = 5, role = ''customer'', display_name = ''Ada'', operator_permissions = [],
     customer_id = 1, account_number = ''1''\<rparr>"

definition ada_ltd :: business_details where
  "ada_ltd = \<lparr>bd_legal_name = ''Ada Ltd'', bd_trading_name = None, bd_cac_number = ''RC-12345'',
     bd_business_type = LimitedLiabilityCompany, bd_industry = Technology,
     bd_trading_address = \<lparr>ad_line1 = None, ad_line2 = None, ad_city = None, ad_state = ''Lagos'',
       ad_postal_code = None, ad_country = ''NG''\<rparr>, bd_country_of_incorporation = ''NG''\<rparr>"

definition sample_document :: "uuid \<Rightarrow> uuid \<Rightarrow> document_row" where
  "sample_document i app = (empty_document i app ''memart'')\<lparr>od_status := ''uploaded'',
     od_storage_key := Some (''onboarding/'' @ marks app @ ''/memart/1-a.pdf'')\<rparr>"

definition desk_db :: db where
  "desk_db = sample_db\<lparr>applications :=
     [\<lparr>ap_id = 1, ap_customer = 1, ap_status = ''draft'', ap_business = Some ada_ltd, ap_rejection_reasons = None,
       ap_approved_summary = None, ap_submitted_at = None, ap_reviewed_at = None\<rparr>,
      \<lparr>ap_id = 2, ap_customer = 2, ap_status = ''draft'', ap_business = None, ap_rejection_reasons = None,
       ap_approved_summary = None, ap_submitted_at = None, ap_reviewed_at = None\<rparr>],
     documents := [sample_document 61 1, sample_document 62 2]\<rparr>"

definition desk_files :: files where
  "desk_files = [file_of sample_config marks 1 ''memart/1-a.pdf'' \<mapsto> [1], file_of sample_config marks 2 ''memart/1-a.pdf'' \<mapsto> [2]]"

lemma desk_applications_ok: "applications_ok desk_db"
  by (simp add: applications_ok_def application_ok_def desk_db_def)

lemma desk_documents_ok: "documents_ok desk_db" "keys_ok marks desk_db"
  by (simp_all add: documents_ok_def keys_ok_def desk_db_def sample_db_def sample_document_def empty_document_def)

lemma ada_passes: "list_all cr_passed (kyb_checks_of (assemble desk_db a)) \<longleftrightarrow>
    \<not> cac_fails (assemble desk_db a) \<and> \<not> bvn_fails (assemble desk_db a) \<and>
    \<not> sanctions_or_pep_fails (assemble desk_db a) \<and> \<not> adverse_media_fails (assemble desk_db a)"
  by (simp add: kyb_checks_of_def conj_ac)

lemma ada_lower: "to_ascii_lowercase ''Ada Ltd'' = ''ada ltd''"
  by (simp add: to_ascii_lowercase_def to_lower_char_def code_def char_of_def bit_iff_odd)

lemma ada_submits:
  obtains a s' app' where "submit desk_env ada_session None desk_db = (Inr app', s')" "oa_status app' = ''approved''"
    "find (\<lambda>a. ap_customer a = customer_id ada_session) (applications desk_db) = Some a"
proof -
  let ?a = "applications desk_db ! 0"
  have f: "find (\<lambda>a. ap_customer a = customer_id ada_session) (applications desk_db) = Some ?a"
    by (simp add: desk_db_def ada_session_def)
  have "ko_approved (run_checks (assemble desk_db ?a))"
    unfolding approved_iff cac_fails_def bvn_fails_def sanctions_or_pep_fails_def adverse_media_fails_def
    by (simp add: assemble_def desk_db_def sample_db_def ada_ltd_def ada_lower contains_def)
  moreover obtain s' where "submit desk_env ada_session None desk_db =
      (Inr (assemble s' (decided desk_env (assemble desk_db ?a) ada_ltd ?a)), s')"
    by (rule submit_run [OF f, where b = ada_ltd and application = None and E = desk_env]) (simp_all add: desk_db_def)
  ultimately show thesis using f by (intro that) auto
qed


theorem reviews_stay_consistent_witness:
  "\<exists>s' K R. review_step\<^sup>*\<^sup>* (desk_db, {}, {}) (s', K, R) \<and> R \<noteq> {} \<and> applications_ok s'"
proof -
  let ?a = "applications desk_db ! 0" let ?app = "assemble desk_db ?a"
  obtain s' where s': "open_review_tx desk_env ada_session ?app desk_db = Inr ((), s')"
    by (rule open_review_run)
  have "review_step (desk_db, {}, {}) (desk_db, {?app}, {})" by (rule was_read) (simp add: desk_db_def)
  moreover have "review_step (desk_db, {?app}, {}) (s', {?app}, {?app})"
    by (rule opened [OF _ _ s']) (simp_all add: desk_db_def)
  ultimately have run: "review_step\<^sup>*\<^sup>* (desk_db, {}, {}) (s', {?app}, {?app})" by auto
  from reviews_stay_consistent [OF run desk_applications_ok] run show ?thesis by blast
qed

definition ada_herself :: principal where
  "ada_herself = \<lparr>pp_id = None, pp_full_name = ''Ada'', pp_role = BothRoles, pp_ownership_percentage = None,
     pp_date_of_birth = None, pp_bvn = None, pp_nin = None\<rparr>"

theorem principals_round_trip_witness:
  "\<exists>app s' q. save_principals plain_platform desk_env ada_session [ada_herself] None desk_db = (Inr app, s') \<and>
     oa_principals app = [q] \<and> stored_as plain_platform ada_herself q"
proof -
  have v: "validate_principals (unicode_digit plain_platform) [ada_herself] = Inr ()"
    by (simp add: validate_principal_def ada_herself_def char_count_def trim_def trim_start_def is_whitespace_def code_def)
  have "\<exists>app s'. save_principals plain_platform desk_env ada_session [ada_herself] None desk_db = (Inr app, s')"
    unfolding save_principals_def v
    by (simp add: bind_io_def transaction_def load_owned_def find_by_customer_def bind_tx_def gets_def ok_or_def
        return_tx_def replace_principals_def insert_principal_def modify_def fresh_id_def ada_herself_def ada_session_def
        desk_db_def Let_def)
  then obtain app s' where run: "save_principals plain_platform desk_env ada_session [ada_herself] None desk_db = (Inr app, s')"
    by blast
  from principals_round_trip [OF run] obtain q where "oa_principals app = [q]" "stored_as plain_platform ada_herself q"
    by (auto simp: list_all2_Cons1)
  with run show ?thesis by blast
qed

theorem documents_are_isolated_witness:
  "\<exists>s' fs'. (document_request plain_platform sample_config marks ada_session)\<^sup>*\<^sup>* (desk_db, desk_files) (s', fs') \<and>
     documents s' = [sample_document 62 2] \<and> fs' (file_of sample_config marks 2 ''memart/1-a.pdf'') = Some [2] \<and>
     fs' (file_of sample_config marks 1 ''memart/1-a.pdf'') = None \<and> documents_ok s'"
proof -
  have apart: "file_of sample_config marks 1 ''memart/1-a.pdf'' \<noteq> file_of sample_config marks 2 ''memart/1-a.pdf''"
    by (simp add: file_of_def marks_def join_path_def is_absolute_def sample_config_def eval_nat_numeral)
  have "\<exists>s' fs'. remove_document plain_platform sample_config desk_env ada_session ''own'' (desk_db, desk_files) = (Inr (), s', fs') \<and>
      documents s' = [sample_document 62 2] \<and> fs' (file_of sample_config marks 1 ''memart/1-a.pdf'') = None"
    using apart
    by (simp add: remove_document_def transaction_def owned_document_def load_owned_def find_by_customer_def bind_tx_def
        gets_def ok_or_def return_tx_def parse_uuid_or_not_found_def find_document_def delete_document_def modify_def
        desk_db_def desk_env_def ada_session_def sample_document_def empty_document_def storage_delete_def path_for_def
        under_root_def is_absolute_def contains_def file_of_def sample_config_def join_path_def marks_def plain_platform_def)
  then obtain s' fs' where run: "remove_document plain_platform sample_config desk_env ada_session ''own'' (desk_db, desk_files) = (Inr (), s', fs')"
    and out: "documents s' = [sample_document 62 2]" "fs' (file_of sample_config marks 1 ''memart/1-a.pdf'') = None" by blast
  have "document_request plain_platform sample_config marks ada_session (desk_db, desk_files) (s', fs')"
    by (rule removed [OF _ run]) (simp add: desk_env_def)
  then have req: "(document_request plain_platform sample_config marks ada_session)\<^sup>*\<^sup>* (desk_db, desk_files) (s', fs')" by blast
  have "\<not> owns ada_session desk_db 2" by (simp add: owns_def desk_db_def ada_session_def)
  from documents_are_isolated [OF req marks_ok desk_documents_ok this, of "''memart/1-a.pdf''"] req out show ?thesis
    by (auto simp: desk_files_def)
qed

end
