(* ===== verification/Dashboard.thy ===== *)
theory Dashboard
  imports Onboarding
begin

text \<open>
  \<open>src/domain/dashboard.rs\<close>: the overview the server composes for a customer, from its balances, its
  application and its transfers. The highlights, the pending actions, the working-capital offer and
  two of the figures are constants of the code.
\<close>

section \<open>Wire types\<close>

datatype highlight_tone = ToneSuccess | ToneWarning | ToneDanger

record balance_highlight =
  bh_currency :: currency_code
  bh_secondary_line :: "string option"
  bh_delta_text :: string
  bh_delta_tone :: highlight_tone

record dashboard_stats =
  ds_volume30d :: money
  ds_transfers_in_progress :: int
  ds_payout_success_rate_percent :: f64
  ds_avg_settlement_seconds :: int

datatype pending_action_kind = ActionRequired | KindInReview | KindSubmitted

record pending_action =
  pa_id :: string
  pa_title :: string
  pa_subtitle :: string
  pa_kind :: pending_action_kind
  pa_transfer_id :: "string option"

record working_capital_offer =
  wc_max_advance :: money
  wc_basis_description :: string
  wc_monthly_rate_percent :: f64

record dashboard_overview =
  do_display_name :: string
  do_business_name :: string
  do_account_id :: string
  do_balances :: "account_balance list"
  do_balance_highlights :: "balance_highlight list"
  do_stats :: dashboard_stats
  do_pending_actions :: "pending_action list"
  do_working_capital_offer :: "working_capital_offer option"

section \<open>The composition\<close>

definition fallback_business_name :: string where "fallback_business_name = ''Adunola Exports Ltd''"

definition fallback_account_id :: string where "fallback_account_id = ''AEL-00029''"

definition count_in_progress :: "uuid \<Rightarrow> int tx" where
  "count_in_progress c = bind_tx (gets (\<lambda>s. int (length (filter (\<lambda>t. tr_customer t = c \<and>
     tr_status t \<notin> set terminal_statuses) (transfers s))))) bigint"

definition usd_send_volume_30d :: "env \<Rightarrow> uuid \<Rightarrow> int tx" where
  "usd_send_volume_30d E c = bind_tx (gets (\<lambda>s. sum_list (map tr_send_amount (filter (\<lambda>t. tr_customer t = c \<and>
     tr_send_currency t = ''USD'' \<and> now E - 30 * 86400000 \<le> tr_created_at t) (transfers s))))) bigint"

text \<open>The UTF-8 bytes of the signs the texts use: almost equal, naira and the long dash.\<close>

definition bytes_text :: "nat list \<Rightarrow> string" where
  "bytes_text ns = map char_of ns"

definition balance_highlights :: "balance_highlight list" where
  "balance_highlights =
     [\<lparr>bh_currency = Ngn, bh_secondary_line = Some (bytes_text [226, 137, 136] @ '' USD 29,330''),
        bh_delta_text = ''+'' @ bytes_text [226, 130, 166] @ ''2.4M this month'', bh_delta_tone = ToneSuccess\<rparr>,
      \<lparr>bh_currency = Usd, bh_secondary_line = Some ''Pending: +$18,500'', bh_delta_text = ''TXN-8843 settling'',
        bh_delta_tone = ToneSuccess\<rparr>,
      \<lparr>bh_currency = Eur, bh_secondary_line = Some (bytes_text [226, 137, 136] @ '' USD 19,760''),
        bh_delta_text = ''TXN-8842 in progress'', bh_delta_tone = ToneWarning\<rparr>]"

definition pending_actions :: "pending_action list" where
  "pending_actions =
     [\<lparr>pa_id = ''pact_paar_8842'', pa_title = ''PAAR '' @ bytes_text [226, 128, 148] @ '' TXN-8842'',
        pa_subtitle = ''Upload required'', pa_kind = ActionRequired, pa_transfer_id = Some ''txn_8842''\<rparr>,
      \<lparr>pa_id = ''pact_formq_8843'', pa_title = ''Form Q '' @ bytes_text [226, 128, 148] @ '' Sesame export'',
        pa_subtitle = ''Pending review'', pa_kind = KindInReview, pa_transfer_id = Some ''txn_8843''\<rparr>,
      \<lparr>pa_id = ''pact_bol_8843'', pa_title = ''BoL '' @ bytes_text [226, 128, 148] @ '' TXN-8843'',
        pa_subtitle = ''Submitted for verification'', pa_kind = KindSubmitted, pa_transfer_id = Some ''txn_8843''\<rparr>]"

definition display_name_of :: "session \<Rightarrow> onboarding_application option \<Rightarrow> string" where
  "display_name_of sess app =
     (case Option.bind app (\<lambda>a. case oa_principals a of [] \<Rightarrow> None
        | p # _ \<Rightarrow> (case split_whitespace (pp_full_name p) of [] \<Rightarrow> None | w # _ \<Rightarrow> Some w)) of
      None \<Rightarrow> display_name sess | Some w \<Rightarrow> w)"

definition get_overview :: "env \<Rightarrow> session \<Rightarrow> dashboard_overview tx" where
  "get_overview E sess =
     bind_tx (get_balances E (customer_id sess)) (\<lambda>balances.
     bind_tx (find_by_customer (customer_id sess)) (\<lambda>app.
     bind_tx (count_in_progress (customer_id sess)) (\<lambda>in_progress.
     bind_tx (usd_send_volume_30d E (customer_id sess)) (\<lambda>volume.
       return_tx \<lparr>do_display_name = display_name_of sess app,
         do_business_name = (case Option.bind app oa_business of None \<Rightarrow> fallback_business_name
           | Some b \<Rightarrow> bd_legal_name b),
         do_account_id = (case Option.bind app oa_approved_summary of None \<Rightarrow> fallback_account_id
           | Some x \<Rightarrow> as_account_id x),
         do_balances = balances, do_balance_highlights = balance_highlights,
         do_stats = \<lparr>ds_volume30d = money_new volume Usd, ds_transfers_in_progress = in_progress,
           ds_payout_success_rate_percent = f64_lit 983 1, ds_avg_settlement_seconds = 402\<rparr>,
         do_pending_actions = pending_actions,
         do_working_capital_offer = Some \<lparr>wc_max_advance = money_new 3825000 Usd,
           wc_basis_description = ''Against Amsterdam Commodities receivable'',
           wc_monthly_rate_percent = f64_lit 25 1\<rparr>\<rparr>))))"

definition overview :: "env \<Rightarrow> session \<Rightarrow> dashboard_overview io" where
  "overview E sess = transaction (get_overview E sess)"

section \<open>What the overview shows\<close>

text \<open>Two databases that a customer cannot tell apart by its own rows.\<close>

definition same_for :: "uuid \<Rightarrow> db \<Rightarrow> db \<Rightarrow> bool" where
  "same_for c s t \<longleftrightarrow>
     filter (\<lambda>a. acc_customer a = c) (accounts s) = filter (\<lambda>a. acc_customer a = c) (accounts t) \<and>
     (\<forall>a \<in> set (accounts s). acc_customer a = c \<longrightarrow>
        filter (\<lambda>e. le_account e = acc_id a) (ledger_entries s) = filter (\<lambda>e. le_account e = acc_id a) (ledger_entries t)) \<and>
     find (\<lambda>a. ap_customer a = c) (applications s) = find (\<lambda>a. ap_customer a = c) (applications t) \<and>
     (\<forall>a. find (\<lambda>a. ap_customer a = c) (applications s) = Some a \<longrightarrow> assemble s a = assemble t a) \<and>
     filter (\<lambda>r. tr_customer r = c) (transfers s) = filter (\<lambda>r. tr_customer r = c) (transfers t)"

text \<open>The transactions that only read: they leave the state, and give the same answer on both.\<close>

definition reads_alike :: "db \<Rightarrow> db \<Rightarrow> 'a tx \<Rightarrow> bool" where
  "reads_alike s t m \<longleftrightarrow> (case m s of Inl e \<Rightarrow> m t = Inl e | Inr (x, s') \<Rightarrow> s' = s \<and> m t = Inr (x, t))"

lemma reads_alike_bind:
  "reads_alike s t m \<Longrightarrow> (\<And>x s'. m s = Inr (x, s') \<Longrightarrow> reads_alike s t (k x)) \<Longrightarrow> reads_alike s t (bind_tx m k)"
  by (fastforce simp: reads_alike_def bind_tx_def split: sum.splits prod.splits)

lemma reads_alike_gets: "f s = f t \<Longrightarrow> reads_alike s t (gets f)"
  by (simp add: reads_alike_def gets_def)

lemma reads_alike_return [simp]: "reads_alike s t (return_tx x)" "reads_alike s t (throw e)"
    "reads_alike s t (lift_result r)" "reads_alike s t (bigint n)"
  by (auto simp: reads_alike_def return_tx_def throw_def lift_result_def bigint_def split: sum.splits)

lemma reads_alike_map:
  "(\<And>x. x \<in> set xs \<Longrightarrow> reads_alike s t (f x)) \<Longrightarrow> reads_alike s t (map_tx f xs)"
  by (induction xs) (auto intro!: reads_alike_bind)

lemma filter_further: "filter P xs = filter P ys \<Longrightarrow> filter (\<lambda>x. P x \<and> Q x) xs = filter (\<lambda>x. P x \<and> Q x) ys"
  by (metis filter_filter)

lemma balances_alike:
  assumes "same_for c s t"
  shows "reads_alike s t (get_balances E c)"
proof -
  have rows: "filter (\<lambda>a. acc_customer a = c \<and> acc_currency a \<noteq> ''USDC'') (accounts s) =
      filter (\<lambda>a. acc_customer a = c \<and> acc_currency a \<noteq> ''USDC'') (accounts t)"
    by (rule filter_further) (use assms in \<open>simp add: same_for_def\<close>)
  have balance: "reads_alike s t (account_balance_minor (acc_id a))" if "a \<in> set (accounts t)" "acc_customer a = c" for a
  proof -
    have "a \<in> set (filter (\<lambda>a. acc_customer a = c) (accounts s))" using that assms by (simp add: same_for_def)
    then have "account_sum (acc_id a) s = account_sum (acc_id a) t"
      using assms by (simp add: same_for_def account_sum_def entries_sum_def)
    then show ?thesis
      unfolding account_balance_minor_def by (intro reads_alike_bind reads_alike_gets reads_alike_return)
  qed
  show ?thesis
    unfolding get_balances_def
    by (intro reads_alike_bind reads_alike_gets reads_alike_map reads_alike_return)
      (auto simp: rows gets_def intro: balance)
qed


end
