(* ===== verification/Routes.thy ===== *)
theory Routes
  imports Transfer_Service Wallet Dashboard Auth Recipients
begin

text \<open>
  The routes that only authenticate and delegate: \<open>src/routes.rs\<close>, \<open>domain/transfers/routes.rs\<close>,
  \<open>domain/onboarding/routes.rs\<close> and \<open>domain/dashboard.rs\<close>. The \<open>Session\<close> extractor runs before the body
  is read: a request without a live session reaches no handler.
\<close>

definition with_session ::
  "crypto \<Rightarrow> vault \<Rightarrow> env \<Rightarrow> string option \<Rightarrow> (session \<Rightarrow> 'a io) \<Rightarrow> 'a io" where
  "with_session P V E cookie' h =
     bind_io (transaction (authenticate P V E cookie')) h"

text \<open>A handler whose body, path or query was extracted by then, or rejected.\<close>

definition with_input :: "'b api_result \<Rightarrow> ('b \<Rightarrow> 'a io) \<Rightarrow> 'a io" where
  "with_input x h = (case x of Inl e \<Rightarrow> (\<lambda>s. (Inl e, s)) | Inr b \<Rightarrow> h b)"

section \<open>The session\<close>

definition get_session_route :: "crypto \<Rightarrow> vault \<Rightarrow> env \<Rightarrow> string option \<Rightarrow> session_response io" where
  "get_session_route P V E cookie' = with_session P V E cookie' (\<lambda>sess. return_io (to_response E sess))"

section \<open>Transfers\<close>

record create_transfer_body =
  tb_key :: "string option"
  tb_quote_id :: string
  tb_recipient_id :: string

text \<open>The header takes precedence over the key in the body; \<open>header\<close> is its text, if it is readable.\<close>

definition create_transfer_route ::
  "crypto \<Rightarrow> vault \<Rightarrow> env \<Rightarrow> nat \<Rightarrow> (nat \<Rightarrow> env) \<Rightarrow> config \<Rightarrow> string option \<Rightarrow> string option \<Rightarrow>
   create_transfer_body api_result \<Rightarrow> db \<Rightarrow> (transfer api_result \<times> db) option" where
  "create_transfer_route P V E n Es cfg cookie' header body s =
     (case transaction (authenticate P V E cookie') s of
        (Inl e, s1) \<Rightarrow> Some (Inl e, s1)
      | (Inr sess, s1) \<Rightarrow>
        (case body of Inl e \<Rightarrow> Some (Inl e, s1)
         | Inr b \<Rightarrow> create_transfer E n Es cfg sess
             \<lparr>ci_key = idempotency_key header (tb_key b), ci_quote = tb_quote_id b,
              ci_recipient = tb_recipient_id b\<rparr> s1))"

definition get_transfer_route ::
  "crypto \<Rightarrow> vault \<Rightarrow> env \<Rightarrow> string option \<Rightarrow> string api_result \<Rightarrow> transfer io" where
  "get_transfer_route P V E cookie' path =
     with_session P V E cookie' (\<lambda>sess. with_input path (\<lambda>i. get_transfer E sess i))"

definition timeline_route ::
  "crypto \<Rightarrow> vault \<Rightarrow> env \<Rightarrow> string option \<Rightarrow> string api_result \<Rightarrow> timeline io" where
  "timeline_route P V E cookie' path =
     with_session P V E cookie' (\<lambda>sess. with_input path (\<lambda>i. get_timeline E sess i))"

definition list_transfers_route ::
  "crypto \<Rightarrow> vault \<Rightarrow> env \<Rightarrow> string option \<Rightarrow> string option api_result \<Rightarrow> transfer list io" where
  "list_transfers_route P V E cookie' q =
     with_session P V E cookie' (\<lambda>sess. with_input q (\<lambda>st.
       case st of
         None \<Rightarrow> list_transfers sess None
       | Some v \<Rightarrow> (case parse_status v of Inl e \<Rightarrow> (\<lambda>s. (Inl e, s)) | Inr x \<Rightarrow> list_transfers sess (Some x))))"

record screening_decision_body =
  sd_decision :: string
  sd_reason :: "string option"

definition screening_decision_route ::
  "crypto \<Rightarrow> vault \<Rightarrow> env \<Rightarrow> string option \<Rightarrow> string api_result \<Rightarrow> screening_decision_body api_result \<Rightarrow> transfer io" where
  "screening_decision_route P V E cookie' path body =
     with_session P V E cookie' (\<lambda>sess. with_input path (\<lambda>i. with_input body (\<lambda>b.
       decide_screening E sess i (sd_decision b) (sd_reason b))))"

section \<open>Onboarding\<close>

definition get_application_route :: "crypto \<Rightarrow> vault \<Rightarrow> env \<Rightarrow> string option \<Rightarrow> onboarding_application io" where
  "get_application_route P V E cookie' = with_session P V E cookie' (get_application E)"

record save_business_body =
  sb_application :: "string option"
  sb_business :: business_details

definition save_business_route ::
  "crypto \<Rightarrow> vault \<Rightarrow> platform \<Rightarrow> env \<Rightarrow> string option \<Rightarrow> save_business_body api_result \<Rightarrow> onboarding_application io" where
  "save_business_route P V F E cookie' body =
     with_session P V E cookie' (\<lambda>sess. with_input body (\<lambda>b.
       save_business_details F E sess (sb_business b) (sb_application b)))"

record save_principals_body =
  sp_application :: "string option"
  sp_principals :: "principal list"

definition save_principals_route ::
  "crypto \<Rightarrow> vault \<Rightarrow> platform \<Rightarrow> env \<Rightarrow> string option \<Rightarrow> save_principals_body api_result \<Rightarrow> onboarding_application io" where
  "save_principals_route P V F E cookie' body =
     with_session P V E cookie' (\<lambda>sess. with_input body (\<lambda>b.
       save_principals F E sess (sp_principals b) (sp_application b)))"

definition submit_route ::
  "crypto \<Rightarrow> vault \<Rightarrow> env \<Rightarrow> string option \<Rightarrow> string option api_result \<Rightarrow> onboarding_application io" where
  "submit_route P V E cookie' body =
     with_session P V E cookie' (\<lambda>sess. with_input body (\<lambda>application. submit E sess application))"

definition retry_document_route ::
  "crypto \<Rightarrow> vault \<Rightarrow> env \<Rightarrow> string option \<Rightarrow> string api_result \<Rightarrow> uploaded_document io" where
  "retry_document_route P V E cookie' path =
     with_session P V E cookie' (\<lambda>sess. with_input path (\<lambda>i. retry_document_upload E sess i))"

text \<open>The reply of a removal is 204.\<close>

definition remove_document_route ::
  "crypto \<Rightarrow> vault \<Rightarrow> platform \<Rightarrow> config \<Rightarrow> env \<Rightarrow> string option \<Rightarrow> string api_result \<Rightarrow> nat io_files" where
  "remove_document_route P V F cfg E cookie' path = (\<lambda>(s, fs).
     case transaction (authenticate P V E cookie') s of
       (Inl e, s1) \<Rightarrow> (Inl e, s1, fs)
     | (Inr sess, s1) \<Rightarrow>
       (case path of Inl e \<Rightarrow> (Inl e, s1, fs)
        | Inr i \<Rightarrow>
          (case remove_document F cfg E sess i (s1, fs) of
             (Inl e, s2, fs2) \<Rightarrow> (Inl e, s2, fs2)
           | (Inr _, s2, fs2) \<Rightarrow> (Inr 204, s2, fs2))))"

section \<open>The dashboard\<close>

definition overview_route :: "crypto \<Rightarrow> vault \<Rightarrow> env \<Rightarrow> string option \<Rightarrow> dashboard_overview io" where
  "overview_route P V E cookie' = with_session P V E cookie' (overview E)"

section \<open>What authentication guards\<close>

lemma refused_session:
  "authenticate P V E cookie' s = Inl e \<Longrightarrow> with_session P V E cookie' h s = (Inl e, s)"
  by (simp add: with_session_def bind_io_def transaction_def)

lemma authenticate_reads: "authenticate P V E cookie' s = Inr (sess, s') \<Longrightarrow> s' = s"
  by (auto simp: authenticate_def tx_simps)

lemma authenticated_session:
  "authenticate P V E cookie' s = Inr (sess, s') \<Longrightarrow> with_session P V E cookie' h s = h sess s"
  using authenticate_reads [of P V E cookie' s sess s'] by (simp add: with_session_def bind_io_def transaction_def)

text \<open>The only refusal is the one of a missing session.\<close>

lemma authenticate_Inl: "authenticate P V E cookie' s = Inl e \<Longrightarrow> e = Err not_signed_in"
  by (auto simp: authenticate_def tx_simps)

text \<open>
  A request without a live session does nothing: each of these routes answers it with 401 and leaves
  database and files as they were, whatever its body, path and query.
\<close>

lemma unauthenticated_requests_do_nothing:
  assumes "authenticate P V E cookie' s = Inl e"
  shows "get_session_route P V E cookie' s = (Inl (Err not_signed_in), s) \<and>
    create_transfer_route P V E n Es cfg cookie' header body s = Some (Inl (Err not_signed_in), s) \<and>
    get_transfer_route P V E cookie' path s = (Inl (Err not_signed_in), s) \<and>
    timeline_route P V E cookie' path s = (Inl (Err not_signed_in), s) \<and>
    list_transfers_route P V E cookie' q s = (Inl (Err not_signed_in), s) \<and>
    screening_decision_route P V E cookie' path decision s = (Inl (Err not_signed_in), s) \<and>
    get_application_route P V E cookie' s = (Inl (Err not_signed_in), s) \<and>
    save_business_route P V F E cookie' business s = (Inl (Err not_signed_in), s) \<and>
    save_principals_route P V F E cookie' people s = (Inl (Err not_signed_in), s) \<and>
    submit_route P V E cookie' which s = (Inl (Err not_signed_in), s) \<and>
    retry_document_route P V E cookie' path s = (Inl (Err not_signed_in), s) \<and>
    remove_document_route P V F cfg E cookie' path (s, fs) = (Inl (Err not_signed_in), s, fs) \<and>
    overview_route P V E cookie' s = (Inl (Err not_signed_in), s) \<and>
    fst (into_response not_signed_in) = 401"
proof -
  have e: "authenticate P V E cookie' s = Inl (Err not_signed_in)" using assms authenticate_Inl by blast
  show ?thesis
    by (simp add: refused_session [OF e] e get_session_route_def create_transfer_route_def get_transfer_route_def timeline_route_def
        list_transfers_route_def screening_decision_route_def get_application_route_def save_business_route_def
        save_principals_route_def submit_route_def retry_document_route_def remove_document_route_def
        overview_route_def transaction_def)
      (simp add: not_signed_in_def unauthorized_def into_response_new)
qed

text \<open>
  The decision on a compliance hold consults neither the role nor the customer of the caller, only its
  user, for the audit log.
\<close>

lemma decision_ignores_the_caller:
  "user_id sess = user_id sess' \<Longrightarrow> decide_screening E sess i decision reason = decide_screening E sess' i decision reason"
  by (simp add: decide_screening_def)

end
