(* ===== verification/Surface_Scenarios.thy ===== *)
theory Surface_Scenarios
  imports Onboarding_Scenarios Routes
begin

text \<open>Two databases that one customer cannot tell apart: the inhabited case of \<open>Dashboard\<close>.\<close>

definition busier_db :: db where
  "busier_db = desk_db\<lparr>accounts := accounts desk_db @ [\<lparr>acc_id = 90, acc_customer = 2, acc_currency = ''NGN''\<rparr>],
     ledger_entries := ledger_entries desk_db @ [\<lparr>le_id = 91, le_account = 90, le_transfer = None, le_trade = None,
       le_inbound = Some 92, le_amount = 7, le_currency = ''NGN'', le_running = 7,
       le_description = ''pay-in'', le_reversal_of = None, le_posted_at = 0\<rparr>],
     documents := documents desk_db @ [sample_document 93 2]\<rparr>"


end
