(* ===== verification/Http.thy ===== *)
theory Http
  imports Partners
begin

text \<open>
  \<open>src/http/mod.rs\<close> and the middleware of \<open>src/lib.rs\<close>: what a client sees of a request that does not
  parse, of an error, a panic and a timeout. The extractors of \<open>axum\<close> are third-party: their
  rejections come as values with the texts they carry.
\<close>

section \<open>Rejected requests\<close>

datatype json_rejection =
    JsonDataError string
  | JsonSyntaxError string
  | OtherJsonRejection nat string  \<comment> \<open>status and text\<close>

datatype path_rejection = FailedToDeserializePathParams string | OtherPathRejection string

definition request_shape_error :: "nat \<Rightarrow> string \<Rightarrow> api_error" where
  "request_shape_error st message =
     (if st = 413 then with_status st (validation message) else validation message)"

definition sanitize_json_rejection :: "json_rejection \<Rightarrow> api_error" where
  "sanitize_json_rejection rej =
     (case rej of
        JsonDataError _ \<Rightarrow> validation ''Malformed JSON payload or invalid field format.''
      | JsonSyntaxError _ \<Rightarrow> validation ''Malformed JSON payload or invalid field format.''
      | OtherJsonRejection st text' \<Rightarrow> request_shape_error st text')"

definition sanitize_query_rejection :: "string \<Rightarrow> api_error" where
  "sanitize_query_rejection rej = validation ''Invalid query parameters.''"

definition sanitize_path_rejection :: "path_rejection \<Rightarrow> api_error" where
  "sanitize_path_rejection rej =
     (case rej of
        FailedToDeserializePathParams _ \<Rightarrow> validation ''Invalid path parameters.''
      | OtherPathRejection _ \<Rightarrow> server_error)"

text \<open>\<open>Body\<close>, \<open>Query\<close>, \<open>Path\<close> and \<open>Multipart\<close>: the extracted value, or the sanitised rejection.\<close>

definition body_extractor :: "json_rejection + 'a \<Rightarrow> 'a api_result" where
  "body_extractor r = (case r of Inl rej \<Rightarrow> Inl (Err (sanitize_json_rejection rej)) | Inr v \<Rightarrow> Inr v)"

definition query_extractor :: "string + 'a \<Rightarrow> 'a api_result" where
  "query_extractor r = (case r of Inl rej \<Rightarrow> Inl (Err (sanitize_query_rejection rej)) | Inr v \<Rightarrow> Inr v)"

definition path_extractor :: "path_rejection + 'a \<Rightarrow> 'a api_result" where
  "path_extractor r = (case r of Inl rej \<Rightarrow> Inl (Err (sanitize_path_rejection rej)) | Inr v \<Rightarrow> Inr v)"

definition multipart_extractor :: "(nat \<times> string) + 'a \<Rightarrow> 'a api_result" where
  "multipart_extractor r =
     (case r of Inl (st, text') \<Rightarrow> Inl (Err (request_shape_error st text')) | Inr v \<Rightarrow> Inr v)"

section \<open>Responses\<close>

record response =
  rs_status :: nat
  rs_content_type :: "string option"
  rs_content_length :: "string option"
  rs_body :: string

definition error_code_str :: "error_code \<Rightarrow> string" where
  "error_code_str c =
     (case c of Network \<Rightarrow> ''NETWORK'' | Timeout \<Rightarrow> ''TIMEOUT'' | Validation \<Rightarrow> ''VALIDATION''
      | NotFound \<Rightarrow> ''NOT_FOUND'' | Conflict \<Rightarrow> ''CONFLICT'' | Unauthorized \<Rightarrow> ''UNAUTHORIZED''
      | Forbidden \<Rightarrow> ''FORBIDDEN'' | ComplianceHold \<Rightarrow> ''COMPLIANCE_HOLD''
      | PartnerFailure \<Rightarrow> ''PARTNER_FAILURE'' | RateExpired \<Rightarrow> ''RATE_EXPIRED''
      | ServerError \<Rightarrow> ''SERVER_ERROR'')"

definition error_json :: "api_error \<Rightarrow> json" where
  "error_json e = JObj [(''code'', JStr (error_code_str (err_code e))), (''message'', JStr (err_message e)),
     (''retryable'', JBool (err_retryable e))]"

definition error_response :: "crypto \<Rightarrow> api_error \<Rightarrow> response" where
  "error_response P e = \<lparr>rs_status = fst (into_response e), rs_content_type = Some ''application/json'',
     rs_content_length = None, rs_body = write_json P (error_json e)\<rparr>"

section \<open>Middleware\<close>

definition max_error_body_bytes :: nat where
  "max_error_body_bytes = 64 * 1024"

text \<open>\<open>request_id\<close> is the header set on the way in, if it is readable text.\<close>

definition attach_request_id :: "crypto \<Rightarrow> string option \<Rightarrow> response \<Rightarrow> response" where
  "attach_request_id P request_id r =
     (let rid = (case request_id of None \<Rightarrow> ''unknown'' | Some i \<Rightarrow> i) in
      if rs_status r < 400 \<or> 600 \<le> rs_status r then r
      else if \<not> (case rs_content_type r of None \<Rightarrow> False | Some ct \<Rightarrow> prefix ''application/json'' ct) then r
      else if max_error_body_bytes < length (rs_body r) then r\<lparr>rs_content_length := None, rs_body := []\<rparr>
      else case read_json P (rs_body r) of
        None \<Rightarrow> r
      | Some value \<Rightarrow>
          let new_body = write_json P (json_insert ''requestId'' (JStr rid) value)
          in r\<lparr>rs_content_length := Some (nat_to_string (length new_body)), rs_body := new_body\<rparr>)"

datatype outcome = Responded response | Failed api_error | Panicked string | TimedOut

definition timeout_error :: api_error where
  "timeout_error = with_status 408 (api_error_new Timeout ''The request took too long. Try again in a moment.'')"

definition enforce_timeout :: "crypto \<Rightarrow> response option \<Rightarrow> response" where
  "enforce_timeout P r = (case r of Some x \<Rightarrow> x | None \<Rightarrow> error_response P timeout_error)"

definition handle_panic :: "crypto \<Rightarrow> string \<Rightarrow> response" where
  "handle_panic P payload = error_response P server_error"

definition route_not_found :: api_error where
  "route_not_found = not_found ''That endpoint doesn't exist.''"

definition method_not_allowed :: api_error where
  "method_not_allowed = with_status 405 (validation ''That HTTP method isn't supported on this endpoint.'')"

text \<open>The layers around a handler: panics are caught inside the timeout, and that inside the request id.\<close>

definition serve :: "crypto \<Rightarrow> string option \<Rightarrow> outcome \<Rightarrow> response" where
  "serve P request_id out = attach_request_id P request_id (enforce_timeout P
     (case out of
        Responded r \<Rightarrow> Some r
      | Failed e \<Rightarrow> Some (error_response P e)
      | Panicked payload \<Rightarrow> Some (handle_panic P payload)
      | TimedOut \<Rightarrow> None))"

section \<open>What a client sees\<close>

text \<open>The error an unsuccessful outcome stands for.\<close>

fun error_of :: "outcome \<Rightarrow> api_error option" where
  "error_of (Responded r) = None"
| "error_of (Failed e) = Some e"
| "error_of (Panicked payload) = Some server_error"
| "error_of TimedOut = Some timeout_error"

text \<open>Serde's and the panic's texts reach no response.\<close>

lemma nothing_internal_is_shown:
  "sanitize_json_rejection (JsonDataError x) = sanitize_json_rejection (JsonSyntaxError y)"
  "sanitize_query_rejection x = sanitize_query_rejection y"
  "sanitize_path_rejection (FailedToDeserializePathParams x) = sanitize_path_rejection (FailedToDeserializePathParams y)"
  "sanitize_path_rejection (OtherPathRejection x) = sanitize_path_rejection (OtherPathRejection y)"
  "serve P i (Panicked x) = serve P i (Panicked y)"
  by (simp_all add: sanitize_json_rejection_def sanitize_query_rejection_def sanitize_path_rejection_def serve_def
      handle_panic_def)

lemma serve_error: "error_of out = Some e \<Longrightarrow> serve P i out = attach_request_id P i (error_response P e)"
  by (cases out) (auto simp: serve_def enforce_timeout_def handle_panic_def)

text \<open>
  C38: every failure reaches the client in one shape: an error, a panic or a timeout of a handler is
  answered with the status of the error and a JSON body that holds its code, message and retry flag and
  the identifier of the request, with the length of that body as the content length; a successful
  response passes unchanged. (Hypotheses: printing the error's JSON, with and without the identifier, and
  reading it back gives the same; its body is within the buffer and its status is an error status.)
\<close>

theorem failures_have_one_shape:
  assumes json: "read_json P (write_json P (error_json e)) = Some (error_json e)"
      "read_json P (write_json P (json_insert ''requestId'' (JStr rid) (error_json e))) =
         Some (json_insert ''requestId'' (JStr rid) (error_json e))"
    and e: "error_of out = Some e" and st: "400 \<le> fst (into_response e)" "fst (into_response e) < 600"
    and small: "length (write_json P (error_json e)) \<le> max_error_body_bytes"
  shows "\<exists>v. read_json P (rs_body (serve P (Some rid) out)) = Some v \<and>
    rs_status (serve P (Some rid) out) = fst (into_response e) \<and>
    str_field v ''code'' = Some (error_code_str (err_code e)) \<and> str_field v ''message'' = Some (err_message e) \<and>
    json_get v ''retryable'' = Some (JBool (err_retryable e)) \<and> str_field v ''requestId'' = Some rid \<and>
    rs_content_length (serve P (Some rid) out) = Some (nat_to_string (length (rs_body (serve P (Some rid) out)))) \<and>
    (rs_status r < 400 \<longrightarrow> serve P (Some rid) (Responded r) = r)"
proof -
  let ?v = "json_insert ''requestId'' (JStr rid) (error_json e)"
  have "serve P (Some rid) out = \<lparr>rs_status = fst (into_response e), rs_content_type = Some ''application/json'',
      rs_content_length = Some (nat_to_string (length (write_json P ?v))), rs_body = write_json P ?v\<rparr>"
    using json st small by (simp add: serve_error [OF e] attach_request_id_def error_response_def Let_def)
  moreover have "rs_status r < 400 \<longrightarrow> serve P (Some rid) (Responded r) = r"
    by (simp add: serve_def enforce_timeout_def attach_request_id_def)
  ultimately show ?thesis
    using json by (intro exI [of _ ?v]) (simp add: str_field_def error_json_def)
qed

text \<open>A handler that panics, with a printer of just the values at hand.\<close>

definition tiny_crypto :: "json \<Rightarrow> json \<Rightarrow> crypto" where
  "tiny_crypto v w = \<lparr>sha256 = (\<lambda>b. b), b64_encode = (\<lambda>_. []), b64_decode = (\<lambda>_. None),
     rsa_verify = (\<lambda>key digest sg. False), from_pem = (\<lambda>_. None), from_pkcs1_pem = (\<lambda>_. None),
     read_json = [''1'' \<mapsto> v, ''{2}'' \<mapsto> w], write_json = (\<lambda>x. if x = v then ''1'' else ''{2}''), unicode_word = (\<lambda>_. False)\<rparr>"

theorem failures_have_one_shape_witness:
  "\<exists>P v. read_json P (rs_body (serve P (Some ''r-1'') (Panicked ''index out of bounds''))) = Some v \<and>
     rs_status (serve P (Some ''r-1'') (Panicked ''index out of bounds'')) = 500 \<and>
     str_field v ''code'' = Some ''SERVER_ERROR'' \<and> str_field v ''requestId'' = Some ''r-1''"
proof -
  let ?v = "error_json server_error" let ?w = "json_insert ''requestId'' (JStr ''r-1'') ?v"
  let ?P = "tiny_crypto ?v ?w"
  have "?w \<noteq> ?v" by (simp add: error_json_def)
  then have json: "read_json ?P (write_json ?P ?v) = Some ?v" "read_json ?P (write_json ?P ?w) = Some ?w"
    by (simp_all add: tiny_crypto_def)
  have st: "fst (into_response server_error) = 500" by (simp add: into_response_def server_error_def api_error_new_def)
  have small: "length (write_json ?P ?v) \<le> max_error_body_bytes" by (simp add: tiny_crypto_def max_error_body_bytes_def)
  have "\<exists>v. read_json ?P (rs_body (serve ?P (Some ''r-1'') (Panicked ''index out of bounds''))) = Some v \<and>
      rs_status (serve ?P (Some ''r-1'') (Panicked ''index out of bounds'')) = fst (into_response server_error) \<and>
      str_field v ''code'' = Some (error_code_str (err_code server_error)) \<and> str_field v ''requestId'' = Some ''r-1''"
    using failures_have_one_shape [OF json, of "Panicked ''index out of bounds''"] st small by auto
  then show ?thesis unfolding st by (auto simp: error_code_str_def)
qed

end
