(* ===== verification/Vault_Client.thy ===== *)
theory Vault_Client
  imports Units Errors Store
begin

text \<open>
  \<open>src/settlement/client.rs\<close> and \<open>error.rs\<close>: the operator's calls into the vault and how their failures
  reach the API. The node is the parameter \<open>send\<close>: what sending a transaction and waiting for its
  receipt answers.
\<close>

section \<open>Failures\<close>

text \<open>The vault's errors that the code tells apart (from its ABI); the others by their name.\<close>

datatype vault_error =
    QuoteExpired bytes nat
  | QuoteLockTooOld bytes nat nat
  | QuoteAlreadyUsed bytes
  | QuoteAlreadyLocked bytes
  | RefAlreadyUsed bytes
  | QuoteIsCancelled bytes
  | QuoteNotLocked bytes
  | InvalidStatus bytes nat nat
  | NotFunded bytes
  | AlreadyFunded bytes
  | RateDivergenceTooHigh bytes nat nat
  | EnforcedPause
  | ExceedsDailyLimit nat nat
  | ExceedsPerSettlementLimit nat nat
  | OtherVaultError string

datatype settlement_error =
    VaultReverted vault_error
  | Reverted bytes
  | QuoteExpiredLocally
  | UnitsFailed units_error
  | RpcFailed string

text \<open>\<open>alloy::contract::Error\<close>: a revert that decodes to one of the vault's errors, or anything else.\<close>

datatype contract_error = Decoded vault_error | Undecoded string

definition from_contract_error :: "contract_error \<Rightarrow> settlement_error" where
  "from_contract_error e = (case e of Decoded v \<Rightarrow> VaultReverted v | Undecoded m \<Rightarrow> RpcFailed m)"

definition quote_expired_error :: api_error where
  "quote_expired_error = rate_expired ''This quote has expired. Request a new quote.''"

definition map_vault_error :: "vault_error \<Rightarrow> api_error option" where
  "map_vault_error e =
     (case e of
        QuoteExpired _ _ \<Rightarrow> Some quote_expired_error
      | QuoteLockTooOld _ _ _ \<Rightarrow> Some quote_expired_error
      | QuoteAlreadyUsed _ \<Rightarrow> Some (conflict ''This transfer is not in a state that allows that action.'')
      | QuoteAlreadyLocked _ \<Rightarrow> Some (conflict ''This transfer is not in a state that allows that action.'')
      | RefAlreadyUsed _ \<Rightarrow> Some (conflict ''This transfer is not in a state that allows that action.'')
      | QuoteIsCancelled _ \<Rightarrow> Some (conflict ''This transfer is not in a state that allows that action.'')
      | QuoteNotLocked _ \<Rightarrow> Some (conflict ''This transfer is not in a state that allows that action.'')
      | InvalidStatus _ _ _ \<Rightarrow> Some (conflict ''This transfer is not in a state that allows that action.'')
      | NotFunded _ \<Rightarrow> Some (conflict ''This transfer is not in a state that allows that action.'')
      | AlreadyFunded _ \<Rightarrow> Some (conflict ''This transfer is not in a state that allows that action.'')
      | RateDivergenceTooHigh _ _ _ \<Rightarrow> Some (with_retryable False
          (api_error_new PartnerFailure ''We can't honour this rate right now. Request a new quote.''))
      | EnforcedPause \<Rightarrow> Some (api_error_new PartnerFailure ''Settlement is paused. Try again later.'')
      | ExceedsDailyLimit _ _ \<Rightarrow>
          Some (compliance_hold ''This transfer exceeds the current settlement limit and needs review.'')
      | ExceedsPerSettlementLimit _ _ \<Rightarrow>
          Some (compliance_hold ''This transfer exceeds the current settlement limit and needs review.'')
      | OtherVaultError _ \<Rightarrow> None)"

definition from_settlement_error :: "settlement_error \<Rightarrow> api_error" where
  "from_settlement_error e =
     (case e of
        QuoteExpiredLocally \<Rightarrow> quote_expired_error
      | VaultReverted v \<Rightarrow> (case map_vault_error v of Some api \<Rightarrow> api | None \<Rightarrow> server_error)
      | RpcFailed _ \<Rightarrow>
          api_error_new PartnerFailure ''Settlement is temporarily unavailable. Try again in a moment.''
      | Reverted _ \<Rightarrow> server_error
      | UnitsFailed _ \<Rightarrow> server_error)"

section \<open>Calls\<close>

record lock_quote_terms =
  lq_quote_id :: bytes
  lq_receive_currency :: bytes
  lq_receive_decimals :: nat
  lq_expires_at :: nat
  lq_rate :: rate_e8
  lq_usdc_amount :: nat
  lq_fee_usdc :: nat

definition locked_amount :: "lock_quote_terms \<Rightarrow> settlement_error + nat" where
  "locked_amount q =
     (case receive_amount_minor (lq_usdc_amount q) (lq_rate q) (lq_receive_decimals q) of
        Inl e \<Rightarrow> Inl (UnitsFailed e) | Inr v \<Rightarrow> Inr v)"

record quote_input =
  qi_quote_id :: bytes
  qi_receive_currency :: bytes
  qi_expires_at :: nat
  qi_rate :: nat
  qi_usdc_amount :: nat
  qi_fee_usdc :: nat
  qi_receive_amount_minor :: nat

datatype vault_call =
    LockQuote bytes quote_input
  | Settle bytes bytes nat
  | CancelQuote bytes
  | Refund bytes bytes

record receipt =
  rt_status :: bool
  rt_transaction_hash :: bytes

text \<open>Sending fails with a contract error; waiting for the receipt fails with the transport's text.\<close>

type_synonym vault_node = "vault_call \<Rightarrow> contract_error + (string + receipt)"

definition mined :: "receipt \<Rightarrow> settlement_error + bytes" where
  "mined r = (if rt_status r then Inr (rt_transaction_hash r) else Inl (Reverted (rt_transaction_hash r)))"

definition call_vault :: "vault_node \<Rightarrow> vault_call \<Rightarrow> settlement_error + bytes" where
  "call_vault send c =
     (case send c of Inl e \<Rightarrow> Inl (from_contract_error e)
      | Inr (Inl m) \<Rightarrow> Inl (RpcFailed m)
      | Inr (Inr r) \<Rightarrow> mined r)"

definition unix_seconds :: "env \<Rightarrow> nat" where
  "unix_seconds E = nat (now E div 1000)"

definition quote_input_of :: "lock_quote_terms \<Rightarrow> nat \<Rightarrow> quote_input" where
  "quote_input_of q amount = \<lparr>qi_quote_id = lq_quote_id q, qi_receive_currency = lq_receive_currency q,
     qi_expires_at = lq_expires_at q, qi_rate = rate_get (lq_rate q), qi_usdc_amount = lq_usdc_amount q,
     qi_fee_usdc = lq_fee_usdc q, qi_receive_amount_minor = amount\<rparr>"

definition lock_quote :: "vault_node \<Rightarrow> env \<Rightarrow> bytes \<Rightarrow> lock_quote_terms \<Rightarrow> settlement_error + bytes" where
  "lock_quote send E ref q =
     (if lq_expires_at q \<le> unix_seconds E then Inl QuoteExpiredLocally
      else case locked_amount q of Inl e \<Rightarrow> Inl e
      | Inr amount \<Rightarrow> call_vault send (LockQuote ref (quote_input_of q amount)))"

definition settle :: "vault_node \<Rightarrow> bytes \<Rightarrow> bytes \<Rightarrow> nat \<Rightarrow> settlement_error + bytes" where
  "settle send ref partner amount = call_vault send (Settle ref partner amount)"

definition cancel_quote :: "vault_node \<Rightarrow> bytes \<Rightarrow> settlement_error + bytes" where
  "cancel_quote send ref = call_vault send (CancelQuote ref)"

definition refund :: "vault_node \<Rightarrow> bytes \<Rightarrow> bytes \<Rightarrow> settlement_error + bytes" where
  "refund send ref recipient = call_vault send (Refund ref recipient)"

section \<open>What a call promises\<close>

lemma call_vault_Inr:
  "call_vault send c = Inr h \<longleftrightarrow> send c = Inr (Inr \<lparr>rt_status = True, rt_transaction_hash = h\<rparr>)"
  by (auto simp: call_vault_def mined_def split: sum.splits if_splits)

text \<open>
  What the vault decoded or the node said never reaches the client: whatever the failure, the
  response is one of seven fixed ones.
\<close>

lemma settlement_errors_disclose_nothing:
  "from_settlement_error e \<in> {server_error, quote_expired_error,
     conflict ''This transfer is not in a state that allows that action.'',
     with_retryable False (api_error_new PartnerFailure ''We can't honour this rate right now. Request a new quote.''),
     api_error_new PartnerFailure ''Settlement is paused. Try again later.'',
     compliance_hold ''This transfer exceeds the current settlement limit and needs review.'',
     api_error_new PartnerFailure ''Settlement is temporarily unavailable. Try again in a moment.''}"
  by (cases e) (auto simp: from_settlement_error_def map_vault_error_def split: vault_error.split option.split)

text \<open>
  C37: a quote reaches the vault exactly when it has not expired, and then with the receive amount the
  vault recomputes: the exact product rounded down; a lock reported as done was mined with that input.
  A vault that answers a repeated lock by one of its two reuse errors makes the retry a conflict.
\<close>

theorem lock_quote_is_exact:
  assumes rate: "rate_new n = Inr (lq_rate q)" and range: "lq_receive_decimals q \<le> 18" "lq_usdc_amount q < u128_size"
    and run: "lock_quote send E ref q = r"
  shows "\<exists>v. v * 10 ^ 14 \<le> lq_usdc_amount q * n * 10 ^ lq_receive_decimals q \<and>
    lq_usdc_amount q * n * 10 ^ lq_receive_decimals q < (v + 1) * 10 ^ 14 \<and>
    (if lq_expires_at q \<le> unix_seconds E then r = Inl QuoteExpiredLocally
     else r = call_vault send (LockQuote ref (quote_input_of q v))) \<and>
    (\<forall>h. r = Inr h \<longleftrightarrow> unix_seconds E < lq_expires_at q \<and>
       send (LockQuote ref (quote_input_of q v)) = Inr (Inr \<lparr>rt_status = True, rt_transaction_hash = h\<rparr>)) \<and>
    (unix_seconds E < lq_expires_at q \<and>
     send (LockQuote ref (quote_input_of q v)) \<in> {Inl (Decoded (RefAlreadyUsed ref)), Inl (Decoded (QuoteAlreadyLocked ref))} \<longrightarrow>
       (\<exists>e. r = Inl e \<and> err_code (from_settlement_error e) = Conflict))"
proof -
  from receive_amount_total [OF rate range] obtain v where
    v: "receive_amount_minor (lq_usdc_amount q) (lq_rate q) (lq_receive_decimals q) = Inr v"
    "v * 10 ^ 14 \<le> lq_usdc_amount q * n * 10 ^ lq_receive_decimals q"
    "lq_usdc_amount q * n * 10 ^ lq_receive_decimals q < (v + 1) * 10 ^ 14" by blast
  have r: "r = (if lq_expires_at q \<le> unix_seconds E then Inl QuoteExpiredLocally
      else call_vault send (LockQuote ref (quote_input_of q v)))"
    using run v(1) by (auto simp: lock_quote_def locked_amount_def)
  have reuse: "err_code (from_settlement_error (from_contract_error (Decoded e))) = Conflict"
    if "e \<in> {RefAlreadyUsed ref, QuoteAlreadyLocked ref}" for e
    using that by (auto simp: from_settlement_error_def from_contract_error_def map_vault_error_def)
  show ?thesis
  proof (cases "lq_expires_at q \<le> unix_seconds E")
    case True
    with r v(2,3) show ?thesis by (intro exI [of _ v]) simp
  next
    case False
    with r have r': "r = call_vault send (LockQuote ref (quote_input_of q v))" by simp
    have "\<exists>e. r = Inl e \<and> err_code (from_settlement_error e) = Conflict"
      if "send (LockQuote ref (quote_input_of q v)) \<in> {Inl (Decoded (RefAlreadyUsed ref)), Inl (Decoded (QuoteAlreadyLocked ref))}"
      using that reuse unfolding r' by (auto simp: call_vault_def)
    with False r' v(2,3) call_vault_Inr show ?thesis by (intro exI [of _ v]) auto
  qed
qed

definition sample_terms :: lock_quote_terms where
  "sample_terms = \<lparr>lq_quote_id = [], lq_receive_currency = [], lq_receive_decimals = 2, lq_expires_at = 100,
     lq_rate = RateE8 164525000000, lq_usdc_amount = 1000000, lq_fee_usdc = 0\<rparr>"

text \<open>One dollar at 1645.25 locks 1645.25 naira, in kobo.\<close>

theorem lock_quote_is_exact_witness:
  "\<exists>E. unix_seconds E = 50 \<and> (\<exists>v. v * 10 ^ 14 \<le> 16452500000000000000 \<and> 16452500000000000000 < (v + 1) * (10::nat) ^ 14 \<and>
     lock_quote (\<lambda>c. Inr (Inr \<lparr>rt_status = True, rt_transaction_hash = [7]\<rparr>)) E [1] sample_terms = Inr [7])"
proof -
  define E :: env where "E = \<lparr>now = 50000, draws = (\<lambda>_. []), iso = (\<lambda>_. []), uuid_str = (\<lambda>_. []),
     parse_uuid = (\<lambda>_. None), parse_rfc3339 = (\<lambda>_. None), keccak256 = (\<lambda>_. [])\<rparr>"
  have E: "unix_seconds E = 50" by (simp add: E_def unix_seconds_def)
  have ok: "rate_new 164525000000 = Inr (lq_rate sample_terms)" "lq_receive_decimals sample_terms \<le> 18"
    "lq_usdc_amount sample_terms < u128_size"
    by (simp_all add: sample_terms_def rate_new_def max_rate_e8_def u128_size_def)
  from lock_quote_is_exact [OF ok refl, where send = "\<lambda>c. Inr (Inr \<lparr>rt_status = True, rt_transaction_hash = [7]\<rparr>)"
    and E = E and ref = "[1]"]
  obtain v where v: "v * 10 ^ 14 \<le> lq_usdc_amount sample_terms * 164525000000 * 10 ^ lq_receive_decimals sample_terms"
    "lq_usdc_amount sample_terms * 164525000000 * 10 ^ lq_receive_decimals sample_terms < (v + 1) * 10 ^ 14"
    and run: "lock_quote (\<lambda>c. Inr (Inr \<lparr>rt_status = True, rt_transaction_hash = [7]\<rparr>)) E [1] sample_terms = Inr [7] \<longleftrightarrow>
      unix_seconds E < lq_expires_at sample_terms" by blast
  from run E have "lock_quote (\<lambda>c. Inr (Inr \<lparr>rt_status = True, rt_transaction_hash = [7]\<rparr>)) E [1] sample_terms = Inr [7]"
    by (simp add: sample_terms_def)
  moreover have "v * 10 ^ 14 \<le> 16452500000000000000" "16452500000000000000 < (v + 1) * (10::nat) ^ 14"
    using v by (simp_all add: sample_terms_def)
  ultimately show ?thesis using E by blast
qed

end
