(* ===== verification/System.thy ===== *)
theory System
  imports Interleaving Document_Properties Auth_Properties
begin

text \<open>
  The whole backend as one machine: the transactions on money of \<open>Interleaving\<close> together with those of
  sign-up, sessions and onboarding. A state is the database with what the requests under way have read:
  the applications read so far, and those whose review a request has opened.
\<close>

section \<open>Transactions on money leave the registry alone\<close>

text \<open>Users, customers apart from their limits, sessions, and all that belongs to an application.\<close>

definition registry :: "db \<Rightarrow> (user_row list \<times> (uuid \<times> uuid \<times> string) list \<times> session_row list) \<times>
    application_row list \<times> principal_row list \<times> document_row list \<times> kyb_check_row list" where
  "registry s = (identities s, applications s, principals s, documents s, kyb_checks s)"

lemma registry_cong:
  "users s' = users s \<Longrightarrow> sessions s' = sessions s \<Longrightarrow> map account_of (customers s') = map account_of (customers s) \<Longrightarrow>
   applications s' = applications s \<Longrightarrow> principals s' = principals s \<Longrightarrow> documents s' = documents s \<Longrightarrow>
   kyb_checks s' = kyb_checks s \<Longrightarrow> registry s' = registry s"
  by (simp add: registry_def identities_def)

abbreviation aloof :: "'a tx \<Rightarrow> bool" where
  "aloof \<equiv> upholds (keeps registry)"

lemma aloof_modify: "(\<And>s. registry (f s) = registry s) \<Longrightarrow> aloof (modify f)"
  by (rule modify_upholds) (simp add: keeps_def)

lemma aloof_writes:
  "aloof fresh_id"
  "aloof (modify (\<lambda>s. s\<lparr>accounts := f1 s\<rparr>))" "aloof (modify (\<lambda>s. s\<lparr>ledger_entries := f2 s\<rparr>))"
  "aloof (modify (\<lambda>s. s\<lparr>audit_log := f3 s\<rparr>))" "aloof (modify (\<lambda>s. s\<lparr>recipients := f4 s\<rparr>))"
  "aloof (modify (\<lambda>s. s\<lparr>quotes := f5 s\<rparr>))" "aloof (modify (\<lambda>s. s\<lparr>transfers := f6 s\<rparr>))"
  "aloof (modify (\<lambda>s. s\<lparr>transfer_history := f7 s\<rparr>))" "aloof (modify (\<lambda>s. s\<lparr>settlement_trades := f8 s\<rparr>))"
  "aloof (modify (\<lambda>s. s\<lparr>collections := f9 s\<rparr>))" "aloof (modify (\<lambda>s. s\<lparr>inbound_payments := f10 s\<rparr>))"
  "aloof (modify (\<lambda>s. s\<lparr>virtual_accounts := f11 s\<rparr>))" "aloof (modify (\<lambda>s. s\<lparr>settlement_events := f12 s\<rparr>))"
  by (auto simp: upholds_def tx_simps keeps_def intro: registry_cong)

lemma aloof_reads: "(\<And>a t. m s = Inr (a, t) \<Longrightarrow> t = s) \<Longrightarrow> m s = Inr (b, u) \<Longrightarrow> registry u = registry s"
  by auto

lemma aloof_ledger:
  "aloof (write_audit E e)" "aloof (get_or_create_account_by_code c k)" "aloof (get_or_create_account c y)"
  "aloof (append_entry E a x k d src rv)" "aloof (account_balance_minor a)"
proof -
  show "aloof (write_audit E e)" unfolding write_audit_def by (rule aloof_writes)
  show code: "aloof (get_or_create_account_by_code c k)" for k
    unfolding get_or_create_account_by_code_def Let_def by (intro keeps.upholds_rules aloof_writes)
  show "aloof (get_or_create_account c y)" unfolding get_or_create_account_def by (rule code)
  show bal: "aloof (account_balance_minor a)" for a
    by (rule upholdsI) (auto simp: account_balance_minor_tx keeps.refl)
  show "aloof (append_entry E a x k d src rv)"
    unfolding append_entry_def Let_def by (intro keeps.upholds_rules aloof_writes bal)
qed

lemmas aloof_rules = keeps.upholds_rules aloof_writes aloof_ledger

lemma aloof_engine:
  "aloof (lock_transfer t)" "aloof (apply_transition E lt a from' to p)" "aloof (post_send_refund E lt)"
  "aloof (apply_path E lt j st path)" "aloof (funds_short lt from')"
proof -
  show tr: "aloof (apply_transition E lt a from' to p)" for a from' to p
    unfolding apply_transition_def append_history_def set_status_def post_ledger_for_def post_one_def post_ledger_entry_def Let_def
    by (intro aloof_rules)
  show rf: "aloof (post_send_refund E lt)"
    unfolding post_send_refund_def post_one_def post_ledger_entry_def Let_def by (intro aloof_rules)
  show "aloof (lock_transfer t)" unfolding lock_transfer_def by (intro aloof_rules)
  show "aloof (funds_short lt from')" unfolding funds_short_def by (intro aloof_rules)
  show "aloof (apply_path E lt j st path)"
  proof (induction path arbitrary: st)
    case (Cons to path)
    then show ?case by (auto intro!: aloof_rules simp: tr rf)
  qed (simp add: keeps.upholds_pure)
qed

lemma aloof_onchain: "aloof (apply_onchain E t tg j)"
  unfolding apply_onchain_def Let_def by (intro aloof_rules aloof_engine)

lemma aloof_set_limit: "aloof (set_transfer_limit c l)"
  unfolding set_transfer_limit_def
  by (intro aloof_modify registry_cong) (simp_all add: map_update_where_frame account_of_def)

lemma aloof_create: "aloof (create_tx E cfg sess key q rcpt)"
proof -
  have "aloof (find_by_idempotency_key c k)" for c k
    by (rule upholdsI) (auto simp: find_by_idempotency_key_def keeps_def dest: read_optional_state)
  moreover have "aloof (lock_customer_limits c)" for c
    by (rule upholdsI) (auto simp: lock_customer_limits_Inr keeps_def)
  moreover have "aloof (check_exposure_limits cfg c l fq)" for c l fq
    by (rule upholdsI) (auto simp: keeps_def dest: check_exposure_limits_Inr(1))
  ultimately show ?thesis
    unfolding create_tx_def insert_transfer_row_def try_consume_def set_settlement_ref_def append_history_def Let_def
    by (intro aloof_rules)
qed

lemma aloof_commit_or_rollback: "aloof m \<Longrightarrow> commit_or_rollback m s = (r, s') \<Longrightarrow> registry s' = registry s"
  by (auto simp: commit_or_rollback_cases keeps_def dest: upholdsD)

lemma aloof_transaction: "aloof m \<Longrightarrow> transaction m s = (r, s') \<Longrightarrow> registry s' = registry s"
  using keeps.transaction_upholds [of registry m s] by (simp add: keeps_def)

lemma aloof_view: "aloof (collection_view_by_id E i)"
  by (rule upholdsI) (auto simp: view_by_id_tx keeps.refl)

lemma aloof_insert_collection: "aloof (insert_collection E sess c)"
  unfolding insert_collection_def insert_collection_row_def Let_def by (intro aloof_rules aloof_view)

lemma aloof_cancel: "aloof (cancel_pending P E web pt sess c)"
proof -
  have "aloof (close_partner_side P E web pt c)"
    unfolding close_partner_side_def by (auto intro!: keeps.upholds_pure simp: keeps.upholds_if split: option.split)
  then show ?thesis unfolding cancel_pending_def by (intro aloof_rules aloof_view)
qed

lemma aloof_inbound: "aloof (inbound_tx E p)"
proof -
  have "aloof (settled_request E p)"
    unfolding settled_request_def Let_def by (intro aloof_rules aloof_view)
  moreover have "aloof (insert_inbound p x)" for x
    unfolding insert_inbound_def by (intro aloof_rules)
  moreover have "aloof (mark_settled E x)" for x
    unfolding mark_settled_def by (intro aloof_rules)
  ultimately show ?thesis
    unfolding inbound_tx_def post_inbound_entry_def by (intro aloof_rules)
qed

lemma fx_only_registry: "fx_only s s' \<Longrightarrow> registry s' = registry s"
  unfolding fx_only_def
  by (rule registry_cong; (drule arg_cong [where f = users] arg_cong [where f = sessions] arg_cong [where f = customers]
      arg_cong [where f = applications] arg_cong [where f = principals] arg_cong [where f = documents]
      arg_cong [where f = kyb_checks], simp; fail))

lemma commit_registry: "commit s s' \<Longrightarrow> registry s' = registry s"
proof (induction rule: commit.induct)
  case (id_drawn s)
  then show ?case by (simp add: draw_id_def registry_def identities_def)
next
  case (rates s s')
  then show ?case by (rule fx_only_registry)
next
  case (recipient E sess body s r s')
  then show ?case
    unfolding save_recipient_def Let_def by (rule aloof_transaction [rotated]) (intro aloof_rules)
next
  case (quoted E cfg c send receive rate x y s q s')
  then show ?case
    unfolding insert_quote_def Let_def by (rule aloof_transaction [rotated]) (intro aloof_rules)
next
  case (limited c limit s u s')
  then show ?case by (rule aloof_transaction [OF aloof_set_limit])
next
  case (created E cfg sess key q rcpt s r s')
  then show ?case by (rule aloof_transaction [OF aloof_create])
next
  case (advanced E cfg t a s r s')
  then show ?case
    unfolding advance_once_def by (rule aloof_transaction [rotated]) (intro aloof_rules aloof_engine)
next
  case (expired E t a s r s')
  then show ?case
    unfolding expire_transfer_def by (rule aloof_transaction [rotated]) (intro aloof_rules aloof_engine)
next
  case (reversed E t reason a s r' s')
  then show ?case
    unfolding reverse_transfer_def by (rule aloof_transaction [rotated]) (intro aloof_rules aloof_engine)
next
  case (resolved E t d reason' a s r s')
  then show ?case
    unfolding resolve_screening_hold_def Let_def by (rule aloof_transaction [rotated]) (intro aloof_rules aloof_engine)
next
  case (recorded E N cfg' ev h i n bh t target s x s')
  then show ?case
    unfolding record_event_def audit_unmoved_def Let_def
    by (rule aloof_commit_or_rollback [rotated]) (intro aloof_rules aloof_onchain)
next
  case (cursor_saved s v n h)
  then show ?case by (simp add: save_cursor_def registry_def identities_def)
next
  case (traded E sess input rt u l s tr s')
  then show ?case
    unfolding trade_tx_def insert_trade_def post_settlement_entry_def Let_def
    by (rule aloof_commit_or_rollback [rotated]) (intro aloof_rules)
next
  case (requested i s E sess cinput rf payer memo opn v s')
  then show ?case by (intro aloof_commit_or_rollback [OF aloof_insert_collection])
next
  case (cancelled P E web pt sess ci s r'' s')
  have "aloof (case st of CoPending \<Rightarrow> cancel_pending P E web pt sess (cv_row v) | CoCancelled \<Rightarrow> return_tx v
      | CoPaid \<Rightarrow> throw (conflict ''This payment request has already been paid.'')
      | CoExpired \<Rightarrow> throw (conflict ''This payment request has expired.''))" for st v
    by (cases st) (simp_all add: aloof_cancel keeps.upholds_pure)
  moreover have "aloof (owned_row E sess ci)"
    by (rule upholdsI) (auto simp: keeps.refl dest: owned_row_Inr)
  ultimately have "keeps registry s (snd (cancel_collection P E web pt sess ci s))"
    unfolding cancel_collection_def
    by (intro keeps.bind_io_upholds keeps.transaction_upholds aloof_rules) (simp_all add: keeps.refl)
  with cancelled show ?case by (simp add: keeps_def)
next
  case (credited E p s b s')
  then show ?case
    by (auto simp: apply_inbound_def dest: aloof_commit_or_rollback [OF aloof_inbound] split: prod.splits)
next
  case (linked E c bc account s ra s')
  then show ?case
    unfolding link_bridge_tx_def by (rule aloof_transaction [rotated]) (intro aloof_rules)
qed

section \<open>Paperwork leaves the money alone\<close>

text \<open>No money moves, no identity changes, and the same applications stand in the same order.\<close>

definition paperwork :: "db \<Rightarrow> db \<Rightarrow> bool" where
  "paperwork s s' \<longleftrightarrow> aside s s' \<and> foreign s s' \<and> identities s' = identities s \<and>
     map ap_id (applications s') = map ap_id (applications s) \<and>
     map ap_customer (applications s') = map ap_customer (applications s)"

interpretation paperwork: tx_frame paperwork
  by unfold_locales (auto simp: paperwork_def aside.refl foreign.refl intro: aside.trans foreign.trans)

lemma moneyless:
  assumes "accounts s' = accounts s" "ledger_entries s' = ledger_entries s" "audit_log s' = audit_log s"
    "settlement_trades s' = settlement_trades s" "inbound_payments s' = inbound_payments s"
    "settlement_events s' = settlement_events s" "transfers s' = transfers s" "transfer_history s' = transfer_history s"
    "virtual_accounts s' = virtual_accounts s" "collections s' = collections s" "next_id s \<le> next_id s'"
  shows "aside s s'" "foreign s s'"
  by (rule aside_same; use assms in simp) (rule foreign_cong; use assms in simp)

lemma paperwork_writes:
  "upholds paperwork fresh_id" "upholds paperwork (modify (\<lambda>s. s\<lparr>principals := f1 s\<rparr>))"
  "upholds paperwork (modify (\<lambda>s. s\<lparr>documents := f2 s\<rparr>))" "upholds paperwork (modify (\<lambda>s. s\<lparr>kyb_checks := f3 s\<rparr>))"
  by (rule upholdsI; auto simp: tx_simps paperwork_def identities_def intro!: moneyless)+

lemma paperwork_update:
  "(\<And>a. ap_id (f a) = ap_id a) \<Longrightarrow> (\<And>a. ap_customer (f a) = ap_customer a) \<Longrightarrow> upholds paperwork (update_application i f)"
  by (rule upholdsI)
    (auto simp: update_application_Inr paperwork_def identities_def map_update_where_frame intro!: moneyless)

lemma paperwork_limit: "upholds paperwork (set_transfer_limit c l)"
  unfolding set_transfer_limit_def
  by (rule upholdsI)
    (auto simp: tx_simps paperwork_def identities_def map_update_where_frame account_of_def intro!: moneyless)

lemma paperwork_audit: "upholds paperwork (write_audit E e)" "upholds paperwork (onboarding_audit E sess a t n b c)"
proof -
  show *: "upholds paperwork (write_audit E e)" for e
    using upholdsD [OF aside_audit] upholdsD [OF audit_foreign]
    by (intro upholdsI) (fastforce simp: paperwork_def identities_def write_audit_def tx_simps)
  show "upholds paperwork (onboarding_audit E sess a t n b c)" unfolding onboarding_audit_def by (rule *)
qed

lemmas paperwork_rules = paperwork.upholds_rules paperwork_writes paperwork_limit paperwork_audit

lemma paperwork_patch: "upholds paperwork (patch_status E i p)"
  unfolding patch_status_def by (rule paperwork_update) simp_all

lemma paperwork_kyb: "upholds paperwork (replace_kyb_checks i cs)"
proof -
  have "upholds paperwork (insert_kyb_checks i cs)"
    by (induction cs) (simp_all add: paperwork.upholds_pure, intro paperwork_rules)
  then show ?thesis unfolding replace_kyb_checks_def by (intro paperwork_rules)
qed

lemma paperwork_principals: "upholds paperwork (replace_principals F i ps)"
proof -
  have "upholds paperwork (insert_principals F i n ps)" for n
  proof (induction ps arbitrary: n)
    case (Cons p ps)
    then show ?case unfolding insert_principals.simps insert_principal_def by (intro paperwork_rules)
  qed (simp add: paperwork.upholds_pure)
  then show ?thesis unfolding replace_principals_def by (intro paperwork_rules)
qed

lemma paperwork_documents:
  "upholds paperwork (upload_tx E sess app u key)" "upholds paperwork (mark_document_uploaded E i)"
  "upholds paperwork (delete_document i)"
  unfolding upload_tx_def upsert_document_def mark_document_uploaded_def find_document_def delete_document_def Let_def
  by (intro paperwork_rules)+

lemma paperwork_review:
  "upholds paperwork (open_review_tx E sess app)" "upholds paperwork (close_review_tx E sess app b)"
  "upholds paperwork (rescreen_tx E app b)" "upholds paperwork (save_business i b)"
proof -
  show "upholds paperwork (open_review_tx E sess app)"
    unfolding open_review_tx_def audit_transition_def Let_def by (intro paperwork_rules paperwork_patch)
  show "upholds paperwork (close_review_tx E sess app b)"
    unfolding close_review_tx_def approve_tx_def reject_tx_def audit_transition_def Let_def
    by (intro paperwork_rules paperwork_patch paperwork_kyb)
  show "upholds paperwork (rescreen_tx E app b)"
    unfolding rescreen_tx_def Let_def by (intro paperwork_rules paperwork_patch paperwork_kyb)
  show "upholds paperwork (save_business i b)"
    unfolding save_business_def by (rule paperwork_update) simp_all
qed

section \<open>Sign-up leaves the money alone\<close>

lemma sign_up_writes:
  "upholds R fresh_id \<Longrightarrow> (\<And>E e. upholds R (write_audit E e)) \<Longrightarrow> tx_frame R \<Longrightarrow>
   (\<And>f. upholds R (modify (\<lambda>s. s\<lparr>users := f s\<rparr>))) \<Longrightarrow> (\<And>f. upholds R (modify (\<lambda>s. s\<lparr>customers := f s\<rparr>))) \<Longrightarrow>
   (\<And>f. upholds R (modify (\<lambda>s. s\<lparr>applications := f s\<rparr>))) \<Longrightarrow> (\<And>f. upholds R (modify (\<lambda>s. s\<lparr>sessions := f s\<rparr>))) \<Longrightarrow>
   upholds R (register_tx P V E input h u c ap) \<and> upholds R (login_tx P V E i) \<and> upholds R (revoke_session E t)"
  unfolding register_tx_def login_tx_def revoke_session_def insert_user_def insert_customer_def
    insert_draft_application_def insert_session_def
  by (intro conjI tx_frame.upholds_rules) assumption+

lemma sign_up_moneyless:
  "upholds aside (register_tx P V E input h u c ap)" "upholds aside (login_tx P V E i)" "upholds aside (revoke_session E t)"
  "upholds foreign (register_tx P V E input h u c ap)" "upholds foreign (login_tx P V E i)" "upholds foreign (revoke_session E t)"
proof -
  have m: "upholds aside (modify (\<lambda>s. s\<lparr>users := f s\<rparr>))" "upholds aside (modify (\<lambda>s. s\<lparr>customers := g s\<rparr>))"
    "upholds aside (modify (\<lambda>s. s\<lparr>applications := h s\<rparr>))" "upholds aside (modify (\<lambda>s. s\<lparr>sessions := k s\<rparr>))"
    "upholds foreign (modify (\<lambda>s. s\<lparr>users := f s\<rparr>))" "upholds foreign (modify (\<lambda>s. s\<lparr>customers := g s\<rparr>))"
    "upholds foreign (modify (\<lambda>s. s\<lparr>applications := h s\<rparr>))" "upholds foreign (modify (\<lambda>s. s\<lparr>sessions := k s\<rparr>))" for f g h k
    by (intro modify_upholds moneyless; simp)+
  note a = sign_up_writes [OF aside_modify(1) aside_audit aside.tx_frame_axioms m(1-4)]
  note f = sign_up_writes [OF fresh_foreign audit_foreign foreign.tx_frame_axioms m(5-8)]
  show "upholds aside (register_tx P V E input h u c ap)" "upholds aside (login_tx P V E i)"
    "upholds aside (revoke_session E t)" using a by blast+
  show "upholds foreign (register_tx P V E input h u c ap)" "upholds foreign (login_tx P V E i)"
    "upholds foreign (revoke_session E t)" using f by blast+
qed

section \<open>The machine\<close>

inductive system_step :: "crypto \<Rightarrow> vault \<Rightarrow> review_state \<Rightarrow> review_state \<Rightarrow> bool" for P V where
  money: "commit s s' \<Longrightarrow> system_step P V (s, K, R) (s', K, R)"
| registered: "u < next_id s \<Longrightarrow> register_tx P V E input h u c ap s = Inr (a, s') \<Longrightarrow>
    system_step P V (s, K, R) (s', K, R)"
| entered: "u \<in> us_id ` set (users s) \<Longrightarrow> login_tx P V E u s = Inr (x, s') \<Longrightarrow> system_step P V (s, K, R) (s', K, R)"
| left: "logout P V E token s = (x, s') \<Longrightarrow> system_step P V (s, K, R) (s', K, R)"
| was_read: "a \<in> set (applications s) \<Longrightarrow> system_step P V (s, K, R) (s, insert (assemble s a) K, R)"
| opened: "app \<in> K \<Longrightarrow> oa_business app \<noteq> None \<Longrightarrow> open_review_tx E sess app s = Inr (x, s') \<Longrightarrow>
    system_step P V (s, K, R) (s', K, insert app R)"
| closed: "app \<in> R \<Longrightarrow> oa_business app = Some b \<Longrightarrow> close_review_tx E sess app b s = Inr (x, s') \<Longrightarrow>
    system_step P V (s, K, R) (s', K, R)"
| rescreened: "app \<in> K \<Longrightarrow> oa_business app = Some b \<Longrightarrow> oa_status app = ''approved'' \<Longrightarrow>
    rescreen_tx E app b s = Inr (y, s') \<Longrightarrow> system_step P V (s, K, R) (s', K, R)"
| business_saved: "app \<in> K \<Longrightarrow> bind_tx (save_business (oa_id app) b) (\<lambda>_. write_audit E e) s = Inr (x, s') \<Longrightarrow>
    system_step P V (s, K, R) (s', K, R)"
| principals_saved: "app \<in> K \<Longrightarrow> bind_tx (replace_principals F (oa_id app) ps) (\<lambda>_. write_audit E e) s = Inr (x, s') \<Longrightarrow>
    system_step P V (s, K, R) (s', K, R)"
| uploaded: "app \<in> K \<Longrightarrow> upload_tx E sess app upload key s = Inr (d, s') \<Longrightarrow> system_step P V (s, K, R) (s', K, R)"
| document_retried: "bind_tx (mark_document_uploaded E i) (\<lambda>_. write_audit E e) s = Inr (x, s') \<Longrightarrow>
    system_step P V (s, K, R) (s', K, R)"
| document_removed: "bind_tx (delete_document i) (\<lambda>_. write_audit E e) s = Inr (x, s') \<Longrightarrow>
    system_step P V (s, K, R) (s', K, R)"

definition system_ok :: "review_state \<Rightarrow> bool" where
  "system_ok z \<longleftrightarrow> sound (fst z) \<and> identity_ok (fst z) \<and> review_ok z"

definition system_good :: "review_state \<Rightarrow> review_state \<Rightarrow> bool" where
  "system_good z z' \<longleftrightarrow> system_ok z' \<and> good (fst z) (fst z') \<and> accounts_grow (fst z) (fst z')"

lemma paper_good:
  assumes ok: "system_ok (s, K, R)" and paper: "paperwork s s'" and review: "review_ok (s', K', R')"
  shows "system_good (s, K, R) (s', K', R')"
proof -
  have "next_id s \<le> next_id s'" using paper by (simp add: paperwork_def foreign_def)
  with ok paper have "identity_ok s' \<and> accounts_grow s s'"
    by (intro identity_cong) (simp_all add: system_ok_def paperwork_def)
  moreover have "good s s'"
    using ok paper by (intro quiet_good) (simp_all add: system_ok_def paperwork_def)
  ultimately show ?thesis using review by (simp add: system_good_def system_ok_def good_def)
qed

lemma elsewhere_ok: "review_ok (s, K, R) \<Longrightarrow> applications s' = applications s \<Longrightarrow> review_ok (s', K, R)"
  by (erule review_step_ok [OF review_step.elsewhere])

lemma money_good:
  assumes "system_ok (s, K, R)" and "commit s s'"
  shows "system_good (s, K, R) (s', K, R)"
proof -
  have g: "good s s'" using assms by (intro commit_good) (simp_all add: system_ok_def)
  then have "next_id s \<le> next_id s'" by (simp add: good_def evolves_def)
  moreover have same: "identities s' = identities s" "applications s' = applications s"
    using commit_registry [OF assms(2)] by (simp_all add: registry_def)
  ultimately have "identity_ok s' \<and> accounts_grow s s'"
    using assms(1) by (intro identity_cong) (simp_all add: system_ok_def)
  moreover have "review_ok (s', K, R)"
    by (rule elsewhere_ok [OF _ same(2)]) (use assms(1) in \<open>simp add: system_ok_def\<close>)
  ultimately show ?thesis using g by (simp add: system_good_def system_ok_def good_def)
qed

lemma register_tx_identity:
  assumes ok: "identity_ok s" and u: "u < next_id s" and run: "register_tx P V E input h u c ap s = Inr (a, s')"
  shows "identity_ok s' \<and> accounts_grow s s' \<and> applications s' = applications s @ [draft ap c] \<and>
    \<not> list_ex (\<lambda>x. ap_id x = ap \<or> ap_customer x = c) (applications s)"
proof -
  from run obtain number where r:
    "\<not> list_ex (\<lambda>x. us_id x = u \<or> has_email (ri_email input) x) (users s)"
    "\<not> list_ex (\<lambda>x. cu_id x = c) (customers s)" "generate_account_number E s = Some number"
    "\<not> list_ex (\<lambda>x. ap_id x = ap \<or> ap_customer x = c) (applications s)"
    "\<not> list_ex (\<lambda>x. se_id x = next_id s \<or> se_token_hash x = hash_token P V (generate_session_token V E)) (sessions s)"
    "users s' = users s @ [new_user u input h]" "customers s' = customers s @ [new_customer c input u number]"
    "applications s' = applications s @ [draft ap c]"
    "sessions s' = sessions s @ [new_session (next_id s) u (hash_token P V (generate_session_token V E)) (session_expiry E)]"
    "next_id s' = Suc (next_id s)"
    by (cases rule: register_tx_Inr) simp
  have em: "emails s' = emails s @ [lower (ri_email input)]"
    by (rule emails_cong [OF r(6)]) (simp add: new_user_def)
  have "lower (ri_email input) \<notin> set (emails s)" using r(1) by (auto simp: email_taken list_ex_iff)
  moreover have "number \<notin> cu_account_number ` set (customers s)"
    using find_Some_set [OF r(3) [unfolded generate_account_number_def]] by (auto simp: list_ex_iff)
  moreover have "u \<notin> cu_primary_user ` set (customers s)"
  proof
    assume "u \<in> cu_primary_user ` set (customers s)"
    with ok have "u \<in> us_id ` set (users s)" by (auto simp: identity_ok_def)
    with r(1) show False by (auto simp: list_ex_iff)
  qed
  ultimately have "identity_ok s'"
    using ok u r(1,2,4,5) unfolding identity_ok_def em r(6-10)
    by (auto simp: list_ex_iff new_user_def new_customer_def draft_def new_session_def less_SucI)
  moreover have "accounts_grow s s'" by (rule accounts_growI [OF _ _ r(9)]) (simp_all add: r(6,7))
  ultimately show ?thesis using r(4,8) by blast
qed

lemma signed_good:
  assumes ok: "system_ok (s, K, R)" and "aside s s'" "foreign s s'" and "identity_ok s' \<and> accounts_grow s s'"
    and "review_ok (s', K, R)"
  shows "system_good (s, K, R) (s', K, R)"
proof -
  have "good s s'" using assms(1-3) by (intro quiet_good) (simp_all add: system_ok_def)
  with assms(4,5) show ?thesis by (simp add: system_good_def system_ok_def good_def)
qed

lemma registered_good:
  assumes ok: "system_ok (s, K, R)" and u: "u < next_id s" and run: "register_tx P V E input h u c ap s = Inr (a, s')"
  shows "system_good (s, K, R) (s', K, R)"
proof -
  have "identity_ok s" using ok by (simp add: system_ok_def)
  from register_tx_identity [OF this u run] have i: "identity_ok s' \<and> accounts_grow s s'"
    and as: "applications s' = applications s @ [draft ap c]"
    and new: "\<not> list_ex (\<lambda>x. ap_id x = ap \<or> ap_customer x = c) (applications s)" by blast+
  let ?t = "s\<lparr>applications := applications s @ [draft ap c]\<rparr>"
  have "insert_draft_application ap c s = Inr ((), ?t)" using new by (simp add: insert_draft_Inr draft_def)
  from review_step.drafted [OF this] have "review_ok (?t, K, R)"
    by (rule review_step_ok) (use ok in \<open>simp add: system_ok_def\<close>)
  then have "review_ok (s', K, R)" by (rule elsewhere_ok) (simp add: as)
  with i show ?thesis
    by (rule signed_good [OF ok upholdsD [OF sign_up_moneyless(1) run] upholdsD [OF sign_up_moneyless(4) run]])
qed

lemma saved_good:
  assumes ok: "system_ok (s, K, R)" and m: "upholds paperwork m" "upholds (keeps applications) m"
    and run: "bind_tx m (\<lambda>_. write_audit E e) s = Inr (x, s')"
  shows "system_good (s, K, R) (s', K, R)"
proof (rule paper_good [OF ok])
  show "paperwork s s'"
    using paperwork.upholds_bind [OF m(1) paperwork_audit(1)] run by (rule upholdsD)
  have "upholds (keeps applications) (write_audit E e)"
    by (rule upholdsI) (simp add: keeps_def write_audit_def tx_simps)
  with m(2) have "upholds (keeps applications) (bind_tx m (\<lambda>_. write_audit E e))" by (rule keeps.upholds_bind)
  then have "keeps applications s s'" using run by (rule upholdsD)
  then have "applications s' = applications s" by (simp add: keeps_def)
  then show "review_ok (s', K, R)" by (rule elsewhere_ok [rotated]) (use ok in \<open>simp add: system_ok_def\<close>)
qed

lemma keeps_applications:
  "upholds (keeps applications) (replace_principals F i ps)" "upholds (keeps applications) (mark_document_uploaded E d)"
  "upholds (keeps applications) (delete_document d)" "upholds (keeps applications) (upload_tx E sess app up key)"
proof -
  have w: "upholds (keeps applications) fresh_id" "upholds (keeps applications) (modify (\<lambda>s. s\<lparr>principals := f s\<rparr>))"
    "upholds (keeps applications) (modify (\<lambda>s. s\<lparr>documents := g s\<rparr>))"
    "upholds (keeps applications) (modify (\<lambda>s. s\<lparr>audit_log := h s\<rparr>))" for f g h
    by (rule upholdsI; simp add: keeps_def tx_simps; blast?)+
  have p: "upholds (keeps applications) (insert_principals F i n ps)" for n
  proof (induction ps arbitrary: n)
    case (Cons p ps)
    then show ?case unfolding insert_principals.simps insert_principal_def by (intro keeps.upholds_rules w)
  qed (simp add: keeps.upholds_pure)
  show "upholds (keeps applications) (replace_principals F i ps)"
    unfolding replace_principals_def by (intro keeps.upholds_rules w p)
  show "upholds (keeps applications) (mark_document_uploaded E d)" "upholds (keeps applications) (delete_document d)"
    "upholds (keeps applications) (upload_tx E sess app up key)"
    unfolding upload_tx_def upsert_document_def mark_document_uploaded_def find_document_def delete_document_def
      onboarding_audit_def write_audit_def Let_def
    by (intro keeps.upholds_rules w)+
qed

lemma reviewed_good:
  assumes ok: "system_ok (s, K, R)" and paper: "paperwork s s'" and step: "review_step (s, K, R) (s', K', R')"
  shows "system_good (s, K, R) (s', K', R')"
  using paper_good [OF ok paper review_step_ok [OF step]] ok by (simp add: system_ok_def)

lemma system_step_good: "system_step P V z z' \<Longrightarrow> system_ok z \<Longrightarrow> system_good z z'"
proof (induction rule: system_step.induct)
  case (money s s' K R)
  then show ?case by (intro money_good)
next
  case (registered u s input h c ap E a s' K R)
  then show ?case by (intro registered_good)
next
  case (entered u s E x s' K R)
  then obtain row where u: "u = us_id row" "row \<in> set (users s)" by blast
  have "identity_ok s' \<and> accounts_grow s s'"
    using entered(2,3) u by (intro login_tx_identity) (simp_all add: system_ok_def)
  moreover have "applications s' = applications s" using entered(2) by (simp add: login_tx_Inr)
  then have "review_ok (s', K, R)" by (rule elsewhere_ok [rotated]) (use entered(3) in \<open>simp add: system_ok_def\<close>)
  ultimately show ?case
    by (rule signed_good [OF entered(3) upholdsD [OF sign_up_moneyless(2) entered(2)]
        upholdsD [OF sign_up_moneyless(5) entered(2)]])
next
  case (left E token s x s' K R)
  have "identity_ok s' \<and> accounts_grow s s'"
    using left(2) by (intro revoke_identity [OF _ left(1)]) (simp add: system_ok_def)
  moreover have s': "s' = snd (transaction (revoke_session E (hash_token P V token)) s)"
    using left(1) by (simp add: logout_def)
  then have "applications s' = applications s"
    by (simp add: revoke_session_def transaction_def modify_def)
  then have "review_ok (s', K, R)" by (rule elsewhere_ok [rotated]) (use left(2) in \<open>simp add: system_ok_def\<close>)
  ultimately show ?case
    using aside.transaction_upholds [OF sign_up_moneyless(3)] foreign.transaction_upholds [OF sign_up_moneyless(6)]
    by (intro signed_good [OF left(2)]) (simp_all add: s')
next
  case (was_read a s K R)
  then show ?case by (intro reviewed_good paperwork.refl review_step.was_read)
next
  case (opened app K E sess s x s' R)
  then show ?case by (intro reviewed_good upholdsD [OF paperwork_review(1)] review_step.opened)
next
  case (closed app R b E sess s x s' K)
  then show ?case by (intro reviewed_good upholdsD [OF paperwork_review(2)] review_step.closed)
next
  case (rescreened app K b E s y s' R)
  then show ?case by (intro reviewed_good upholdsD [OF paperwork_review(3)] review_step.rescreened)
next
  case (business_saved app K b E e s x s' R)
  from business_saved(2) obtain t u where t: "save_business (oa_id app) b s = Inr (u, t)"
    "write_audit E e t = Inr (x, s')" by (auto simp: bind_tx_Inr)
  have "review_ok (t, K, R)"
    by (rule review_step_ok [OF review_step.business_saved [OF business_saved(1) t(1)]])
      (use business_saved(3) in \<open>simp add: system_ok_def\<close>)
  moreover have "applications s' = applications t" using t(2) by (auto simp: write_audit_def tx_simps)
  ultimately have "review_ok (s', K, R)" by (rule elsewhere_ok)
  moreover have "paperwork s s'"
    using upholdsD [OF paperwork_review(4) t(1)] upholdsD [OF paperwork_audit(1) t(2)] by (rule paperwork.trans)
  ultimately show ?case by (intro paper_good [OF business_saved(3)])
next
  case (principals_saved app K F ps E e s x s' R)
  then show ?case by (intro saved_good [OF _ paperwork_principals keeps_applications(1)])
next
  case (uploaded app K E sess upload key s d s' R)
  have "applications s' = applications s"
    using upholdsD [OF keeps_applications(4) uploaded(2)] by (simp add: keeps_def)
  then have "review_ok (s', K, R)" by (rule elsewhere_ok [rotated]) (use uploaded(3) in \<open>simp add: system_ok_def\<close>)
  with upholdsD [OF paperwork_documents(1) uploaded(2)] show ?case by (rule paper_good [OF uploaded(3)])
next
  case (document_retried E i e s x s' K R)
  then show ?case by (intro saved_good [OF _ paperwork_documents(2) keeps_applications(2)])
next
  case (document_removed i E e s x s' K R)
  then show ?case by (intro saved_good [OF _ paperwork_documents(3) keeps_applications(3)])
qed

section \<open>Whatever happens\<close>

text \<open>A fresh installation: no money and no orders; the customers there already are consistent.\<close>

definition installed :: "db \<Rightarrow> bool" where
  "installed s \<longleftrightarrow> fresh_install s \<and> identity_ok s \<and> applications_ok s"

lemma installed_ok: "installed s \<Longrightarrow> system_ok (s, {}, {})"
  by (simp add: installed_def system_ok_def review_ok_def fresh_sound)

text \<open>Between any two points, only additions and forward moves.\<close>

definition only_forward :: "db \<Rightarrow> db \<Rightarrow> bool" where
  "only_forward s s' \<longleftrightarrow> evolves s s' \<and> statuses_move s s' \<and> accounts_grow s s'"

lemma statuses_move_trans:
  assumes "statuses_move s t" and "statuses_move t u" and "evolves s t"
  shows "statuses_move s u"
proof -
  have "length (collections s) \<le> length (collections t)"
    using assms(3) by (auto simp: evolves_def dest: prefix_length_le)
  with assms(1,2) show ?thesis
    unfolding statuses_move_def by (meson less_le_trans status_le_trans)
qed

lemma system_runs:
  "(system_step P V)\<^sup>*\<^sup>* z z' \<Longrightarrow> system_ok z \<Longrightarrow> system_ok z' \<and> only_forward (fst z) (fst z')"
proof (induction rule: rtranclp_induct)
  case base
  then show ?case by (simp add: only_forward_def evolves.refl grow.refl statuses_move_def status_le_def)
next
  case (step y z')
  then have y: "system_ok y" "only_forward (fst z) (fst y)" by auto
  from system_step_good [OF step.hyps(2) y(1)]
  have "system_ok z'" "good (fst y) (fst z')" "accounts_grow (fst y) (fst z')" by (simp_all add: system_good_def)
  with y show ?case
    by (auto simp: only_forward_def good_def intro: evolves.trans grow.trans statuses_move_trans)
qed

text \<open>
  C18: in every state the backend can reach, through whatever interleaving of the transactions of
  concurrent requests (sign-up, sessions, onboarding, quotes, transfers, trades, payment requests,
  webhooks), of the background progression, of rescreening and of the listener: the postings of every
  transfer are what its history calls for and every running balance is the sum of its account
  (\<open>engine_ok\<close>), a request is paid exactly if one recorded payment paid it (\<open>collections_ok\<close>), no vault
  event is recorded twice (\<open>events_ok\<close>), emails, tokens and account numbers are unique and every session
  and customer has its user (\<open>identity_ok\<close>), and every application's status, summary, reasons and times
  agree (\<open>applications_ok\<close>).
\<close>

theorem every_reachable_state_is_sound:
  assumes "installed s" and "(system_step P V)\<^sup>*\<^sup>* (s, {}, {}) (s', K, R)"
  shows "engine_ok s' \<and> collections_ok s' \<and> events_ok s' \<and> identity_ok s' \<and> applications_ok s'"
  using system_runs [OF assms(2) installed_ok [OF assms(1)]]
  by (simp add: system_ok_def sound_def review_ok_def)

text \<open>
  C19: time only adds: between any two points of the backend's life no posting, audit entry, trade,
  payment or vault event is changed or removed, what a transfer was agreed on stays as it was and its
  history only grows, no payment request loses a term, a request's status moves only from pending to
  paid or cancelled, or from cancelled to paid, users and customers are never removed or given another
  identity, and a session is at most revoked.
\<close>

theorem nothing_is_ever_rewritten:
  assumes "installed s" and "(system_step P V)\<^sup>*\<^sup>* (s, {}, {}) y" and "(system_step P V)\<^sup>*\<^sup>* y z"
  shows "append_only (fst y) (fst z) \<and> prefix (map deal (transfers (fst y))) (map deal (transfers (fst z))) \<and>
    prefix (transfer_history (fst y)) (transfer_history (fst z)) \<and>
    prefix (map terms (collections (fst y))) (map terms (collections (fst z))) \<and>
    (\<forall>i < length (collections (fst y)).
       status_le (co_status (collections (fst y) ! i)) (co_status (collections (fst z) ! i))) \<and>
    prefix (users (fst y)) (users (fst z)) \<and>
    prefix (map account_of (customers (fst y))) (map account_of (customers (fst z))) \<and>
    (\<exists>old new. sessions (fst z) = old @ new \<and> list_all2 session_le (sessions (fst y)) old)"
proof -
  from system_runs [OF assms(2) installed_ok [OF assms(1)]] have "system_ok y" by simp
  from system_runs [OF assms(3) this] show ?thesis
    by (simp add: only_forward_def evolves_def statuses_move_def accounts_grow_def)
qed

end
