(* ===== verification/System_Scenarios.thy ===== *)
theory System_Scenarios
  imports System Collection_Scenarios Auth_Scenarios
begin

text \<open>An installation where a customer registers and a payment comes in: the inhabited cases of \<open>System\<close>.\<close>

lemma empty_installed: "installed empty_db"
  by (simp add: installed_def fresh_install_def empty_db_def sample_db_def identity_ok_def emails_def
      List.map_filter_def applications_ok_def)

abbreviation kimana_step :: "review_state \<Rightarrow> review_state \<Rightarrow> bool" where
  "kimana_step \<equiv> system_step plain_crypto sample_vault"

lemma ada_joins:
  obtains s1 where "kimana_step (empty_db, {}, {}) (s1, {}, {})" "length (users s1) = 1" "length (applications s1) = 1"
proof -
  have "\<exists>a s1. register_tx plain_crypto sample_vault (visit 7 1000) ada ''h'' 97 98 99 empty_db = Inr (a, s1) \<and>
      length (users s1) = 1 \<and> length (applications s1) = 1"
    by (simp add: auth_eval register_tx_def empty_db_def sample_db_def sample_vault_def visit_def generate_session_token_def)
  then obtain a s1 where run: "register_tx plain_crypto sample_vault (visit 7 1000) ada ''h'' 97 98 99 empty_db = Inr (a, s1)"
    and new: "length (users s1) = 1" "length (applications s1) = 1" by blast
  have "kimana_step (empty_db, {}, {}) (s1, {}, {})"
    by (rule system_step.registered [OF _ run]) (simp add: empty_db_def sample_db_def)
  then show thesis using new that by blast
qed

lemma payment_arrives: "kimana_step (s, K, R) (snd (apply_inbound sample_env (sample_deposit JNull) s), K, R)"
  by (rule system_step.money, rule commit.credited) (rule prod.collapse [symmetric])

theorem every_reachable_state_is_sound_witness:
  "\<exists>s. length (users s) = 1 \<and> engine_ok s \<and> collections_ok s \<and> events_ok s \<and> identity_ok s \<and> applications_ok s"
proof -
  obtain s1 where "kimana_step (empty_db, {}, {}) (s1, {}, {})" "length (users s1) = 1" by (rule ada_joins)
  with every_reachable_state_is_sound [OF empty_installed r_into_rtranclp [of kimana_step]] show ?thesis by blast
qed

theorem nothing_is_ever_rewritten_witness:
  "\<exists>s1 s2. length (users s1) = 1 \<and> snd (apply_inbound sample_env (sample_deposit JNull) s1) = s2 \<and>
     append_only s1 s2 \<and> prefix (users s1) (users s2)"
proof -
  obtain s1 where s1: "kimana_step (empty_db, {}, {}) (s1, {}, {})" "length (users s1) = 1" by (rule ada_joins)
  from nothing_is_ever_rewritten [OF empty_installed r_into_rtranclp [of kimana_step, OF s1(1)]
      r_into_rtranclp [of kimana_step, OF payment_arrives]] s1(2)
  show ?thesis by auto
qed

end
