(* ===== verification/Spec2Isabelle.thy ===== *)
theory Spec2Isabelle
  imports Scenarios Service_Properties Transfer_Creation Wallet_Properties Collection_Scenarios
    Listener_Scenarios Auth_Scenarios Account_Scenarios Onboarding_Scenarios Surface_Scenarios Http
    Config Vault_Client System_Scenarios
begin

text \<open>
  A model of the Kimana payments backend (\<open>src/src\<close>, Rust, over Postgres) and the theorems that make it
  correct. A customer signs up, passes onboarding, asks for a firm quote and pays a recipient abroad; it
  also holds a USDC wallet and is paid through payment requests. Every amount moves through one
  append-only ledger.

  \<^bold>\<open>How the program is modelled.\<close> \<open>Store\<close> has one record per table of \<open>migrations/*.sql\<close> and the record \<open>db\<close>
  of all tables, as lists of rows in insertion order. A \<open>'a tx\<close> is what runs between \<open>begin\<close> and \<open>commit\<close>: it
  returns a failure, and the database stays as it was, or a value and the new database. An \<open>'a io\<close> is a
  handler: a sequence of transactions and reads, whose failure keeps what was committed before. A
  \<open>failure\<close> is an \<open>ApiError\<close> or a panic. \<open>env\<close> carries what a handler asks of the outside: the clock, the
  random draws, the printers of UUIDs and times. Row identifiers are drawn from a counter, as fresh as
  random UUIDs are. \<open>i64\<close> and \<open>i128\<close> are integers with the wrap-around of a release build written out
  (\<open>wrap64\<close>, \<open>wrap128\<close>), a sum that does not fit a \<open>bigint\<close> is the database's error, an \<open>f64\<close> is the rational
  it denotes with every operation rounded to it (\<open>Float64\<close>), strings are UTF-8 byte lists (\<open>Text\<close>).

  \<^bold>\<open>The theories and the code they model.\<close>
  \<^item> \<open>Prelude\<close>, \<open>Text\<close>, \<open>Float64\<close>, \<open>Errors\<close> (\<open>error.rs\<close>), \<open>Contract\<close> and \<open>Onboarding_Contract\<close> (\<open>contract/*.rs\<close>), \<open>Util\<close>
    (\<open>util.rs\<close>), \<open>Units\<close> (\<open>settlement/units.rs\<close>), \<open>Store\<close> (tables, transactions, \<open>audit.rs\<close>): the vocabulary.
  \<^item> \<open>Ledger\<close> (\<open>domain/ledger.rs\<close>): accounts and postings, with the interface \<open>ledger_store\<close>.
  \<^item> \<open>State_Machine\<close>, \<open>Transfer_Repo\<close>, \<open>Screening\<close>, \<open>Engine\<close> (\<open>domain/transfers/*.rs\<close>, \<open>domain/screening.rs\<close>): a transfer
    from CREATED to its end; \<open>Transfer_Invariant\<close>, \<open>Engine_Facts\<close>, \<open>Engine_Properties\<close>: what the engine promises.
  \<^item> \<open>Resilience\<close>, \<open>Fx\<close>, \<open>Quote\<close>, \<open>Recipients\<close>, \<open>Transfer_Service\<close> (the files of those names): creating a transfer
    from a live rate; \<open>Service_Properties\<close>, \<open>Transfer_Creation\<close>. \<open>Clients\<close> has the interface \<open>create_once\<close> of a
    creation keyed by its client, which transfers and trades share.
  \<^item> \<open>Wallet\<close>, \<open>Wallet_Properties\<close> (\<open>domain/settlement_wallet.rs\<close>).
  \<^item> \<open>Partners\<close> (\<open>partners/*.rs\<close>), \<open>Collections\<close> (\<open>domain/collections.rs\<close>), \<open>Collection_Properties\<close>,
    \<open>Webhook_Properties\<close>, \<open>Memo_References\<close>: payment requests and the money partners confirm.
  \<^item> \<open>Listener\<close>, \<open>Listener_Properties\<close> (\<open>settlement/listener.rs\<close>), \<open>Vault_Client\<close> (\<open>settlement/client.rs\<close>, \<open>error.rs\<close>):
    the settlement vault, read and written.
  \<^item> \<open>Auth\<close>, \<open>Auth_Properties\<close>, \<open>Account_Numbers\<close> (\<open>domain/auth\<close>, \<open>http/auth.rs\<close>, migration 013).
  \<^item> \<open>Kyb\<close>, \<open>Onboarding\<close>, \<open>Onboarding_Properties\<close>, \<open>Document_Properties\<close> (\<open>domain/onboarding\<close>, \<open>storage.rs\<close>).
  \<^item> \<open>Dashboard\<close>, \<open>Config\<close>, \<open>Http\<close> (\<open>http/mod.rs\<close>, middleware of \<open>lib.rs\<close>), \<open>Routes\<close> (the routes that authenticate
    and delegate; the other components have theirs in their own theory).
  \<^item> \<open>Interleaving\<close> and \<open>System\<close>: all of it as one machine. The \<open>..._Scenarios\<close> theories hold concrete states
    and runs, the inhabited cases of the theorems.

  \<^bold>\<open>What the lemmas show.\<close> \<open>engine_ok\<close> says that the postings of each transfer are those its history calls
  for; every operation of the engine keeps it (\<open>Engine_Facts\<close>), so the position of a transfer is a function
  of its status. \<open>tx_frame\<close> (in \<open>Store\<close>) carries a preorder through the transactions; each component
  interprets it with what it may change, and what it may not. \<open>lifecycle\<close> bounds the histories of a
  transition table, \<open>codec\<close> and \<open>exact_codec\<close> relate the printers and parsers of the stored enums. \<open>System\<close>
  runs the committed transactions of all requests, of the background progression, of rescreening and of
  the listener in any order, requests working on applications they read at any earlier time, and shows that
  every reachable state keeps every invariant and that nothing recorded is rewritten.

  \<^bold>\<open>Loops.\<close> The drive loops of the engine take fuel, one turn per advance, and eleven turns are always
  enough, because a transfer's status climbs (\<open>drive_returns\<close>). A pass of the listener takes one turn
  per range, and one more than the newest block is enough (\<open>ranges_returns\<close>). The polling loop of the listener
  and the drawing of account numbers do not end by themselves: the one takes the list of its polls, the other the list of its draws, whose end is an error.

  \<^bold>\<open>What is assumed.\<close> A transaction is atomic: row locks are not modelled, and what the code does between
  a read and a later lock is a separate step of the machines. Cryptography, JSON text, HTTP transport, the
  node's answers, Postgres casts of dates and the file system's refusals are parameters, functions of
  their arguments. Case folding and trimming outside ASCII is left as the bytes are, except where a
  parameter (\<open>unicode_digit\<close>, \<open>unicode_word\<close>) decides it. The constraints of the tables are modelled where
  an insert can violate them; foreign keys that the code always respects are not.

  \<^bold>\<open>Not modelled.\<close> \<open>main.rs\<close>, \<open>db.rs\<close>, \<open>state.rs\<close>, \<open>ids.rs\<close> and \<open>bin/*.rs\<close> read the configuration, open the pool and call
  operations modelled here. \<open>seed.rs\<close> fills a development database with fixed rows, whose transfers have no
  postings and so are outside \<open>engine_ok\<close>. The router, CORS, the OpenAPI document, the code that derive
  macros and the vault's ABI generate, log lines and simulated delays have no state of their own. The tests
  beside the code are not part of it.
\<close>

end
